(* ===== verification/Prelude.thy ===== *)
theory Prelude imports Main "HOL-Library.Word" "HOL-Library.State_Monad" begin

text \<open>
  Shared vocabulary of the development: the scalar types of the Go program, the
  state monad its handlers are written in, three ways to speak about an effectful
  computation (what it keeps, how it moves the state, what it ensures), and the
  generic lemmas on lists used by every table of the store.
\<close>

section \<open>Scalars\<close>

text \<open>
  \<open>uuid.UUID\<close> is a 16-byte array; \<open>time.Duration\<close> is a signed 64-bit count of
  nanoseconds, kept at its width because multiplying by \<open>time.Second\<close> can wrap;
  instants are unbounded nanosecond counts, only compared and shifted.
\<close>

type_synonym uuid = "128 word"
type_synonym duration = "64 word"
type_synonym instant = int

section \<open>Collections of facts\<close>

named_theorems keeps_rules "introduction rules: a computation keeps a predicate of the state"
named_theorems moves_rules "introduction rules: a computation moves the state along a relation"
named_theorems frame_simps "which fields of the world an operation leaves alone"

section \<open>Effectful computations\<close>

abbreviation ret :: "'a \<Rightarrow> ('s, 'a) state" where
  "ret \<equiv> State_Monad.return"

text \<open>The state a computation ends in, and the value it returns.\<close>

definition final :: "('s, 'a) state \<Rightarrow> 's \<Rightarrow> 's" where
  "final m s = snd (run_state m s)"

definition value_of :: "('s, 'a) state \<Rightarrow> 's \<Rightarrow> 'a" where
  "value_of m s = fst (run_state m s)"

lemma run_state_split: "run_state m s = (value_of m s, final m s)"
  by (simp add: value_of_def final_def)

lemma run_stateD:
  assumes "run_state m s = (x, s')"
  shows "value_of m s = x" and "final m s = s'"
  using assms by (simp_all add: value_of_def final_def)

lemma final_simps [simp]:
  "final (ret x) s = s"
  "final (State_Monad.bind m f) s = final (f (value_of m s)) (final m s)"
  "final (State g) s = snd (g s)"
  by (simp_all add: final_def value_of_def split_beta)

lemma value_of_simps [simp]:
  "value_of (ret x) s = x"
  "value_of (State_Monad.bind m f) s = value_of (f (value_of m s)) (final m s)"
  "value_of (State g) s = fst (g s)"
  by (simp_all add: final_def value_of_def split_beta)

text \<open>\<open>keeps I m\<close>: running \<open>m\<close> in a state with \<open>I\<close> ends in a state with \<open>I\<close>.\<close>

definition keeps :: "('s \<Rightarrow> bool) \<Rightarrow> ('s, 'a) state \<Rightarrow> bool" where
  "keeps I m \<longleftrightarrow> (\<forall>s. I s \<longrightarrow> I (final m s))"

lemma keepsI: "(\<And>s. I s \<Longrightarrow> I (final m s)) \<Longrightarrow> keeps I m"
  by (simp add: keeps_def)

lemma keepsD: "keeps I m \<Longrightarrow> I s \<Longrightarrow> I (final m s)"
  by (simp add: keeps_def)

lemma keeps_ret [keeps_rules]: "keeps I (ret x)"
  by (simp add: keeps_def)

lemma keeps_bind [keeps_rules]:
  "keeps I m \<Longrightarrow> (\<And>x. keeps I (f x)) \<Longrightarrow> keeps I (State_Monad.bind m f)"
  by (simp add: keeps_def)

text \<open>\<open>moves R m\<close>: the final state is related to the initial one, for a preorder \<open>R\<close>.\<close>

definition moves :: "('s \<Rightarrow> 's \<Rightarrow> bool) \<Rightarrow> ('s, 'a) state \<Rightarrow> bool" where
  "moves R m \<longleftrightarrow> (\<forall>s. R s (final m s))"

lemma movesI: "(\<And>s. R s (final m s)) \<Longrightarrow> moves R m"
  by (simp add: moves_def)

lemma movesD: "moves R m \<Longrightarrow> R s (final m s)"
  by (simp add: moves_def)

lemma moves_ret: "reflp R \<Longrightarrow> moves R (ret x)"
  by (simp add: moves_def reflpD)

lemma moves_bind:
  assumes "transp R" and "moves R m" and "\<And>x. moves R (f x)"
  shows "moves R (State_Monad.bind m f)"
  using assms by (auto simp: moves_def intro: transpD)

section \<open>Go results\<close>

text \<open>
  A Go function that returns \<open>(value, error)\<close> yields \<open>Inl\<close> of the error or \<open>Inr\<close> of
  the value. \<open>attempt wrap m k\<close> is the idiom
  \<open>x, err := m; if err != nil { return wrap(err) }; k(x)\<close>.
\<close>

definition attempt ::
  "('e \<Rightarrow> 'f) \<Rightarrow> ('s, 'e + 'a) state \<Rightarrow> ('a \<Rightarrow> ('s, 'f + 'b) state) \<Rightarrow> ('s, 'f + 'b) state"
where
  "attempt wrap m k = do { r \<leftarrow> m; case r of Inl e \<Rightarrow> ret (Inl (wrap e)) | Inr x \<Rightarrow> k x }"

lemma attempt_final:
  "final (attempt wrap m k) s =
     (case value_of m s of Inl e \<Rightarrow> final m s | Inr x \<Rightarrow> final (k x) (final m s))"
  by (simp add: attempt_def split: sum.split)

lemma attempt_value:
  "value_of (attempt wrap m k) s =
     (case value_of m s of Inl e \<Rightarrow> Inl (wrap e) | Inr x \<Rightarrow> value_of (k x) (final m s))"
  by (simp add: attempt_def split: sum.split)

lemmas attempt_simps = attempt_final attempt_value

lemma attempt_InrE:
  assumes "value_of (attempt wrap m k) s = Inr y"
  obtains x where "value_of m s = Inr x" and "value_of (k x) (final m s) = Inr y"
    and "final (attempt wrap m k) s = final (k x) (final m s)"
  using assms by (cases "value_of m s") (auto simp: attempt_simps)

lemma keeps_attempt [keeps_rules]:
  "keeps I m \<Longrightarrow> (\<And>x. keeps I (k x)) \<Longrightarrow> keeps I (attempt wrap m k)"
  unfolding attempt_def by (auto intro!: keeps_rules split: sum.split)

lemma moves_attempt:
  assumes "reflp R" and "transp R" and "moves R m" and "\<And>x. moves R (k x)"
  shows "moves R (attempt wrap m k)"
  unfolding attempt_def
  by (rule moves_bind [OF assms(2,3)]) (auto intro: moves_ret [OF assms(1)] assms(4) split: sum.split)

section \<open>Rows of a table\<close>

text \<open>\<open>update ... where P\<close> on the rows of a table, and the row a unique key selects.\<close>

definition upd_where :: "('r \<Rightarrow> bool) \<Rightarrow> ('r \<Rightarrow> 'r) \<Rightarrow> 'r list \<Rightarrow> 'r list" where
  "upd_where P f rows = map (\<lambda>r. if P r then f r else r) rows"

lemma upd_where_simps [simp]:
  "upd_where P f [] = []"
  "upd_where P f (r # rs) = (if P r then f r else r) # upd_where P f rs"
  by (simp_all add: upd_where_def)

lemma length_upd_where [simp]: "length (upd_where P f rows) = length rows"
  by (simp add: upd_where_def)

lemma map_upd_where [simp]:
  "(\<And>r. P r \<Longrightarrow> g (f r) = g r) \<Longrightarrow> map g (upd_where P f rows) = map g rows"
  by (induction rows) auto

lemma in_set_upd_where:
  "x \<in> set (upd_where P f rows) \<longleftrightarrow> (\<exists>r \<in> set rows. x = (if P r then f r else r))"
  by (auto simp: upd_where_def)

lemma find_upd_where:
  assumes "\<And>r. P r \<Longrightarrow> Q (f r) = Q r"
  shows "find Q (upd_where P f rows) = map_option (\<lambda>r. if P r then f r else r) (find Q rows)"
  using assms by (induction rows) auto

lemma find_SomeD: "find P xs = Some x \<Longrightarrow> x \<in> set xs \<and> P x"
  by (induction xs) (auto split: if_splits)

lemma find_append [simp]:
  "find P (xs @ ys) = (case find P xs of None \<Rightarrow> find P ys | Some x \<Rightarrow> Some x)"
  by (induction xs) auto

lemma find_key_unique:
  "distinct (map key rows) \<Longrightarrow> r \<in> set rows \<Longrightarrow> find (\<lambda>x. key x = key r) rows = Some r"
  by (induction rows) (auto simp: rev_image_eqI)

lemma distinct_map_unique:
  "distinct (map key rows) \<Longrightarrow> r \<in> set rows \<Longrightarrow> q \<in> set rows \<Longrightarrow> key r = key q \<Longrightarrow> r = q"
  by (auto simp: distinct_map dest: inj_onD)

end
