(* ===== verification/Utf8.thy ===== *)
theory Utf8 imports Prelude "HOL-Library.Char_ord" begin

text \<open>
  UTF-8 as Go reads it: a string is a list of bytes, split into the encodings of runes; a byte
  that starts none stands alone, and is read as U+FFFD.
\<close>

section \<open>Runes\<close>

definition byte_in :: "nat \<Rightarrow> nat \<Rightarrow> char \<Rightarrow> bool" where
  "byte_in lo hi c \<longleftrightarrow> lo \<le> (of_char c :: nat) \<and> (of_char c :: nat) \<le> hi"

text \<open>
  What the first byte of a rune says: its length (0 if it starts none), and the range of the
  second byte, which excludes overlong encodings, surrogates and values past U+10FFFF.
\<close>

definition lead :: "char \<Rightarrow> nat \<times> nat \<times> nat" where
  "lead c =
     (let n = (of_char c :: nat) in
      if n < 0x80 then (1, 0x80, 0xBF)
      else if n < 0xC2 then (0, 0x80, 0xBF)
      else if n < 0xE0 then (2, 0x80, 0xBF)
      else if n < 0xF0 then (3, if n = 0xE0 then 0xA0 else 0x80, if n = 0xED then 0x9F else 0xBF)
      else if n < 0xF5 then (4, if n = 0xF0 then 0x90 else 0x80, if n = 0xF4 then 0x8F else 0xBF)
      else (0, 0x80, 0xBF))"

text \<open>The length of the encoded rune a string starts with, 0 if it starts with none.\<close>

fun rune_size :: "string \<Rightarrow> nat" where
  "rune_size [] = 0"
| "rune_size (c # cs) = (case lead c of (k, lo, hi) \<Rightarrow>
     if k \<le> 1 then k
     else if k - 1 \<le> length cs \<and> byte_in lo hi (hd cs) \<and> list_all (byte_in 0x80 0xBF) (take (k - 1) cs) then k
     else 0)"

function runes :: "string \<Rightarrow> string list" where
  "runes [] = []"
| "runes (c # cs) =
     (let k = rune_size (c # cs) - 1 in (c # take k cs) # runes (drop k cs))"
  by pat_completeness auto
termination by (relation "measure length") (auto simp: Let_def less_Suc_eq_le)

definition rune_ok :: "string \<Rightarrow> bool" where
  "rune_ok r \<longleftrightarrow> r \<noteq> [] \<and> rune_size r = length r"

definition replacement :: string where
  "replacement = [CHR 0xEF, CHR 0xBF, CHR 0xBD]"

definition fix_rune :: "string \<Rightarrow> string" where
  "fix_rune r = (if rune_ok r then r else replacement)"

text \<open>\<open>utf8.ValidString\<close>, and \<open>strings.ToValidUTF8\<close> byte by byte.\<close>

definition utf8_valid :: "string \<Rightarrow> bool" where
  "utf8_valid s \<longleftrightarrow> (\<forall>r \<in> set (runes s). rune_ok r)"

definition utf8_fix :: "string \<Rightarrow> string" where
  "utf8_fix s = concat (map fix_rune (runes s))"

definition encode_rune :: "nat \<Rightarrow> string" where
  "encode_rune n =
     (if n < 0x80 then [char_of n]
      else if n < 0x800 then [char_of (0xC0 + n div 64), char_of (0x80 + n mod 64)]
      else if 0xD800 \<le> n \<and> n \<le> 0xDFFF \<or> 0x10FFFF < n then replacement
      else if n < 0x10000 then
        [char_of (0xE0 + n div 4096), char_of (0x80 + n div 64 mod 64), char_of (0x80 + n mod 64)]
      else [char_of (0xF0 + n div 262144), char_of (0x80 + n div 4096 mod 64), char_of (0x80 + n div 64 mod 64),
        char_of (0x80 + n mod 64)])"

section \<open>Lemmas\<close>

lemma rune_size_bounds: "rune_size s \<le> length s"
  by (cases s) (auto split: prod.split)

lemma lead_cases:
  assumes "lead c = (k, lo, hi)"
  shows "k \<le> 4" "k = 1 \<longleftrightarrow> (of_char c :: nat) < 128" "0x80 \<le> lo" "hi \<le> 0xBF"
  using assms by (auto simp: lead_def Let_def split: if_splits)

lemma concat_runes: "concat (runes s) = s"
  by (induction s rule: runes.induct) (simp_all add: Let_def)

lemma rune_size_append: "0 < rune_size r \<Longrightarrow> rune_size (r @ s) = rune_size r"
  by (cases r) (auto split: prod.splits if_splits simp: hd_append)

lemma runes_append: "rune_ok r \<Longrightarrow> runes (r @ s) = r # runes s"
proof -
  assume ok: "rune_ok r"
  then obtain c cs where r: "r = c # cs" by (cases r) (auto simp: rune_ok_def)
  from ok have "rune_size (c # cs @ s) = Suc (length cs)"
    using rune_size_append [of r s] by (simp add: rune_ok_def r)
  then show ?thesis by (simp add: r Let_def)
qed

lemma runes_concat: "\<forall>r \<in> set rs. rune_ok r \<Longrightarrow> runes (concat rs) = rs"
  by (induction rs) (simp_all add: runes_append)

lemma utf8_valid_concat: "\<forall>r \<in> set rs. rune_ok r \<Longrightarrow> utf8_valid (concat rs)"
  by (simp add: utf8_valid_def runes_concat)

lemma utf8_fix_valid: "utf8_valid s \<Longrightarrow> utf8_fix s = s"
proof -
  assume "utf8_valid s"
  then have "map fix_rune (runes s) = runes s"
    by (intro map_idI) (simp add: utf8_valid_def fix_rune_def)
  then show ?thesis by (simp only: utf8_fix_def concat_runes)
qed

lemma replacement_ok: "rune_ok replacement"
  by (simp add: rune_ok_def replacement_def lead_def byte_in_def)

lemma fix_rune_ok: "rune_ok (fix_rune r)"
  by (simp add: fix_rune_def replacement_ok)

lemma utf8_valid_fix: "utf8_valid (utf8_fix s)"
  unfolding utf8_fix_def by (rule utf8_valid_concat) (auto simp: fix_rune_ok)

lemma lead_char_of: "n < 256 \<Longrightarrow> lead (char_of (n :: nat)) =
     (if n < 0x80 then (1, 0x80, 0xBF)
      else if n < 0xC2 then (0, 0x80, 0xBF)
      else if n < 0xE0 then (2, 0x80, 0xBF)
      else if n < 0xF0 then (3, if n = 0xE0 then 0xA0 else 0x80, if n = 0xED then 0x9F else 0xBF)
      else if n < 0xF5 then (4, if n = 0xF0 then 0x90 else 0x80, if n = 0xF4 then 0x8F else 0xBF)
      else (0, 0x80, 0xBF))"
  by (simp add: lead_def)

lemma byte_in_char_of: "n < 256 \<Longrightarrow> byte_in lo hi (char_of (n :: nat)) \<longleftrightarrow> lo \<le> n \<and> n \<le> hi"
  by (simp add: byte_in_def)

lemma multi_byte_ok:
  "q < 16 \<Longrightarrow> m < 64 \<Longrightarrow> l < 64 \<Longrightarrow> (q = 0 \<Longrightarrow> 32 \<le> m) \<Longrightarrow> (q = 13 \<Longrightarrow> m < 32) \<Longrightarrow>
     rune_ok [char_of (0xE0 + q :: nat), char_of (0x80 + m :: nat), char_of (0x80 + l :: nat)]"
  "q < 5 \<Longrightarrow> m < 64 \<Longrightarrow> k < 64 \<Longrightarrow> l < 64 \<Longrightarrow> (q = 0 \<Longrightarrow> 16 \<le> m) \<Longrightarrow> (q = 4 \<Longrightarrow> m < 16) \<Longrightarrow>
     rune_ok [char_of (0xF0 + q :: nat), char_of (0x80 + m :: nat), char_of (0x80 + k :: nat), char_of (0x80 + l :: nat)]"
  by (auto simp: rune_ok_def lead_char_of byte_in_char_of)

lemma encode_rune_ok: "rune_ok (encode_rune n)"
proof -
  consider "n < 0x80" | "0x80 \<le> n" "n < 0x800" | "0x800 \<le> n" "n < 0x10000" "\<not> (0xD800 \<le> n \<and> n \<le> 0xDFFF)"
    | "0xD800 \<le> n \<and> n \<le> 0xDFFF \<or> 0x10FFFF < n" | "0x10000 \<le> n" "n \<le> 0x10FFFF"
    by linarith
  then show ?thesis
  proof cases
    case 1
    then show ?thesis by (simp add: encode_rune_def rune_ok_def lead_char_of)
  next
    case 2
    then have "2 \<le> n div 64" "n div 64 < 32" by auto
    with 2 show ?thesis by (simp add: encode_rune_def rune_ok_def lead_char_of byte_in_char_of)
  next
    case 3
    define a where "a = n div 64"
    have a: "32 \<le> a" "a < 1024" "\<not> (864 \<le> a \<and> a \<le> 895)" "n div 4096 = a div 64"
      using 3 div_mult_mod_eq [of n 64] mod_less_divisor [of 64 n] div_mult2_eq [of n 64 64]
      unfolding a_def by linarith+
    then have "a div 64 < 16" "a div 64 = 0 \<Longrightarrow> 32 \<le> a mod 64" "a div 64 = 13 \<Longrightarrow> a mod 64 < 32"
      using div_mult_mod_eq [of a 64] mod_less_divisor [of 64 a] by linarith+
    then have "rune_ok [char_of (0xE0 + a div 64), char_of (0x80 + a mod 64), char_of (0x80 + n mod 64)]"
      by (intro multi_byte_ok(1)) auto
    with a(4) 3 show ?thesis unfolding encode_rune_def a_def by auto
  next
    case 4
    then show ?thesis using replacement_ok by (auto simp: encode_rune_def)
  next
    case 5
    define a where "a = n div 4096"
    have a: "16 \<le> a" "a < 272" "n div 262144 = a div 64"
      using 5 div_mult_mod_eq [of n 4096] mod_less_divisor [of 4096 n] div_mult2_eq [of n 4096 64]
      unfolding a_def by linarith+
    then have "a div 64 < 5" "a div 64 = 0 \<Longrightarrow> 16 \<le> a mod 64" "a div 64 = 4 \<Longrightarrow> a mod 64 < 16"
      using div_mult_mod_eq [of a 64] mod_less_divisor [of 64 a] by linarith+
    then have "rune_ok [char_of (0xF0 + a div 64), char_of (0x80 + a mod 64), char_of (0x80 + n div 64 mod 64), char_of (0x80 + n mod 64)]"
      by (intro multi_byte_ok(2)) auto
    with a(3) 5 show ?thesis unfolding encode_rune_def a_def by auto
  qed
qed

text \<open>A rune is an ASCII character, or bytes from 128 on.\<close>

lemma rune_ok_cases:
  assumes "rune_ok r"
  obtains c where "r = [c]" "(of_char c :: nat) < 128"
  | "\<forall>c \<in> set r. 128 \<le> (of_char c :: nat)" "2 \<le> length r"
proof -
  from assms obtain c cs where r: "r = c # cs" and size: "rune_size (c # cs) = Suc (length cs)"
    by (cases r) (auto simp: rune_ok_def)
  obtain k lo hi where lead: "lead c = (k, lo, hi)" by (cases "lead c")
  note byte = lead_cases [OF lead]
  show thesis
  proof (cases "k \<le> 1")
    case True
    with size lead have "cs = []" "k = 1" by auto
    with byte(2) show thesis using that(1) [of c] by (simp add: r)
  next
    case False
    with size lead have "k = Suc (length cs)" "list_all (byte_in 0x80 0xBF) cs"
      by (auto split: if_splits)
    moreover from this False have "2 \<le> length (c # cs)" by (cases cs) simp_all
    ultimately show thesis
      using byte(2) False by (intro that(2)) (auto simp: r byte_in_def list_all_iff Suc_le_eq)
  qed
qed

lemma runes_shape: "r \<in> set (runes s) \<Longrightarrow> rune_ok r \<or> (\<exists>c. r = [c] \<and> 128 \<le> (of_char c :: nat))"
proof (induction s rule: runes.induct)
  case (2 c cs)
  let ?k = "rune_size (c # cs)"
  show ?case
  proof (cases "r = c # take (?k - 1) cs")
    case True
    obtain k lo hi where lead: "lead c = (k, lo, hi)" by (cases "lead c")
    show ?thesis
    proof (cases "?k = 0")
      case none: True
      with lead have "k \<noteq> 1" by auto
      with lead_cases(2) [OF lead] True none show ?thesis by auto
    next
      case False
      have "rune_size (c # take (?k - 1) cs) = ?k"
        using False lead by (auto split: if_splits simp: hd_take)
      with False True rune_size_bounds [of "c # cs"] show ?thesis by (simp add: rune_ok_def)
    qed
  next
    case False
    with 2 show ?thesis by (simp add: Let_def)
  qed
qed simp

end
