(* ===== verification/Golang.thy ===== *)
theory Golang imports Utf8 "HOL-Library.List_Lexorder" begin

text \<open>
  What the program uses of the Go language and its standard library: error values
  and their chains (\<open>errors.Is\<close>, \<open>errors.As\<close>, \<open>fmt.Errorf\<close> with \<open>%w\<close>), JSON trees with
  \<open>json.Marshal\<close>, the lookup of a struct field in a JSON object, and decimal numbers.
\<close>

section \<open>Error values\<close>

text \<open>
  The sentinel errors the code compares against are constructors; \<open>ErrText\<close> is any
  other leaf with its message; \<open>ErrWrapped\<close> is the result of \<open>fmt.Errorf\<close>, the
  formatted text with the errors its \<open>%w\<close> verbs wrap; \<open>ErrThrottled\<close> is
  \<open>*queue.ThrottledError\<close>, whose text and \<open>Unwrap\<close> are those of the inner error.
\<close>

datatype goerr =
    ErrNoRows
  | ErrSkipRetry
  | ErrTaskIDConflict
  | ErrEmptyTargets
  | ErrNoTargetsSpecified
  | ErrText string
  | ErrWrapped string "goerr list"
  | ErrThrottled duration goerr

fun error_text :: "goerr \<Rightarrow> string" where
  "error_text ErrNoRows = ''no rows in result set''"
| "error_text ErrSkipRetry = ''skip retry for the task''"
| "error_text ErrTaskIDConflict = ''task ID conflicts with another task''"
| "error_text ErrEmptyTargets = ''dispatch: request specifies no targets''"
| "error_text ErrNoTargetsSpecified = ''targeting: no targets specified''"
| "error_text (ErrText s) = s"
| "error_text (ErrWrapped s es) = s"
| "error_text (ErrThrottled d e) = error_text e"

text \<open>\<open>fmt.Errorf(prefix + "%w", err)\<close>.\<close>

definition errorf :: "string \<Rightarrow> goerr \<Rightarrow> goerr" where
  "errorf pre e = ErrWrapped (pre @ error_text e) [e]"

text \<open>\<open>fmt.Errorf("%w" + middle + "%w", outer, inner)\<close>.\<close>

definition errorf2 :: "goerr \<Rightarrow> string \<Rightarrow> goerr \<Rightarrow> goerr" where
  "errorf2 e1 mid e2 = ErrWrapped (error_text e1 @ mid @ error_text e2) [e1, e2]"

text \<open>\<open>errors.Is(err, target)\<close>: the error itself or, depth first, one it wraps.\<close>

fun errors_is :: "goerr \<Rightarrow> goerr \<Rightarrow> bool" where
  "errors_is (ErrWrapped s es) t \<longleftrightarrow> ErrWrapped s es = t \<or> (\<exists>e \<in> set es. errors_is e t)"
| "errors_is (ErrThrottled d e) t \<longleftrightarrow> ErrThrottled d e = t \<or> errors_is e t"
| "errors_is e t \<longleftrightarrow> e = t"

text \<open>\<open>errors.As(err, **ThrottledError)\<close>: the first throttled error of the chain.\<close>

fun first_some :: "'a option list \<Rightarrow> 'a option" where
  "first_some [] = None"
| "first_some (None # xs) = first_some xs"
| "first_some (Some x # xs) = Some x"

lemma first_some_None: "first_some xs = None \<longleftrightarrow> (\<forall>x \<in> set xs. x = None)"
  by (induction xs rule: first_some.induct) auto

fun as_throttled :: "goerr \<Rightarrow> (duration \<times> goerr) option" where
  "as_throttled (ErrThrottled d e) = Some (d, e)"
| "as_throttled (ErrWrapped s es) = first_some (map as_throttled es)"
| "as_throttled _ = None"

lemma errors_is_errorf [simp]:
  "errors_is (errorf pre e) t \<longleftrightarrow> errorf pre e = t \<or> errors_is e t"
  by (simp add: errorf_def)

lemma errors_is_errorf2 [simp]:
  "errors_is (errorf2 e1 mid e2) t \<longleftrightarrow> errorf2 e1 mid e2 = t \<or> errors_is e1 t \<or> errors_is e2 t"
  by (simp add: errorf2_def)

lemma errorf_neq [simp]:
  "errorf p e \<noteq> ErrNoRows" "errorf p e \<noteq> ErrSkipRetry" "errorf p e \<noteq> ErrTaskIDConflict"
  "errorf p e \<noteq> ErrEmptyTargets" "errorf p e \<noteq> ErrNoTargetsSpecified"
  "errorf2 a m b \<noteq> ErrNoRows" "errorf2 a m b \<noteq> ErrSkipRetry" "errorf2 a m b \<noteq> ErrTaskIDConflict"
  by (simp_all add: errorf_def errorf2_def)

lemmas errorf_neq_sym [simp] = errorf_neq [symmetric]

lemma as_throttled_errorf [simp]: "as_throttled (errorf pre e) = as_throttled e"
  by (cases "as_throttled e") (simp_all add: errorf_def)

lemma as_throttled_errorf2 [simp]:
  "as_throttled (errorf2 e1 mid e2) = first_some [as_throttled e1, as_throttled e2]"
  by (simp add: errorf2_def)

section \<open>JSON trees\<close>

text \<open>
  A number is kept as its literal. A Go \<open>map[string]any\<close> is the list of its entries in
  the order \<open>json.Marshal\<close> writes them: by key, each key once (\<open>map_put\<close>).
\<close>

datatype json =
    JNull
  | JBool bool
  | JNum string
  | JStr string
  | JArr "json list"
  | JObj "(string \<times> json) list"

type_synonym gomap = "(string \<times> json) list"

fun map_put :: "string \<Rightarrow> 'v \<Rightarrow> (string \<times> 'v) list \<Rightarrow> (string \<times> 'v) list" where
  "map_put k v [] = [(k, v)]"
| "map_put k v ((k', v') # kvs) =
     (if k < k' then (k, v) # (k', v') # kvs
      else if k = k' then (k, v) # kvs
      else (k', v') # map_put k v kvs)"

definition is_gomap :: "(string \<times> 'v) list \<Rightarrow> bool" where
  "is_gomap m \<longleftrightarrow> sorted_wrt (<) (map fst m)"

lemma map_of_map_put: "is_gomap m \<Longrightarrow> map_of (map_put k v m) = (map_of m)(k \<mapsto> v)"
proof (induction m)
  case (Cons a m)
  then show ?case
    by (cases a) (auto simp: is_gomap_def fun_eq_iff)
qed simp

lemma fst_map_put: "fst ` set (map_put k v m) = insert k (fst ` set m)"
  by (induction k v m rule: map_put.induct) auto

lemma is_gomap_distinct: "is_gomap m \<Longrightarrow> distinct (map fst m)"
  by (simp add: is_gomap_def strict_sorted_iff)

lemma is_gomap_Cons:
  "is_gomap ((k, v) # m) \<longleftrightarrow> (\<forall>k' \<in> fst ` set m. k < k') \<and> is_gomap m"
  by (auto simp: is_gomap_def)

lemma is_gomap_map_put: "is_gomap m \<Longrightarrow> is_gomap (map_put k v m)"
proof (induction k v m rule: map_put.induct)
  case (1 k v)
  show ?case by (simp add: is_gomap_def)
next
  case (2 k v k' v' kvs)
  from "2.prems" have m: "\<forall>q \<in> fst ` set kvs. k' < q" "is_gomap kvs"
    by (simp_all add: is_gomap_Cons)
  consider "k < k'" | "k = k'" | "k' < k" by (rule linorder_cases)
  then show ?case
  proof cases
    case 1
    with m have "\<forall>q \<in> fst ` set kvs. k < q" by (blast intro: less_trans)
    with 1 m show ?thesis by (simp add: is_gomap_Cons)
  next
    case 2
    with m show ?thesis by (simp add: is_gomap_Cons)
  next
    case 3
    with "2.IH" m(2) have "is_gomap (map_put k v kvs)" by simp
    moreover have "\<not> k < k'" "k \<noteq> k'" using 3 by auto
    ultimately show ?thesis using 3 m(1) by (simp add: is_gomap_Cons fst_map_put)
  qed
qed

text \<open>Decoding an object into a map: entries in order, a later one overwrites.\<close>

definition gomap_of :: "(string \<times> 'v) list \<Rightarrow> (string \<times> 'v) list" where
  "gomap_of kvs = fold (\<lambda>(k, v) m. map_put k v m) kvs []"

lemma is_gomap_fold:
  "is_gomap m \<Longrightarrow> is_gomap (fold (\<lambda>(k, v) m. map_put k v m) kvs m)"
  by (induction kvs arbitrary: m) (auto simp: is_gomap_map_put)

lemma is_gomap_gomap_of: "is_gomap (gomap_of kvs)"
  unfolding gomap_of_def by (rule is_gomap_fold) (simp add: is_gomap_def)

lemma map_put_last: "(\<forall>k' \<in> fst ` set m. k' < k) \<Longrightarrow> map_put k v m = m @ [(k, v)]"
  by (induction m) auto

lemma fold_map_put_sorted:
  "is_gomap (m @ kvs) \<Longrightarrow> fold (\<lambda>(k, v) m. map_put k v m) kvs m = m @ kvs"
proof (induction kvs arbitrary: m)
  case (Cons a kvs)
  obtain k v where a: "a = (k, v)" by (cases a)
  from Cons.prems have "\<forall>k' \<in> fst ` set m. k' < k"
    by (auto simp: is_gomap_def sorted_wrt_append a)
  then have "map_put k v m = m @ [(k, v)]" by (rule map_put_last)
  with Cons.IH [of "m @ [(k, v)]"] Cons.prems show ?case by (simp add: a)
qed simp

lemma gomap_of_id: "is_gomap m \<Longrightarrow> gomap_of m = m"
  by (simp add: gomap_of_def fold_map_put_sorted [where m = "[]", simplified])

subsection \<open>Struct fields\<close>

text \<open>
  \<open>json.Unmarshal\<close> into a struct matches an object's keys to field names up to Unicode case
  folding; a later key overwrites an earlier one. Of the characters beyond ASCII two fold to a
  letter: the long s (U+017F) and the Kelvin sign (U+212A), in UTF-8.
\<close>

definition lower_char :: "char \<Rightarrow> char" where
  "lower_char c = (if 65 \<le> (of_char c :: nat) \<and> (of_char c :: nat) \<le> 90 then char_of ((of_char c :: nat) + 32) else c)"

fun fold_key :: "string \<Rightarrow> string" where
  "fold_key [] = []"
| "fold_key (c # cs) =
     (if c = CHR 0xC5 \<and> take 1 cs = [CHR 0xBF] then CHR ''s'' # fold_key (drop 1 cs)
      else if c = CHR 0xE2 \<and> take 2 cs = [CHR 0x84, CHR 0xAA] then CHR ''k'' # fold_key (drop 2 cs)
      else lower_char c # fold_key cs)"

definition key_match :: "string \<Rightarrow> string \<Rightarrow> bool" where
  "key_match name k \<longleftrightarrow> fold_key name = fold_key k"

text \<open>Names of HTTP headers are compared up to ASCII case.\<close>

definition header_match :: "string \<Rightarrow> string \<Rightarrow> bool" where
  "header_match name k \<longleftrightarrow> map lower_char name = map lower_char k"

definition jfields :: "string \<Rightarrow> (string \<times> json) list \<Rightarrow> json list" where
  "jfields name kvs = map snd (filter (\<lambda>(k, _). key_match name k) kvs)"

text \<open>A string field: \<open>null\<close> leaves the field alone, any other type is an error.\<close>

fun scan_string :: "string \<Rightarrow> json list \<Rightarrow> string option" where
  "scan_string acc [] = Some acc"
| "scan_string acc (JNull # js) = scan_string acc js"
| "scan_string acc (JStr s # js) = scan_string s js"
| "scan_string acc (j # js) = None"

definition string_field :: "string \<Rightarrow> (string \<times> json) list \<Rightarrow> string option" where
  "string_field name kvs = scan_string [] (jfields name kvs)"

section \<open>json.Marshal\<close>

definition hex_digit :: "nat \<Rightarrow> char" where
  "hex_digit n = (''0123456789abcdef'' ! (n mod 16))"

text \<open>
  Inside a string the encoder escapes the quote, the backslash, control bytes, and (its
  default HTML escaping) \<open><\<close>, \<open>>\<close> and \<open>&\<close>.
\<close>

definition escape_char :: "char \<Rightarrow> string" where
  "escape_char c =
     (let n = (of_char c :: nat); bs = CHR 0x5C in
      if n = 0x22 then [bs, CHR 0x22]
      else if n = 0x5C then [bs, bs]
      else if n = 8 then [bs, CHR ''b'']
      else if n = 12 then [bs, CHR ''f'']
      else if n = 10 then [bs, CHR ''n'']
      else if n = 13 then [bs, CHR ''r'']
      else if n = 9 then [bs, CHR ''t'']
      else if n < 32 \<or> n = 0x3C \<or> n = 0x3E \<or> n = 0x26
        then [bs, CHR ''u'', CHR ''0'', CHR ''0'', hex_digit (n div 16), hex_digit n]
      else [c])"

text \<open>
  A byte that is not UTF-8 is written as \<open>\ufffd\<close>; the line separators U+2028 and U+2029, which
  JavaScript does not allow in a string, are escaped too.
\<close>

definition escape_rune :: "string \<Rightarrow> string" where
  "escape_rune r =
     (if length r = 1 then (if (of_char (hd r) :: nat) < 128 then escape_char (hd r) else CHR 0x5C # ''ufffd'')
      else if r = [CHR 0xE2, CHR 0x80, CHR 0xA8] then CHR 0x5C # ''u2028''
      else if r = [CHR 0xE2, CHR 0x80, CHR 0xA9] then CHR 0x5C # ''u2029''
      else r)"

definition json_quote :: "string \<Rightarrow> string" where
  "json_quote s = [CHR 0x22] @ concat (map escape_rune (runes s)) @ [CHR 0x22]"

fun comma_sep :: "string list \<Rightarrow> string" where
  "comma_sep [] = []"
| "comma_sep [s] = s"
| "comma_sep (s # t # ss) = s @ '','' @ comma_sep (t # ss)"

fun json_Marshal :: "json \<Rightarrow> string" where
  "json_Marshal JNull = ''null''"
| "json_Marshal (JBool b) = (if b then ''true'' else ''false'')"
| "json_Marshal (JNum lit) = lit"
| "json_Marshal (JStr s) = json_quote s"
| "json_Marshal (JArr js) = ''['' @ comma_sep (map json_Marshal js) @ '']''"
| "json_Marshal (JObj kvs) =
     ''{'' @ comma_sep (map (\<lambda>(k, j). json_quote k @ '':'' @ json_Marshal j) kvs) @ ''}''"

text \<open>
  The \<open>%q\<close> verb: \<open>strconv.Quote\<close>; bytes from 128 on belong to printable characters here.
\<close>

definition quote_char :: "char \<Rightarrow> string" where
  "quote_char c =
     (let n = (of_char c :: nat); bs = CHR 0x5C in
      if n = 0x22 \<or> n = 0x5C then [bs, c]
      else if n = 7 then [bs, CHR ''a''] else if n = 8 then [bs, CHR ''b'']
      else if n = 12 then [bs, CHR ''f''] else if n = 10 then [bs, CHR ''n'']
      else if n = 13 then [bs, CHR ''r''] else if n = 9 then [bs, CHR ''t'']
      else if n = 11 then [bs, CHR ''v'']
      else if n < 32 \<or> n = 127 then [bs, CHR ''x'', hex_digit (n div 16), hex_digit n]
      else [c])"

definition go_quote :: "string \<Rightarrow> string" where
  "go_quote s = [CHR 0x22] @ concat (map quote_char s) @ [CHR 0x22]"

section \<open>Decimal numbers\<close>

text \<open>\<open>strconv.Itoa\<close> and the \<open>%d\<close> verb.\<close>

fun nat_digits :: "nat \<Rightarrow> string" where
  "nat_digits n =
     (if n < 10 then [char_of (48 + n)] else nat_digits (n div 10) @ [char_of (48 + n mod 10)])"

declare nat_digits.simps [simp del]

definition Itoa :: "int \<Rightarrow> string" where
  "Itoa i = (if i < 0 then CHR ''-'' # nat_digits (nat (- i)) else nat_digits (nat i))"

text \<open>
  \<open>strconv.Atoi\<close>: an optional sign, then one or more decimal digits, in the range of a
  64-bit \<open>int\<close>.
\<close>

definition is_digit :: "char \<Rightarrow> bool" where
  "is_digit c \<longleftrightarrow> 48 \<le> (of_char c :: nat) \<and> (of_char c :: nat) \<le> 57"

definition digit_val :: "char \<Rightarrow> nat" where
  "digit_val c = (of_char c :: nat) - 48"

fun digits_val :: "nat \<Rightarrow> string \<Rightarrow> nat" where
  "digits_val acc [] = acc"
| "digits_val acc (c # cs) = digits_val (10 * acc + digit_val c) cs"

definition Atoi :: "string \<Rightarrow> int option" where
  "Atoi s =
     (let (neg, ds) = (case s of
         [] \<Rightarrow> (False, [])
       | c # cs \<Rightarrow> if c = CHR ''-'' then (True, cs) else if c = CHR ''+'' then (False, cs) else (False, s))
      in if ds = [] \<or> \<not> list_all is_digit ds then None
         else let v = (if neg then - int (digits_val 0 ds) else int (digits_val 0 ds))
              in if - (2 ^ 63) \<le> v \<and> v < 2 ^ 63 then Some v else None)"

lemma digits_val_append: "digits_val acc (xs @ [c]) = 10 * digits_val acc xs + digit_val c"
  by (induction xs arbitrary: acc) auto

lemma digit_char [simp]:
  "n < 10 \<Longrightarrow> is_digit (char_of (48 + n))"
  "n < 10 \<Longrightarrow> digit_val (char_of (48 + n)) = n"
  by (simp_all add: is_digit_def digit_val_def)

lemma nat_digits_props:
  "nat_digits n \<noteq> [] \<and> list_all is_digit (nat_digits n) \<and> digits_val 0 (nat_digits n) = n"
proof (induction n rule: nat_digits.induct)
  case (1 n)
  show ?case
  proof (cases "n < 10")
    case True
    then show ?thesis by (subst (1 2 3) nat_digits.simps) simp
  next
    case False
    with 1 show ?thesis
      by (subst (1 2 3) nat_digits.simps) (simp add: digits_val_append)
  qed
qed

lemma nat_digits_hd: "is_digit (hd (nat_digits n))"
  using nat_digits_props [of n] by (cases "nat_digits n") auto

lemma nat_digits_hd_nonzero: "0 < n \<Longrightarrow> hd (nat_digits n) \<noteq> CHR ''0''"
proof (induction n rule: nat_digits.induct)
  case (1 n)
  show ?case
  proof (cases "n < 10")
    case True
    then have "n \<in> {1..9}" using "1.prems" by simp
    with True have "(of_char (char_of (48 + n) :: char) :: nat) \<noteq> of_char (CHR ''0'')" by simp
    then have "char_of (48 + n) \<noteq> (CHR ''0'')" by metis
    with True show ?thesis by (subst nat_digits.simps) simp
  next
    case False
    moreover from False nat_digits_props [of "n div 10"] have "nat_digits (n div 10) \<noteq> []" by simp
    ultimately show ?thesis using 1 by (subst nat_digits.simps) simp
  qed
qed

lemma Atoi_Itoa:
  assumes "- (2 ^ 63) \<le> i" and "i < 2 ^ 63"
  shows "Atoi (Itoa i) = Some i"
proof (cases "i < 0")
  case True
  then show ?thesis
    using nat_digits_props [of "nat (- i)"] assms by (simp add: Itoa_def Atoi_def)
next
  case False
  obtain c cs where eq: "nat_digits (nat i) = c # cs"
    using nat_digits_props [of "nat i"] by (cases "nat_digits (nat i)") auto
  with nat_digits_hd [of "nat i"] have "is_digit c" by simp
  then have "c \<noteq> CHR ''-''" "c \<noteq> CHR ''+''" by (auto simp: is_digit_def)
  with False eq show ?thesis
    using nat_digits_props [of "nat i"] assms by (simp add: Itoa_def Atoi_def)
qed

section \<open>Machine integers\<close>

text \<open>The value of an \<open>int\<close> or \<open>int64\<close> after it wraps.\<close>

definition int64 :: "int \<Rightarrow> int" where
  "int64 i = sint (word_of_int i :: 64 word)"

lemma int64_id: "- (2 ^ 63) \<le> i \<Longrightarrow> i < 2 ^ 63 \<Longrightarrow> int64 i = i"
  by (simp add: int64_def sint_sbintrunc' signed_take_bit_int_eq_self)

lemma int64_add: "int64 (int64 a + b) = int64 (a + b)" "int64 (b + int64 a) = int64 (b + a)"
  by (simp_all add: int64_def)

end
