(* ===== verification/Schema.thy ===== *)
theory Schema imports Golang begin

text \<open>
  The data of the service: one record per row type of \<open>internal/store/postgres/models.go\<close>,
  the tables together, and the check constraints of the migration. A nullable column is
  an option (\<open>pgtype.UUID\<close> and \<open>pgtype.Timestamptz\<close> with \<open>Valid\<close> false, a nil
  \<open>*string\<close>); a jsonb column holds a JSON tree; bytea holds bytes.
\<close>

section \<open>Rows\<close>

record project_row =
  p_ID :: uuid
  p_Name :: string
  p_Slug :: string
  p_Status :: string
  p_CreatedAt :: instant

record subscriber_row =
  s_ID :: uuid
  s_ProjectID :: uuid
  s_ExternalID :: string
  s_Status :: string
  s_CreatedAt :: instant
  s_LastSeenAt :: instant

record device_row =
  d_ID :: uuid
  d_ProjectID :: uuid
  d_SubscriberID :: "uuid option"
  d_Token :: string
  d_Platform :: string
  d_ProviderType :: string
  d_Status :: string
  d_Metadata :: json
  d_CreatedAt :: instant
  d_UpdatedAt :: instant

record notification_row =
  n_ID :: uuid
  n_ProjectID :: uuid
  n_IdempotencyKey :: "string option"
  n_Title :: "string option"
  n_Body :: "string option"
  n_Data :: json
  n_TargetSpec :: json
  n_Status :: string
  n_TotalRecipients :: "32 word"
  n_CreatedAt :: instant
  n_CompletedAt :: "instant option"

record recipient_row =
  r_ID :: uuid
  r_NotificationID :: uuid
  r_DeviceID :: uuid
  r_ProviderType :: string
  r_Status :: string
  r_ProviderMessageID :: "string option"
  r_ErrorCode :: "string option"
  r_ErrorMessage :: "string option"
  r_AttemptCount :: "32 word"
  r_SentAt :: "instant option"
  r_FailedAt :: "instant option"
  r_CreatedAt :: instant

record credential_row =
  c_ID :: uuid
  c_ProjectID :: uuid
  c_ProviderType :: string
  c_Environment :: string
  c_Credential :: string
  c_WrappedDek :: string
  c_IsActive :: bool
  c_CreatedAt :: instant
  c_UpdatedAt :: instant

record api_key_row =
  k_ID :: uuid
  k_ProjectID :: uuid
  k_Name :: string
  k_KeyPrefix :: string
  k_KeyHash :: string
  k_Scope :: string
  k_CreatedAt :: instant
  k_LastUsedAt :: "instant option"
  k_RevokedAt :: "instant option"
  k_ExpiresAt :: "instant option"

record user_row =
  u_ID :: uuid
  u_Email :: string
  u_PasswordHash :: string
  u_Role :: string
  u_CreatedAt :: instant

record session_row =
  ss_ID :: uuid
  ss_UserID :: uuid
  ss_TokenHash :: string
  ss_CreatedAt :: instant
  ss_LastUsedAt :: "instant option"
  ss_ExpiresAt :: instant
  ss_RevokedAt :: "instant option"

section \<open>The database\<close>

record tables =
  projects :: "project_row list"
  subscribers :: "subscriber_row list"
  devices :: "device_row list"
  notifications :: "notification_row list"
  recipients :: "recipient_row list"
  credentials :: "credential_row list"
  api_keys :: "api_key_row list"
  users :: "user_row list"
  sessions :: "session_row list"

text \<open>The \<open>check\<close> constraints.\<close>

definition subscriber_statuses :: "string list" where
  "subscriber_statuses = [''subscribed'', ''opted_out'']"

definition device_platforms :: "string list" where
  "device_platforms = [''ios'', ''android'', ''web'']"

definition provider_types :: "string list" where
  "provider_types = [''expo'', ''fcm'', ''apns'', ''hms'']"

definition device_statuses :: "string list" where
  "device_statuses = [''active'', ''stale'', ''invalid'']"

definition notification_statuses :: "string list" where
  "notification_statuses = [''pending'', ''fanning_out'', ''processing'', ''completed'', ''failed'']"

definition recipient_statuses :: "string list" where
  "recipient_statuses = [''queued'', ''sending'', ''sent'', ''delivered'', ''failed'']"

definition api_key_scopes :: "string list" where
  "api_key_scopes = [''read'', ''send'']"

lemmas check_lists = subscriber_statuses_def device_platforms_def provider_types_def
  device_statuses_def notification_statuses_def recipient_statuses_def api_key_scopes_def

text \<open>The references of one table to another.\<close>

definition project_exists :: "uuid \<Rightarrow> tables \<Rightarrow> bool" where
  "project_exists pid t \<longleftrightarrow> pid \<in> p_ID ` set (projects t)"

definition subscriber_exists :: "uuid \<Rightarrow> uuid \<Rightarrow> tables \<Rightarrow> bool" where
  "subscriber_exists pid sid t \<longleftrightarrow> (pid, sid) \<in> (\<lambda>s. (s_ProjectID s, s_ID s)) ` set (subscribers t)"

definition notification_exists :: "uuid \<Rightarrow> tables \<Rightarrow> bool" where
  "notification_exists nid t \<longleftrightarrow> nid \<in> n_ID ` set (notifications t)"

definition device_exists :: "uuid \<Rightarrow> tables \<Rightarrow> bool" where
  "device_exists did t \<longleftrightarrow> did \<in> d_ID ` set (devices t)"

definition user_exists :: "uuid \<Rightarrow> tables \<Rightarrow> bool" where
  "user_exists uid t \<longleftrightarrow> uid \<in> u_ID ` set (users t)"

text \<open>The errors a violated constraint raises.\<close>

definition unique_violation :: "string \<Rightarrow> goerr" where
  "unique_violation c = ErrText (''ERROR: duplicate key value violates unique constraint '' @ json_quote c @ '' (SQLSTATE 23505)'')"

definition check_violation :: "string \<Rightarrow> goerr" where
  "check_violation c = ErrText (''ERROR: new row violates check constraint '' @ json_quote c @ '' (SQLSTATE 23514)'')"

definition foreign_key_violation :: "string \<Rightarrow> goerr" where
  "foreign_key_violation c = ErrText (''ERROR: insert or update violates foreign key constraint '' @ json_quote c @ '' (SQLSTATE 23503)'')"

definition out_of_range :: goerr where
  "out_of_range = ErrText ''ERROR: integer out of range (SQLSTATE 22003)''"

definition bad_limit :: goerr where
  "bad_limit = ErrText ''ERROR: LIMIT and OFFSET must not be negative (SQLSTATE 2201W)''"

lemma violation_neq_ErrNoRows [simp]:
  "unique_violation c \<noteq> ErrNoRows" "check_violation c \<noteq> ErrNoRows"
  "foreign_key_violation c \<noteq> ErrNoRows" "out_of_range \<noteq> ErrNoRows"
  "errors_is (unique_violation c) ErrNoRows = False" "errors_is (check_violation c) ErrNoRows = False"
  "errors_is (foreign_key_violation c) ErrNoRows = False" "errors_is out_of_range ErrNoRows = False"
  by (simp_all add: unique_violation_def check_violation_def foreign_key_violation_def out_of_range_def)

section \<open>One table inside the database\<close>

text \<open>
  Every table is a field of the database with a primary key. The locale states what the
  operations of a table rely on (reading back what was put) and proves once what they
  share: the primary key stays unique under \<open>insert\<close> and \<open>update\<close>, and what a lookup by
  primary key returns afterwards.
\<close>

locale table =
  fixes rows :: "tables \<Rightarrow> 'r list"
    and put :: "'r list \<Rightarrow> tables \<Rightarrow> tables"
    and key :: "'r \<Rightarrow> uuid"
  assumes rows_put: "rows (put rs t) = rs"
    and put_put: "put rs (put qs t) = put rs t"
    and put_rows: "put (rows t) t = t"
begin

lemma unique_insert:
  assumes "distinct (map key (rows t))" and "key r \<notin> key ` set (rows t)"
  shows "distinct (map key (rows (put (rows t @ [r]) t)))"
  using assms by (auto simp: rows_put)

lemma unique_update:
  assumes "distinct (map key (rows t))" and "\<And>r. P r \<Longrightarrow> key (f r) = key r"
  shows "distinct (map key (rows (put (upd_where P f (rows t)) t)))"
  using assms by (simp add: rows_put)

lemma lookup_insert:
  assumes "key r \<notin> key ` set (rows t)"
  shows "find (\<lambda>x. key x = i) (rows (put (rows t @ [r]) t)) =
    (if i = key r then Some r else find (\<lambda>x. key x = i) (rows t))"
proof -
  have "find (\<lambda>x. key x = key r) (rows t) = None"
    using assms by (auto simp: find_None_iff image_iff)
  then show ?thesis by (auto simp: rows_put split: option.split)
qed

lemma lookup_update:
  assumes "\<And>r. key (f r) = key r"
  shows "find (\<lambda>x. key x = i) (rows (put (upd_where (\<lambda>x. key x = j) f (rows t)) t)) =
    (if i = j then map_option f else id) (find (\<lambda>x. key x = i) (rows t))"
proof -
  have "find (\<lambda>x. key x = i) (upd_where (\<lambda>x. key x = j) f (rows t)) =
      map_option (\<lambda>r. if key r = j then f r else r) (find (\<lambda>x. key x = i) (rows t))"
    by (rule find_upd_where) (simp add: assms)
  then show ?thesis
    by (cases "find (\<lambda>x. key x = i) (rows t)") (auto simp: rows_put dest: find_SomeD)
qed

lemma lookup_mem:
  assumes "distinct (map key (rows t))"
  shows "find (\<lambda>x. key x = i) (rows t) = Some r \<longleftrightarrow> r \<in> set (rows t) \<and> key r = i"
  using find_key_unique [OF assms] by (auto dest: find_SomeD)

lemma put_same: "put (upd_where P f (rows t)) t = t" if "\<And>r. r \<in> set (rows t) \<Longrightarrow> \<not> P r"
proof -
  have "upd_where P f (rows t) = rows t"
    using that by (auto simp: upd_where_def intro: map_idI)
  then show ?thesis by (simp add: put_rows)
qed

end

abbreviation put_projects :: "project_row list \<Rightarrow> tables \<Rightarrow> tables" where
  "put_projects rs t \<equiv> t\<lparr>projects := rs\<rparr>"

abbreviation put_subscribers :: "subscriber_row list \<Rightarrow> tables \<Rightarrow> tables" where
  "put_subscribers rs t \<equiv> t\<lparr>subscribers := rs\<rparr>"

abbreviation put_devices :: "device_row list \<Rightarrow> tables \<Rightarrow> tables" where
  "put_devices rs t \<equiv> t\<lparr>devices := rs\<rparr>"

abbreviation put_notifications :: "notification_row list \<Rightarrow> tables \<Rightarrow> tables" where
  "put_notifications rs t \<equiv> t\<lparr>notifications := rs\<rparr>"

abbreviation put_recipients :: "recipient_row list \<Rightarrow> tables \<Rightarrow> tables" where
  "put_recipients rs t \<equiv> t\<lparr>recipients := rs\<rparr>"

abbreviation put_credentials :: "credential_row list \<Rightarrow> tables \<Rightarrow> tables" where
  "put_credentials rs t \<equiv> t\<lparr>credentials := rs\<rparr>"

abbreviation put_api_keys :: "api_key_row list \<Rightarrow> tables \<Rightarrow> tables" where
  "put_api_keys rs t \<equiv> t\<lparr>api_keys := rs\<rparr>"

abbreviation put_users :: "user_row list \<Rightarrow> tables \<Rightarrow> tables" where
  "put_users rs t \<equiv> t\<lparr>users := rs\<rparr>"

abbreviation put_sessions :: "session_row list \<Rightarrow> tables \<Rightarrow> tables" where
  "put_sessions rs t \<equiv> t\<lparr>sessions := rs\<rparr>"

interpretation proj: table projects put_projects p_ID
  by unfold_locales simp_all

interpretation sub: table subscribers put_subscribers s_ID
  by unfold_locales simp_all

interpretation dev: table devices put_devices d_ID
  by unfold_locales simp_all

interpretation notif: table notifications put_notifications n_ID
  by unfold_locales simp_all

interpretation recip: table recipients put_recipients r_ID
  by unfold_locales simp_all

interpretation cred: table credentials put_credentials c_ID
  by unfold_locales simp_all

interpretation akey: table api_keys put_api_keys k_ID
  by unfold_locales simp_all

interpretation usr: table users put_users u_ID
  by unfold_locales simp_all

interpretation sess: table sessions put_sessions ss_ID
  by unfold_locales simp_all

end
