(* ===== verification/Json.thy ===== *)
theory Json imports Golang begin

text \<open>
  The decoder of \<open>encoding/json\<close>: its scanner, a state machine that reads one byte after the other
  over a stack of open arrays and objects, and the values it finds. The text of a tree is read
  back as that tree (\<open>json_Parse_Marshal\<close>).
\<close>

section \<open>Strings\<close>

text \<open>The content of a string literal: escapes, UTF-16 surrogates, and bytes that are not UTF-8.\<close>

definition hex_value :: "char \<Rightarrow> nat option" where
  "hex_value c =
     (let n = (of_char c :: nat) in
      if 48 \<le> n \<and> n \<le> 57 then Some (n - 48)
      else if 97 \<le> n \<and> n \<le> 102 then Some (n - 87)
      else if 65 \<le> n \<and> n \<le> 70 then Some (n - 55)
      else None)"

text \<open>\<open>getu4\<close>, after the \<open>\u\<close>.\<close>

fun hex4 :: "string \<Rightarrow> nat option" where
  "hex4 (a # b # c # d # cs) =
     (case (hex_value a, hex_value b, hex_value c, hex_value d) of
        (Some a, Some b, Some c, Some d) \<Rightarrow> Some (((a * 16 + b) * 16 + c) * 16 + d)
      | _ \<Rightarrow> None)"
| "hex4 _ = None"

definition low_surrogate :: "string \<Rightarrow> nat option" where
  "low_surrogate cs = (if take 2 cs = [CHR 0x5C, CHR ''u''] then hex4 (drop 2 cs) else None)"

definition simple_escape :: "char \<Rightarrow> char" where
  "simple_escape c =
     (if c = CHR ''b'' then CHR 8 else if c = CHR ''f'' then CHR 12 else if c = CHR ''n'' then CHR 10
      else if c = CHR ''r'' then CHR 13 else if c = CHR ''t'' then CHR 9 else c)"

text \<open>The rune a raw string starts with, and how many bytes it takes.\<close>

definition unquote_rune :: "string \<Rightarrow> string \<times> nat" where
  "unquote_rune s =
     (if hd s \<noteq> CHR 0x5C then (let r = hd (runes s) in (fix_rune r, length r))
      else if length s \<ge> 2 \<and> s ! 1 = CHR ''u'' then
        (case hex4 (drop 2 s) of
           None \<Rightarrow> (replacement, length s)
         | Some n \<Rightarrow>
             if 0xD800 \<le> n \<and> n \<le> 0xDFFF then
               (case low_surrogate (drop 6 s) of
                  Some m \<Rightarrow> if n < 0xDC00 \<and> 0xDC00 \<le> m \<and> m \<le> 0xDFFF
                    then (encode_rune ((n - 0xD800) * 1024 + (m - 0xDC00) + 0x10000), 12)
                    else (replacement, 6)
                | None \<Rightarrow> (replacement, 6))
             else (encode_rune n, 6))
      else if length s \<ge> 2 \<and> (of_char (s ! 1) :: nat) < 128 then ([simple_escape (s ! 1)], 2)
      else (replacement, length s))"

function unquote_runes :: "string \<Rightarrow> string list" where
  "unquote_runes [] = []"
| "unquote_runes (c # cs) =
     (let (r, k) = unquote_rune (c # cs) in r # unquote_runes (drop (k - 1) cs))"
  by pat_completeness auto
termination by (relation "measure length") (auto simp: less_Suc_eq_le)

definition unquote :: "string \<Rightarrow> string" where
  "unquote raw = concat (unquote_runes raw)"

section \<open>Numbers\<close>

text \<open>The states after the bytes of a number literal: sign, leading 0, digits, point, fraction, exponent.\<close>

datatype num_state = NumNeg | Num0 | Num1 | NumDot | NumDot0 | NumE | NumESign | NumE0

definition num_start :: "char \<Rightarrow> num_state option" where
  "num_start c =
     (if c = CHR ''-'' then Some NumNeg else if c = CHR ''0'' then Some Num0
      else if is_digit c then Some Num1 else None)"

definition is_exp :: "char \<Rightarrow> bool" where
  "is_exp c \<longleftrightarrow> c = CHR ''e'' \<or> c = CHR ''E''"

fun num_next :: "num_state \<Rightarrow> char \<Rightarrow> num_state option" where
  "num_next NumNeg c = (if c = CHR ''0'' then Some Num0 else if is_digit c then Some Num1 else None)"
| "num_next Num0 c = (if c = CHR ''.'' then Some NumDot else if is_exp c then Some NumE else None)"
| "num_next Num1 c =
     (if is_digit c then Some Num1 else if c = CHR ''.'' then Some NumDot else if is_exp c then Some NumE else None)"
| "num_next NumDot c = (if is_digit c then Some NumDot0 else None)"
| "num_next NumDot0 c = (if is_digit c then Some NumDot0 else if is_exp c then Some NumE else None)"
| "num_next NumE c =
     (if c = CHR ''+'' \<or> c = CHR ''-'' then Some NumESign else if is_digit c then Some NumE0 else None)"
| "num_next NumESign c = (if is_digit c then Some NumE0 else None)"
| "num_next NumE0 c = (if is_digit c then Some NumE0 else None)"

fun num_complete :: "num_state \<Rightarrow> bool" where
  "num_complete Num0 = True"
| "num_complete Num1 = True"
| "num_complete NumDot0 = True"
| "num_complete NumE0 = True"
| "num_complete _ = False"

fun num_run :: "num_state \<Rightarrow> string \<Rightarrow> num_state option" where
  "num_run ns [] = Some ns"
| "num_run ns (c # cs) = (case num_next ns c of None \<Rightarrow> None | Some ns' \<Rightarrow> num_run ns' cs)"

definition json_number :: "string \<Rightarrow> bool" where
  "json_number lit = (case lit of
      [] \<Rightarrow> False
    | c # cs \<Rightarrow> (case num_start c of
          None \<Rightarrow> False
        | Some ns \<Rightarrow> (case num_run ns cs of None \<Rightarrow> False | Some ns' \<Rightarrow> num_complete ns')))"

section \<open>The scanner\<close>

text \<open>
  What is open around the place that is read: an array with its elements so far, an object with
  its members so far and the key of the next (both last first). At most 10000 of them.
\<close>

datatype frame = InArray "json list" | InObject "(string \<times> json) list" string

datatype str_state = StrPlain | StrEscape | StrHex nat

datatype place =
    BeginValue
  | BeginElement
  | BeginFirstKey
  | BeginKey
  | AfterKey
  | AfterValue
  | InLiteral string json
  | InNumber num_state string
  | InString bool str_state string
  | Complete json

definition maxNestingDepth :: nat where "maxNestingDepth = 10000"

definition json_space :: "char \<Rightarrow> bool" where
  "json_space c \<longleftrightarrow> c \<in> {CHR 32, CHR 9, CHR 13, CHR 10}"

text \<open>A value is complete: it is the whole, or goes into what is open.\<close>

fun value_read :: "json \<Rightarrow> frame list \<Rightarrow> place \<times> frame list" where
  "value_read j [] = (Complete j, [])"
| "value_read j (InArray js # st) = (AfterValue, InArray (j # js) # st)"
| "value_read j (InObject kvs k # st) = (AfterValue, InObject ((k, j) # kvs) k # st)"

definition push :: "place \<Rightarrow> frame \<Rightarrow> frame list \<Rightarrow> (place \<times> frame list) option" where
  "push p f st = (if length st < maxNestingDepth then Some (p, f # st) else None)"

definition begin_value :: "frame list \<Rightarrow> char \<Rightarrow> (place \<times> frame list) option" where
  "begin_value st c =
     (if c = CHR ''{'' then push BeginFirstKey (InObject [] []) st
      else if c = CHR ''['' then push BeginElement (InArray []) st
      else if c = CHR 0x22 then Some (InString False StrPlain [], st)
      else if c = CHR ''t'' then Some (InLiteral ''rue'' (JBool True), st)
      else if c = CHR ''f'' then Some (InLiteral ''alse'' (JBool False), st)
      else if c = CHR ''n'' then Some (InLiteral ''ull'' JNull, st)
      else map_option (\<lambda>ns. (InNumber ns [c], st)) (num_start c))"

fun after_value :: "frame list \<Rightarrow> char \<Rightarrow> (place \<times> frame list) option" where
  "after_value (InArray js # st) c =
     (if json_space c then Some (AfterValue, InArray js # st)
      else if c = CHR '','' then Some (BeginValue, InArray js # st)
      else if c = CHR '']'' then Some (value_read (JArr (rev js)) st) else None)"
| "after_value (InObject kvs k # st) c =
     (if json_space c then Some (AfterValue, InObject kvs k # st)
      else if c = CHR '','' then Some (BeginKey, InObject kvs k # st)
      else if c = CHR ''}'' then Some (value_read (JObj (rev kvs)) st) else None)"
| "after_value [] c = None"

fun str_next :: "str_state \<Rightarrow> char \<Rightarrow> str_state option" where
  "str_next StrPlain c = (if c = CHR 0x5C then Some StrEscape else if (of_char c :: nat) < 32 then None else Some StrPlain)"
| "str_next StrEscape c =
     (if c = CHR ''u'' then Some (StrHex 3)
      else if c \<in> {CHR ''b'', CHR ''f'', CHR ''n'', CHR ''r'', CHR ''t'', CHR 0x5C, CHR ''/'', CHR 0x22} then Some StrPlain
      else None)"
| "str_next (StrHex n) c =
     (if hex_value c = None then None else Some (if n = 0 then StrPlain else StrHex (n - 1)))"

fun string_read :: "bool \<Rightarrow> string \<Rightarrow> frame list \<Rightarrow> place \<times> frame list" where
  "string_read True s (InObject kvs k # st) = (AfterKey, InObject kvs s # st)"
| "string_read is_key s st = value_read (JStr s) st"

text \<open>One byte: the next place and what is open there, or a syntax error.\<close>

fun scan_step :: "place \<Rightarrow> frame list \<Rightarrow> char \<Rightarrow> (place \<times> frame list) option" where
  "scan_step BeginValue st c = (if json_space c then Some (BeginValue, st) else begin_value st c)"
| "scan_step BeginElement st c =
     (if json_space c then Some (BeginElement, st)
      else if c = CHR '']'' then Some (value_read (JArr []) (tl st)) else begin_value st c)"
| "scan_step BeginFirstKey st c =
     (if json_space c then Some (BeginFirstKey, st)
      else if c = CHR ''}'' then Some (value_read (JObj []) (tl st))
      else if c = CHR 0x22 then Some (InString True StrPlain [], st) else None)"
| "scan_step BeginKey st c =
     (if json_space c then Some (BeginKey, st)
      else if c = CHR 0x22 then Some (InString True StrPlain [], st) else None)"
| "scan_step AfterKey st c =
     (if json_space c then Some (AfterKey, st) else if c = CHR '':'' then Some (BeginValue, st) else None)"
| "scan_step AfterValue st c = after_value st c"
| "scan_step (InLiteral todo j) st c =
     (if todo = [] \<or> c \<noteq> hd todo then None
      else if tl todo = [] then Some (value_read j st) else Some (InLiteral (tl todo) j, st))"
| "scan_step (InNumber ns raw) st c =
     (case num_next ns c of
        Some ns' \<Rightarrow> Some (InNumber ns' (c # raw), st)
      | None \<Rightarrow> if num_complete ns then after_value (snd (value_read (JNum (rev raw)) st)) c else None)"
| "scan_step (InString is_key ss raw) st c =
     (if ss = StrPlain \<and> c = CHR 0x22 then Some (string_read is_key (unquote (rev raw)) st)
      else map_option (\<lambda>ss'. (InString is_key ss' (c # raw), st)) (str_next ss c))"
| "scan_step (Complete j) st c = None"

text \<open>
  The value a text starts with and what follows it. The decoder knows that an array or object has
  ended by its bracket, and any other value by the byte after it or the end of the input (\<open>eof\<close>).
\<close>

datatype scanned = ScanValue json string | ScanIncomplete | ScanSyntax

fun ends_here :: "place \<Rightarrow> frame list \<Rightarrow> string \<Rightarrow> json option" where
  "ends_here (Complete j) st cs = Some j"
| "ends_here (InNumber ns raw) st cs =
     (if st = [] \<and> num_complete ns \<and> (cs = [] \<or> num_next ns (hd cs) = None) then Some (JNum (rev raw)) else None)"
| "ends_here p st cs = None"

fun bracketed :: "json \<Rightarrow> bool" where
  "bracketed (JArr js) = True"
| "bracketed (JObj kvs) = True"
| "bracketed _ = False"

fun scan :: "bool \<Rightarrow> place \<Rightarrow> frame list \<Rightarrow> string \<Rightarrow> scanned" where
  "scan eof p st [] = (case ends_here p st [] of
      Some j \<Rightarrow> if eof \<or> bracketed j then ScanValue j [] else ScanIncomplete
    | None \<Rightarrow> ScanIncomplete)"
| "scan eof p st (c # cs) = (case ends_here p st (c # cs) of
      Some j \<Rightarrow> ScanValue j (c # cs)
    | None \<Rightarrow> (case scan_step p st c of None \<Rightarrow> ScanSyntax | Some (p', st') \<Rightarrow> scan eof p' st' cs))"

text \<open>\<open>Decoder.Decode\<close> reads the first value of a stream; \<open>Unmarshal\<close> and \<open>Valid\<close> a whole text.\<close>

definition json_Scan :: "bool \<Rightarrow> string \<Rightarrow> scanned" where
  "json_Scan eof s = scan eof BeginValue [] s"

definition json_Parse :: "string \<Rightarrow> json option" where
  "json_Parse s = (case json_Scan True s of
      ScanValue j rest \<Rightarrow> if list_all json_space rest then Some j else None
    | _ \<Rightarrow> None)"


section \<open>Lemmas: string literals\<close>

fun str_run :: "str_state \<Rightarrow> string \<Rightarrow> str_state option" where
  "str_run ss [] = Some ss"
| "str_run ss (c # cs) =
     (if ss = StrPlain \<and> c = CHR 0x22 then None
      else (case str_next ss c of None \<Rightarrow> None | Some ss' \<Rightarrow> str_run ss' cs))"

lemma scan_str_run:
  "str_run ss w = Some ss' \<Longrightarrow> scan eof (InString k ss raw) st (w @ cs) = scan eof (InString k ss' (rev w @ raw)) st cs"
  by (induction ss w arbitrary: raw rule: str_run.induct) (auto split: if_splits option.splits)

lemma str_run_append: "str_run ss v = Some ss' \<Longrightarrow> str_run ss (v @ w) = str_run ss' w"
  by (induction ss v rule: str_run.induct) (auto split: if_splits option.splits)

lemma str_run_concat: "\<forall>w \<in> set ws. str_run StrPlain w = Some StrPlain \<Longrightarrow> str_run StrPlain (concat ws) = Some StrPlain"
  by (induction ws) (simp_all add: str_run_append)

lemma str_run_high: "\<forall>c \<in> set w. 128 \<le> (of_char c :: nat) \<Longrightarrow> str_run StrPlain w = Some StrPlain"
  by (induction w) auto

lemma hex_value_digit: "hex_value (hex_digit n) = Some (n mod 16)"
proof -
  have "list_all (\<lambda>m. hex_value (''0123456789abcdef'' ! m) = Some m) [0..<16]"
    by (simp add: hex_value_def upt_rec)
  then show ?thesis by (simp add: hex_digit_def list_all_iff)
qed

lemma special_bytes:
  "(of_char c :: nat) = 0x22 \<longleftrightarrow> c = CHR 0x22" "(of_char c :: nat) = 0x5C \<longleftrightarrow> c = CHR 0x5C"
  "(of_char c :: nat) = 8 \<longleftrightarrow> c = CHR 8" "(of_char c :: nat) = 12 \<longleftrightarrow> c = CHR 12"
  "(of_char c :: nat) = 10 \<longleftrightarrow> c = CHR 10" "(of_char c :: nat) = 13 \<longleftrightarrow> c = CHR 13"
  "(of_char c :: nat) = 9 \<longleftrightarrow> c = CHR 9"
  by (simp_all flip: of_char_eq_iff [where 'a = nat])

lemma escape_char_cases:
  obtains "escape_char c = [c]" "c \<noteq> CHR 0x22" "c \<noteq> CHR 0x5C" "32 \<le> (of_char c :: nat)"
  | e where "escape_char c = [CHR 0x5C, e]" "simple_escape e = c" "(of_char e :: nat) < 128"
    "e \<in> {CHR ''b'', CHR ''f'', CHR ''n'', CHR ''r'', CHR ''t'', CHR 0x5C, CHR 0x22}"
  | "escape_char c = CHR 0x5C # ''u00'' @ [hex_digit (of_char c div 16), hex_digit (of_char c)]" "(of_char c :: nat) < 128"
proof -
  let ?n = "of_char c :: nat" and ?special = "{CHR 0x22, CHR 0x5C, CHR 8, CHR 12, CHR 10, CHR 13, CHR 9}"
  consider "c \<in> ?special" | "c \<notin> ?special" "?n < 32 \<or> ?n = 0x3C \<or> ?n = 0x3E \<or> ?n = 0x26"
    | "c \<notin> ?special" "\<not> (?n < 32 \<or> ?n = 0x3C \<or> ?n = 0x3E \<or> ?n = 0x26)"
    by blast
  then show thesis
  proof cases
    case 1
    note escaped = that(2) [unfolded escape_char_def simple_escape_def Let_def]
    from 1 show thesis
      using escaped [of "CHR 0x22"] escaped [of "CHR 0x5C"] escaped [of "CHR ''b''"] escaped [of "CHR ''f''"]
        escaped [of "CHR ''n''"] escaped [of "CHR ''r''"] escaped [of "CHR ''t''"]
      by (elim insertE emptyE) simp_all
  next
    case 2
    then show thesis using that(3) by (auto simp: escape_char_def special_bytes Let_def)
  next
    case 3
    then show thesis using that(1) by (auto simp: escape_char_def special_bytes Let_def)
  qed
qed


lemma hex_values [simp]:
  "hex_value (CHR ''0'') = Some 0" "hex_value (CHR ''2'') = Some 2" "hex_value (CHR ''8'') = Some 8"
  "hex_value (CHR ''9'') = Some 9" "hex_value (CHR ''d'') = Some 13" "hex_value (CHR ''f'') = Some 15"
  by (simp_all add: hex_value_def)

lemma encoded_runes:
  "encode_rune 65533 = replacement" "encode_rune 8232 = [CHR 0xE2, CHR 0x80, CHR 0xA8]"
  "encode_rune 8233 = [CHR 0xE2, CHR 0x80, CHR 0xA9]"
  by (simp_all add: encode_rune_def replacement_def flip: of_char_eq_iff [where 'a = nat])

text \<open>The escaped form of a rune stays inside the literal, and is read back as the rune.\<close>

lemma hex4_byte: "n < 256 \<Longrightarrow> hex4 (CHR ''0'' # CHR ''0'' # hex_digit (n div 16) # hex_digit n # t) = Some n"
  by (simp add: hex_value_digit hex_values)

lemma escape_rune_scanned:
  assumes "rune_ok r \<or> (\<exists>c. r = [c] \<and> 128 \<le> (of_char c :: nat))"
  shows "str_run StrPlain (escape_rune r) = Some StrPlain"
proof -
  have bad: "str_run StrPlain (CHR 0x5C # ''ufffd'') = Some StrPlain"
    "str_run StrPlain (CHR 0x5C # ''u2028'') = Some StrPlain" "str_run StrPlain (CHR 0x5C # ''u2029'') = Some StrPlain"
    by (simp_all add: hex_values)
  have ascii: "str_run StrPlain (escape_char c) = Some StrPlain" for c
    by (rule escape_char_cases [of c]) (auto simp: hex_value_digit)
  from assms show ?thesis
  proof
    assume "rune_ok r"
    then show ?thesis
      by (rule rune_ok_cases) (auto simp: escape_rune_def ascii bad intro: str_run_high)
  qed (auto simp: escape_rune_def bad)
qed

lemma unquote_runes_step:
  "s \<noteq> [] \<Longrightarrow> unquote_rune s = (r, Suc k) \<Longrightarrow> unquote_runes s = r # unquote_runes (drop (Suc k) s)"
  by (cases s) simp_all

lemma hd_runes: "rune_ok r \<Longrightarrow> hd (runes (r @ t)) = r"
  by (simp add: runes_append)

lemma unquote_plain:
  assumes "rune_ok r" "hd r \<noteq> CHR 0x5C"
  shows "unquote_runes (r @ t) = r # unquote_runes t"
proof -
  from assms(1) obtain k where len: "length r = Suc k" by (cases r) (auto simp: rune_ok_def)
  then have "unquote_rune (r @ t) = (r, Suc k)"
    using assms hd_runes [OF assms(1), of t] by (cases r) (simp_all add: unquote_rune_def fix_rune_def)
  from unquote_runes_step [OF _ this] len show ?thesis by (cases r) simp_all
qed

lemma unquote_hex:
  assumes "hex4 (h @ t) = Some n" "length h = 4" "\<not> (0xD800 \<le> n \<and> n \<le> 0xDFFF)"
  shows "unquote_runes (CHR 0x5C # CHR ''u'' # h @ t) = encode_rune n # unquote_runes t"
proof -
  have "unquote_rune (CHR 0x5C # CHR ''u'' # h @ t) = (encode_rune n, Suc 5)"
    using assms by (auto simp: unquote_rune_def)
  from unquote_runes_step [OF _ this] assms(2) show ?thesis by (simp add: numeral_eq_Suc)
qed

lemma unquote_escape_rune:
  assumes "rune_ok r \<or> (\<exists>c. r = [c] \<and> 128 \<le> (of_char c :: nat))"
  shows "unquote_runes (escape_rune r @ t) = fix_rune r # unquote_runes t"
proof -
  have bad: "unquote_runes (CHR 0x5C # CHR ''u'' # ''fffd'' @ t) = replacement # unquote_runes t"
    "unquote_runes (CHR 0x5C # CHR ''u'' # ''2028'' @ t) = [CHR 0xE2, CHR 0x80, CHR 0xA8] # unquote_runes t"
    "unquote_runes (CHR 0x5C # CHR ''u'' # ''2029'' @ t) = [CHR 0xE2, CHR 0x80, CHR 0xA9] # unquote_runes t"
    using unquote_hex [of "''fffd''" t 65533] unquote_hex [of "''2028''" t 8232] unquote_hex [of "''2029''" t 8233]
    by (simp_all add: hex_values encoded_runes)
  have ascii: "unquote_runes (escape_char c @ t) = [c] # unquote_runes t" if c: "(of_char c :: nat) < 128" for c
  proof (rule escape_char_cases [of c])
    assume "escape_char c = [c]" "c \<noteq> CHR 0x5C"
    moreover from c have "rune_ok [c]" by (simp add: rune_ok_def lead_def)
    ultimately show ?thesis using unquote_plain [of "[c]" t] by simp
  next
    fix e assume e: "escape_char c = [CHR 0x5C, e]" "simple_escape e = c" "(of_char e :: nat) < 128"
      "e \<in> {CHR ''b'', CHR ''f'', CHR ''n'', CHR ''r'', CHR ''t'', CHR 0x5C, CHR 0x22}"
    then have "unquote_rune (CHR 0x5C # e # t) = ([c], Suc 1)" by (auto simp: unquote_rune_def)
    from unquote_runes_step [OF _ this] e(1) show ?thesis by simp
  next
    assume esc: "escape_char c = CHR 0x5C # ''u00'' @ [hex_digit (of_char c div 16), hex_digit (of_char c)]"
    have "unquote_runes (CHR 0x5C # CHR ''u'' # [CHR ''0'', CHR ''0'', hex_digit (of_char c div 16), hex_digit (of_char c)] @ t) =
        encode_rune (of_char c) # unquote_runes t"
      using c by (intro unquote_hex) (simp_all add: hex4_byte del: hex4.simps)
    with c esc show ?thesis by (simp add: encode_rune_def)
  qed
  from assms show ?thesis
  proof
    assume ok: "rune_ok r"
    then show ?thesis
    proof (cases rule: rune_ok_cases)
      case (1 c)
      with ok ascii show ?thesis by (simp add: escape_rune_def fix_rune_def)
    next
      case 2
      with ok have "hd r \<noteq> CHR 0x5C" by (cases r) auto
      from 2 ok have kept: "length r \<noteq> 1" "fix_rune r = r" by (auto simp: fix_rune_def)
      consider "r = [CHR 0xE2, CHR 0x80, CHR 0xA8]" | "r = [CHR 0xE2, CHR 0x80, CHR 0xA9]"
        | "escape_rune r = r" using kept(1) by (metis escape_rune_def)
      then show ?thesis
      proof cases
        case 3
        with kept(2) unquote_plain [OF ok \<open>hd r \<noteq> CHR 0x5C\<close>, of t] show ?thesis by simp
      qed (use kept(2) bad(2,3) in \<open>simp_all add: escape_rune_def del: unquote_runes.simps\<close>)
    qed
  next
    assume "\<exists>c. r = [c] \<and> 128 \<le> (of_char c :: nat)"
    then obtain c where c: "r = [c]" "128 \<le> (of_char c :: nat)" by blast
    then have "\<not> rune_ok r" by (auto simp: rune_ok_def lead_def Let_def)
    with c bad(1) show ?thesis by (simp add: escape_rune_def fix_rune_def del: unquote_runes.simps)
  qed
qed

lemma unquote_quoted: "unquote (concat (map escape_rune (runes s))) = utf8_fix s"
proof -
  have "unquote_runes (concat (map escape_rune rs)) = map fix_rune rs" if "set rs \<subseteq> set (runes s)" for rs
    using that by (induction rs) (auto simp: unquote_escape_rune [OF runes_shape])
  from this [of "runes s"] show ?thesis by (simp add: unquote_def utf8_fix_def)
qed


section \<open>Lemmas: reading what is written\<close>

text \<open>The trees with a text: number literals, and no more than \<open>n\<close> arrays and objects inside each other.\<close>

fun json_fits :: "nat \<Rightarrow> json \<Rightarrow> bool" where
  "json_fits n (JNum lit) \<longleftrightarrow> json_number lit"
| "json_fits n (JArr js) \<longleftrightarrow> 0 < n \<and> (\<forall>j \<in> set js. json_fits (n - 1) j)"
| "json_fits n (JObj kvs) \<longleftrightarrow> 0 < n \<and> (\<forall>kv \<in> set kvs. json_fits (n - 1) (snd kv))"
| "json_fits n j \<longleftrightarrow> True"

text \<open>What becomes of the strings.\<close>

fun json_fix :: "json \<Rightarrow> json" where
  "json_fix (JStr s) = JStr (utf8_fix s)"
| "json_fix (JArr js) = JArr (map json_fix js)"
| "json_fix (JObj kvs) = JObj (map (\<lambda>kv. (utf8_fix (fst kv), json_fix (snd kv))) kvs)"
| "json_fix j = j"

definition resume :: "bool \<Rightarrow> place \<times> frame list \<Rightarrow> string \<Rightarrow> scanned" where
  "resume eof q cs = scan eof (fst q) (snd q) cs"

lemma scan_string_literal:
  "scan eof (InString k StrPlain []) st (concat (map escape_rune (runes s)) @ CHR 0x22 # cs) =
     resume eof (string_read k (utf8_fix s) st) cs"
proof -
  have "str_run StrPlain (concat (map escape_rune (runes s))) = Some StrPlain"
    by (rule str_run_concat) (simp add: escape_rune_scanned [OF runes_shape])
  from scan_str_run [OF this] show ?thesis by (simp add: unquote_quoted resume_def split: prod.split)
qed

lemma scan_num_run:
  "num_run ns w = Some ns' \<Longrightarrow> scan eof (InNumber ns raw) st (w @ cs) = scan eof (InNumber ns' (rev w @ raw)) st cs"
  by (induction ns w arbitrary: raw rule: num_run.induct) (auto split: option.splits)

text \<open>What may follow a value: nothing after the whole, or the byte that ends an element.\<close>

definition follows :: "bool \<Rightarrow> frame list \<Rightarrow> string \<Rightarrow> bool" where
  "follows eof st cs \<longleftrightarrow> (if st = [] then cs = [] \<and> eof else cs \<noteq> [] \<and> hd cs \<in> {CHR '','', CHR '']'', CHR ''}''})"

lemma num_next_delimiter: "c \<in> {CHR '','', CHR '']'', CHR ''}''} \<Longrightarrow> num_next ns c = None"
  by (cases ns) (auto simp: is_digit_def is_exp_def)

lemma scan_number_end:
  assumes "num_complete ns" "follows eof st cs"
  shows "scan eof (InNumber ns raw) st cs = resume eof (value_read (JNum (rev raw)) st) cs"
proof (cases st)
  case Nil
  with assms show ?thesis by (simp add: follows_def resume_def)
next
  case (Cons f rest)
  with assms(2) obtain c cs' where c: "cs = c # cs'" "c \<in> {CHR '','', CHR '']'', CHR ''}''}"
    by (cases cs) (auto simp: follows_def)
  note stop = num_next_delimiter [OF c(2)]
  show ?thesis
    using assms(1) stop by (cases f) (simp_all add: c(1) Cons resume_def del: after_value.simps)
qed

lemma num_start_begins:
  assumes "num_start c = Some ns"
  shows "\<not> json_space c" "c \<noteq> CHR '']''" "begin_value st c = Some (InNumber ns [c], st)"
proof -
  have digit: "\<not> is_digit (CHR 32)" "\<not> is_digit (CHR 9)" "\<not> is_digit (CHR 13)" "\<not> is_digit (CHR 10)"
    "\<not> is_digit (CHR '']'')" "\<not> is_digit (CHR ''{'')" "\<not> is_digit (CHR ''['')" "\<not> is_digit (CHR 0x22)"
    "\<not> is_digit (CHR ''t'')" "\<not> is_digit (CHR ''f'')" "\<not> is_digit (CHR ''n'')"
    by (simp_all add: is_digit_def)
  have "c = CHR ''-'' \<or> c = CHR ''0'' \<or> is_digit c" using assms by (simp add: num_start_def split: if_splits)
  with digit have other: "c \<notin> {CHR 32, CHR 9, CHR 13, CHR 10, CHR '']'', CHR ''{'', CHR ''['', CHR 0x22, CHR ''t'', CHR ''f'', CHR ''n''}"
    by fastforce
  then show "\<not> json_space c" "c \<noteq> CHR '']''" by (simp_all add: json_space_def)
  from other assms show "begin_value st c = Some (InNumber ns [c], st)" by (simp add: begin_value_def)
qed

lemma scan_number:
  assumes "json_number lit" "follows eof st cs"
  shows "scan eof BeginValue st (lit @ cs) = resume eof (value_read (JNum lit) st) cs"
proof -
  from assms(1) obtain c w ns ns' where lit: "lit = c # w" and start: "num_start c = Some ns"
    and run: "num_run ns w = Some ns'" and ends: "num_complete ns'"
    by (auto simp: json_number_def split: list.splits option.splits)
  show ?thesis
    using num_start_begins [OF start] scan_num_run [OF run] scan_number_end [OF ends assms(2)]
    by (simp add: lit start)
qed

lemma scan_literals:
  "scan eof BeginValue st (''null'' @ cs) = resume eof (value_read JNull st) cs"
  "scan eof BeginValue st (''true'' @ cs) = resume eof (value_read (JBool True) st) cs"
  "scan eof BeginValue st (''false'' @ cs) = resume eof (value_read (JBool False) st) cs"
  by (simp_all add: json_space_def begin_value_def resume_def split: prod.split)

lemma scan_string:
  "scan eof BeginValue st (json_quote s @ cs) = resume eof (value_read (JStr (utf8_fix s)) st) cs"
  using scan_string_literal [of eof False st s cs]
  by (simp add: json_quote_def json_space_def begin_value_def)

text \<open>The first byte of a text is neither a space nor a closing bracket.\<close>

lemma json_Marshal_starts:
  assumes "json_fits n j"
  obtains c w where "json_Marshal j = c # w" "\<not> json_space c" "c \<noteq> CHR '']''"
proof (cases j)
  case (JNum lit)
  with assms obtain c w ns where "lit = c # w" "num_start c = Some ns"
    by (auto simp: json_number_def split: list.splits option.splits)
  with num_start_begins [of c ns] show thesis using that by (simp add: JNum)
next
  case (JBool b)
  then show thesis using that by (cases b) (auto simp: json_space_def)
qed (use that in \<open>auto simp: json_space_def json_quote_def\<close>)

lemma scan_first_element:
  assumes "json_fits n j"
  shows "scan eof BeginElement st (json_Marshal j @ cs) = scan eof BeginValue st (json_Marshal j @ cs)"
proof -
  obtain c w where "json_Marshal j = c # w" "\<not> json_space c" "c \<noteq> CHR '']''"
    by (rule json_Marshal_starts [OF assms])
  then show ?thesis by simp
qed

text \<open>The rest of the elements or members, once each is read.\<close>

lemma comma_sep_Cons: "comma_sep (s # ss) = s @ (if ss = [] then [] else CHR '','' # comma_sep ss)"
  by (cases ss) simp_all

lemma scan_elements:
  assumes "\<And>j acc cs. j \<in> set js \<Longrightarrow> follows eof (InArray acc # st) cs \<Longrightarrow>
      scan eof BeginValue (InArray acc # st) (json_Marshal j @ cs) = scan eof AfterValue (InArray (json_fix j # acc) # st) cs"
    and "js \<noteq> []"
  shows "scan eof BeginValue (InArray acc # st) (comma_sep (map json_Marshal js) @ CHR '']'' # cs) =
    resume eof (value_read (JArr (rev acc @ map json_fix js)) st) cs"
  using assms
proof (induction js arbitrary: acc)
  case (Cons j js)
  show ?case
  proof (cases "js = []")
    case True
    with Cons.prems(1) [of j acc "CHR '']'' # cs"] show ?thesis
      by (simp add: follows_def json_space_def resume_def split: prod.split)
  next
    case False
    from Cons.prems(1) [of j acc "CHR '','' # comma_sep (map json_Marshal js) @ CHR '']'' # cs"]
    have "scan eof BeginValue (InArray acc # st) (comma_sep (map json_Marshal (j # js)) @ CHR '']'' # cs) =
        scan eof BeginValue (InArray (json_fix j # acc) # st) (comma_sep (map json_Marshal js) @ CHR '']'' # cs)"
      using False by (simp add: comma_sep_Cons follows_def json_space_def)
    with Cons.IH [of "json_fix j # acc"] Cons.prems(1) False show ?thesis by simp
  qed
qed simp


definition member_text :: "string \<times> json \<Rightarrow> string" where
  "member_text kv = json_quote (fst kv) @ '':'' @ json_Marshal (snd kv)"

definition member_fix :: "string \<times> json \<Rightarrow> string \<times> json" where
  "member_fix kv = (utf8_fix (fst kv), json_fix (snd kv))"

lemma json_Marshal_object: "json_Marshal (JObj kvs) = ''{'' @ comma_sep (map member_text kvs) @ ''}''"
  by (simp add: member_text_def split_def cong: map_cong)

lemma scan_key:
  "p = BeginKey \<or> p = BeginFirstKey \<Longrightarrow>
     scan eof p (InObject acc k # st) (member_text kv @ cs) =
     scan eof BeginValue (InObject acc (utf8_fix (fst kv)) # st) (json_Marshal (snd kv) @ cs)"
  using scan_string_literal [of eof True "InObject acc k # st" "fst kv" "CHR '':'' # json_Marshal (snd kv) @ cs"]
  by (auto simp: member_text_def json_quote_def json_space_def resume_def)

lemma scan_members:
  assumes "\<And>kv acc k cs. kv \<in> set kvs \<Longrightarrow> follows eof (InObject acc k # st) cs \<Longrightarrow>
      scan eof BeginValue (InObject acc k # st) (json_Marshal (snd kv) @ cs) =
      scan eof AfterValue (InObject ((k, json_fix (snd kv)) # acc) k # st) cs"
    and "kvs \<noteq> []" "p = BeginKey \<or> p = BeginFirstKey"
  shows "scan eof p (InObject acc k # st) (comma_sep (map member_text kvs) @ CHR ''}'' # cs) =
    resume eof (value_read (JObj (rev acc @ map member_fix kvs)) st) cs"
  using assms
proof (induction kvs arbitrary: acc k p)
  case (Cons kv kvs)
  let ?k = "utf8_fix (fst kv)"
  show ?case
  proof (cases "kvs = []")
    case True
    with Cons.prems(1) [of kv acc ?k "CHR ''}'' # cs"] scan_key [OF Cons.prems(3)] show ?thesis
      by (simp add: follows_def json_space_def resume_def member_fix_def split: prod.split)
  next
    case False
    from Cons.prems(1) [of kv acc ?k "CHR '','' # comma_sep (map member_text kvs) @ CHR ''}'' # cs"] scan_key [OF Cons.prems(3)]
    have "scan eof p (InObject acc k # st) (comma_sep (map member_text (kv # kvs)) @ CHR ''}'' # cs) =
        scan eof BeginKey (InObject (member_fix kv # acc) ?k # st) (comma_sep (map member_text kvs) @ CHR ''}'' # cs)"
      using False by (simp add: comma_sep_Cons follows_def json_space_def member_fix_def)
    with Cons.IH [of BeginKey "member_fix kv # acc" ?k] Cons.prems(1) False show ?thesis by simp
  qed
qed simp

lemma scan_json_Marshal:
  assumes "json_fits n j" "n + length st \<le> maxNestingDepth" "follows eof st cs"
  shows "scan eof BeginValue st (json_Marshal j @ cs) = resume eof (value_read (json_fix j) st) cs"
  using assms
proof (induction j arbitrary: n st cs)
  case (JArr js)
  then have room: "length st < maxNestingDepth" "0 < n" by auto
  have push: "scan eof BeginValue st (json_Marshal (JArr js) @ cs) =
      scan eof BeginElement (InArray [] # st) (comma_sep (map json_Marshal js) @ CHR '']'' # cs)"
    using room by (simp add: begin_value_def push_def json_space_def)
  show ?case
  proof (cases "js = []")
    case True
    with push show ?thesis by (simp add: json_space_def resume_def split: prod.split)
  next
    case False
    have each: "scan eof BeginValue (InArray acc # st) (json_Marshal j @ cs) =
        scan eof AfterValue (InArray (json_fix j # acc) # st) cs"
      if "j \<in> set js" "follows eof (InArray acc # st) cs" for j acc cs
      using JArr.IH [OF that(1), of "n - 1" "InArray acc # st" cs] JArr.prems that room by (simp add: resume_def)
    obtain j rest where js: "js = j # rest" using False by (cases js) auto
    have "json_fits (n - 1) j" using JArr.prems(1) js by simp
    from scan_first_element [OF this] have
      "scan eof BeginElement (InArray [] # st) (comma_sep (map json_Marshal js) @ CHR '']'' # cs) =
       scan eof BeginValue (InArray [] # st) (comma_sep (map json_Marshal js) @ CHR '']'' # cs)"
      by (simp add: js comma_sep_Cons)
    with push scan_elements [where js = js and acc = "[]", OF each False] show ?thesis by simp
  qed
next
  case (JObj kvs)
  then have room: "length st < maxNestingDepth" "0 < n" by auto
  have push: "scan eof BeginValue st (json_Marshal (JObj kvs) @ cs) =
      scan eof BeginFirstKey (InObject [] [] # st) (comma_sep (map member_text kvs) @ CHR ''}'' # cs)"
    unfolding json_Marshal_object using room by (simp add: begin_value_def push_def json_space_def)
  show ?case
  proof (cases "kvs = []")
    case True
    with push show ?thesis by (simp add: json_space_def resume_def split: prod.split)
  next
    case False
    have each: "scan eof BeginValue (InObject acc k # st) (json_Marshal (snd kv) @ cs) =
        scan eof AfterValue (InObject ((k, json_fix (snd kv)) # acc) k # st) cs"
      if "kv \<in> set kvs" "follows eof (InObject acc k # st) cs" for kv acc k cs
      using JObj.IH [OF that(1), of "snd kv" "n - 1" "InObject acc k # st" cs] JObj.prems that room
      by (simp add: resume_def snds.intros)
    with push scan_members [where kvs = kvs and acc = "[]" and p = BeginFirstKey, OF each False] show ?thesis
      by (simp add: member_fix_def [abs_def])
  qed
next
  case (JNum lit)
  then show ?case using scan_number [of lit eof st cs] by simp
next
  case (JBool b)
  then show ?case using scan_literals(2,3) [of eof st cs] by (cases b) simp_all
next
  case (JStr s)
  then show ?case using scan_string [of eof st s cs] by simp
next
  case JNull
  then show ?case using scan_literals(1) [of eof st cs] by simp
qed

lemma json_Parse_fix:
  assumes "json_fits maxNestingDepth j"
  shows "json_Parse (json_Marshal j) = Some (json_fix j)"
  using scan_json_Marshal [OF assms, of "[]" True "[]"]
  by (simp add: json_Parse_def json_Scan_def follows_def resume_def)


section \<open>Lemmas: what is read\<close>

text \<open>A tree that was read: its strings are UTF-8, its numbers literals, and its depth is bounded.\<close>

fun json_utf8 :: "json \<Rightarrow> bool" where
  "json_utf8 (JStr s) \<longleftrightarrow> utf8_valid s"
| "json_utf8 (JArr js) \<longleftrightarrow> (\<forall>j \<in> set js. json_utf8 j)"
| "json_utf8 (JObj kvs) \<longleftrightarrow> (\<forall>kv \<in> set kvs. utf8_valid (fst kv) \<and> json_utf8 (snd kv))"
| "json_utf8 j \<longleftrightarrow> True"

lemma json_fix_id: "json_utf8 j \<Longrightarrow> json_fix j = j"
proof (induction j)
  case (JArr js)
  then show ?case by (simp add: map_idI)
next
  case (JObj kvs)
  have "map (\<lambda>kv. (utf8_fix (fst kv), json_fix (snd kv))) kvs = kvs"
  proof (rule map_idI)
    fix kv assume kv: "kv \<in> set kvs"
    then have "json_fix (snd kv) = snd kv" using JObj.IH [OF kv, of "snd kv"] JObj.prems by (simp add: snds.intros)
    with kv JObj.prems show "(utf8_fix (fst kv), json_fix (snd kv)) = kv" by (simp add: utf8_fix_valid)
  qed
  then show ?case by simp
qed (simp_all add: utf8_fix_valid)

definition json_clean :: "nat \<Rightarrow> json \<Rightarrow> bool" where
  "json_clean n j \<longleftrightarrow> json_fits n j \<and> json_utf8 j"

lemma json_clean_simps:
  "json_clean n (JArr js) \<longleftrightarrow> 0 < n \<and> (\<forall>j \<in> set js. json_clean (n - 1) j)"
  "json_clean n (JObj kvs) \<longleftrightarrow> 0 < n \<and> (\<forall>kv \<in> set kvs. utf8_valid (fst kv) \<and> json_clean (n - 1) (snd kv))"
  "json_clean n (JStr s) \<longleftrightarrow> utf8_valid s" "json_clean n (JNum lit) \<longleftrightarrow> json_number lit"
  "json_clean n JNull" "json_clean n (JBool b)"
  by (auto simp: json_clean_def)

lemma unquote_rune_ok: "s \<noteq> [] \<Longrightarrow> rune_ok (fst (unquote_rune s))"
  by (auto simp: unquote_rune_def Let_def fix_rune_ok replacement_ok encode_rune_ok split: option.split)
    (auto simp: rune_ok_def lead_def simple_escape_def)

lemma unquote_valid: "utf8_valid (unquote raw)"
proof -
  have "\<forall>r \<in> set (unquote_runes raw). rune_ok r"
  proof (induction raw rule: unquote_runes.induct)
    case (2 c cs)
    obtain r k where r: "unquote_rune (c # cs) = (r, k)" by (cases "unquote_rune (c # cs)")
    from unquote_rune_ok [of "c # cs"] r "2.IH" [OF r [symmetric] refl] show ?case by simp
  qed simp
  then show ?thesis unfolding unquote_def by (rule utf8_valid_concat)
qed

text \<open>The stack: what is open is not too deep, and what it holds fits where it is.\<close>

fun stack_ok :: "frame list \<Rightarrow> bool" where
  "stack_ok [] \<longleftrightarrow> True"
| "stack_ok (InArray js # st) \<longleftrightarrow> stack_ok st \<and> length st < maxNestingDepth \<and>
     (\<forall>j \<in> set js. json_clean (maxNestingDepth - Suc (length st)) j)"
| "stack_ok (InObject kvs k # st) \<longleftrightarrow> stack_ok st \<and> length st < maxNestingDepth \<and> utf8_valid k \<and>
     (\<forall>kv \<in> set kvs. utf8_valid (fst kv) \<and> json_clean (maxNestingDepth - Suc (length st)) (snd kv))"

fun place_ok :: "place \<Rightarrow> frame list \<Rightarrow> bool" where
  "place_ok (Complete j) st \<longleftrightarrow> st = [] \<and> json_clean maxNestingDepth j"
| "place_ok (InLiteral todo j) st \<longleftrightarrow> j = JNull \<or> (\<exists>b. j = JBool b)"
| "place_ok (InNumber ns raw) st \<longleftrightarrow>
     (\<exists>c w n. rev raw = c # w \<and> num_start c = Some n \<and> num_run n w = Some ns)"
| "place_ok BeginElement st \<longleftrightarrow> st \<noteq> []"
| "place_ok BeginFirstKey st \<longleftrightarrow> st \<noteq> []"
| "place_ok p st \<longleftrightarrow> True"

lemma stack_ok_tl: "stack_ok (f # st) \<Longrightarrow> stack_ok st \<and> length st < maxNestingDepth"
  by (cases f) auto

lemma value_read_ok:
  "json_clean (maxNestingDepth - length st) j \<Longrightarrow> stack_ok st \<Longrightarrow> value_read j st = (p, st') \<Longrightarrow>
     place_ok p st' \<and> stack_ok st'"
  by (cases "(j, st)" rule: value_read.cases) auto

lemma push_ok:
  "stack_ok st \<Longrightarrow> push p f st = Some (p', st') \<Longrightarrow> (\<And>st. st \<noteq> [] \<Longrightarrow> place_ok p st) \<Longrightarrow>
     f = InArray [] \<or> f = InObject [] [] \<Longrightarrow> place_ok p' st' \<and> stack_ok st'"
  by (auto simp: push_def utf8_valid_def split: if_splits)

lemma num_run_snoc: "num_run n w = Some ns \<Longrightarrow> num_next ns c = Some ns' \<Longrightarrow> num_run n (w @ [c]) = Some ns'"
  by (induction n w rule: num_run.induct) (auto split: option.splits)

lemma number_read:
  "place_ok (InNumber ns raw) st \<Longrightarrow> num_complete ns \<Longrightarrow> json_number (rev raw)"
  by (auto simp: json_number_def)

lemma begin_value_ok:
  assumes "begin_value st c = Some (p, st')" "stack_ok st"
  shows "place_ok p st' \<and> stack_ok st'"
  using assms push_ok [of st BeginFirstKey "InObject [] []" p st'] push_ok [of st BeginElement "InArray []" p st']
  by (auto simp: begin_value_def split: if_splits)

lemma after_value_ok:
  assumes "after_value st c = Some (p, st')" "stack_ok st"
  shows "place_ok p st' \<and> stack_ok st'"
proof (cases "(st, c)" rule: after_value.cases)
  case (1 js rest c)
  with assms(2) have "json_clean (maxNestingDepth - length rest) (JArr (rev js))" by (simp add: json_clean_simps)
  from value_read_ok [OF this] 1 assms show ?thesis by (auto split: if_splits)
next
  case (2 kvs k rest c)
  with assms(2) have "json_clean (maxNestingDepth - length rest) (JObj (rev kvs))" by (simp add: json_clean_simps)
  from value_read_ok [OF this] 2 assms show ?thesis by (auto split: if_splits)
qed (use assms in auto)


lemma string_read_ok:
  "utf8_valid s \<Longrightarrow> stack_ok st \<Longrightarrow> string_read k s st = (p, st') \<Longrightarrow> place_ok p st' \<and> stack_ok st'"
  by (cases "(k, s, st)" rule: string_read.cases) (auto dest: value_read_ok [rotated 2] simp: json_clean_simps)

lemma scan_step_ok:
  assumes "scan_step p st c = Some (p', st')" "place_ok p st" "stack_ok st"
  shows "place_ok p' st' \<and> stack_ok st'"
proof (cases p)
  case BeginValue
  with assms show ?thesis using begin_value_ok [of st c p' st'] by (auto split: if_splits)
next
  case BeginElement
  with assms(2) obtain f rest where st: "st = f # rest" by (cases st) auto
  with assms(3) have "json_clean (maxNestingDepth - length rest) (JArr [])" "stack_ok rest"
    using stack_ok_tl [of f rest] by (auto simp: json_clean_simps)
  with BeginElement assms show ?thesis
    using begin_value_ok [of st c p' st'] value_read_ok [of rest "JArr []" p' st'] by (auto simp: st split: if_splits)
next
  case BeginFirstKey
  with assms(2) obtain f rest where st: "st = f # rest" by (cases st) auto
  with assms(3) have "json_clean (maxNestingDepth - length rest) (JObj [])" "stack_ok rest"
    using stack_ok_tl [of f rest] by (auto simp: json_clean_simps)
  with BeginFirstKey assms show ?thesis
    using value_read_ok [of rest "JObj []" p' st'] by (auto simp: st split: if_splits)
next
  case AfterValue
  with assms show ?thesis using after_value_ok [of st c p' st'] by simp
next
  case (InLiteral todo j)
  with assms(2) have "json_clean (maxNestingDepth - length st) j" by (auto simp: json_clean_simps)
  with InLiteral assms show ?thesis using value_read_ok [of st j p' st'] by (auto split: if_splits)
next
  case (InNumber ns raw)
  show ?thesis
  proof (cases "num_next ns c")
    case None
    with assms(1) have done_here: "num_complete ns" and after: "after_value (snd (value_read (JNum (rev raw)) st)) c = Some (p', st')"
      by (auto simp: InNumber split: if_splits)
    from number_read [OF _ done_here] assms(2) have "json_clean (maxNestingDepth - length st) (JNum (rev raw))"
      by (simp add: InNumber json_clean_simps)
    from value_read_ok [OF this assms(3) surjective_pairing] after_value_ok [OF after] show ?thesis by simp
  next
    case (Some ns')
    with assms show ?thesis by (auto simp: InNumber intro: num_run_snoc)
  qed
next
  case (InString is_key ss raw)
  with assms show ?thesis
    using string_read_ok [OF unquote_valid, of st is_key "rev raw" p' st'] by (auto split: if_splits)
qed (use assms in \<open>auto split: if_splits\<close>)

lemma ends_here_ok:
  "ends_here p st cs = Some j \<Longrightarrow> place_ok p st \<Longrightarrow> json_clean maxNestingDepth j"
  by (cases "(p, st, cs)" rule: ends_here.cases) (auto simp: json_clean_simps json_number_def split: if_splits)

lemma scan_ok:
  "scan eof p st cs = ScanValue j rest \<Longrightarrow> place_ok p st \<Longrightarrow> stack_ok st \<Longrightarrow> json_clean maxNestingDepth j"
proof (induction eof p st cs rule: scan.induct)
  case (1 eof p st)
  then show ?case using ends_here_ok [of p st "[]"] by (auto split: option.splits if_splits)
next
  case (2 eof p st c cs)
  show ?case
  proof (cases "ends_here p st (c # cs)")
    case None
    with "2.prems"(1) obtain p' st' where step: "scan_step p st c = Some (p', st')"
      by (auto split: option.splits)
    with None "2.prems" "2.IH" [OF None step refl] scan_step_ok [OF step] show ?thesis by simp
  next
    case (Some j')
    with "2.prems" ends_here_ok [OF Some] show ?thesis by simp
  qed
qed

lemma json_Scan_clean: "json_Scan eof s = ScanValue j rest \<Longrightarrow> json_clean maxNestingDepth j"
  unfolding json_Scan_def by (erule scan_ok) simp_all

lemma json_Parse_clean: "json_Parse s = Some j \<Longrightarrow> json_clean maxNestingDepth j"
  by (auto simp: json_Parse_def intro: json_Scan_clean split: scanned.splits if_splits)

text \<open>
  The text \<open>Marshal\<close> writes for a tree parses to that tree, its strings made UTF-8; and whatever
  bytes arrive, the tree parsed from them is written and read again unchanged.
\<close>

lemma json_Scan_Marshal: "json_clean maxNestingDepth j \<Longrightarrow> json_Scan True (json_Marshal j) = ScanValue j []"
  using scan_json_Marshal [of maxNestingDepth j "[]" True "[]"] json_fix_id [of j]
  by (simp add: json_clean_def json_Scan_def follows_def resume_def)

lemma json_Parse_Marshal: "json_clean maxNestingDepth j \<Longrightarrow> json_Parse (json_Marshal j) = Some j"
  using json_Parse_fix [of j] json_fix_id [of j] by (simp add: json_clean_def)

lemma utf8_ascii: "list_all (\<lambda>c. (of_char c :: nat) < 128) s \<Longrightarrow> utf8_valid s"
proof -
  have "runes s = map (\<lambda>c. [c]) s" if "list_all (\<lambda>c. (of_char c :: nat) < 128) s"
    using that by (induction s) (simp_all add: lead_def)
  moreover assume "list_all (\<lambda>c. (of_char c :: nat) < 128) s"
  ultimately show ?thesis by (auto simp: utf8_valid_def rune_ok_def lead_def list_all_iff)
qed

lemma json_Parse_again: "json_Parse s = Some j \<Longrightarrow> json_Parse (json_Marshal j) = Some j"
  by (rule json_Parse_Marshal [OF json_Parse_clean])

end
