(* ===== verification/World.thy ===== *)
theory World imports Schema Json begin

text \<open>
  The state of a running process and everything outside it. Postgres executes the
  statements of the source; Redis, asynq, the push services, the clock and the random
  source are oracles: functions from what has been asked of them so far (a log the
  world keeps) to their next answer, about which nothing is assumed. A theorem that
  holds for every world therefore holds for every behaviour of these services, faults
  included.
\<close>

section \<open>The functions of third-party code\<close>

text \<open>
  Pure functions the source calls but does not define: UUID text, AES-GCM and the
  hashes, the URL parser, key parsers. Properties that need one of their documented
  laws name it as a hypothesis.
\<close>

record ext =
  uuid_String :: "uuid \<Rightarrow> string"
  uuid_Parse :: "string \<Rightarrow> uuid option"
  gcm_Seal :: "string \<Rightarrow> string \<Rightarrow> string \<Rightarrow> string"
  gcm_Open :: "string \<Rightarrow> string \<Rightarrow> string \<Rightarrow> string option"
  sha256_Sum256 :: "string \<Rightarrow> string"
  argon2_IDKey :: "string \<Rightarrow> string \<Rightarrow> nat \<Rightarrow> nat \<Rightarrow> nat \<Rightarrow> nat \<Rightarrow> string"
  jwt_Config :: "string \<Rightarrow> goerr + string"
  x509_KeyPair :: "string \<Rightarrow> string \<Rightarrow> goerr + string"
  p8_AuthKey :: "string \<Rightarrow> goerr + string"
  url_Parse :: "string \<Rightarrow> goerr option"

text \<open>The documented laws: the text of a UUID parses back to it, and to nothing else.\<close>

definition uuid_codec :: "ext \<Rightarrow> bool" where
  "uuid_codec E \<longleftrightarrow> (\<forall>u. uuid_Parse E (uuid_String E u) = Some u)"

lemma uuid_String_inj: "uuid_codec E \<Longrightarrow> uuid_String E u = uuid_String E v \<longleftrightarrow> u = v"
  unfolding uuid_codec_def by (metis option.inject)

section \<open>The services\<close>

text \<open>
  The server's treatment of one statement: it is served; it is refused (connection
  error, nothing executed); or it is executed and the answer is lost on the way back.
  \<open>se_now\<close> is \<open>now()\<close> and \<open>se_uuid\<close> the value of \<open>gen_random_uuid()\<close> in it.
\<close>

datatype fault = Served | Refused string | Dropped string

record stmt_env =
  se_fault :: fault
  se_now :: instant
  se_uuid :: uuid

text \<open>A call of \<open>asynq.Client.Enqueue\<close> with the options the source passes.\<close>

record enq_call =
  e_Type :: string
  e_Payload :: json
  e_Queue :: string
  e_MaxRetry :: nat
  e_TaskID :: "string option"

datatype enq_result = Enqueued | EnqueueFailed goerr

text \<open>A call of \<open>redis_rate.Limiter.Allow\<close>: the key and the per-second ceiling.\<close>

record limit_call =
  l_Key :: string
  l_Rate :: int

datatype limit_result = LimitError goerr | LimitResult (l_Allowed: int) (l_RetryAfter: duration)

record http_req =
  hr_Method :: string
  hr_URL :: string
  hr_Headers :: "(string \<times> string) list"
  hr_Body :: string

record http_resp =
  hs_StatusCode :: int
  hs_Headers :: "(string \<times> string) list"
  hs_Body :: string

record apns_client =
  ac_Key :: string
  ac_KeyID :: string
  ac_TeamID :: string
  ac_Production :: bool

record apns_push =
  ap_Client :: apns_client
  ap_DeviceToken :: string
  ap_Topic :: string
  ap_Payload :: json

record apns_resp =
  ar_StatusCode :: int
  ar_Reason :: string
  ar_ApnsID :: string

record hms_token =
  ht_accessToken :: string
  ht_expiresAt :: instant

section \<open>The world\<close>

text \<open>
  \<open>w_db\<close> is what is committed, \<open>w_tx\<close> the transaction that is open: what its statements
  so far do to the tables (\<open>None\<close> without one).
\<close>

record world =
  w_db :: tables
  w_tx :: "(tables \<Rightarrow> tables) option"
  w_stmts :: nat
  w_server :: "nat \<Rightarrow> stmt_env"
  w_enqs :: "(enq_call \<times> enq_result) list"
  w_asynq :: "(enq_call \<times> enq_result) list \<Rightarrow> enq_call \<Rightarrow> enq_result"
  w_limits :: "limit_call list"
  w_redis :: "limit_call list \<Rightarrow> limit_call \<Rightarrow> limit_result"
  w_https :: "http_req list"
  w_net :: "http_req list \<Rightarrow> http_req \<Rightarrow> goerr + http_resp"
  w_oauths :: "string list"
  w_oauth :: "string list \<Rightarrow> string \<Rightarrow> goerr + string"
  w_pushes :: "apns_push list"
  w_apns :: "apns_push list \<Rightarrow> apns_push \<Rightarrow> goerr + apns_resp"
  w_reads :: nat
  w_clock :: "nat \<Rightarrow> instant"
  w_draws :: nat
  w_entropy :: "nat \<Rightarrow> (nat \<Rightarrow> char) option"
  w_fcm_sources :: "string \<Rightarrow> string option"
  w_hms_tokens :: "string \<Rightarrow> hms_token option"
  w_apns_clients :: "string \<Rightarrow> (apns_client \<times> string) option"

section \<open>Executing a statement\<close>

text \<open>
  A statement maps \<open>now()\<close>, the UUID it would generate and the database to its result
  and the new database. One that fails leaves the database as it was; so does a refused
  one.
\<close>

type_synonym 'a statement = "instant \<Rightarrow> uuid \<Rightarrow> tables \<Rightarrow> (goerr + 'a) \<times> tables"

definition exec :: "'a statement \<Rightarrow> (world, goerr + 'a) state" where
  "exec stmt = State (\<lambda>w.
     let ev = w_server w (w_stmts w);
         w' = w\<lparr>w_stmts := Suc (w_stmts w)\<rparr>;
         out = stmt (se_now ev) (se_uuid ev) (w_db w)
     in case se_fault ev of
          Served \<Rightarrow> (fst out, w'\<lparr>w_db := snd out\<rparr>)
        | Refused msg \<Rightarrow> (Inl (ErrText msg), w')
        | Dropped msg \<Rightarrow> (Inl (ErrText msg), w'\<lparr>w_db := snd out\<rparr>))"

text \<open>The environment the next statement meets.\<close>

definition next_env :: "world \<Rightarrow> stmt_env" where
  "next_env w = w_server w (w_stmts w)"

definition run_stmt :: "'a statement \<Rightarrow> world \<Rightarrow> (goerr + 'a) \<times> tables" where
  "run_stmt stmt w = stmt (se_now (next_env w)) (se_uuid (next_env w)) (w_db w)"

lemma exec_value:
  "value_of (exec stmt) w =
     (case se_fault (next_env w) of
        Served \<Rightarrow> fst (run_stmt stmt w)
      | Refused msg \<Rightarrow> Inl (ErrText msg)
      | Dropped msg \<Rightarrow> Inl (ErrText msg))"
  by (simp add: exec_def Let_def next_env_def run_stmt_def split: fault.split)

lemma exec_final:
  "final (exec stmt) w = w\<lparr>w_stmts := Suc (w_stmts w),
     w_db := (case se_fault (next_env w) of Refused msg \<Rightarrow> w_db w | _ \<Rightarrow> snd (run_stmt stmt w))\<rparr>"
  by (simp add: exec_def Let_def next_env_def run_stmt_def split: fault.split)

lemma exec_Inr:
  assumes "value_of (exec stmt) w = Inr x"
  shows "fst (run_stmt stmt w) = Inr x"
    and "final (exec stmt) w = w\<lparr>w_stmts := Suc (w_stmts w), w_db := snd (run_stmt stmt w)\<rparr>"
  using assms by (simp_all add: exec_value exec_final split: fault.splits)

lemma exec_db_cases:
  obtains "w_db (final (exec stmt) w) = w_db w"
  | "w_db (final (exec stmt) w) = snd (run_stmt stmt w)"
  by (cases "se_fault (next_env w)") (simp_all add: exec_final)

text \<open>A read: the database is unchanged, whatever the server does.\<close>

definition reads :: "(tables \<Rightarrow> goerr + 'a) \<Rightarrow> 'a statement" where
  "reads f = (\<lambda>now u t. (f t, t))"

lemma reads_simps [simp]: "snd (reads f now u t) = t" "fst (reads f now u t) = f t"
  by (simp_all add: reads_def)

lemma run_stmt_reads [simp]: "run_stmt (reads f) w = (f (w_db w), w_db w)"
  by (simp add: run_stmt_def reads_def)

lemma exec_reads_final: "final (exec (reads f)) w = w\<lparr>w_stmts := Suc (w_stmts w)\<rparr>"
  by (simp add: exec_final split: fault.split)

text \<open>\<open>Queries.X(...) error\<close> methods return no row.\<close>

definition exec_only :: "tables \<Rightarrow> (goerr + unit) \<times> tables" where
  "exec_only t = (Inr (), t)"

text \<open>\<open>QueryRow(...).Scan\<close>: the first row, or \<open>pgx.ErrNoRows\<close>.\<close>

fun scan_row :: "'r option \<Rightarrow> goerr + 'r" where
  "scan_row None = Inl ErrNoRows"
| "scan_row (Some r) = Inr r"

lemma scan_row_Inr [simp]: "scan_row x = Inr r \<longleftrightarrow> x = Some r"
  by (cases x) auto

lemma scan_row_Inl [simp]: "scan_row x = Inl e \<longleftrightarrow> x = None \<and> e = ErrNoRows"
  by (cases x) auto

text \<open>\<open>limit n offset m\<close> of an already ordered result; both are \<open>int4\<close>.\<close>

definition page :: "32 word \<Rightarrow> 32 word \<Rightarrow> 'r list \<Rightarrow> goerr + 'r list" where
  "page off lim rows =
     (if sint lim < 0 \<or> sint off < 0 then Inl bad_limit
      else Inr (take (nat (sint lim)) (drop (nat (sint off)) rows)))"

text \<open>\<open>order by created_at desc\<close> (stable for equal keys).\<close>

definition newest_first :: "('r \<Rightarrow> instant) \<Rightarrow> 'r list \<Rightarrow> 'r list" where
  "newest_first created rows = sort_key (\<lambda>r. - created r) rows"

section \<open>Transactions\<close>

text \<open>
  \<open>postgres.Queries\<close> (\<open>db.go\<close>) wraps the pool or, after \<open>WithTx\<close>, a transaction. A statement
  on the pool sees and changes the committed tables. One on the transaction sees them with the
  transaction's own changes on top (read committed) and changes nothing that is committed:
  what it does is kept in \<open>w_tx\<close> until the commit. On a closed transaction it is refused.
  (Postgres gives all the statements of a transaction one \<open>now()\<close>; here each may have its own,
  which includes that.)
\<close>

datatype Queries = Pool | Tx

definition WithTx :: "Queries \<Rightarrow> Queries" where
  "WithTx q = Tx"

definition ErrTxClosed :: goerr where
  "ErrTxClosed = ErrText ''tx is closed''"

text \<open>The world as the statements of the open transaction see it.\<close>

definition inside_tx :: "(tables \<Rightarrow> tables) \<Rightarrow> tables \<Rightarrow> world \<Rightarrow> world" where
  "inside_tx redo t w = w\<lparr>w_db := redo t, w_tx := None\<rparr>"

fun on_queries :: "Queries \<Rightarrow> (world, goerr + 'a) state \<Rightarrow> (world, goerr + 'a) state" where
  "on_queries Pool method = method"
| "on_queries Tx method = State (\<lambda>w. case w_tx w of
      None \<Rightarrow> (Inl ErrTxClosed, w)
    | Some redo \<Rightarrow>
        (value_of method (inside_tx redo (w_db w) w),
         (final method (inside_tx redo (w_db w) w))\<lparr>w_db := w_db w,
            w_tx := Some (\<lambda>t. w_db (final method (inside_tx redo t w)))\<rparr>))"

text \<open>
  \<open>Begin\<close> opens a transaction that has done nothing yet; one that fails opens none (pgx closes
  the connection). \<open>Commit\<close> makes its changes the committed ones, also when only the answer is
  lost; a commit that does not reach the server ends the transaction without them.
  \<open>Rollback\<close> ends it without them, whatever the server answers, and does nothing once it is
  closed (\<open>ErrTxClosed\<close>).
\<close>

definition tx_Begin :: "(world, goerr + unit) state" where
  "tx_Begin = State (\<lambda>w.
     let w' = w\<lparr>w_stmts := Suc (w_stmts w)\<rparr> in
     case se_fault (next_env w) of
       Served \<Rightarrow> (Inr (), w'\<lparr>w_tx := Some (\<lambda>t. t)\<rparr>)
     | Refused msg \<Rightarrow> (Inl (ErrText msg), w')
     | Dropped msg \<Rightarrow> (Inl (ErrText msg), w'))"

definition tx_Commit :: "(world, goerr + unit) state" where
  "tx_Commit = State (\<lambda>w. case w_tx w of
      None \<Rightarrow> (Inl ErrTxClosed, w)
    | Some redo \<Rightarrow>
        let w' = w\<lparr>w_stmts := Suc (w_stmts w), w_tx := None\<rparr> in
        case se_fault (next_env w) of
          Served \<Rightarrow> (Inr (), w'\<lparr>w_db := redo (w_db w)\<rparr>)
        | Refused msg \<Rightarrow> (Inl (ErrText msg), w')
        | Dropped msg \<Rightarrow> (Inl (ErrText msg), w'\<lparr>w_db := redo (w_db w)\<rparr>))"

definition tx_Rollback :: "(world, goerr option) state" where
  "tx_Rollback = State (\<lambda>w. case w_tx w of
      None \<Rightarrow> (Some ErrTxClosed, w)
    | Some redo \<Rightarrow>
        (case se_fault (next_env w) of
           Served \<Rightarrow> None | Refused msg \<Rightarrow> Some (ErrText msg) | Dropped msg \<Rightarrow> Some (ErrText msg),
         w\<lparr>w_stmts := Suc (w_stmts w), w_tx := None\<rparr>))"

text \<open>The world as the open transaction sees it.\<close>

definition tx_view :: "world \<Rightarrow> world" where
  "tx_view w = inside_tx (the (w_tx w)) (w_db w) w"

text \<open>
  A computation on the transaction does what its counterpart on the pool would do in the
  transaction's view, and nothing of it is committed.
\<close>

definition in_tx :: "(world, 'a) state \<Rightarrow> (world, 'a) state \<Rightarrow> bool" where
  "in_tx m m' \<longleftrightarrow> (\<forall>w. w_tx w \<noteq> None \<longrightarrow> value_of m w = value_of m' (tx_view w) \<and>
     tx_view (final m w) = final m' (tx_view w) \<and> w_db (final m w) = w_db w \<and> w_tx (final m w) \<noteq> None \<and>
     w_server (final m w) = w_server w)"

lemma in_txD:
  assumes "in_tx m m'" and "w_tx w \<noteq> None"
  shows "value_of m w = value_of m' (tx_view w)" "tx_view (final m w) = final m' (tx_view w)"
    "w_db (final m w) = w_db w" "w_tx (final m w) \<noteq> None" "w_server (final m w) = w_server w"
  using assms unfolding in_tx_def by blast+

lemma in_tx_ret: "in_tx (ret x) (ret x)"
  by (simp add: in_tx_def)

lemma in_tx_attempt:
  assumes "in_tx m m'" and "\<And>x. in_tx (k x) (k' x)"
  shows "in_tx (attempt wrap m k) (attempt wrap m' k')"
  using assms unfolding in_tx_def by (auto simp: attempt_simps split: sum.split)

lemma in_tx_if: "in_tx m m' \<Longrightarrow> in_tx k k' \<Longrightarrow> in_tx (if b then m else k) (if b then m' else k')"
  by simp

lemma in_tx_on_queries: "in_tx (on_queries Tx (exec stmt)) (on_queries Pool (exec stmt))"
  by (auto simp: in_tx_def tx_view_def inside_tx_def exec_value exec_final next_env_def run_stmt_def
      split: fault.split)

lemmas in_tx_rules = in_tx_ret in_tx_attempt in_tx_if in_tx_on_queries

section \<open>The other services\<close>

definition asynq_Enqueue :: "enq_call \<Rightarrow> (world, goerr option) state" where
  "asynq_Enqueue c = State (\<lambda>w.
     let r = w_asynq w (w_enqs w) c
     in (case r of Enqueued \<Rightarrow> None | EnqueueFailed e \<Rightarrow> Some e, w\<lparr>w_enqs := w_enqs w @ [(c, r)]\<rparr>))"

definition redis_Allow :: "limit_call \<Rightarrow> (world, limit_result) state" where
  "redis_Allow c = State (\<lambda>w. (w_redis w (w_limits w) c, w\<lparr>w_limits := w_limits w @ [c]\<rparr>))"

definition http_Do :: "http_req \<Rightarrow> (world, goerr + http_resp) state" where
  "http_Do q = State (\<lambda>w. (w_net w (w_https w) q, w\<lparr>w_https := w_https w @ [q]\<rparr>))"

definition oauth_Token :: "string \<Rightarrow> (world, goerr + string) state" where
  "oauth_Token cfg = State (\<lambda>w. (w_oauth w (w_oauths w) cfg, w\<lparr>w_oauths := w_oauths w @ [cfg]\<rparr>))"

definition apns_Push :: "apns_push \<Rightarrow> (world, goerr + apns_resp) state" where
  "apns_Push p = State (\<lambda>w. (w_apns w (w_pushes w) p, w\<lparr>w_pushes := w_pushes w @ [p]\<rparr>))"

definition time_Now :: "(world, instant) state" where
  "time_Now = State (\<lambda>w. (w_clock w (w_reads w), w\<lparr>w_reads := Suc (w_reads w)\<rparr>))"

text \<open>\<open>rand.Read\<close> / \<open>io.ReadFull(rand.Reader, b)\<close> for a buffer of \<open>n\<close> bytes.\<close>

definition rand_Read :: "nat \<Rightarrow> (world, goerr + string) state" where
  "rand_Read n = State (\<lambda>w.
     (case w_entropy w (w_draws w) of
        None \<Rightarrow> Inl (ErrText ''crypto/rand: read failed'')
      | Some bs \<Rightarrow> Inr (map bs [0..<n]),
      w\<lparr>w_draws := Suc (w_draws w)\<rparr>))"

lemma rand_Read_length: "value_of (rand_Read n) w = Inr bs \<Longrightarrow> length bs = n"
  by (auto simp: rand_Read_def split: option.splits)

text \<open>What each service call leaves alone.\<close>

lemma service_db [frame_simps]:
  "w_db (final (asynq_Enqueue c) w) = w_db w"
  "w_db (final (redis_Allow l) w) = w_db w"
  "w_db (final (http_Do q) w) = w_db w"
  "w_db (final (oauth_Token cfg) w) = w_db w"
  "w_db (final (apns_Push p) w) = w_db w"
  "w_db (final time_Now w) = w_db w"
  "w_db (final (rand_Read n) w) = w_db w"
  by (simp_all add: asynq_Enqueue_def redis_Allow_def http_Do_def oauth_Token_def apns_Push_def
      time_Now_def rand_Read_def Let_def)

lemma service_enqs [frame_simps]:
  "w_enqs (final (exec s) w) = w_enqs w"
  "w_enqs (final (redis_Allow l) w) = w_enqs w"
  "w_enqs (final (http_Do q) w) = w_enqs w"
  "w_enqs (final (oauth_Token cfg) w) = w_enqs w"
  "w_enqs (final (apns_Push p) w) = w_enqs w"
  "w_enqs (final time_Now w) = w_enqs w"
  "w_enqs (final (rand_Read n) w) = w_enqs w"
  by (simp_all add: exec_final redis_Allow_def http_Do_def oauth_Token_def apns_Push_def
      time_Now_def rand_Read_def)

lemma service_wire [frame_simps]:
  "w_https (final (exec s) w) = w_https w" "w_pushes (final (exec s) w) = w_pushes w"
  "w_https (final (redis_Allow l) w) = w_https w" "w_pushes (final (redis_Allow l) w) = w_pushes w"
  "w_https (final (asynq_Enqueue c) w) = w_https w" "w_pushes (final (asynq_Enqueue c) w) = w_pushes w"
  by (simp_all add: exec_final redis_Allow_def asynq_Enqueue_def Let_def)

text \<open>The calls asynq accepted, oldest first.\<close>

definition accepted :: "world \<Rightarrow> enq_call list" where
  "accepted w = map fst (filter (\<lambda>(c, r). r = Enqueued) (w_enqs w))"

section \<open>Sides of the world\<close>

text \<open>What the store and the task queue see; the push services and Redis leave it alone.\<close>

definition store_side where
  "store_side w = (w_db w, w_stmts w, w_server w, w_enqs w, w_asynq w)"

lemma service_store_side [frame_simps]:
  "store_side (final (redis_Allow l) w) = store_side w"
  "store_side (final (http_Do q) w) = store_side w"
  "store_side (final (oauth_Token cfg) w) = store_side w"
  "store_side (final (apns_Push p) w) = store_side w"
  "store_side (final time_Now w) = store_side w"
  "store_side (final (rand_Read n) w) = store_side w"
  by (simp_all add: store_side_def redis_Allow_def http_Do_def oauth_Token_def apns_Push_def
      time_Now_def rand_Read_def)

lemma store_sideD:
  assumes "store_side w = store_side w'"
  shows "w_db w = w_db w'" "w_stmts w = w_stmts w'" "w_server w = w_server w'" "w_enqs w = w_enqs w'"
    "w_asynq w = w_asynq w'"
  using assms by (simp_all add: store_side_def)

text \<open>A server that serves every statement.\<close>

definition healthy :: "world \<Rightarrow> bool" where
  "healthy w \<longleftrightarrow> (\<forall>i. se_fault (w_server w i) = Served)"

lemma healthy_exec:
  assumes "healthy w"
  shows "value_of (exec stmt) w = fst (run_stmt stmt w)"
    and "final (exec stmt) w = w\<lparr>w_stmts := Suc (w_stmts w), w_db := snd (run_stmt stmt w)\<rparr>"
  using assms by (simp_all add: healthy_def exec_value exec_final next_env_def)

lemma healthy_update [simp]:
  "healthy (w\<lparr>w_stmts := k\<rparr>) = healthy w"
  "healthy (w\<lparr>w_db := t\<rparr>) = healthy w"
  "healthy (w\<lparr>w_tx := tx\<rparr>) = healthy w"
  "healthy (w\<lparr>w_limits := l\<rparr>) = healthy w"
  "healthy (w\<lparr>w_enqs := q\<rparr>) = healthy w"
  by (simp_all add: healthy_def)

lemma healthy_store_side: "store_side w = store_side w' \<Longrightarrow> healthy w = healthy w'"
  by (simp add: store_side_def healthy_def)

section \<open>Parameters of queries\<close>

text \<open>\<open>TextFrom\<close> of \<open>internal/store/postgres/pg.go\<close>: an empty string is NULL.\<close>

definition TextFrom :: "string \<Rightarrow> string option" where
  "TextFrom s = (if s = [] then None else Some s)"

end
