(* ===== verification/Floats.thy ===== *)
theory Floats imports Complex_Main Json begin

text \<open>
  Floating-point numbers, as the decoder makes them of the number literals of untyped data:
  \<open>strconv.ParseFloat\<close>, correctly rounded, and the shortest decimal that is read back as the same
  number, which \<open>json.Marshal\<close> and \<open>%v\<close> lay out differently.
\<close>

section \<open>Numbers\<close>

text \<open>
  A finite \<open>float64\<close>: its sign, mantissa and exponent. The mantissa has 53 bits, or fewer when the
  exponent is the least one. A fraction is a numerator and a denominator.
\<close>

type_synonym float64 = "bool \<times> nat \<times> int"
type_synonym fraction = "nat \<times> nat"

definition float_zero :: float64 where
  "float_zero = (False, 0, - 1074)"

definition float_normal :: "nat \<times> int \<Rightarrow> bool" where
  "float_normal = (\<lambda>(m, e). - 1074 \<le> e \<and> e \<le> 971 \<and> m < 2 ^ 53 \<and> (2 ^ 52 \<le> m \<or> e = - 1074))"

text \<open>\<open>x * b ^ t\<close>\<close>

definition scale_by :: "nat \<Rightarrow> int \<Rightarrow> fraction \<Rightarrow> fraction" where
  "scale_by b t = (\<lambda>(p, q). if 0 \<le> t then (p * b ^ nat t, q) else (p, q * b ^ nat (- t)))"

section \<open>Rounding\<close>

fun bit_length :: "nat \<Rightarrow> nat" where
  "bit_length n = (if n = 0 then 0 else Suc (bit_length (n div 2)))"

declare bit_length.simps [simp del]

text \<open>The nearest integer, a tie to the even one.\<close>

definition half_even :: "fraction \<Rightarrow> nat" where
  "half_even = (\<lambda>(p, q). let n = p div q; r = p mod q in
     if q < 2 * r \<or> 2 * r = q \<and> odd n then n + 1 else n)"

definition float_exponent :: "fraction \<Rightarrow> int" where
  "float_exponent = (\<lambda>(p, q).
     let e = int (bit_length p) - int (bit_length q) - 53;
         (p', q') = scale_by 2 (- e) (p, q)
     in max (- 1074) (if q' * 2 ^ 53 \<le> p' then e + 1 else e))"

text \<open>The nearest number of the format, none when it is out of range.\<close>

definition round_float :: "fraction \<Rightarrow> (nat \<times> int) option" where
  "round_float x =
     (if fst x = 0 then Some (0, - 1074)
      else let e = float_exponent x; m = half_even (scale_by 2 (- e) x);
               (m, e) = (if m = 2 ^ 53 then (2 ^ 52, e + 1) else (m, e))
           in if 971 < e then None else Some (m, e))"

section \<open>strconv.ParseFloat\<close>

text \<open>
  The exponent of a num_literal. (The code stops reading its digits after five of them; then the
  number is out of range or 0 all the same, unless the num_literal has 100000 digits.)
\<close>

definition read_exponent :: "string \<Rightarrow> int" where
  "read_exponent cs = (case cs of
      [] \<Rightarrow> 0
    | c # ds \<Rightarrow> if c = CHR ''-'' then - int (digits_val 0 ds)
        else if c = CHR ''+'' then int (digits_val 0 ds) else int (digits_val 0 cs))"

text \<open>An unsigned num_literal as an integer and a power of ten.\<close>

definition read_decimal :: "string \<Rightarrow> nat \<times> int" where
  "read_decimal lit =
     (let whole = takeWhile is_digit lit; rest = dropWhile is_digit lit;
          (fraction, rest) = (case rest of
              [] \<Rightarrow> ([], [])
            | c # cs \<Rightarrow> if c = CHR ''.'' then (takeWhile is_digit cs, dropWhile is_digit cs) else ([], rest));
          x = (case rest of [] \<Rightarrow> 0 | c # cs \<Rightarrow> if is_exp c then read_exponent cs else 0)
      in (digits_val 0 (whole @ fraction), x - int (length fraction)))"

definition ParseFloat :: "string \<Rightarrow> float64 option" where
  "ParseFloat lit =
     (let neg = (take 1 lit = ''-''); (d, x) = read_decimal (if neg then tl lit else lit)
      in map_option (Pair neg) (round_float (scale_by 10 x (d, 1))))"

section \<open>The shortest decimal\<close>

fun first_found :: "('a \<Rightarrow> 'b option) \<Rightarrow> 'a list \<Rightarrow> 'b option" where
  "first_found f [] = None"
| "first_found f (x # xs) = (case f x of None \<Rightarrow> first_found f xs | Some y \<Rightarrow> Some y)"

definition float_fraction :: "nat \<times> int \<Rightarrow> fraction" where
  "float_fraction = (\<lambda>(m, e). scale_by 2 e (m, 1))"

text \<open>The power of ten of the first digit.\<close>

definition decimal_exponent :: "fraction \<Rightarrow> int" where
  "decimal_exponent = (\<lambda>(p, q).
     let k = int (length (nat_digits p)) - int (length (nat_digits q));
         (p', q') = scale_by 10 (- k) (p, q)
     in if q' \<le> p' then k else k - 1)"

text \<open>
  The \<open>n\<close> digits just below and just above the number: those that are read back as the number, the
  nearer ones if both are; \<open>c\<close> stands for \<open>c / 10 ^ t\<close>.
\<close>

definition shortest_of :: "nat \<times> int \<Rightarrow> int \<Rightarrow> nat \<Rightarrow> (nat \<times> int) option" where
  "shortest_of f k n =
     (let t = int n - 1 - k; y = scale_by 10 t (float_fraction f); c = fst y div snd y;
          same = (\<lambda>c. round_float (scale_by 10 (- t) (c, 1)) = Some f)
      in if same c \<and> same (c + 1) then Some (half_even y, t)
         else if same c then Some (c, t)
         else if same (c + 1) then Some (c + 1, t)
         else None)"

text \<open>The first length for which there are such digits. (All the digits of the number are enough.)\<close>

definition shortest :: "nat \<times> int \<Rightarrow> nat \<times> int" where
  "shortest f =
     (let k = decimal_exponent (float_fraction f)
      in the (first_found (shortest_of f k) [1 ..< nat (max 1 (k + 1 + max 0 (- snd f))) + 1]))"

text \<open>The digits after a decimal point and the place of that point, as \<open>strconv\<close> has them.\<close>

definition decimal_digits :: "nat \<times> int \<Rightarrow> string \<times> int" where
  "decimal_digits f =
     (let (c, t) = shortest f; ds = nat_digits c
      in (rev (dropWhile (\<lambda>d. d = CHR ''0'') (rev ds)), int (length ds) - t))"

section \<open>Layouts\<close>

text \<open>\<open>%f\<close> and \<open>%e\<close> with as many digits as there are; the exponent has at least \<open>w\<close> digits.\<close>

definition fixed_layout :: "string \<Rightarrow> int \<Rightarrow> string" where
  "fixed_layout ds dp =
     (if 0 < dp then take (nat dp) ds @ replicate (nat dp - length ds) (CHR ''0'') else ''0'') @
     (if dp < int (length ds) then ''.'' @ replicate (nat (- dp)) (CHR ''0'') @ drop (nat dp) ds else [])"

definition exponent_layout :: "nat \<Rightarrow> string \<Rightarrow> int \<Rightarrow> string" where
  "exponent_layout w ds dp =
     (let x = dp - 1; xs = nat_digits (nat \<bar>x\<bar>)
      in [hd ds] @ (if tl ds = [] then [] else ''.'' @ tl ds) @ ''e'' @ (if x < 0 then ''-'' else ''+'') @
         replicate (w - length xs) (CHR ''0'') @ xs)"

definition float_layout :: "int \<Rightarrow> int \<Rightarrow> nat \<Rightarrow> float64 \<Rightarrow> string" where
  "float_layout least most w = (\<lambda>(neg, f). (if neg then ''-'' else []) @
     (if fst f = 0 then ''0''
      else let (ds, dp) = decimal_digits f
           in if dp - 1 < least \<or> most \<le> dp - 1 then exponent_layout w ds dp else fixed_layout ds dp))"

text \<open>\<open>json.Marshal\<close> writes an exponent below \<open>1e-6\<close> and from \<open>1e21\<close> on; \<open>%v\<close> below \<open>1e-4\<close> and from \<open>1e6\<close> on.\<close>

definition json_float :: "float64 \<Rightarrow> string" where
  "json_float = float_layout (- 6) 21 1"

definition fmt_float :: "float64 \<Rightarrow> string" where
  "fmt_float = float_layout (- 4) 6 2"

section \<open>Lemmas\<close>

subsection \<open>Rounding depends on the value only\<close>

definition fraction_val :: "fraction \<Rightarrow> real" where
  "fraction_val x = real (fst x) / real (snd x)"

lemma scale_val:
  assumes "0 < b" "0 < snd x"
  shows "fraction_val (scale_by b t x) = fraction_val x * real b powi t" "0 < snd (scale_by b t x)"
  using assms by (auto simp: fraction_val_def scale_by_def power_int_def power_inverse divide_inverse split: prod.split)

definition round_near :: "real \<Rightarrow> int" where
  "round_near r = (let d = r - of_int \<lfloor>r\<rfloor> in if 1 / 2 < d \<or> d = 1 / 2 \<and> odd \<lfloor>r\<rfloor> then \<lfloor>r\<rfloor> + 1 else \<lfloor>r\<rfloor>)"

lemma near_int [simp]: "round_near (of_int n) = n"
  by (simp add: round_near_def)

lemma near_bounds:
  assumes "of_int a \<le> r" "r \<le> of_int b"
  shows "a \<le> round_near r" "round_near r \<le> b"
proof -
  from assms have "a \<le> \<lfloor>r\<rfloor>" "\<lfloor>r\<rfloor> \<le> b" by linarith+
  moreover have "\<lfloor>r\<rfloor> + 1 \<le> b" if "r - of_int \<lfloor>r\<rfloor> > 0" using that assms(2) by linarith
  ultimately show "a \<le> round_near r" "round_near r \<le> b" by (auto simp: round_near_def Let_def)
qed

lemma half_even_near:
  assumes "0 < snd x"
  shows "int (half_even x) = round_near (fraction_val x)"
proof -
  obtain p q where x: "x = (p, q)" by (cases x)
  with assms have q: "0 < q" by simp
  have "real p = real q * real (p div q) + real (p mod q)"
    by (metis mult_div_mod_eq of_nat_add of_nat_mult)
  moreover have n: "\<lfloor>fraction_val x\<rfloor> = int (p div q)" by (simp add: fraction_val_def x floor_divide_of_nat_eq)
  ultimately have d: "fraction_val x - of_int \<lfloor>fraction_val x\<rfloor> = real (p mod q) / real q"
    using q unfolding n by (simp add: fraction_val_def x field_simps)
  have "1 / 2 < real (p mod q) / real q \<longleftrightarrow> real q < real (2 * (p mod q))"
    "real (p mod q) / real q = 1 / 2 \<longleftrightarrow> real (2 * (p mod q)) = real q"
    using q by (auto simp: field_simps)
  then have "1 / 2 < real (p mod q) / real q \<longleftrightarrow> q < 2 * (p mod q)"
    "real (p mod q) / real q = 1 / 2 \<longleftrightarrow> 2 * (p mod q) = q"
    by (simp_all only: of_nat_less_iff of_nat_eq_iff)
  note compare = this
  show ?thesis
    unfolding round_near_def Let_def n d [unfolded n] compare by (simp add: half_even_def x Let_def)
qed

lemma bit_length_bounds: "n < 2 ^ bit_length n" "0 < n \<Longrightarrow> 2 ^ bit_length n \<le> 2 * n"
proof -
  have "n < 2 ^ bit_length n \<and> (0 < n \<longrightarrow> 2 ^ bit_length n \<le> 2 * n)"
  proof (induction n rule: bit_length.induct)
    case (1 n)
    show ?case
    proof (cases "n = 0")
      case False
      with 1 have "n div 2 < 2 ^ bit_length (n div 2)" "0 < n div 2 \<longrightarrow> 2 ^ bit_length (n div 2) \<le> 2 * (n div 2)"
        by simp_all
      moreover have "bit_length n = Suc (bit_length (n div 2))" using False by (subst bit_length.simps) simp
      moreover have "n div 2 = 0 \<Longrightarrow> bit_length (n div 2) = 0" by (subst bit_length.simps) simp
      ultimately show ?thesis using False by (cases "n div 2 = 0") auto
    qed (simp add: bit_length.simps)
  qed
  then show "n < 2 ^ bit_length n" "0 < n \<Longrightarrow> 2 ^ bit_length n \<le> 2 * n" by simp_all
qed

lemma bit_length_real: "real n < 2 ^ bit_length n" "0 < n \<Longrightarrow> 2 ^ bit_length n \<le> 2 * real n"
proof -
  show "real n < 2 ^ bit_length n" using bit_length_bounds(1) [of n] by simp
  assume "0 < n"
  from bit_length_bounds(2) [OF this] have "real (2 ^ bit_length n) \<le> real (2 * n)" by (simp only: of_nat_le_iff)
  then show "2 ^ bit_length n \<le> 2 * real n" by simp
qed

text \<open>The exponent of a value: its mantissa has 53 bits, or fewer at the least exponent.\<close>

definition has_exponent :: "real \<Rightarrow> int \<Rightarrow> bool" where
  "has_exponent v e \<longleftrightarrow> - 1074 \<le> e \<and> v < 2 ^ 53 * 2 powi e \<and> (2 ^ 52 * 2 powi e \<le> v \<or> e = - 1074)"

lemma has_exponent_unique:
  assumes "has_exponent v e" "has_exponent v e'"
  shows "e = e'"
proof -
  have False if less: "a < b" and a: "has_exponent v a" and b: "has_exponent v b" for a b
  proof -
    have "(2::real) powi b = 2 * 2 powi (b - 1)" by (simp add: power_int_diff)
    moreover have "(2::real) powi a \<le> 2 powi (b - 1)" using less by (intro power_int_increasing) simp_all
    ultimately have "2 ^ 53 * 2 powi a \<le> 2 ^ 52 * (2::real) powi b" by simp
    with a b less show False by (auto simp: has_exponent_def)
  qed
  with assms show ?thesis by (meson linorder_less_linear)
qed

lemma powi_53: "(a::int) = b + (53 + e) \<Longrightarrow> 2 powi a = 2 powi b * (2 ^ 53 * (2::real) powi e)"
  by (simp only: power_int_add_numeral power_int_add power_int_numeral) (simp add: power_int_add)

lemma float_exponent_of:
  assumes "0 < fst x" "0 < snd x"
  shows "has_exponent (fraction_val x) (float_exponent x)"
proof -
  obtain p q where x: "x = (p, q)" by (cases x)
  with assms have pq: "0 < p" "0 < q" by simp_all
  define e where "e = int (bit_length p) - int (bit_length q) - 53"
  let ?y = "scale_by 2 (- e) (p, q)"
  have y: "fraction_val ?y = fraction_val x * 2 powi (- e)" "0 < snd ?y"
    using scale_val [of 2 "(p, q)" "- e"] pq by (simp_all add: x)
  have fits: "snd ?y * 2 ^ 53 \<le> fst ?y \<longleftrightarrow> 2 ^ 53 * 2 powi e \<le> fraction_val x"
  proof -
    have "snd ?y * 2 ^ 53 \<le> fst ?y \<longleftrightarrow> real (snd ?y * 2 ^ 53) \<le> real (fst ?y)" by (simp only: of_nat_le_iff)
    also have "\<dots> \<longleftrightarrow> 2 ^ 53 \<le> fraction_val ?y" using y(2) by (simp add: fraction_val_def le_divide_eq mult.commute)
    also have "\<dots> \<longleftrightarrow> 2 ^ 53 * 2 powi e \<le> fraction_val x" by (simp add: y(1) power_int_minus field_simps)
    finally show ?thesis .
  qed
  have v: "2 ^ 52 * 2 powi e \<le> fraction_val x" "fraction_val x < 2 ^ 53 * 2 powi (e + 1)"
  proof -
    have p: "2 powi int (bit_length p) \<le> 2 * real p" "real p < 2 powi int (bit_length p)"
      and q: "2 powi int (bit_length q) \<le> 2 * real q" "real q < 2 powi int (bit_length q)"
      using bit_length_real [of p] bit_length_real [of q] pq by simp_all
    define K where "K = 2 ^ 53 * (2::real) powi e"
    have K: "0 < K" "2 ^ 52 * 2 powi e = K / 2" "2 ^ 53 * 2 powi (e + 1) = 2 * K"
      by (simp_all add: K_def power_int_add_1)
    have e: "2 powi int (bit_length p) = 2 powi int (bit_length q) * K"
      unfolding K_def by (rule powi_53) (simp add: e_def)
    have "real q * K \<le> 2 powi int (bit_length q) * K"
      using q(2) K(1) by (intro mult_right_mono) simp_all
    with p(1) e have "real q * K \<le> 2 * real p" by linarith
    then show "2 ^ 52 * 2 powi e \<le> fraction_val x" unfolding K using pq by (simp add: fraction_val_def x field_simps)
    have "2 powi int (bit_length q) * K \<le> 2 * real q * K"
      using q(1) K(1) by (intro mult_right_mono) simp_all
    with p(2) e have "real p < 2 * real q * K" by linarith
    then show "fraction_val x < 2 ^ 53 * 2 powi (e + 1)" unfolding K using pq by (simp add: fraction_val_def x field_simps)
  qed
  define e' where "e' = (if snd ?y * 2 ^ 53 \<le> fst ?y then e + 1 else e)"
  have e': "2 ^ 52 * 2 powi e' \<le> fraction_val x" "fraction_val x < 2 ^ 53 * 2 powi e'"
    using v fits by (auto simp: e'_def power_int_add)
  have "float_exponent x = max (- 1074) e'"
    by (simp add: float_exponent_def x e_def e'_def Let_def split_beta)
  moreover have "fraction_val x < 2 ^ 53 * 2 powi (max (- 1074) e')"
  proof -
    have "(2::real) powi e' \<le> 2 powi (max (- 1074) e')" by (intro power_int_increasing) simp_all
    with e'(2) show ?thesis by (simp add: less_le_trans)
  qed
  ultimately show ?thesis using e' by (auto simp: has_exponent_def max_def)
qed

definition fval :: "nat \<times> int \<Rightarrow> real" where
  "fval f = real (fst f) * 2 powi snd f"

lemma float_fraction_val: "fraction_val (float_fraction f) = fval f" "0 < snd (float_fraction f)"
proof -
  obtain m e where f: "f = (m, e)" by (cases f)
  show "fraction_val (float_fraction f) = fval f" "0 < snd (float_fraction f)"
    using scale_val [of 2 "(m, 1)" e] by (simp_all add: f float_fraction_def fval_def fraction_val_def)
qed

definition round_at :: "real \<Rightarrow> int \<Rightarrow> (nat \<times> int) option" where
  "round_at v e =
     (let m = nat (round_near (v * 2 powi (- e))); (m, e) = (if m = 2 ^ 53 then (2 ^ 52, e + 1) else (m, e))
      in if 971 < e then None else Some (m, e))"

lemma round_float_at:
  assumes "0 < snd x" "fst x \<noteq> 0"
  shows "round_float x = round_at (fraction_val x) (float_exponent x)"
proof -
  have "half_even (scale_by 2 (- e) x) = nat (round_near (fraction_val x * 2 powi (- e)))" for e
    using half_even_near [OF scale_val(2) [of 2 x "- e"]] scale_val(1) [of 2 x "- e"] assms(1) by simp
  with assms(2) show ?thesis by (simp add: round_float_def round_at_def Let_def)
qed

lemma val_zero: "0 < snd x \<Longrightarrow> fraction_val x = 0 \<longleftrightarrow> fst x = 0"
  by (simp add: fraction_val_def)

lemma round_float_cong:
  assumes "0 < snd x" "0 < snd y" "fraction_val x = fraction_val y"
  shows "round_float x = round_float y"
proof (cases "fst x = 0")
  case True
  with assms val_zero [of x] val_zero [of y] show ?thesis by (simp add: round_float_def)
next
  case False
  with assms val_zero [of x] val_zero [of y] have y: "fst y \<noteq> 0" by simp
  from False y assms float_exponent_of [of x] float_exponent_of [of y]
  have "float_exponent x = float_exponent y" by (intro has_exponent_unique) simp_all
  with False y assms show ?thesis by (simp add: round_float_at)
qed

lemma powi_cancel: "v < a * 2 powi e \<longleftrightarrow> v * 2 powi (- e) < (a :: real)"
  "a * 2 powi e \<le> v \<longleftrightarrow> a \<le> v * 2 powi (- e)"
  by (simp_all add: power_int_minus field_simps)

text \<open>A number of the format is rounded to itself, and what is rounded is one.\<close>

lemma round_float_exact:
  assumes "float_normal f" "0 < snd x" "fraction_val x = fval f"
  shows "round_float x = Some f"
proof -
  obtain m e where f: "f = (m, e)" by (cases f)
  show ?thesis
  proof (cases "m = 0")
    case True
    with assms val_zero [of x] show ?thesis by (simp add: f fval_def float_normal_def round_float_def)
  next
    case False
    with assms val_zero [of x] have x: "fst x \<noteq> 0" by (simp add: f fval_def)
    have v: "fraction_val x * 2 powi (- e) = of_int (int m)"
      using assms(3) by (simp add: f fval_def power_int_minus)
    have "real m < 2 ^ 53" "2 ^ 52 \<le> m \<Longrightarrow> 2 ^ 52 \<le> real m"
      using assms(1) by (simp_all add: f float_normal_def)
    with v assms(1) have "has_exponent (fraction_val x) e"
      by (auto simp: has_exponent_def powi_cancel f float_normal_def)
    with x assms(2) float_exponent_of [of x] have "float_exponent x = e"
      by (intro has_exponent_unique) simp_all
    moreover have "round_at (fraction_val x) e = Some f"
      unfolding round_at_def v near_int using assms(1) by (simp add: f float_normal_def Let_def)
    ultimately show ?thesis using x assms(2) by (simp add: round_float_at)
  qed
qed

lemma round_float_normal:
  assumes "0 < snd x" "round_float x = Some f"
  shows "float_normal f"
proof (cases "fst x = 0")
  case True
  with assms(2) show ?thesis by (auto simp: round_float_def float_normal_def)
next
  case False
  define e where "e = float_exponent x"
  define n where "n = round_near (fraction_val x * 2 powi (- e))"
  have e: "has_exponent (fraction_val x) e" using float_exponent_of [of x] False assms(1) by (simp add: e_def)
  have "0 \<le> fraction_val x" by (simp add: fraction_val_def)
  moreover have small: "fraction_val x * 2 powi (- e) < 2 ^ 53" using e by (simp add: has_exponent_def powi_cancel)
  ultimately have "of_int 0 \<le> fraction_val x * 2 powi (- e)" "fraction_val x * 2 powi (- e) \<le> of_int (2 ^ 53)" by simp_all
  from near_bounds [OF this] have n: "0 \<le> n" "n \<le> 2 ^ 53" by (simp_all add: n_def)
  have low: "2 ^ 52 \<le> n \<or> e = - 1074"
  proof (cases "e = - 1074")
    case False
    with e have "of_int (2 ^ 52) \<le> fraction_val x * 2 powi (- e)" by (simp add: has_exponent_def powi_cancel)
    from near_bounds(1) [OF this, of "2 ^ 53"] small show ?thesis by (simp add: n_def)
  qed simp
  have "round_at (fraction_val x) e = Some f" using assms False by (simp add: round_float_at e_def)
  then have f: "f = (if nat n = 2 ^ 53 then (2 ^ 52, e + 1) else (nat n, e))" "snd f \<le> 971"
    by (auto simp: round_at_def n_def Let_def split: if_splits)
  show ?thesis
  proof (cases "nat n = 2 ^ 53")
    case True
    with f e show ?thesis by (auto simp: float_normal_def has_exponent_def)
  next
    case False
    with n have "nat n < 2 ^ 53" by (simp add: nat_less_iff)
    moreover have "2 ^ 52 \<le> nat n \<or> e = - 1074" using low n(1) by (simp add: le_nat_iff)
    ultimately show ?thesis using False f e by (auto simp: float_normal_def has_exponent_def)
  qed
qed

subsection \<open>The shortest decimal is read back\<close>

lemma first_found_Some: "first_found g xs = Some y \<Longrightarrow> \<exists>x \<in> set xs. g x = Some y"
  by (induction xs) (auto split: option.splits)

lemma first_found_ex: "x \<in> set xs \<Longrightarrow> g x \<noteq> None \<Longrightarrow> \<exists>y. first_found g xs = Some y"
  by (induction xs) (auto split: option.split)

lemma half_even_cases: "half_even y = fst y div snd y \<or> half_even y = fst y div snd y + 1"
  by (auto simp: half_even_def Let_def split: prod.split)

lemma shortest_of_sound:
  "shortest_of f k n = Some (c, t) \<Longrightarrow> round_float (scale_by 10 (- t) (c, 1)) = Some f"
  using half_even_cases [of "scale_by 10 (int n - 1 - k) (float_fraction f)"]
  by (auto simp: shortest_of_def Let_def split: if_splits)

lemma shortest_of_exact:
  assumes "float_normal f" "- snd f \<le> int n - 1 - k" "0 \<le> int n - 1 - k"
  shows "shortest_of f k n \<noteq> None"
proof -
  obtain m e where f: "f = (m, e)" by (cases f)
  define t where "t = int n - 1 - k"
  define y where "y = scale_by 10 t (float_fraction f)"
  have y: "fraction_val y = fval f * 10 powi t" "0 < snd y"
    using scale_val [of 10 "float_fraction f" t] float_fraction_val [of f] by (simp_all add: y_def)
  have "snd y dvd fst y"
  proof (cases "0 \<le> e")
    case True
    with assms(3) show ?thesis by (simp add: y_def t_def f float_fraction_def scale_by_def)
  next
    case False
    then have "y = (m * 10 ^ nat t, 2 ^ nat (- e))"
      using assms(3) by (simp add: y_def t_def f float_fraction_def scale_by_def)
    moreover have "(2::nat) ^ nat (- e) dvd 10 ^ nat t"
    proof -
      have "(2::nat) ^ nat (- e) dvd 2 ^ nat t" using assms(2) by (intro le_imp_power_dvd) (simp add: f t_def)
      moreover have "(2::nat) ^ nat t dvd 10 ^ nat t" using dvd_power_same [of 2 "10::nat" "nat t"] by simp
      ultimately show ?thesis by (rule dvd_trans)
    qed
    ultimately show ?thesis by simp
  qed
  with y(2) have "real (fst y div snd y) = fraction_val y" by (simp add: fraction_val_def real_of_nat_div)
  with scale_val(1) [of 10 "(fst y div snd y, 1)" "- t"] have
    "fraction_val (scale_by 10 (- t) (fst y div snd y, 1)) = fval f * (10 powi t * 10 powi (- t))"
    by (simp only: y(1)) (simp add: fraction_val_def y(1) [unfolded fraction_val_def])
  then have "fraction_val (scale_by 10 (- t) (fst y div snd y, 1)) = fval f" by (simp add: power_int_minus)
  then have "round_float (scale_by 10 (- t) (fst y div snd y, 1)) = Some f"
    using scale_val(2) [of 10 "(fst y div snd y, 1)" "- t"] by (intro round_float_exact assms(1)) simp_all
  then show ?thesis by (simp add: shortest_of_def Let_def t_def y_def)
qed

lemma shortest_sound:
  assumes "float_normal f" "shortest f = (c, t)"
  shows "round_float (scale_by 10 (- t) (c, 1)) = Some f"
proof -
  define k where "k = decimal_exponent (float_fraction f)"
  define ns where "ns = [1 ..< nat (max 1 (k + 1 + max 0 (- snd f))) + 1]"
  have "nat (max 1 (k + 1 + max 0 (- snd f))) \<in> set ns" by (simp add: ns_def)
  from first_found_ex [OF this] have "shortest_of f k (nat (max 1 (k + 1 + max 0 (- snd f)))) \<noteq> None \<Longrightarrow>
    \<exists>y. first_found (shortest_of f k) ns = Some y" .
  moreover have "shortest_of f k (nat (max 1 (k + 1 + max 0 (- snd f)))) \<noteq> None"
    using assms(1) by (intro shortest_of_exact) (auto simp: max_def)
  ultimately obtain y where y: "first_found (shortest_of f k) ns = Some y" by (elim meta_impE) auto
  have "shortest f = the (first_found (shortest_of f k) ns)" by (simp only: shortest_def k_def ns_def Let_def)
  with assms(2) y have "y = (c, t)" by (simp only: option.sel)
  with first_found_Some [OF y] obtain n where "shortest_of f k n = Some (c, t)" by auto
  then show ?thesis by (rule shortest_of_sound)
qed

subsection \<open>Layouts are read back\<close>

lemma digits_val_acc: "digits_val acc cs = acc * 10 ^ length cs + digits_val 0 cs"
proof (induction cs arbitrary: acc)
  case (Cons c cs)
  from Cons [of "10 * acc + digit_val c"] Cons [of "digit_val c"] show ?case by (simp add: algebra_simps)
qed simp

lemma digits_val_concat: "digits_val 0 (xs @ ys) = digits_val 0 xs * 10 ^ length ys + digits_val 0 ys"
  by (induction xs arbitrary: ys rule: rev_induct)
    (simp_all add: digits_val_append digits_val_acc [of "digit_val _"] algebra_simps)

lemma zeros [simp]: "digits_val 0 (replicate n (CHR ''0'')) = 0" "list_all is_digit (replicate n (CHR ''0''))"
  by (induction n) (simp_all add: digit_val_def is_digit_def)

lemma zeros_append [simp]: "digits_val 0 (replicate n (CHR ''0'') @ xs) = digits_val 0 xs"
  by (simp add: digits_val_concat)

lemma digits_while [simp]:
  "list_all is_digit xs \<Longrightarrow> \<not> is_digit c \<Longrightarrow> takeWhile is_digit (xs @ c # ys) = xs \<and> dropWhile is_digit (xs @ c # ys) = c # ys"
  "list_all is_digit xs \<Longrightarrow> takeWhile is_digit xs = xs \<and> dropWhile is_digit xs = []"
  by (induction xs) simp_all

lemma not_digits [simp]: "\<not> is_digit (CHR ''.'')" "\<not> is_digit (CHR ''e'')" "\<not> is_digit (CHR ''-'')"
  "\<not> is_digit (CHR ''+'')" "is_digit (CHR ''0'')" "digit_val (CHR ''0'') = 0" "is_exp (CHR ''e'')" "\<not> is_exp (CHR ''.'')"
  by (simp_all add: is_digit_def digit_val_def is_exp_def)

text \<open>A num_literal in three parts: digits, a fraction if there is one, an exponent if there is one.\<close>

definition num_literal :: "string \<Rightarrow> string \<Rightarrow> string \<Rightarrow> string" where
  "num_literal whole fr ex = whole @ (if fr = [] then [] else ''.'' @ fr) @ (if ex = [] then [] else ''e'' @ ex)"

lemma read_literal:
  assumes "list_all is_digit whole" "list_all is_digit fr"
  shows "read_decimal (num_literal whole fr ex) = (digits_val 0 (whole @ fr), read_exponent ex - int (length fr))"
proof -
  have "takeWhile is_digit (xs @ ''e'' @ ys) = xs \<and> dropWhile is_digit (xs @ ''e'' @ ys) = ''e'' @ ys"
    if "list_all is_digit xs" for xs ys using that by simp
  then show ?thesis using assms
    by (cases "fr = []"; cases "ex = []")
      (simp_all add: num_literal_def read_decimal_def Let_def read_exponent_def [of "[]"])
qed

lemma fixed_literal:
  "fixed_layout ds dp =
     (if dp \<le> 0 then num_literal ''0'' (replicate (nat (- dp)) (CHR ''0'') @ ds) []
      else num_literal (take (nat dp) ds @ replicate (nat dp - length ds) (CHR ''0'')) (drop (nat dp) ds) [])"
  by (auto simp: fixed_layout_def num_literal_def)

lemma exponent_literal:
  "exponent_layout w ds dp = num_literal [hd ds] (tl ds)
     ((if dp - 1 < 0 then ''-'' else ''+'') @ replicate (w - length (nat_digits (nat \<bar>dp - 1\<bar>))) (CHR ''0'') @
      nat_digits (nat \<bar>dp - 1\<bar>))"
  by (simp add: exponent_layout_def num_literal_def Let_def)

lemma list_all_sub: "list_all P xs \<Longrightarrow> list_all P (take n xs) \<and> list_all P (drop n xs)"
  by (auto simp: list_all_iff dest: in_set_takeD in_set_dropD)

lemma layout_val:
  assumes "list_all is_digit ds" "ds \<noteq> []"
    and "read_decimal (if fixed then fixed_layout ds dp else exponent_layout w ds dp) = (d, x)"
  shows "real d * 10 powi x = real (digits_val 0 ds) * 10 powi (dp - int (length ds))"
proof (cases "fixed")
  case True
  consider "dp \<le> 0" | "0 < dp" "dp < int (length ds)" | "int (length ds) \<le> dp" by linarith
  then show ?thesis
  proof cases
    case 1
    with True assms show ?thesis
      by (auto simp: fixed_literal read_literal read_exponent_def digits_val_concat [of "''0''"] algebra_simps)
  next
    case 2
    with True assms show ?thesis using list_all_sub [OF assms(1), of "nat dp"]
      by (auto simp: fixed_literal read_literal read_exponent_def of_nat_diff)
  next
    case 3
    with assms(2) have "0 < dp" by (cases ds) auto
    with 3 have "fixed_layout ds dp = num_literal (ds @ replicate (nat dp - length ds) (CHR ''0'')) [] []"
      by (simp add: fixed_literal)
    moreover have digits: "list_all is_digit (ds @ replicate (nat dp - length ds) (CHR ''0''))" "list_all is_digit []"
      using assms(1) by simp_all
    ultimately have "read_decimal (fixed_layout ds dp) =
        (digits_val 0 (ds @ replicate (nat dp - length ds) (CHR ''0'')), 0)"
      using read_literal [OF digits, of "[]"] by (simp only: append_Nil2 list.size) (simp add: read_exponent_def)
    with True assms(3) have "d = digits_val 0 (ds @ replicate (nat dp - length ds) (CHR ''0''))" "x = 0"
      by simp_all
    moreover have dp: "dp - int (length ds) = int (nat dp - length ds)" using 3 by simp
    ultimately show ?thesis unfolding dp by (simp add: digits_val_concat)
  qed
next
  case False
  obtain d0 ds' where ds: "ds = d0 # ds'" using assms(2) by (cases ds) auto
  have "read_exponent ((if dp - 1 < 0 then ''-'' else ''+'') @
      replicate (w - length (nat_digits (nat \<bar>dp - 1\<bar>))) (CHR ''0'') @ nat_digits (nat \<bar>dp - 1\<bar>)) = dp - 1"
    using nat_digits_props by (simp add: read_exponent_def)
  with False assms show ?thesis by (auto simp: exponent_literal read_literal ds diff_diff_eq)
qed

lemma strip_zeros:
  obtains z where "ds = rev (dropWhile (\<lambda>d. d = CHR ''0'') (rev ds)) @ replicate z (CHR ''0'')"
proof -
  let ?z = "takeWhile (\<lambda>d. d = CHR ''0'') (rev ds)"
  have "?z = replicate (length ?z) (CHR ''0'')"
    by (rule replicate_length_same [symmetric]) (auto dest: set_takeWhileD)
  then have "rev ?z = replicate (length ?z) (CHR ''0'')" by (metis rev_replicate)
  moreover have "ds = rev (dropWhile (\<lambda>d. d = CHR ''0'') (rev ds)) @ rev ?z"
    by (metis rev_append rev_rev_ident takeWhile_dropWhile_id)
  ultimately show thesis using that by metis
qed

lemma decimal_digits_sound:
  assumes "float_normal f" "fst f \<noteq> 0" "decimal_digits f = (ds, dp)"
  shows "list_all is_digit ds" "ds \<noteq> []" "hd ds \<noteq> CHR ''0''"
    and "0 < snd x \<Longrightarrow> fraction_val x = real (digits_val 0 ds) * 10 powi (dp - int (length ds)) \<Longrightarrow> round_float x = Some f"
proof -
  obtain c t where c: "shortest f = (c, t)" by (cases "shortest f")
  note sound = shortest_sound [OF assms(1) c]
  have "0 < c"
  proof (rule ccontr)
    assume "\<not> 0 < c"
    with sound assms(2) show False by (auto simp: round_float_def scale_by_def split: if_splits)
  qed
  obtain z where z: "nat_digits c = ds @ replicate z (CHR ''0'')"
    using assms(3) strip_zeros [of "nat_digits c"] by (auto simp: decimal_digits_def c Let_def)
  from assms(3) have dp: "dp = int (length (nat_digits c)) - t" by (auto simp: decimal_digits_def c Let_def)
  have all: "list_all is_digit (nat_digits c)" "digits_val 0 (nat_digits c) = c" using nat_digits_props by simp_all
  then show "list_all is_digit ds" by (simp add: z)
  show "ds \<noteq> []"
  proof
    assume "ds = []"
    with z all(2) \<open>0 < c\<close> show False by simp
  qed
  with nat_digits_hd_nonzero [OF \<open>0 < c\<close>] show "hd ds \<noteq> CHR ''0''" by (simp add: z)
  assume x: "0 < snd x" "fraction_val x = real (digits_val 0 ds) * 10 powi (dp - int (length ds))"
  have "c = digits_val 0 ds * 10 ^ z" using all(2) by (simp add: z digits_val_concat)
  moreover have "dp - int (length ds) = int z - t" by (simp add: dp z)
  ultimately have "fraction_val x = real c * 10 powi (- t)"
    by (simp add: x(2) power_int_diff power_int_minus divide_inverse)
  with scale_val [of 10 "(c, 1)" "- t"] have "fraction_val x = fraction_val (scale_by 10 (- t) (c, 1))" by (simp add: fraction_val_def)
  with sound x(1) scale_val(2) [of 10 "(c, 1)" "- t"] show "round_float x = Some f"
    by (subst round_float_cong [where y = "scale_by 10 (- t) (c, 1)"]) simp_all
qed

text \<open>What \<open>json.Marshal\<close> and \<open>%v\<close> write is read back as the same number.\<close>

lemma layout_start:
  assumes "list_all is_digit ds" "ds \<noteq> []"
  shows "take 1 (if fixed then fixed_layout ds dp else exponent_layout w ds dp) \<noteq> ''-''"
proof -
  obtain d0 ds' where ds: "ds = d0 # ds'" "is_digit d0" using assms by (cases ds) auto
  then have "d0 \<noteq> CHR ''-''" by (cases "d0 = CHR ''-''") simp_all
  with ds show ?thesis by (cases "0 < dp") (auto simp: fixed_layout_def exponent_layout_def Let_def take_Cons')
qed

lemma ParseFloat_normal: "ParseFloat lit = Some x \<Longrightarrow> float_normal (snd x)"
  using scale_val(2) [of 10] by (auto simp: ParseFloat_def Let_def split: prod.splits intro!: round_float_normal)

theorem ParseFloat_layout:
  assumes "float_normal (snd x)"
  shows "ParseFloat (float_layout least most w x) = Some x"
proof -
  obtain neg f where x: "x = (neg, f)" by (cases x)
  define s where "s = (if fst f = 0 then ''0'' else let (ds, dp) = decimal_digits f
    in if dp - 1 < least \<or> most \<le> dp - 1 then exponent_layout w ds dp else fixed_layout ds dp)"
  have "take 1 s \<noteq> ''-'' \<and> (\<forall>d t. read_decimal s = (d, t) \<longrightarrow> round_float (scale_by 10 t (d, 1)) = Some f)"
  proof (cases "fst f = 0")
    case True
    with assms x have "f = (0, - 1074)" by (cases f) (auto simp: float_normal_def)
    with True show ?thesis by (simp add: s_def read_decimal_def round_float_def scale_by_def)
  next
    case False
    obtain ds dp where d: "decimal_digits f = (ds, dp)" by (cases "decimal_digits f")
    have f: "float_normal f" using assms x by simp
    note sound = decimal_digits_sound [OF f False d]
    define fixed where "fixed = (\<not> (dp - 1 < least \<or> most \<le> dp - 1))"
    have s: "s = (if fixed then fixed_layout ds dp else exponent_layout w ds dp)"
      using False d by (simp add: s_def fixed_def)
    have "round_float (scale_by 10 t (c, 1)) = Some f" if "read_decimal s = (c, t)" for c t
    proof (rule sound(4))
      show "0 < snd (scale_by 10 t (c, 1))" using scale_val(2) [of 10 "(c, 1)" t] by simp
      have "fraction_val (scale_by 10 t (c, 1)) = real c * 10 powi t"
        using scale_val(1) [of 10 "(c, 1)" t] by (simp add: fraction_val_def)
      also have "\<dots> = real (digits_val 0 ds) * 10 powi (dp - int (length ds))"
        by (rule layout_val [OF sound(1,2) that [unfolded s]])
      finally show "fraction_val (scale_by 10 t (c, 1)) = real (digits_val 0 ds) * 10 powi (dp - int (length ds))" .
    qed
    with layout_start [OF sound(1,2)] show ?thesis unfolding s by simp
  qed
  moreover have "float_layout least most w x = (if neg then ''-'' else []) @ s"
    by (simp add: float_layout_def x s_def)
  ultimately show ?thesis by (cases "read_decimal s") (simp add: ParseFloat_def x)
qed

subsection \<open>Layouts are literals of JSON\<close>

lemma num_run_append: "num_run ns (xs @ ys) = Option.bind (num_run ns xs) (\<lambda>ns'. num_run ns' ys)"
  by (induction xs arbitrary: ns) (auto split: option.split)

lemma num_run_digits:
  "list_all is_digit xs \<Longrightarrow> ns \<in> {Num1, NumDot0, NumE0} \<Longrightarrow> num_run ns xs = Some ns"
  by (induction xs) auto

lemma num_run_some_digits:
  assumes "list_all is_digit xs" "xs \<noteq> []"
  shows "num_run NumDot xs = Some NumDot0" "num_run NumESign xs = Some NumE0"
  using assms by (cases xs; simp add: num_run_digits)+

lemma num_run_tail:
  assumes "list_all is_digit fr" "ex = [] \<or> (\<exists>sg ds. ex = sg # ds \<and> sg \<in> {CHR ''+'', CHR ''-''} \<and> list_all is_digit ds \<and> ds \<noteq> [])"
    and "ns \<in> {Num0, Num1}"
  obtains ns' where "num_run ns ((if fr = [] then [] else ''.'' @ fr) @ (if ex = [] then [] else ''e'' @ ex)) = Some ns'"
    "num_complete ns'"
proof -
  have ex: "\<exists>ns'. num_run m (if ex = [] then [] else ''e'' @ ex) = Some ns' \<and> num_complete ns'"
    if "m \<in> {Num0, Num1, NumDot0}" for m
    using that assms(2) num_run_some_digits(2) by (cases "ex = []") (auto simp: is_exp_def)
  show thesis
  proof (cases "fr = []")
    case True
    with ex [of ns] assms(3) that show ?thesis by auto
  next
    case False
    with assms(1,3) have "num_run ns (''.'' @ fr) = Some NumDot0" by (auto simp: num_run_some_digits)
    moreover obtain ns' where "num_run NumDot0 (if ex = [] then [] else ''e'' @ ex) = Some ns'" "num_complete ns'"
      using ex [of NumDot0] by auto
    ultimately show ?thesis using False that [of ns'] by (simp only: num_run_append bind.bind_lunit if_False)
  qed
qed

lemma json_number_literal:
  assumes "list_all is_digit whole" "whole \<noteq> []" "hd whole \<noteq> CHR ''0'' \<or> whole = ''0''" "list_all is_digit fr"
    and "ex = [] \<or> (\<exists>sg ds. ex = sg # ds \<and> sg \<in> {CHR ''+'', CHR ''-''} \<and> list_all is_digit ds \<and> ds \<noteq> [])"
  shows "json_number ((if neg then ''-'' else []) @ num_literal whole fr ex)"
proof -
  obtain c cs where whole: "whole = c # cs" using assms(2) by (cases whole) auto
  define ns where "ns = (if whole = ''0'' then Num0 else Num1)"
  have start: "num_start c = Some ns" "num_next NumNeg c = Some ns" "num_run ns cs = Some ns"
    using assms(1,3) by (auto simp: whole ns_def num_start_def num_run_digits is_digit_def)
  obtain ns' where "num_run ns ((if fr = [] then [] else ''.'' @ fr) @ (if ex = [] then [] else ''e'' @ ex)) = Some ns'"
    "num_complete ns'"
    by (rule num_run_tail [OF assms(4,5), of ns]) (simp_all add: ns_def)
  then show ?thesis
    using start by (simp add: json_number_def num_literal_def whole num_run_append num_start_def)
qed

lemma float_layout_number:
  assumes "float_normal (snd x)"
  shows "json_number (float_layout least most w x)"
proof -
  obtain neg f where x: "x = (neg, f)" by (cases x)
  show ?thesis
  proof (cases "fst f = 0")
    case True
    with json_number_literal [of "''0''" "[]" "[]" neg] show ?thesis by (simp add: x float_layout_def num_literal_def)
  next
    case False
    obtain ds dp where d: "decimal_digits f = (ds, dp)" by (cases "decimal_digits f")
    have "float_normal f" using assms x by simp
    note sound = decimal_digits_sound [OF this False d]
    have "json_number ((if neg then ''-'' else []) @ fixed_layout ds dp)"
    proof (cases "dp \<le> 0")
      case True
      then show ?thesis unfolding fixed_literal using sound(1)
        by (simp only: simp_thms if_True) (rule json_number_literal; simp)
    next
      case pos: False
      let ?whole = "take (nat dp) ds @ replicate (nat dp - length ds) (CHR ''0'')"
      from pos sound(2,3) have "hd ?whole \<noteq> CHR ''0''" "?whole \<noteq> []" by (cases ds; simp add: take_Cons')+
      moreover have "list_all is_digit ?whole" "list_all is_digit (drop (nat dp) ds)"
        using list_all_sub [OF sound(1), of "nat dp"] by simp_all
      ultimately have "json_number ((if neg then ''-'' else []) @ num_literal ?whole (drop (nat dp) ds) [])"
        by (intro json_number_literal) blast+
      with pos show ?thesis unfolding fixed_literal by (simp only: if_False)
    qed
    moreover have "json_number ((if neg then ''-'' else []) @ exponent_layout w ds dp)"
      unfolding exponent_literal
    proof (rule json_number_literal)
      let ?xs = "replicate (w - length (nat_digits (nat \<bar>dp - 1\<bar>))) (CHR ''0'') @ nat_digits (nat \<bar>dp - 1\<bar>)"
      have "list_all is_digit ?xs" "?xs \<noteq> []" using nat_digits_props [of "nat \<bar>dp - 1\<bar>"] by simp_all
      then show "(if dp - 1 < 0 then ''-'' else ''+'') @ ?xs = [] \<or>
          (\<exists>sg ds'. (if dp - 1 < 0 then ''-'' else ''+'') @ ?xs = sg # ds' \<and> sg \<in> {CHR ''+'', CHR ''-''} \<and>
            list_all is_digit ds' \<and> ds' \<noteq> [])" by auto
      show "list_all is_digit [hd ds]" "list_all is_digit (tl ds)" using sound(1,2) by (cases ds; simp)+
    qed (use sound(3) in simp_all)
    ultimately show ?thesis using False d by (simp add: x float_layout_def)
  qed
qed

subsection \<open>Rounding is to the nearest number\<close>

lemma near_nearest: "\<bar>r - of_int (round_near r)\<bar> \<le> \<bar>r - of_int k\<bar>"
proof (cases "k \<le> \<lfloor>r\<rfloor>")
  case True
  then have "real_of_int k \<le> of_int \<lfloor>r\<rfloor>" by simp
  then show ?thesis by (auto simp: round_near_def Let_def abs_le_iff not_less; linarith)
next
  case False
  then have "real_of_int \<lfloor>r\<rfloor> + 1 \<le> of_int k" by linarith
  then show ?thesis by (auto simp: round_near_def Let_def abs_le_iff not_less; linarith)
qed

lemma round_float_nearest:
  assumes "0 < snd x" "round_float x = Some f" "float_normal g"
  shows "\<bar>fraction_val x - fval f\<bar> \<le> \<bar>fraction_val x - fval g\<bar>"
proof (cases "fst x = 0")
  case True
  with assms(2) show ?thesis by (auto simp: round_float_def fraction_val_def fval_def)
next
  case False
  define e where "e = float_exponent x"
  define r where "r = fraction_val x * 2 powi (- e)"
  have v: "fraction_val x = r * 2 powi e" by (simp add: r_def power_int_minus)
  have e: "has_exponent (fraction_val x) e" using float_exponent_of [of x] False assms(1) by (simp add: e_def)
  have "0 \<le> r" by (simp add: r_def fraction_val_def)
  then have "0 \<le> round_near r" using near_bounds(1) [of 0 r "\<lceil>r\<rceil>"] by simp
  have "round_at (fraction_val x) e = Some f" using assms(1,2) False by (simp add: round_float_at e_def)
  then have "fval f = of_int (round_near r) * 2 powi e"
    using \<open>0 \<le> round_near r\<close> by (auto simp: round_at_def r_def [symmetric] fval_def Let_def power_int_add_1 split: if_splits)
  then have f: "\<bar>fraction_val x - fval f\<bar> = \<bar>r - of_int (round_near r)\<bar> * 2 powi e"
    by (simp add: v abs_mult flip: left_diff_distrib)
  have int: "\<bar>fraction_val x - fval f\<bar> \<le> \<bar>fraction_val x - of_int k * 2 powi e\<bar>" for k
  proof -
    have "\<bar>fraction_val x - of_int k * 2 powi e\<bar> = \<bar>r - of_int k\<bar> * 2 powi e"
      by (simp add: v abs_mult flip: left_diff_distrib)
    then show ?thesis using near_nearest [of r k] unfolding f by (simp add: mult_right_mono)
  qed
  obtain m e' where g: "g = (m, e')" by (cases g)
  show ?thesis
  proof (cases "e \<le> e'")
    case True
    then have "fval g = of_int (int m * 2 ^ nat (e' - e)) * 2 powi e"
      by (simp add: g fval_def power_int_diff flip: power_int_of_nat)
    with int show ?thesis by metis
  next
    case less: False
    have "(2::real) powi e' \<le> 2 powi (e - 1)" using less by (intro power_int_increasing) simp_all
    moreover have "real m \<le> 2 ^ 53" using assms(3) by (simp add: g float_normal_def)
    ultimately have "fval g \<le> 2 ^ 53 * 2 powi (e - 1)" by (simp add: g fval_def mult_mono)
    also have "2 ^ 53 * (2::real) powi (e - 1) = of_int (2 ^ 52) * 2 powi e" by (simp add: power_int_diff)
    finally have low: "fval g \<le> of_int (2 ^ 52) * 2 powi e" .
    have "of_int (2 ^ 52) * 2 powi e \<le> fraction_val x"
      using e less assms(3) by (auto simp: has_exponent_def g float_normal_def)
    with low int [of "2 ^ 52"] show ?thesis by linarith
  qed
qed

text \<open>A literal is read as the nearest number.\<close>

lemma ParseFloat_nearest:
  assumes "ParseFloat lit = Some (neg, f)" "read_decimal (if neg then tl lit else lit) = (d, t)" "float_normal g"
  shows "\<bar>real d * 10 powi t - fval f\<bar> \<le> \<bar>real d * 10 powi t - fval g\<bar>"
proof -
  have "round_float (scale_by 10 t (d, 1)) = Some f"
    using assms(1,2) by (auto simp: ParseFloat_def Let_def split: prod.splits)
  moreover have "fraction_val (scale_by 10 t (d, 1)) = real d * 10 powi t" "0 < snd (scale_by 10 t (d, 1))"
    using scale_val [of 10 "(d, 1)" t] by (simp_all add: fraction_val_def)
  ultimately show ?thesis using round_float_nearest assms(3) by metis
qed

lemma bit_length_eval [simp]:
  "bit_length (numeral n) = Suc (bit_length (numeral n div 2))" "bit_length (Suc 0) = 1" "bit_length 0 = 0"
  by (subst bit_length.simps; simp add: bit_length.simps)+

text \<open>Beyond \<open>2 ^ 53\<close> the numbers of the format are not dense enough to tell integers apart.\<close>

lemma integers_collide:
  "ParseFloat ''9007199254740993'' = Some (False, 2 ^ 52, 1)" "ParseFloat ''9007199254740992'' = Some (False, 2 ^ 52, 1)"
proof -
  have "read_decimal ''9007199254740993'' = (9007199254740993, 0)" "read_decimal ''9007199254740992'' = (9007199254740992, 0)"
    by (simp_all add: read_decimal_def is_digit_def digit_val_def)
  moreover have "round_float (9007199254740993, Suc 0) = Some (2 ^ 52, 1)" "round_float (9007199254740992, Suc 0) = Some (2 ^ 52, 1)"
    by (simp_all add: round_float_def float_exponent_def scale_by_def half_even_def Let_def)
  ultimately show "ParseFloat ''9007199254740993'' = Some (False, 2 ^ 52, 1)" "ParseFloat ''9007199254740992'' = Some (False, 2 ^ 52, 1)"
    by (simp_all add: ParseFloat_def scale_by_def)
qed

end
