(* ===== verification/Structs.thy ===== *)
theory Structs imports World Floats begin

text \<open>
  What \<open>json.Unmarshal\<close> does with the struct fields of this program: strings, UUIDs
  (through their \<open>UnmarshalText\<close>), slices of both and \<open>map[string]any\<close>. A missing
  member and \<open>null\<close> leave a scalar field alone; when two keys match a field the later
  one wins (maps are merged). The texts of decoding errors are not distinguished.
\<close>

section \<open>Decoding into any and map[string]any\<close>

definition json_error :: goerr where
  "json_error = ErrText ''json: cannot unmarshal value into Go struct field''"

text \<open>
  An object decodes into a Go map, and a number into a \<open>float64\<close>, which stands here as the literal
  that \<open>json.Marshal\<close> writes for it; a number out of range is an error.
\<close>

fun any_fits :: "json \<Rightarrow> bool" where
  "any_fits (JNum lit) = (ParseFloat lit \<noteq> None)"
| "any_fits (JArr js) = list_all any_fits js"
| "any_fits (JObj kvs) = list_all (\<lambda>(k, j). any_fits j) kvs"
| "any_fits j = True"

fun any_of :: "json \<Rightarrow> json" where
  "any_of (JNum lit) = JNum (case ParseFloat lit of None \<Rightarrow> lit | Some x \<Rightarrow> json_float x)"
| "any_of (JArr js) = JArr (map any_of js)"
| "any_of (JObj kvs) = JObj (gomap_of (map (\<lambda>(k, j). (k, any_of j)) kvs))"
| "any_of j = j"

text \<open>The maps that decoding produces: keys in order, values decoded.\<close>

definition canonical :: "gomap \<Rightarrow> bool" where
  "canonical m \<longleftrightarrow> is_gomap m \<and> (\<forall>v \<in> snd ` set m. any_of v = v \<and> any_fits v)"

fun scan_map :: "gomap option \<Rightarrow> json list \<Rightarrow> gomap option option" where
  "scan_map acc [] = Some acc"
| "scan_map acc (JNull # js) = scan_map None js"
| "scan_map acc (JObj kvs # js) =
     (if any_fits (JObj kvs)
      then scan_map (Some (fold (\<lambda>(k, v) m. map_put k (any_of v) m) kvs (case acc of None \<Rightarrow> [] | Some m \<Rightarrow> m))) js
      else None)"
| "scan_map acc (j # js) = None"

definition map_field :: "string \<Rightarrow> (string \<times> json) list \<Rightarrow> gomap option option" where
  "map_field name kvs = scan_map None (jfields name kvs)"

lemma fold_map_put_any:
  assumes "\<forall>v \<in> snd ` set kvs. any_of v = v"
  shows "fold (\<lambda>(k, v) m. map_put k (any_of v) m) kvs m = fold (\<lambda>(k, v) m. map_put k v m) kvs m"
  using assms by (induction kvs arbitrary: m) auto

lemma decode_canonical:
  "canonical m \<Longrightarrow> fold (\<lambda>(k, v). map_put k (any_of v)) m [] = m"
  "canonical m \<Longrightarrow> list_all (\<lambda>(k, j). any_fits j) m"
  by (auto simp: canonical_def fold_map_put_any gomap_of_id [unfolded gomap_of_def] list_all_iff)

lemma snd_map_put: "snd ` set (map_put k v m) \<subseteq> insert v (snd ` set m)"
  by (induction k v m rule: map_put.induct) auto

lemma snd_fold_map_put:
  "snd ` set (fold (\<lambda>(k, v) m. map_put k v m) kvs m) \<subseteq> snd ` set kvs \<union> snd ` set m"
proof (induction kvs arbitrary: m)
  case (Cons a kvs)
  obtain k v where a: "a = (k, v)" by (cases a)
  from Cons.IH [of "map_put k v m"] snd_map_put [of k v m] show ?case
    by (auto simp: a)
qed simp

lemma snd_gomap_of: "snd ` set (gomap_of kvs) \<subseteq> snd ` set kvs"
  using snd_fold_map_put [of kvs "[]"] by (simp add: gomap_of_def)

lemma snd_map_values: "snd ` set (map (\<lambda>(k, j). (k, f j)) kvs) = f ` snd ` set kvs"
  by (induction kvs) auto

lemma json_float_kept: "ParseFloat lit = Some x \<Longrightarrow> ParseFloat (json_float x) = Some x"
  by (auto simp: json_float_def intro: ParseFloat_layout ParseFloat_normal)

lemma any_fits_of: "any_fits j \<Longrightarrow> any_fits (any_of j)"
proof (induction j rule: any_of.induct)
  case (3 kvs)
  have "any_fits v" if "v \<in> snd ` set (map (\<lambda>(k, j). (k, any_of j)) kvs)" for v
  proof -
    from that obtain x where x: "x \<in> set kvs" and v: "v = any_of (snd x)" by (auto simp: snd_map_values)
    from x "3.prems" have "any_fits (snd x)" by (auto simp: list_all_iff)
    then show ?thesis using "3.IH" [OF x prod.collapse] by (simp add: v)
  qed
  with snd_gomap_of [of "map (\<lambda>(k, j). (k, any_of j)) kvs"] show ?case by (force simp: list_all_iff)
qed (auto simp: list_all_iff json_float_kept split: option.split)

lemma any_of_idem: "any_of (any_of j) = any_of j"
proof (induction j rule: any_of.induct)
  case (3 kvs)
  define m where "m = gomap_of (map (\<lambda>(k, j). (k, any_of j)) kvs)"
  have fixed: "any_of v = v" if "(k, v) \<in> set m" for k v
  proof -
    from that have "v \<in> snd ` set m" by force
    then have "v \<in> snd ` set (map (\<lambda>(k, j). (k, any_of j)) kvs)"
      unfolding m_def by (rule subsetD [OF snd_gomap_of])
    then have "v \<in> any_of ` snd ` set kvs" by (simp only: snd_map_values)
    then obtain x where x: "x \<in> set kvs" and v: "v = any_of (snd x)" by blast
    from "3.IH" [OF x prod.collapse] show ?thesis unfolding v .
  qed
  have "map (\<lambda>(k, j). (k, any_of j)) m = m"
    by (rule map_idI) (auto dest: fixed)
  moreover have "gomap_of m = m"
    by (simp add: m_def gomap_of_id is_gomap_gomap_of)
  ultimately have "any_of (JObj m) = JObj m" by simp
  then show ?case by (simp add: m_def)
qed (simp_all add: json_float_kept split: option.split)

text \<open>What decodes is canonical.\<close>

lemma canonical_Nil [simp]: "canonical []"
  by (simp add: canonical_def is_gomap_def)

lemma canonical_fold_any:
  assumes "canonical m" "list_all (\<lambda>(k, j). any_fits j) kvs"
  shows "canonical (fold (\<lambda>(k, v) m. map_put k (any_of v) m) kvs m)"
proof -
  let ?kvs = "map (\<lambda>(k, j). (k, any_of j)) kvs"
  have "fold (\<lambda>(k, v) m. map_put k (any_of v) m) kvs m = fold (\<lambda>(k, v) m. map_put k v m) ?kvs m" for m
    by (induction kvs arbitrary: m) auto
  moreover have "is_gomap (fold (\<lambda>(k, v) m. map_put k v m) ?kvs m)"
    using assms(1) by (intro is_gomap_fold) (simp add: canonical_def)
  moreover have "any_of v = v \<and> any_fits v" if v: "v \<in> snd ` set (fold (\<lambda>(k, v) m. map_put k v m) ?kvs m)" for v
  proof -
    from v snd_fold_map_put [of ?kvs m] have "v \<in> any_of ` snd ` set kvs \<union> snd ` set m"
      unfolding snd_map_values by (rule rev_subsetD)
    then show ?thesis
    proof
      assume "v \<in> any_of ` snd ` set kvs"
      then obtain k j where "(k, j) \<in> set kvs" "v = any_of j" by auto
      with assms(2) show ?thesis by (auto simp: list_all_iff any_of_idem any_fits_of)
    qed (use assms(1) in \<open>auto simp: canonical_def\<close>)
  qed
  ultimately show ?thesis unfolding canonical_def by (simp only:) blast
qed

lemma scan_map_canonical:
  "scan_map acc js = Some m \<Longrightarrow> canonical (case acc of None \<Rightarrow> [] | Some m \<Rightarrow> m) \<Longrightarrow>
     canonical (case m of None \<Rightarrow> [] | Some m \<Rightarrow> m)"
  by (induction acc js rule: scan_map.induct) (auto simp: canonical_fold_any split: if_splits)

section \<open>UUID fields\<close>

fun scan_uuid :: "ext \<Rightarrow> uuid \<Rightarrow> json list \<Rightarrow> uuid option" where
  "scan_uuid E acc [] = Some acc"
| "scan_uuid E acc (JNull # js) = scan_uuid E acc js"
| "scan_uuid E acc (JStr s # js) =
     (case uuid_Parse E s of None \<Rightarrow> None | Some u \<Rightarrow> scan_uuid E u js)"
| "scan_uuid E acc (j # js) = None"

definition uuid_field :: "ext \<Rightarrow> string \<Rightarrow> (string \<times> json) list \<Rightarrow> uuid option" where
  "uuid_field E name kvs = scan_uuid E 0 (jfields name kvs)"

section \<open>Slice fields\<close>

text \<open>A slice is nil (\<open>None\<close>) or has elements; only its encoding tells nil from empty.\<close>

type_synonym 'a slice = "'a list option"

definition elems :: "'a slice \<Rightarrow> 'a list" where
  "elems s = (case s of None \<Rightarrow> [] | Some xs \<Rightarrow> xs)"

lemma elems_simps [simp]: "elems None = []" "elems (Some xs) = xs"
  by (simp_all add: elems_def)

fun all_some :: "'a option list \<Rightarrow> 'a list option" where
  "all_some [] = Some []"
| "all_some (None # xs) = None"
| "all_some (Some x # xs) = map_option ((#) x) (all_some xs)"

lemma all_some_map: "(\<And>x. x \<in> set xs \<Longrightarrow> f x = Some (g x)) \<Longrightarrow> all_some (map f xs) = Some (map g xs)"
  by (induction xs) auto

fun scan_slice :: "(json \<Rightarrow> 'a option) \<Rightarrow> 'a slice \<Rightarrow> json list \<Rightarrow> 'a slice option" where
  "scan_slice f acc [] = Some acc"
| "scan_slice f acc (JNull # js) = scan_slice f None js"
| "scan_slice f acc (JArr xs # js) =
     (case all_some (map f xs) of None \<Rightarrow> None | Some ys \<Rightarrow> scan_slice f (Some ys) js)"
| "scan_slice f acc (j # js) = None"

definition uuid_slice_field :: "ext \<Rightarrow> string \<Rightarrow> (string \<times> json) list \<Rightarrow> uuid slice option" where
  "uuid_slice_field E name kvs = scan_slice (\<lambda>j. scan_uuid E 0 [j]) None (jfields name kvs)"

definition string_slice_field :: "string \<Rightarrow> (string \<times> json) list \<Rightarrow> string slice option" where
  "string_slice_field name kvs = scan_slice (\<lambda>j. scan_string [] [j]) None (jfields name kvs)"

text \<open>\<open>json.Marshal\<close> of a slice.\<close>

definition marshal_slice :: "('a \<Rightarrow> json) \<Rightarrow> 'a slice \<Rightarrow> json" where
  "marshal_slice f s = (case s of None \<Rightarrow> JNull | Some xs \<Rightarrow> JArr (map f xs))"

lemma scan_slice_marshal:
  assumes "\<And>x. g (f x) = Some x"
  shows "scan_slice g None [marshal_slice f s] = Some s"
  using all_some_map [of "the s" "\<lambda>x. g (f x)" "\<lambda>x. x"] assms
  by (cases s) (simp_all add: marshal_slice_def comp_def)

text \<open>
  \<open>json.Unmarshal\<close> into a struct: the members of an object, or of \<open>null\<close> none.
\<close>

fun members :: "json \<Rightarrow> (string \<times> json) list option" where
  "members (JObj kvs) = Some kvs"
| "members JNull = Some []"
| "members _ = None"

definition from_option :: "'a option \<Rightarrow> goerr + 'a" where
  "from_option x = (case x of None \<Rightarrow> Inl json_error | Some y \<Rightarrow> Inr y)"

lemma from_option_simps [simp]: "from_option None = Inl json_error" "from_option (Some y) = Inr y"
  by (simp_all add: from_option_def)

section \<open>Structs in structs, numbers, and decoding that goes on after an error\<close>

text \<open>An \<open>int\<close> field takes an integer literal in range.\<close>

fun scan_int_field :: "int \<Rightarrow> json list \<Rightarrow> int option" where
  "scan_int_field acc [] = Some acc"
| "scan_int_field acc (JNull # js) = scan_int_field acc js"
| "scan_int_field acc (JNum lit # js) =
     (case Atoi lit of None \<Rightarrow> None | Some i \<Rightarrow> scan_int_field i js)"
| "scan_int_field acc (j # js) = None"

definition int_field :: "string \<Rightarrow> (string \<times> json) list \<Rightarrow> int option" where
  "int_field name kvs = scan_int_field 0 (jfields name kvs)"

text \<open>The members of a nested struct, all its occurrences merged.\<close>

definition struct_field :: "string \<Rightarrow> (string \<times> json) list \<Rightarrow> (string \<times> json) list option" where
  "struct_field name kvs = map_option concat (all_some (map members (jfields name kvs)))"

text \<open>
  Where the code ignores the error of \<open>json.Unmarshal\<close>, the members of the right type
  are decoded all the same.
\<close>

definition lenient_string :: "string \<Rightarrow> (string \<times> json) list \<Rightarrow> string" where
  "lenient_string name kvs =
     fold (\<lambda>j acc. case j of JStr s \<Rightarrow> s | _ \<Rightarrow> acc) (jfields name kvs) []"

definition lenient_members :: "json \<Rightarrow> (string \<times> json) list" where
  "lenient_members j = (case j of JObj kvs \<Rightarrow> kvs | _ \<Rightarrow> [])"

definition lenient_struct :: "string \<Rightarrow> (string \<times> json) list \<Rightarrow> (string \<times> json) list" where
  "lenient_struct name kvs = concat (map lenient_members (jfields name kvs))"

definition lenient_array :: "string \<Rightarrow> (string \<times> json) list \<Rightarrow> json list" where
  "lenient_array name kvs =
     fold (\<lambda>j acc. case j of JArr js \<Rightarrow> js | JNull \<Rightarrow> [] | _ \<Rightarrow> acc) (jfields name kvs) []"

text \<open>\<open>json.Unmarshal\<close> of text: a syntax error decodes nothing.\<close>

definition json_syntax :: goerr where
  "json_syntax = ErrText ''invalid character in JSON text''"

definition parse_json :: "string \<Rightarrow> goerr + json" where
  "parse_json s = (case json_Parse s of None \<Rightarrow> Inl json_syntax | Some j \<Rightarrow> Inr j)"

definition decode_json :: "((string \<times> json) list \<Rightarrow> 'a option) \<Rightarrow> string \<Rightarrow> goerr + 'a" where
  "decode_json dec s = (case parse_json s of
      Inl err \<Rightarrow> Inl err
    | Inr j \<Rightarrow> from_option (Option.bind (members j) dec))"

definition lenient_json :: "string \<Rightarrow> (string \<times> json) list" where
  "lenient_json s = (case json_Parse s of None \<Rightarrow> [] | Some j \<Rightarrow> lenient_members j)"

text \<open>\<open>fmt.Errorf("... %w", err)\<close> where \<open>err\<close> may be nil, as two of the adapters call it.\<close>

definition errorf_nil :: "string \<Rightarrow> goerr option \<Rightarrow> goerr" where
  "errorf_nil pre e = (case e of
      None \<Rightarrow> ErrText (pre @ ''%!w(<nil>)'')
    | Some e \<Rightarrow> errorf pre e)"

text \<open>A string member left out when empty (\<open>omitempty\<close>), and so a map.\<close>

definition omit_empty :: "string \<Rightarrow> string \<Rightarrow> (string \<times> json) list" where
  "omit_empty key s = (if s = [] then [] else [(key, JStr s)])"

definition omit_map :: "string \<Rightarrow> gomap option \<Rightarrow> (string \<times> json) list" where
  "omit_map key m = (if elems m = [] then [] else [(key, JObj (elems m))])"

end
