(* ===== verification/Encoding.thy ===== *)
theory Encoding imports Golang begin

text \<open>
  The encodings the program stores and shows secrets in: base64 with the standard and the
  URL alphabet, padded and raw, hexadecimal, and \<open>strings.Split\<close> on one byte.
\<close>

section \<open>base64\<close>

text \<open>The two last digits depend on the alphabet.\<close>

datatype alphabet = StdAlphabet | URLAlphabet

fun digit62 :: "alphabet \<Rightarrow> char" where
  "digit62 StdAlphabet = CHR ''+''"
| "digit62 URLAlphabet = CHR ''-''"

fun digit63 :: "alphabet \<Rightarrow> char" where
  "digit63 StdAlphabet = CHR ''/''"
| "digit63 URLAlphabet = CHR ''_''"

definition b64_char :: "alphabet \<Rightarrow> nat \<Rightarrow> char" where
  "b64_char al n =
     (if n < 26 then char_of (65 + n)
      else if n < 52 then char_of (71 + n)
      else if n < 62 then char_of (n - 4)
      else if n = 62 then digit62 al else digit63 al)"

definition b64_val :: "alphabet \<Rightarrow> char \<Rightarrow> nat option" where
  "b64_val al c =
     (let n = (of_char c :: nat) in
      if 65 \<le> n \<and> n \<le> 90 then Some (n - 65)
      else if 97 \<le> n \<and> n \<le> 122 then Some (n - 71)
      else if 48 \<le> n \<and> n \<le> 57 then Some (n + 4)
      else if c = digit62 al then Some 62
      else if c = digit63 al then Some 63
      else None)"

definition byte_of :: "char \<Rightarrow> nat" where
  "byte_of c = of_char c"

definition pad_with :: "bool \<Rightarrow> nat \<Rightarrow> string" where
  "pad_with padded n = (if padded then replicate n (CHR ''='') else [])"

fun b64_encode :: "alphabet \<Rightarrow> bool \<Rightarrow> string \<Rightarrow> string" where
  "b64_encode al padded [] = []"
| "b64_encode al padded [a] =
     b64_char al (byte_of a div 4) # b64_char al (byte_of a mod 4 * 16) # pad_with padded 2"
| "b64_encode al padded [a, b] =
     b64_char al (byte_of a div 4) # b64_char al (byte_of a mod 4 * 16 + byte_of b div 16) #
     b64_char al (byte_of b mod 16 * 4) # pad_with padded 1"
| "b64_encode al padded (a # b # c # xs) =
     b64_char al (byte_of a div 4) # b64_char al (byte_of a mod 4 * 16 + byte_of b div 16) #
     b64_char al (byte_of b mod 16 * 4 + byte_of c div 64) # b64_char al (byte_of c mod 64) #
     b64_encode al padded xs"

definition byte1 :: "nat \<Rightarrow> nat \<Rightarrow> char" where
  "byte1 x y = char_of (x * 4 + y div 16)"

definition byte2 :: "nat \<Rightarrow> nat \<Rightarrow> char" where
  "byte2 y z = char_of (y mod 16 * 16 + z div 4)"

definition byte3 :: "nat \<Rightarrow> nat \<Rightarrow> char" where
  "byte3 z w = char_of (z mod 4 * 64 + w)"

text \<open>
  Decoding drops carriage returns and newlines first. A raw encoding may end in two or
  three digits, a padded one in \<open>==\<close> or \<open>=\<close>; unused low bits of the last digit are ignored.
\<close>

fun b64_quanta :: "alphabet \<Rightarrow> bool \<Rightarrow> string \<Rightarrow> string option" where
  "b64_quanta al padded [] = Some []"
| "b64_quanta al padded [c1] = None"
| "b64_quanta al padded [c1, c2] =
     (case (b64_val al c1, b64_val al c2) of
        (Some x, Some y) \<Rightarrow> if padded then None else Some [byte1 x y]
      | _ \<Rightarrow> None)"
| "b64_quanta al padded [c1, c2, c3] =
     (case (b64_val al c1, b64_val al c2, b64_val al c3) of
        (Some x, Some y, Some z) \<Rightarrow> if padded then None else Some [byte1 x y, byte2 y z]
      | _ \<Rightarrow> None)"
| "b64_quanta al padded (c1 # c2 # c3 # c4 # cs) =
     (case (b64_val al c1, b64_val al c2) of
        (Some x, Some y) \<Rightarrow>
          (case (b64_val al c3, b64_val al c4) of
             (Some z, Some w) \<Rightarrow> map_option (\<lambda>bs. byte1 x y # byte2 y z # byte3 z w # bs) (b64_quanta al padded cs)
           | (Some z, None) \<Rightarrow>
               if padded \<and> c4 = CHR ''='' \<and> cs = [] then Some [byte1 x y, byte2 y z] else None
           | (None, _) \<Rightarrow>
               if padded \<and> c3 = CHR ''='' \<and> c4 = CHR ''='' \<and> cs = [] then Some [byte1 x y] else None)
      | _ \<Rightarrow> None)"

definition b64_decode :: "alphabet \<Rightarrow> bool \<Rightarrow> string \<Rightarrow> string option" where
  "b64_decode al padded s = b64_quanta al padded (filter (\<lambda>c. c \<noteq> CHR 0x0A \<and> c \<noteq> CHR 0x0D) s)"

lemma of_char_char_of: "n < 256 \<Longrightarrow> (of_char (char_of n :: char) :: nat) = n"
  by simp

lemma b64_code:
  "n < 26 \<Longrightarrow> (of_char (b64_char al n) :: nat) = 65 + n"
  "26 \<le> n \<Longrightarrow> n < 52 \<Longrightarrow> (of_char (b64_char al n) :: nat) = 71 + n"
  "52 \<le> n \<Longrightarrow> n < 62 \<Longrightarrow> (of_char (b64_char al n) :: nat) = n - 4"
  by (simp_all add: b64_char_def of_char_char_of)

lemma b64_val_char [simp]:
  assumes "n < 64"
  shows "b64_val al (b64_char al n) = Some n"
proof -
  consider "n < 26" | "26 \<le> n" "n < 52" | "52 \<le> n" "n < 62" | "n = 62" | "n = 63"
    using assms by linarith
  then show ?thesis
  proof cases
    case 4
    then show ?thesis by (cases al) (simp_all add: b64_val_def b64_char_def)
  next
    case 5
    then show ?thesis by (cases al) (simp_all add: b64_val_def b64_char_def)
  qed (auto simp: b64_val_def b64_code Let_def)
qed

lemma b64_char_plain:
  assumes "n < 64"
  shows "b64_char al n \<noteq> CHR 0x0A \<and> b64_char al n \<noteq> CHR 0x0D \<and> b64_char al n \<noteq> CHR ''$''"
proof -
  have "b64_val al (CHR 0x0A) = None" "b64_val al (CHR 0x0D) = None" "b64_val al (CHR ''$'') = None"
    by (cases al; simp add: b64_val_def)+
  with b64_val_char [OF assms, of al] show ?thesis by (metis option.distinct(1))
qed

lemma byte_of_less: "byte_of c < 256"
  by (simp add: byte_of_def)

lemma char_of_byte: "char_of (byte_of c) = c"
  by (simp add: byte_of_def)

lemma quantum_bounds:
  fixes a b c :: nat
  assumes "a < 256" and "b < 256" and "c < 256"
  shows "a div 4 < 64" and "a mod 4 * 16 < 64" and "a mod 4 * 16 + b div 16 < 64"
    and "b mod 16 * 4 < 64" and "b mod 16 * 4 + c div 64 < 64" and "c mod 64 < 64"
  using assms by linarith+

lemmas bounds_bytes = quantum_bounds [OF byte_of_less byte_of_less byte_of_less]

lemma quantum_arith:
  fixes a b c :: nat
  assumes "b < 256" and "c < 256"
  shows "a div 4 * 4 + (a mod 4 * 16 + b div 16) div 16 = a"
    and "a div 4 * 4 + (a mod 4 * 16) div 16 = a"
    and "(a mod 4 * 16 + b div 16) mod 16 * 16 + (b mod 16 * 4 + c div 64) div 4 = b"
    and "(a mod 4 * 16 + b div 16) mod 16 * 16 + (b mod 16 * 4) div 4 = b"
    and "(b mod 16 * 4 + c div 64) mod 4 * 64 + c mod 64 = c"
proof -
  have b: "b div 16 < 16" and c: "c div 64 < 4" using assms by linarith+
  from b have 0: "b div 16 mod 16 = b div 16" by (rule mod_less)
  from b have 1: "(a mod 4 * 16 + b div 16) div 16 = a mod 4" "(a mod 4 * 16 + b div 16) mod 16 = b div 16"
    by (simp_all add: div_mult_self3)
  from c have 3: "c div 64 mod 4 = c div 64" by (rule mod_less)
  from c have 2: "(b mod 16 * 4 + c div 64) div 4 = b mod 16" "(b mod 16 * 4 + c div 64) mod 4 = c div 64"
    by simp_all
  show "a div 4 * 4 + (a mod 4 * 16 + b div 16) div 16 = a" by (simp add: 1)
  show "a div 4 * 4 + (a mod 4 * 16) div 16 = a" by simp
  show "(a mod 4 * 16 + b div 16) mod 16 * 16 + (b mod 16 * 4 + c div 64) div 4 = b" by (simp add: 0 2)
  show "(a mod 4 * 16 + b div 16) mod 16 * 16 + (b mod 16 * 4) div 4 = b" by (simp add: 0)
  show "(b mod 16 * 4 + c div 64) mod 4 * 64 + c mod 64 = c" by (simp add: 3)
qed

lemma byte_quantum [simp]:
  "byte1 (byte_of a div 4) (byte_of a mod 4 * 16 + byte_of b div 16) = a"
  "byte1 (byte_of a div 4) (byte_of a mod 4 * 16) = a"
  "byte2 (byte_of a mod 4 * 16 + byte_of b div 16) (byte_of b mod 16 * 4 + byte_of c div 64) = b"
  "byte2 (byte_of a mod 4 * 16 + byte_of b div 16) (byte_of b mod 16 * 4) = b"
  "byte3 (byte_of b mod 16 * 4 + byte_of c div 64) (byte_of c mod 64) = c"
  by (simp_all only: byte1_def byte2_def byte3_def quantum_arith [OF byte_of_less byte_of_less]
      char_of_byte)

lemma b64_val_pad [simp]: "b64_val al (CHR ''='') = None"
  by (cases al) (simp_all add: b64_val_def)

lemma b64_quanta_encode: "b64_quanta al padded (b64_encode al padded s) = Some s"
proof (induction al padded s rule: b64_encode.induct)
  case (2 al padded a)
  show ?case by (cases padded) (simp_all add: pad_with_def bounds_bytes numeral_2_eq_2)
next
  case (3 al padded a b)
  show ?case by (cases padded) (simp_all add: pad_with_def bounds_bytes)
next
  case (4 al padded a b c xs)
  then show ?case by (simp add: bounds_bytes)
qed simp

lemma b64_encode_plain:
  "x \<in> set (b64_encode al padded s) \<Longrightarrow> x \<noteq> CHR 0x0A \<and> x \<noteq> CHR 0x0D \<and> x \<noteq> CHR ''$''"
proof (induction al padded s rule: b64_encode.induct)
  case (2 al padded a)
  then show ?case
    by (auto simp: pad_with_def b64_char_plain bounds_bytes split: if_splits)
next
  case (3 al padded a b)
  then show ?case
    by (auto simp: pad_with_def b64_char_plain bounds_bytes split: if_splits)
next
  case (4 al padded a b c xs)
  then show ?case
    by (auto simp: b64_char_plain bounds_bytes)
qed simp

lemma b64_decode_encode: "b64_decode al padded (b64_encode al padded s) = Some s"
proof -
  have "filter (\<lambda>c. c \<noteq> CHR 0x0A \<and> c \<noteq> CHR 0x0D) (b64_encode al padded s) = b64_encode al padded s"
    using b64_encode_plain by (simp add: filter_id_conv)
  then show ?thesis by (simp add: b64_decode_def b64_quanta_encode)
qed

lemma b64_encode_inj: "b64_encode al padded s = b64_encode al padded t \<longleftrightarrow> s = t"
  using b64_decode_encode by (metis option.inject)

section \<open>Hexadecimal\<close>

definition hex_encode :: "string \<Rightarrow> string" where
  "hex_encode s = concat (map (\<lambda>c. [hex_digit (byte_of c div 16), hex_digit (byte_of c)]) s)"

lemma hex_digit_inj: "hex_digit m = hex_digit n \<longleftrightarrow> m mod 16 = n mod 16"
proof
  have "distinct ''0123456789abcdef''" by simp
  moreover assume "hex_digit m = hex_digit n"
  ultimately show "m mod 16 = n mod 16"
    unfolding hex_digit_def by (subst (asm) nth_eq_iff_index_eq) simp_all
qed (simp add: hex_digit_def)

lemma hex_byte_inj:
  assumes "hex_digit (byte_of c div 16) = hex_digit (byte_of d div 16)"
    and "hex_digit (byte_of c) = hex_digit (byte_of d)"
  shows "c = d"
proof -
  have "byte_of c div 16 < 16" "byte_of d div 16 < 16"
    using byte_of_less [of c] byte_of_less [of d] by linarith+
  then have "byte_of c div 16 = byte_of d div 16" "byte_of c mod 16 = byte_of d mod 16"
    using assms unfolding hex_digit_inj by (simp_all only: mod_less)
  then have "byte_of c div 16 * 16 + byte_of c mod 16 = byte_of d div 16 * 16 + byte_of d mod 16"
    by (simp only:)
  then have "char_of (byte_of c) = (char_of (byte_of d) :: char)" by (simp only: div_mult_mod_eq)
  then show ?thesis by (simp only: char_of_byte)
qed

lemma hex_encode_simps:
  "hex_encode [] = []"
  "hex_encode (c # s) = hex_digit (byte_of c div 16) # hex_digit (byte_of c) # hex_encode s"
  by (simp_all add: hex_encode_def)

lemma hex_encode_inj: "hex_encode s = hex_encode t \<Longrightarrow> s = t"
proof (induction s arbitrary: t)
  case Nil
  then show ?case by (cases t) (simp_all add: hex_encode_simps)
next
  case (Cons c s)
  from Cons.prems obtain d t' where t: "t = d # t'" by (cases t) (simp_all add: hex_encode_simps)
  from Cons.prems [unfolded t hex_encode_simps list.inject]
  have "c = d" and "hex_encode s = hex_encode t'" by (blast intro: hex_byte_inj)+
  with Cons.IH t show ?case by blast
qed

section \<open>strings.Split\<close>

fun split_on :: "char \<Rightarrow> string \<Rightarrow> string list" where
  "split_on sep [] = [[]]"
| "split_on sep (c # cs) =
     (if c = sep then [] # split_on sep cs
      else (case split_on sep cs of [] \<Rightarrow> [[c]] | p # ps \<Rightarrow> (c # p) # ps))"

lemma split_on_free: "sep \<notin> set s \<Longrightarrow> split_on sep s = [s]"
  by (induction s) auto

lemma split_on_append: "sep \<notin> set s \<Longrightarrow> split_on sep (s @ sep # t) = s # split_on sep t"
  by (induction s) auto

text \<open>\<open>strings.CutPrefix\<close>.\<close>

definition strip_prefix :: "string \<Rightarrow> string \<Rightarrow> string option" where
  "strip_prefix p s = (if take (length p) s = p then Some (drop (length p) s) else None)"

lemma strip_prefix_append [simp]: "strip_prefix p (p @ s) = Some s"
  by (simp add: strip_prefix_def)

lemma strip_prefix_SomeD: "strip_prefix p s = Some r \<Longrightarrow> s = p @ r"
  unfolding strip_prefix_def by (metis append_take_drop_id option.distinct(1) option.inject)

section \<open>The verbs of fmt.Sscanf\<close>

text \<open>
  \<open>%d\<close> skips leading blanks, then reads digits (after a sign for a signed operand) and
  fails when there are none or the value does not fit the operand.
\<close>

definition skip_space :: "string \<Rightarrow> string" where
  "skip_space s = dropWhile (\<lambda>c. c = CHR '' '' \<or> c = CHR 0x09) s"

definition scan_uint :: "nat \<Rightarrow> string \<Rightarrow> (nat \<times> string) option" where
  "scan_uint bits s =
     (let s' = skip_space s; ds = takeWhile is_digit s'; v = digits_val 0 ds
      in if ds = [] \<or> v \<ge> 2 ^ bits then None else Some (v, dropWhile is_digit s'))"

definition scan_int :: "string \<Rightarrow> (int \<times> string) option" where
  "scan_int s =
     (let s' = skip_space s;
          (sign, t) = (case s' of c # cs \<Rightarrow> if c = CHR ''-'' then (- 1, cs) else if c = CHR ''+'' then (1, cs) else (1, s')
                       | [] \<Rightarrow> (1, []));
          ds = takeWhile is_digit t; v = sign * int (digits_val 0 ds)
      in if ds = [] \<or> v < - (2 ^ 63) \<or> v \<ge> 2 ^ 63 then None else Some (v, dropWhile is_digit t))"

lemma scan_uint_digits:
  assumes "n < 2 ^ bits" and "rest = [] \<or> \<not> is_digit (hd rest)"
  shows "scan_uint bits (nat_digits n @ rest) = Some (n, rest)"
proof -
  obtain c cs where ds: "nat_digits n = c # cs" "is_digit c" "list_all is_digit cs" "digits_val 0 (c # cs) = n"
    using nat_digits_props [of n] by (cases "nat_digits n") auto
  then have "c \<noteq> CHR '' ''" "c \<noteq> CHR 0x09" by (auto simp: is_digit_def)
  then have skip: "skip_space (c # cs @ rest) = c # cs @ rest" by (simp add: skip_space_def)
  have "takeWhile is_digit (cs @ rest) = cs" "dropWhile is_digit (cs @ rest) = rest"
    using ds(3) assms(2) by (cases rest; auto simp: list_all_iff takeWhile_append dropWhile_append)+
  then show ?thesis
    using ds assms(1) by (simp add: scan_uint_def Let_def skip)
qed

lemma scan_int_digits:
  assumes "n < 2 ^ 63" and "rest = [] \<or> \<not> is_digit (hd rest)"
  shows "scan_int (nat_digits n @ rest) = Some (int n, rest)"
proof -
  obtain c cs where ds: "nat_digits n = c # cs" "is_digit c" "list_all is_digit cs" "digits_val 0 (c # cs) = n"
    using nat_digits_props [of n] by (cases "nat_digits n") auto
  then have plain: "c \<noteq> CHR '' ''" "c \<noteq> CHR 0x09" "c \<noteq> CHR ''-''" "c \<noteq> CHR ''+''"
    by (auto simp: is_digit_def)
  then have skip: "skip_space (c # cs @ rest) = c # cs @ rest" by (simp add: skip_space_def)
  have "takeWhile is_digit (cs @ rest) = cs" "dropWhile is_digit (cs @ rest) = rest"
    using ds(3) assms(2) by (cases rest; auto simp: list_all_iff takeWhile_append dropWhile_append)+
  moreover have "int n < 2 ^ 63" using assms(1) by simp
  ultimately show ?thesis
    using ds plain by (simp add: scan_int_def Let_def skip)
qed

end
