(* ===== verification/Samples.thy ===== *)
theory Samples imports Structs Encoding begin

text \<open>
  Concrete inputs for the witnesses: one instance of the third-party functions that
  satisfies their documented laws, and a world whose services all answer.
\<close>

definition digits_uuid :: "string \<Rightarrow> uuid option" where
  "digits_uuid s =
     (if s \<noteq> [] \<and> list_all is_digit s \<and> digits_val 0 s < 2 ^ 128 then Some (of_nat (digits_val 0 s)) else None)"

definition sample_ext :: ext where
  "sample_ext = \<lparr>
     uuid_String = (\<lambda>u. nat_digits (unat u)),
     uuid_Parse = digits_uuid,
     gcm_Seal = (\<lambda>k n p. k @ n @ p),
     gcm_Open = (\<lambda>k n c. strip_prefix (k @ n) c),
     sha256_Sum256 = (\<lambda>s. take 32 (s @ replicate 32 (CHR ''0''))),
     argon2_IDKey = (\<lambda>p s t m c n. take n (p @ s @ replicate n (CHR ''0''))),
     jwt_Config = (\<lambda>s. Inr s),
     x509_KeyPair = (\<lambda>c k. Inr (c @ k)),
     p8_AuthKey = (\<lambda>s. Inr s),
     url_Parse = (\<lambda>s. None)\<rparr>"

lemma uuid_codec_sample: "uuid_codec sample_ext"
proof -
  have "unat u < 2 ^ LENGTH(128)" for u :: uuid by (rule unsigned_less)
  then have "digits_uuid (nat_digits (unat u)) = Some u" for u :: uuid
    using nat_digits_props [of "unat u"] by (simp add: digits_uuid_def)
  then show ?thesis by (simp add: uuid_codec_def sample_ext_def)
qed

definition empty_db :: tables where
  "empty_db = \<lparr>projects = [], subscribers = [], devices = [], notifications = [], recipients = [],
     credentials = [], api_keys = [], users = [], sessions = []\<rparr>"

definition sample_world :: world where
  "sample_world = \<lparr>
     w_db = empty_db, w_tx = None, w_stmts = 0,
     w_server = (\<lambda>i. \<lparr>se_fault = Served, se_now = int i, se_uuid = of_nat (100 + i)\<rparr>),
     w_enqs = [], w_asynq = (\<lambda>log c. Enqueued),
     w_limits = [], w_redis = (\<lambda>log c. LimitResult 1 0),
     w_https = [], w_net = (\<lambda>log q. Inl (ErrText ''connection refused'')),
     w_oauths = [], w_oauth = (\<lambda>log c. Inr ''token''),
     w_pushes = [], w_apns = (\<lambda>log p. Inl (ErrText ''connection refused'')),
     w_reads = 0, w_clock = int,
     w_draws = 0, w_entropy = (\<lambda>i. Some (\<lambda>j. CHR ''x'')),
     w_fcm_sources = (\<lambda>k. None), w_hms_tokens = (\<lambda>k. None), w_apns_clients = (\<lambda>k. None)\<rparr>"

end
