(* ===== verification/Queue.thy ===== *)
theory Queue imports Samples begin

text \<open>
  \<open>internal/queue/queue.go\<close>: task names and payloads, what is handed to asynq, and how a
  failed task is classified and rescheduled.
\<close>

section \<open>Names and payloads\<close>

definition QueueFanout :: string where
  "QueueFanout = ''fanout''"

definition TypeFanout :: string where
  "TypeFanout = ''fanout''"

definition SendTypeFor :: "string \<Rightarrow> string" where
  "SendTypeFor providerType = ''send:'' @ providerType"

record FanoutPayload =
  fp_NotificationID :: uuid
  fp_ProjectID :: uuid

record SendPayload =
  sp_NotificationID :: uuid
  sp_RecipientID :: uuid
  sp_DeviceID :: uuid
  sp_ProjectID :: uuid
  sp_ProviderType :: string
  sp_Token :: string
  sp_Title :: string
  sp_Body :: string
  sp_Data :: "gomap option"

definition marshal_FanoutPayload :: "ext \<Rightarrow> FanoutPayload \<Rightarrow> json" where
  "marshal_FanoutPayload E p = JObj
     [(''notification_id'', JStr (uuid_String E (fp_NotificationID p))),
      (''project_id'', JStr (uuid_String E (fp_ProjectID p)))]"

text \<open>\<open>omitempty\<close> leaves out a nil and an empty map.\<close>

definition marshal_SendPayload :: "ext \<Rightarrow> SendPayload \<Rightarrow> json" where
  "marshal_SendPayload E p = JObj (
     [(''notification_id'', JStr (uuid_String E (sp_NotificationID p))),
      (''recipient_id'', JStr (uuid_String E (sp_RecipientID p))),
      (''device_id'', JStr (uuid_String E (sp_DeviceID p))),
      (''project_id'', JStr (uuid_String E (sp_ProjectID p))),
      (''provider_type'', JStr (sp_ProviderType p)),
      (''token'', JStr (sp_Token p)),
      (''title'', JStr (sp_Title p)),
      (''body'', JStr (sp_Body p))] @
     (case sp_Data p of None \<Rightarrow> [] | Some m \<Rightarrow> if m = [] then [] else [(''data'', JObj m)]))"

definition unmarshal_FanoutPayload :: "ext \<Rightarrow> json \<Rightarrow> goerr + FanoutPayload" where
  "unmarshal_FanoutPayload E j = from_option (do {
     kvs \<leftarrow> members j;
     nid \<leftarrow> uuid_field E ''notification_id'' kvs;
     pid \<leftarrow> uuid_field E ''project_id'' kvs;
     Some \<lparr>fp_NotificationID = nid, fp_ProjectID = pid\<rparr> })"

definition unmarshal_SendPayload :: "ext \<Rightarrow> json \<Rightarrow> goerr + SendPayload" where
  "unmarshal_SendPayload E j = from_option (do {
     kvs \<leftarrow> members j;
     nid \<leftarrow> uuid_field E ''notification_id'' kvs;
     rid \<leftarrow> uuid_field E ''recipient_id'' kvs;
     did \<leftarrow> uuid_field E ''device_id'' kvs;
     pid \<leftarrow> uuid_field E ''project_id'' kvs;
     prov \<leftarrow> string_field ''provider_type'' kvs;
     tok \<leftarrow> string_field ''token'' kvs;
     title \<leftarrow> string_field ''title'' kvs;
     body \<leftarrow> string_field ''body'' kvs;
     data \<leftarrow> map_field ''data'' kvs;
     Some \<lparr>sp_NotificationID = nid, sp_RecipientID = rid, sp_DeviceID = did, sp_ProjectID = pid,
       sp_ProviderType = prov, sp_Token = tok, sp_Title = title, sp_Body = body, sp_Data = data\<rparr> })"

section \<open>Enqueueing\<close>

definition EnqueueFanout :: "ext \<Rightarrow> FanoutPayload \<Rightarrow> (world, goerr option) state" where
  "EnqueueFanout E payload = asynq_Enqueue
     \<lparr>e_Type = TypeFanout, e_Payload = marshal_FanoutPayload E payload, e_Queue = QueueFanout,
      e_MaxRetry = 3, e_TaskID = None\<rparr>"

definition send_call :: "ext \<Rightarrow> SendPayload \<Rightarrow> enq_call" where
  "send_call E payload =
     (let taskType = SendTypeFor (sp_ProviderType payload)
      in \<lparr>e_Type = taskType, e_Payload = marshal_SendPayload E payload, e_Queue = taskType,
          e_MaxRetry = 5, e_TaskID = Some (uuid_String E (sp_RecipientID payload))\<rparr>)"

definition EnqueueSend :: "ext \<Rightarrow> SendPayload \<Rightarrow> (world, goerr option) state" where
  "EnqueueSend E payload = do {
     err \<leftarrow> asynq_Enqueue (send_call E payload);
     case err of
       None \<Rightarrow> ret None
     | Some e \<Rightarrow> if errors_is e ErrTaskIDConflict then ret None else ret (Some e) }"

section \<open>Retries\<close>

text \<open>\<open>asynq.DefaultRetryDelayFunc\<close> is the argument \<open>backoff\<close>.\<close>

definition RetryDelayFunc :: "(nat \<Rightarrow> goerr \<Rightarrow> duration) \<Rightarrow> nat \<Rightarrow> goerr \<Rightarrow> duration" where
  "RetryDelayFunc backoff n err =
     (case as_throttled err of
        Some (retryAfter, _) \<Rightarrow> if 0 < sint retryAfter then retryAfter else backoff n err
      | None \<Rightarrow> backoff n err)"

definition IsFailure :: "goerr \<Rightarrow> bool" where
  "IsFailure err \<longleftrightarrow> as_throttled err = None"

section \<open>Lemmas\<close>

lemma key_match_simps [simp]: "key_match name name"
  by (simp add: key_match_def)

lemma jfields_simps [simp]:
  "jfields name [] = []"
  "jfields name ((k, v) # kvs) = (if key_match name k then v # jfields name kvs else jfields name kvs)"
  by (simp_all add: jfields_def)

lemma jfields_append [simp]: "jfields name (xs @ ys) = jfields name xs @ jfields name ys"
  by (simp add: jfields_def)

lemma scan_uuid_String [simp]: "uuid_codec E \<Longrightarrow> scan_uuid E acc [JStr (uuid_String E u)] = Some u"
  by (simp add: uuid_codec_def)

lemmas field_decoding = uuid_field_def string_field_def map_field_def uuid_slice_field_def
  string_slice_field_def key_match_def lower_char_def

lemma EnqueueSend_value:
  "value_of (EnqueueSend E p) w =
     (case w_asynq w (w_enqs w) (send_call E p) of
        Enqueued \<Rightarrow> None
      | EnqueueFailed e \<Rightarrow> if errors_is e ErrTaskIDConflict then None else Some e)"
  by (simp add: EnqueueSend_def asynq_Enqueue_def Let_def split: enq_result.split option.split)

lemma EnqueueSend_final:
  "final (EnqueueSend E p) w =
     w\<lparr>w_enqs := w_enqs w @ [(send_call E p, w_asynq w (w_enqs w) (send_call E p))]\<rparr>"
  by (simp add: EnqueueSend_def asynq_Enqueue_def Let_def split: enq_result.split option.split)

lemma EnqueueFanout_final:
  "\<exists>c r. final (EnqueueFanout E p) w = w\<lparr>w_enqs := w_enqs w @ [(c, r)]\<rparr>"
  by (auto simp: EnqueueFanout_def asynq_Enqueue_def Let_def)

lemma enqueue_db [frame_simps]:
  "w_db (final (EnqueueFanout E fp) w) = w_db w"
  "w_db (final (EnqueueSend E sp) w) = w_db w"
  by (simp_all add: EnqueueFanout_def EnqueueSend_final frame_simps)

text \<open>The chain of an error: itself and what its \<open>Unwrap\<close> methods reach.\<close>

inductive wraps :: "goerr \<Rightarrow> goerr \<Rightarrow> bool" where
  wraps_self: "wraps e e"
| wraps_errorf: "e \<in> set es \<Longrightarrow> wraps e t \<Longrightarrow> wraps (ErrWrapped s es) t"
| wraps_throttled: "wraps e t \<Longrightarrow> wraps (ErrThrottled d e) t"

inductive_simps wraps_simps:
  "wraps (ErrWrapped s es) t" "wraps (ErrThrottled d e) t" "wraps (ErrText m) t" "wraps ErrNoRows t"
  "wraps ErrSkipRetry t" "wraps ErrTaskIDConflict t" "wraps ErrEmptyTargets t" "wraps ErrNoTargetsSpecified t"

lemma errors_is_wraps: "errors_is e t \<longleftrightarrow> wraps e t"
  by (induction e t rule: errors_is.induct) (auto simp: wraps_simps)

lemma first_some_map: "first_some (map f xs) = Some y \<Longrightarrow> \<exists>x \<in> set xs. f x = Some y"
  by (induction xs) (auto split: option.splits elim: first_some.elims)

lemma as_throttled_wraps: "as_throttled e = Some (d, e') \<Longrightarrow> wraps e (ErrThrottled d e')"
  by (induction e arbitrary: d e' rule: as_throttled.induct)
    (auto simp: wraps_simps dest!: first_some_map)

lemma wraps_as_throttled: "wraps e t \<Longrightarrow> as_throttled t \<noteq> None \<Longrightarrow> as_throttled e \<noteq> None"
  by (induction rule: wraps.induct) (auto simp: first_some_None simp del: not_None_eq)

lemma SendPayload_decodes:
  assumes "uuid_codec E" and "canonical (case sp_Data p of None \<Rightarrow> [] | Some m \<Rightarrow> m)"
  shows "unmarshal_SendPayload E (marshal_SendPayload E p) =
    Inr (p\<lparr>sp_Data := (if sp_Data p = Some [] then None else sp_Data p)\<rparr>)"
  using assms
  by (cases "sp_Data p")
    (simp_all add: unmarshal_SendPayload_def marshal_SendPayload_def field_decoding uuid_codec_def
      decode_canonical)

lemma FanoutPayload_roundtrip:
  assumes "uuid_codec E"
  shows "unmarshal_FanoutPayload E (marshal_FanoutPayload E p) = Inr p"
  using assms
  by (simp add: unmarshal_FanoutPayload_def marshal_FanoutPayload_def field_decoding uuid_codec_def)

section \<open>Properties\<close>

text \<open>
  A send task carries to the worker what the fanout handler put into it: decoding the
  payload \<open>EnqueueSend\<close> marshals gives every field back; an empty data map comes back as
  nil, as \<open>omitempty\<close> drops it.
\<close>

theorem SendPayload_roundtrip:
  assumes "uuid_codec E" and "canonical (case sp_Data p of None \<Rightarrow> [] | Some m \<Rightarrow> m)"
  shows "unmarshal_SendPayload E (marshal_SendPayload E p) =
    Inr (p\<lparr>sp_Data := (if sp_Data p = Some [] then None else sp_Data p)\<rparr>)"
  using assms by (rule SendPayload_decodes)

theorem SendPayload_roundtrip_witness:
  "unmarshal_SendPayload sample_ext (marshal_SendPayload sample_ext
     \<lparr>sp_NotificationID = 1, sp_RecipientID = 2, sp_DeviceID = 3, sp_ProjectID = 4,
      sp_ProviderType = ''fcm'', sp_Token = ''t'', sp_Title = ''a'', sp_Body = ''b'',
      sp_Data = Some [(''k'', JStr ''v'')]\<rparr>) =
   Inr \<lparr>sp_NotificationID = 1, sp_RecipientID = 2, sp_DeviceID = 3, sp_ProjectID = 4,
      sp_ProviderType = ''fcm'', sp_Token = ''t'', sp_Title = ''a'', sp_Body = ''b'',
      sp_Data = Some [(''k'', JStr ''v'')]\<rparr>"
  using SendPayload_roundtrip [of sample_ext "\<lparr>sp_NotificationID = 1, sp_RecipientID = 2,
      sp_DeviceID = 3, sp_ProjectID = 4, sp_ProviderType = ''fcm'', sp_Token = ''t'', sp_Title = ''a'',
      sp_Body = ''b'', sp_Data = Some [(''k'', JStr ''v'')]\<rparr>"]
  by (simp add: uuid_codec_sample canonical_def is_gomap_def)

text \<open>
  The retry policy: an error does not count against a task's retries exactly when a
  throttling error is somewhere in its chain, and the delay before the next attempt is
  asynq's own or the positive \<open>Retry-After\<close> of such an error.
\<close>

theorem retry_policy:
  "IsFailure err = (\<nexists>d e. wraps err (ErrThrottled d e)) \<and>
   (RetryDelayFunc backoff n err = backoff n err \<or>
    (\<exists>e. wraps err (ErrThrottled (RetryDelayFunc backoff n err) e) \<and> 0 < sint (RetryDelayFunc backoff n err)))"
proof
  show "IsFailure err = (\<nexists>d e. wraps err (ErrThrottled d e))"
  proof (cases "as_throttled err")
    case None
    then show ?thesis by (auto simp: IsFailure_def dest: wraps_as_throttled)
  next
    case (Some p)
    then show ?thesis using as_throttled_wraps [of err "fst p" "snd p"] by (auto simp: IsFailure_def)
  qed
  show "RetryDelayFunc backoff n err = backoff n err \<or>
    (\<exists>e. wraps err (ErrThrottled (RetryDelayFunc backoff n err) e) \<and> 0 < sint (RetryDelayFunc backoff n err))"
    using as_throttled_wraps [of err] by (auto simp: RetryDelayFunc_def split: option.split)
qed

end
