(* ===== verification/Crypto.thy ===== *)
theory Crypto imports Samples begin

text \<open>
  \<open>internal/crypto/crypto.go\<close>: envelope encryption of provider credentials. AES-GCM is a
  third-party function; the documented law used of it is that opening what was sealed with
  the same key and nonce gives the plaintext back.
\<close>

definition gcm_law :: "ext \<Rightarrow> bool" where
  "gcm_law E \<longleftrightarrow> (\<forall>key nonce plain. gcm_Open E key nonce (gcm_Seal E key nonce plain) = Some plain)"

lemma gcm_law_sample: "gcm_law sample_ext"
  by (simp add: gcm_law_def sample_ext_def strip_prefix_def)

definition keySize :: nat where
  "keySize = 32"

definition NonceSize :: nat where
  "NonceSize = 12"

text \<open>A master key is an array of 32 bytes.\<close>

type_synonym MasterKey = string

definition LoadMasterKey :: "string \<Rightarrow> goerr + MasterKey" where
  "LoadMasterKey base64Key =
     (if base64Key = [] then Inl (ErrText ''APP_MASTER_KEY is not set'')
      else case b64_decode StdAlphabet True base64Key of
        None \<Rightarrow> Inl (errorf ''APP_MASTER_KEY is not valid base64: '' (ErrText ''illegal base64 data''))
      | Some raw \<Rightarrow>
          if length raw \<noteq> keySize
          then Inl (ErrText (''APP_MASTER_KEY must decode to 32 bytes, got '' @ Itoa (int (length raw))))
          else Inr raw)"

text \<open>\<open>aes.NewCipher\<close> accepts keys of 16, 24 and 32 bytes.\<close>

definition aes_NewCipher :: "string \<Rightarrow> goerr + string" where
  "aes_NewCipher key =
     (if length key \<in> {16, 24, 32} then Inr key
      else Inl (ErrText (''crypto/aes: invalid key size '' @ Itoa (int (length key)))))"

definition seal :: "ext \<Rightarrow> string \<Rightarrow> string \<Rightarrow> (world, goerr + string) state" where
  "seal E key plaintext = (case aes_NewCipher key of
      Inl err \<Rightarrow> ret (Inl err)
    | Inr gcm \<Rightarrow> attempt id (rand_Read NonceSize) (\<lambda>nonce.
        ret (Inr (nonce @ gcm_Seal E gcm nonce plaintext))))"

definition open_sealed :: "ext \<Rightarrow> string \<Rightarrow> string \<Rightarrow> goerr + string" where
  "open_sealed E key data = (case aes_NewCipher key of
      Inl err \<Rightarrow> Inl err
    | Inr gcm \<Rightarrow>
        if length data < NonceSize then Inl (ErrText ''ciphertext too short'')
        else (case gcm_Open E gcm (take NonceSize data) (drop NonceSize data) of
            None \<Rightarrow> Inl (ErrText ''cipher: message authentication failed'')
          | Some plain \<Rightarrow> Inr plain))"

definition Seal :: "ext \<Rightarrow> MasterKey \<Rightarrow> string \<Rightarrow> (world, goerr + string \<times> string) state" where
  "Seal E mk plaintext =
     attempt id (rand_Read keySize) (\<lambda>dek.
     attempt id (seal E dek plaintext) (\<lambda>ciphertext.
     attempt id (seal E mk dek) (\<lambda>wrappedDEK.
     ret (Inr (wrappedDEK, ciphertext)))))"

definition Open :: "ext \<Rightarrow> MasterKey \<Rightarrow> string \<Rightarrow> string \<Rightarrow> goerr + string" where
  "Open E mk wrappedDEK ciphertext = (case open_sealed E mk wrappedDEK of
      Inl err \<Rightarrow> Inl (errorf ''unwrap dek: '' err)
    | Inr dek \<Rightarrow> (case open_sealed E dek ciphertext of
        Inl err \<Rightarrow> Inl (errorf ''decrypt credential: '' err)
      | Inr plaintext \<Rightarrow> Inr plaintext))"

section \<open>Lemmas\<close>

lemma LoadMasterKey_length: "LoadMasterKey s = Inr mk \<Longrightarrow> length mk = keySize"
  by (auto simp: LoadMasterKey_def split: if_splits option.splits)

lemma LoadMasterKey_encode:
  "length mk = keySize \<Longrightarrow> LoadMasterKey (b64_encode StdAlphabet True mk) = Inr mk"
  using b64_decode_encode [of StdAlphabet True mk]
  by (cases "b64_encode StdAlphabet True mk = []")
    (auto simp: LoadMasterKey_def keySize_def b64_decode_def)

lemma seal_Inr:
  assumes "value_of (seal E key plaintext) w = Inr sealed"
  obtains nonce where "length nonce = NonceSize" and "sealed = nonce @ gcm_Seal E key nonce plaintext"
    and "length key \<in> {16, 24, 32}"
  using assms
  by (auto simp: seal_def aes_NewCipher_def split: if_splits elim!: attempt_InrE dest: rand_Read_length)

lemma open_seal:
  assumes "gcm_law E" and "value_of (seal E key plaintext) w = Inr sealed"
  shows "open_sealed E key sealed = Inr plaintext"
  by (rule seal_Inr [OF assms(2)])
    (use assms(1) in \<open>auto simp: open_sealed_def aes_NewCipher_def gcm_law_def\<close>)

lemma seal_db [frame_simps]: "w_db (final (seal E key plaintext) w) = w_db w"
  by (simp add: seal_def attempt_simps frame_simps split: sum.split)

lemma Seal_db [frame_simps]: "w_db (final (Seal E mk plaintext) w) = w_db w"
  by (simp add: Seal_def attempt_simps frame_simps split: sum.split)

lemma Seal_opens:
  assumes "gcm_law E" and "value_of (Seal E mk plaintext) w = Inr (wrappedDEK, ciphertext)"
  shows "Open E mk wrappedDEK ciphertext = Inr plaintext"
  using assms(2) unfolding Seal_def
  by (elim attempt_InrE) (auto simp: Open_def dest!: open_seal [OF assms(1)])

section \<open>Properties\<close>

text \<open>
  What \<open>Seal\<close> returns opens to the plaintext under the same master key, whatever the
  random source delivered, for a GCM that opens what it sealed.
\<close>

theorem Open_Seal:
  assumes "gcm_law E" and "value_of (Seal E mk plaintext) w = Inr (wrappedDEK, ciphertext)"
  shows "Open E mk wrappedDEK ciphertext = Inr plaintext"
  using assms by (rule Seal_opens)

theorem Open_Seal_witness:
  "\<exists>dek ct. value_of (Seal sample_ext (replicate 32 (CHR ''k'')) ''secret'') sample_world = Inr (dek, ct) \<and>
     Open sample_ext (replicate 32 (CHR ''k'')) dek ct = Inr ''secret''"
proof -
  have "\<exists>dek ct. value_of (Seal sample_ext (replicate 32 (CHR ''k'')) ''secret'') sample_world = Inr (dek, ct)"
    by (simp add: Seal_def seal_def attempt_simps rand_Read_def sample_world_def keySize_def
        aes_NewCipher_def)
  then show ?thesis using Open_Seal [OF gcm_law_sample] by blast
qed

end
