(* ===== verification/ApiKey.thy ===== *)
theory ApiKey imports Samples begin

text \<open>
  \<open>internal/apikey\<close>: scopes, generation and hashing of API keys, and the two rate
  ceilings. Both limiters of the service (this one and the outbound limiter of the
  dispatch package) meet the contract of the locale \<open>gate\<close>.
\<close>

section \<open>Scopes\<close>

type_synonym Scope = string

definition ScopeRead :: Scope where
  "ScopeRead = ''read''"

definition ScopeSend :: Scope where
  "ScopeSend = ''send''"

definition ParseScope :: "string \<Rightarrow> Scope option" where
  "ParseScope s = (if s = ScopeRead \<or> s = ScopeSend then Some s else None)"

definition Satisfies :: "Scope \<Rightarrow> Scope \<Rightarrow> bool" where
  "Satisfies s required = (if s = ScopeSend then True else s = required)"

section \<open>Keys\<close>

definition livePrefix :: string where
  "livePrefix = ''sp_live_''"

definition displayPrefixLen :: nat where
  "displayPrefixLen = length livePrefix + 6"

definition Generate :: "(world, goerr + string \<times> string) state" where
  "Generate = attempt (errorf ''generate api key: '') (rand_Read 32) (\<lambda>b.
     let raw = livePrefix @ b64_encode URLAlphabet False b
     in ret (Inr (raw, take displayPrefixLen raw)))"

definition Hash :: "ext \<Rightarrow> string \<Rightarrow> string" where
  "Hash E raw = hex_encode (sha256_Sum256 E raw)"

section \<open>Rate limits\<close>

text \<open>\<open>limiter.Allow\<close>, read as the code reads it: an error lets the call through.\<close>

definition limiter_check :: "string \<Rightarrow> int \<Rightarrow> (world, bool \<times> duration) state" where
  "limiter_check key rps = do {
     res \<leftarrow> redis_Allow \<lparr>l_Key = key, l_Rate = rps\<rparr>;
     (case res of
        LimitError err \<Rightarrow> ret (True, 0)
      | LimitResult allowed retryAfter \<Rightarrow> if allowed = 0 then ret (False, retryAfter) else ret (True, 0)) }"

record RateLimiter =
  perKey :: int
  perProject :: int

definition NewRateLimiter :: "int \<Rightarrow> RateLimiter" where
  "NewRateLimiter rps = \<lparr>perKey = rps, perProject = int64 (rps * 5)\<rparr>"

definition RateLimiter_Allow ::
  "ext \<Rightarrow> RateLimiter \<Rightarrow> uuid \<Rightarrow> uuid \<Rightarrow> (world, bool \<times> duration) state"
where
  "RateLimiter_Allow E r apiKeyID projectID = do {
     (ok, ra) \<leftarrow> limiter_check (''apikey:'' @ uuid_String E apiKeyID) (perKey r);
     if \<not> ok then ret (False, ra)
     else do {
       (ok, ra) \<leftarrow> limiter_check (''project:'' @ uuid_String E projectID) (perProject r);
       if \<not> ok then ret (False, ra) else ret (True, 0) } }"

section \<open>The contract of a gate\<close>

text \<open>
  A gate denies only on Redis' word, passing on its delay, and does nothing else.
\<close>

locale gate =
  fixes allow :: "'k \<Rightarrow> (world, bool \<times> duration) state"
  assumes denial: "\<not> fst (value_of (allow k) w) \<Longrightarrow>
      \<exists>log c. w_redis w log c = LimitResult 0 (snd (value_of (allow k) w))"
    and only_limits: "\<exists>log. final (allow k) w = w\<lparr>w_limits := log\<rparr>"
begin

lemma fails_open:
  assumes "\<And>log c. \<exists>e. w_redis w log c = LimitError e"
  shows "fst (value_of (allow k) w)"
  using denial [of k w] assms by (metis limit_result.distinct(1))

lemma gate_db: "w_db (final (allow k) w) = w_db w"
  using only_limits [of k w] by auto

lemma gate_store_side: "store_side (final (allow k) w) = store_side w"
  using only_limits [of k w] by (auto simp: store_side_def)

lemma gate_wire:
  "w_https (final (allow k) w) = w_https w" "w_pushes (final (allow k) w) = w_pushes w"
  "w_enqs (final (allow k) w) = w_enqs w"
  using only_limits [of k w] by auto

end

lemma limiter_check_final:
  "final (limiter_check key rps) w = w\<lparr>w_limits := w_limits w @ [\<lparr>l_Key = key, l_Rate = rps\<rparr>]\<rparr>"
  by (simp add: limiter_check_def redis_Allow_def split: limit_result.split)

lemma limiter_check_value:
  "value_of (limiter_check key rps) w =
     (case w_redis w (w_limits w) \<lparr>l_Key = key, l_Rate = rps\<rparr> of
        LimitError err \<Rightarrow> (True, 0)
      | LimitResult allowed retryAfter \<Rightarrow> if allowed = 0 then (False, retryAfter) else (True, 0))"
  by (simp add: limiter_check_def redis_Allow_def split: limit_result.split)

interpretation check: gate "\<lambda>(key, rps). limiter_check key rps"
proof
  fix k w
  assume "\<not> fst (value_of (case k of (key, rps) \<Rightarrow> limiter_check key rps) w)"
  then show "\<exists>log c. w_redis w log c =
      LimitResult 0 (snd (value_of (case k of (key, rps) \<Rightarrow> limiter_check key rps) w))"
    by (cases k) (auto simp: limiter_check_value split: limit_result.splits if_splits)
qed (auto simp: limiter_check_final split: prod.split)

interpretation inbound: gate "\<lambda>(E, r, apiKeyID, projectID). RateLimiter_Allow E r apiKeyID projectID"
proof
  fix k w
  let ?m = "case k of (E, r, apiKeyID, projectID) \<Rightarrow> RateLimiter_Allow E r apiKeyID projectID"
  show "\<not> fst (value_of ?m w) \<Longrightarrow> \<exists>log c. w_redis w log c = LimitResult 0 (snd (value_of ?m w))"
    by (cases k) (auto simp: RateLimiter_Allow_def limiter_check_value limiter_check_final
        split: limit_result.splits if_splits)
  show "\<exists>log. final ?m w = w\<lparr>w_limits := log\<rparr>"
    by (cases k) (auto simp: RateLimiter_Allow_def limiter_check_final split: prod.split)
qed

lemma RateLimiter_Allow_db [frame_simps]:
  "w_db (final (RateLimiter_Allow E r apiKeyID projectID) w) = w_db w"
  using inbound.gate_db [of "(E, r, apiKeyID, projectID)" w] by simp

section \<open>Properties\<close>

text \<open>
  The inbound limiter denies a request exactly when Redis reports the key's ceiling
  exceeded or, the key's being open, the project's; a Redis error on either check lets it
  through.
\<close>

theorem RateLimiter_Allow_iff:
  "fst (value_of (RateLimiter_Allow E r kid pid) w) \<longleftrightarrow>
     (let ck = \<lparr>l_Key = ''apikey:'' @ uuid_String E kid, l_Rate = perKey r\<rparr>;
          cp = \<lparr>l_Key = ''project:'' @ uuid_String E pid, l_Rate = perProject r\<rparr>;
          exceeded = (\<lambda>res. case res of LimitError e \<Rightarrow> False | LimitResult a d \<Rightarrow> a = 0)
      in \<not> (exceeded (w_redis w (w_limits w) ck) \<or>
            exceeded (w_redis w (w_limits w @ [ck]) cp)))"
  by (auto simp: RateLimiter_Allow_def limiter_check_value limiter_check_final Let_def
      split: limit_result.splits if_splits)

lemma Generate_Inr:
  assumes "value_of Generate w = Inr (raw, prefix)"
  obtains b where "length b = 32" and "raw = livePrefix @ b64_encode URLAlphabet False b"
    and "prefix = take 14 raw"
  using assms unfolding Generate_def
  by (auto simp: Let_def displayPrefixLen_def livePrefix_def elim!: attempt_InrE dest: rand_Read_length)

end
