(* ===== verification/NotificationStore.thy ===== *)
theory NotificationStore imports World begin

text \<open>
  The queries on \<open>notifications\<close> and \<open>notification_recipients\<close>
  (\<open>internal/store/postgres/notifications.sql.go\<close>, \<open>recipients.sql.go\<close>). For each query
  \<open>sql_X\<close> is the meaning of its SQL text and \<open>X\<close> the Go method that executes it.
\<close>

section \<open>Notifications\<close>

definition sql_CompleteNotification :: "uuid \<Rightarrow> string \<Rightarrow> unit statement" where
  "sql_CompleteNotification i status = (\<lambda>now u t.
     if notification_exists i t \<and> status \<notin> set notification_statuses
     then (Inl (check_violation ''notifications_status_check''), t)
     else exec_only (t\<lparr>notifications := upd_where (\<lambda>n. n_ID n = i)
            (\<lambda>n. n\<lparr>n_Status := status, n_CompletedAt := Some now\<rparr>) (notifications t)\<rparr>))"

definition CompleteNotification :: "uuid \<Rightarrow> string \<Rightarrow> (world, goerr + unit) state" where
  "CompleteNotification i status = exec (sql_CompleteNotification i status)"

text \<open>
  The insert skips a row whose non-null idempotency key the project already has; the
  defaults of the table fill the other columns.
\<close>

definition key_conflict :: "uuid \<Rightarrow> string option \<Rightarrow> notification_row \<Rightarrow> bool" where
  "key_conflict pid key n \<longleftrightarrow> key \<noteq> None \<and> n_ProjectID n = pid \<and> n_IdempotencyKey n = key"

definition sql_createNotification ::
  "uuid \<Rightarrow> string option \<Rightarrow> string option \<Rightarrow> string option \<Rightarrow> json \<Rightarrow> json \<Rightarrow> notification_row statement"
where
  "sql_createNotification pid key title body data spec = (\<lambda>now u t.
     if list_ex (key_conflict pid key) (notifications t) then (Inl ErrNoRows, t)
     else if notification_exists u t then (Inl (unique_violation ''notifications_pkey''), t)
     else if \<not> project_exists pid t then (Inl (foreign_key_violation ''notifications_project_id_fkey''), t)
     else let n = \<lparr>n_ID = u, n_ProjectID = pid, n_IdempotencyKey = key, n_Title = title, n_Body = body,
                   n_Data = data, n_TargetSpec = spec, n_Status = ''pending'', n_TotalRecipients = 0,
                   n_CreatedAt = now, n_CompletedAt = None\<rparr>
          in (Inr n, t\<lparr>notifications := notifications t @ [n]\<rparr>))"

definition db_CreateNotification ::
  "uuid \<Rightarrow> string option \<Rightarrow> string option \<Rightarrow> string option \<Rightarrow> json \<Rightarrow> json \<Rightarrow>
   (world, goerr + notification_row) state"
where
  "db_CreateNotification pid key title body data spec =
     exec (sql_createNotification pid key title body data spec)"

definition sql_getNotification :: "uuid \<Rightarrow> uuid \<Rightarrow> notification_row statement" where
  "sql_getNotification i pid = reads (\<lambda>t.
     scan_row (find (\<lambda>n. n_ID n = i \<and> n_ProjectID n = pid) (notifications t)))"

definition GetNotification :: "uuid \<Rightarrow> uuid \<Rightarrow> (world, goerr + notification_row) state" where
  "GetNotification i pid = exec (sql_getNotification i pid)"

definition sql_getNotificationByID :: "uuid \<Rightarrow> notification_row statement" where
  "sql_getNotificationByID i = reads (\<lambda>t. scan_row (find (\<lambda>n. n_ID n = i) (notifications t)))"

definition GetNotificationByID :: "uuid \<Rightarrow> (world, goerr + notification_row) state" where
  "GetNotificationByID i = exec (sql_getNotificationByID i)"

text \<open>A null key equals nothing.\<close>

definition sql_getNotificationByIdempotencyKey :: "uuid \<Rightarrow> string option \<Rightarrow> notification_row statement" where
  "sql_getNotificationByIdempotencyKey pid key = reads (\<lambda>t.
     scan_row (find (key_conflict pid key) (notifications t)))"

definition GetNotificationByIdempotencyKey ::
  "uuid \<Rightarrow> string option \<Rightarrow> (world, goerr + notification_row) state"
where
  "GetNotificationByIdempotencyKey pid key = exec (sql_getNotificationByIdempotencyKey pid key)"

definition sql_listNotificationsByProject ::
  "uuid \<Rightarrow> 32 word \<Rightarrow> 32 word \<Rightarrow> notification_row list statement"
where
  "sql_listNotificationsByProject pid off lim = reads (\<lambda>t.
     page off lim (newest_first n_CreatedAt (filter (\<lambda>n. n_ProjectID n = pid) (notifications t))))"

definition ListNotificationsByProject ::
  "uuid \<Rightarrow> 32 word \<Rightarrow> 32 word \<Rightarrow> (world, goerr + notification_row list) state"
where
  "ListNotificationsByProject pid off lim = exec (sql_listNotificationsByProject pid off lim)"

definition sql_setNotificationStatus :: "uuid \<Rightarrow> string \<Rightarrow> unit statement" where
  "sql_setNotificationStatus i status = (\<lambda>now u t.
     if notification_exists i t \<and> status \<notin> set notification_statuses
     then (Inl (check_violation ''notifications_status_check''), t)
     else exec_only (t\<lparr>notifications := upd_where (\<lambda>n. n_ID n = i)
            (\<lambda>n. n\<lparr>n_Status := status\<rparr>) (notifications t)\<rparr>))"

definition SetNotificationStatus :: "uuid \<Rightarrow> string \<Rightarrow> (world, goerr + unit) state" where
  "SetNotificationStatus i status = exec (sql_setNotificationStatus i status)"

definition sql_setNotificationTotals :: "uuid \<Rightarrow> 32 word \<Rightarrow> unit statement" where
  "sql_setNotificationTotals i tot = (\<lambda>now u t.
     exec_only (t\<lparr>notifications := upd_where (\<lambda>n. n_ID n = i)
       (\<lambda>n. n\<lparr>n_TotalRecipients := tot\<rparr>) (notifications t)\<rparr>))"

definition SetNotificationTotals :: "uuid \<Rightarrow> 32 word \<Rightarrow> (world, goerr + unit) state" where
  "SetNotificationTotals i tot = exec (sql_setNotificationTotals i tot)"

section \<open>Recipients\<close>

text \<open>\<open>group by status\<close>: one row per status that occurs, with its count.\<close>

definition sql_countRecipientStatuses :: "uuid \<Rightarrow> (string \<times> int) list statement" where
  "sql_countRecipientStatuses nid = reads (\<lambda>t.
     let ss = map r_Status (filter (\<lambda>r. r_NotificationID r = nid) (recipients t))
     in Inr (map (\<lambda>s. (s, int (count_list ss s))) (remdups ss)))"

definition CountRecipientStatuses :: "uuid \<Rightarrow> (world, goerr + (string \<times> int) list) state" where
  "CountRecipientStatuses nid = exec (sql_countRecipientStatuses nid)"

definition sql_getNotificationRecipient :: "uuid \<Rightarrow> recipient_row statement" where
  "sql_getNotificationRecipient i = reads (\<lambda>t. scan_row (find (\<lambda>r. r_ID r = i) (recipients t)))"

definition GetNotificationRecipient :: "uuid \<Rightarrow> (world, goerr + recipient_row) state" where
  "GetNotificationRecipient i = exec (sql_getNotificationRecipient i)"

definition same_target :: "uuid \<Rightarrow> uuid \<Rightarrow> recipient_row \<Rightarrow> bool" where
  "same_target nid did r \<longleftrightarrow> r_NotificationID r = nid \<and> r_DeviceID r = did"

definition sql_getRecipientByNotificationAndDevice :: "uuid \<Rightarrow> uuid \<Rightarrow> recipient_row statement" where
  "sql_getRecipientByNotificationAndDevice nid did = reads (\<lambda>t.
     scan_row (find (same_target nid did) (recipients t)))"

definition GetRecipientByNotificationAndDevice :: "uuid \<Rightarrow> uuid \<Rightarrow> (world, goerr + recipient_row) state" where
  "GetRecipientByNotificationAndDevice nid did = exec (sql_getRecipientByNotificationAndDevice nid did)"

definition new_recipient :: "uuid \<Rightarrow> uuid \<Rightarrow> string \<Rightarrow> instant \<Rightarrow> uuid \<Rightarrow> recipient_row" where
  "new_recipient nid did prov now u =
     \<lparr>r_ID = u, r_NotificationID = nid, r_DeviceID = did, r_ProviderType = prov, r_Status = ''queued'',
      r_ProviderMessageID = None, r_ErrorCode = None, r_ErrorMessage = None, r_AttemptCount = 0,
      r_SentAt = None, r_FailedAt = None, r_CreatedAt = now\<rparr>"

definition sql_insertNotificationRecipient :: "uuid \<Rightarrow> uuid \<Rightarrow> string \<Rightarrow> recipient_row statement" where
  "sql_insertNotificationRecipient nid did prov = (\<lambda>now u t.
     if list_ex (same_target nid did) (recipients t) then (Inl ErrNoRows, t)
     else if u \<in> r_ID ` set (recipients t) then (Inl (unique_violation ''notification_recipients_pkey''), t)
     else if \<not> notification_exists nid t then (Inl (foreign_key_violation ''notification_recipients_notification_id_fkey''), t)
     else if \<not> device_exists did t then (Inl (foreign_key_violation ''notification_recipients_device_id_fkey''), t)
     else let r = new_recipient nid did prov now u
          in (Inr r, t\<lparr>recipients := recipients t @ [r]\<rparr>))"

definition InsertNotificationRecipient ::
  "uuid \<Rightarrow> uuid \<Rightarrow> string \<Rightarrow> (world, goerr + recipient_row) state"
where
  "InsertNotificationRecipient nid did prov = exec (sql_insertNotificationRecipient nid did prov)"

text \<open>The join keeps a recipient once per notification row it matches.\<close>

definition sql_listNotificationRecipients :: "uuid \<Rightarrow> uuid \<Rightarrow> recipient_row list statement" where
  "sql_listNotificationRecipients nid pid = reads (\<lambda>t.
     Inr (sort_key r_CreatedAt
       [r. r \<leftarrow> recipients t, n \<leftarrow> notifications t,
           n_ID n = r_NotificationID r \<and> r_NotificationID r = nid \<and> n_ProjectID n = pid]))"

definition ListNotificationRecipients :: "uuid \<Rightarrow> uuid \<Rightarrow> (world, goerr + recipient_row list) state" where
  "ListNotificationRecipients nid pid = exec (sql_listNotificationRecipients nid pid)"

definition sql_markRecipientFailed :: "uuid \<Rightarrow> string option \<Rightarrow> string option \<Rightarrow> unit statement" where
  "sql_markRecipientFailed i code msg = (\<lambda>now u t.
     exec_only (t\<lparr>recipients := upd_where (\<lambda>r. r_ID r = i)
       (\<lambda>r. r\<lparr>r_Status := ''failed'', r_ErrorCode := code, r_ErrorMessage := msg, r_FailedAt := Some now\<rparr>)
       (recipients t)\<rparr>))"

definition MarkRecipientFailed :: "uuid \<Rightarrow> string option \<Rightarrow> string option \<Rightarrow> (world, goerr + unit) state" where
  "MarkRecipientFailed i code msg = exec (sql_markRecipientFailed i code msg)"

text \<open>\<open>attempt_count\<close> is an \<open>int4\<close>: incrementing the largest value is an error, not a wrap.\<close>

definition max_int4 :: "32 word" where
  "max_int4 = 0x7FFFFFFF"

definition sending :: "recipient_row \<Rightarrow> recipient_row" where
  "sending r = r\<lparr>r_Status := ''sending'', r_AttemptCount := r_AttemptCount r + 1\<rparr>"

definition sql_markRecipientSending :: "uuid \<Rightarrow> recipient_row statement" where
  "sql_markRecipientSending i = (\<lambda>now u t.
     case find (\<lambda>r. r_ID r = i) (recipients t) of
       None \<Rightarrow> (Inl ErrNoRows, t)
     | Some r \<Rightarrow>
         if r_AttemptCount r = max_int4 then (Inl out_of_range, t)
         else (Inr (sending r), t\<lparr>recipients := upd_where (\<lambda>r. r_ID r = i) sending (recipients t)\<rparr>))"

definition MarkRecipientSending :: "uuid \<Rightarrow> (world, goerr + recipient_row) state" where
  "MarkRecipientSending i = exec (sql_markRecipientSending i)"

definition sql_markRecipientSent :: "uuid \<Rightarrow> string option \<Rightarrow> unit statement" where
  "sql_markRecipientSent i msgid = (\<lambda>now u t.
     exec_only (t\<lparr>recipients := upd_where (\<lambda>r. r_ID r = i)
       (\<lambda>r. r\<lparr>r_Status := ''sent'', r_ProviderMessageID := msgid, r_SentAt := Some now\<rparr>) (recipients t)\<rparr>))"

definition MarkRecipientSent :: "uuid \<Rightarrow> string option \<Rightarrow> (world, goerr + unit) state" where
  "MarkRecipientSent i msgid = exec (sql_markRecipientSent i msgid)"

section \<open>What a successful call tells\<close>

lemma GetNotification_Inr:
  "value_of (GetNotification i pid) w = Inr n \<Longrightarrow>
     n \<in> set (notifications (w_db w)) \<and> n_ID n = i \<and> n_ProjectID n = pid"
  by (auto simp: GetNotification_def sql_getNotification_def dest!: exec_Inr(1) find_SomeD)

lemma GetNotificationRecipient_Inr:
  "value_of (GetNotificationRecipient i) w = Inr r \<Longrightarrow>
     find (\<lambda>r. r_ID r = i) (recipients (w_db w)) = Some r"
  by (auto simp: GetNotificationRecipient_def sql_getNotificationRecipient_def dest!: exec_Inr(1))

lemma GetRecipientByNotificationAndDevice_Inr:
  "value_of (GetRecipientByNotificationAndDevice nid did) w = Inr r \<Longrightarrow>
     find (same_target nid did) (recipients (w_db w)) = Some r"
  by (auto simp: GetRecipientByNotificationAndDevice_def sql_getRecipientByNotificationAndDevice_def
      dest!: exec_Inr(1))

text \<open>Reads do not write.\<close>

lemma notification_reads_db [frame_simps]:
  "w_db (final (GetNotification i pid) w) = w_db w"
  "w_db (final (GetNotificationByID i) w) = w_db w"
  "w_db (final (GetNotificationByIdempotencyKey pid key) w) = w_db w"
  "w_db (final (ListNotificationsByProject pid off lim) w) = w_db w"
  "w_db (final (CountRecipientStatuses nid) w) = w_db w"
  "w_db (final (GetNotificationRecipient i) w) = w_db w"
  "w_db (final (GetRecipientByNotificationAndDevice nid did) w) = w_db w"
  "w_db (final (ListNotificationRecipients nid pid) w) = w_db w"
  by (simp_all add: GetNotification_def sql_getNotification_def GetNotificationByID_def
      sql_getNotificationByID_def GetNotificationByIdempotencyKey_def
      sql_getNotificationByIdempotencyKey_def ListNotificationsByProject_def
      sql_listNotificationsByProject_def CountRecipientStatuses_def sql_countRecipientStatuses_def
      GetNotificationRecipient_def sql_getNotificationRecipient_def
      GetRecipientByNotificationAndDevice_def sql_getRecipientByNotificationAndDevice_def
      ListNotificationRecipients_def sql_listNotificationRecipients_def exec_reads_final)

text \<open>The methods as executed statements: the bundle the frame rules unfold.\<close>

lemmas notification_methods =
  CompleteNotification_def db_CreateNotification_def GetNotification_def GetNotificationByID_def
  GetNotificationByIdempotencyKey_def ListNotificationsByProject_def SetNotificationStatus_def
  SetNotificationTotals_def CountRecipientStatuses_def GetNotificationRecipient_def
  GetRecipientByNotificationAndDevice_def InsertNotificationRecipient_def
  ListNotificationRecipients_def MarkRecipientFailed_def MarkRecipientSending_def
  MarkRecipientSent_def

section \<open>The status counts\<close>

lemma count_list_filter: "count_list (map f xs) y = length (filter (\<lambda>x. f x = y) xs)"
  by (induction xs) auto

lemma sum_count_remdups: "(\<Sum>s \<leftarrow> remdups ss. int (count_list ss s)) = int (length ss)"
proof -
  have "(\<Sum>s \<leftarrow> remdups ss. int (count_list ss s)) = (\<Sum>s \<in> set ss. int (count_list ss s))"
    by (simp add: sum_list_distinct_conv_sum_set)
  also have "\<dots> = int (\<Sum>s \<in> set ss. count_list ss s)" by simp
  also have "(\<Sum>s \<in> set ss. count_list ss s) = length ss" by (rule sum_count_set) simp_all
  finally show ?thesis by simp
qed

end
