(* ===== verification/DeviceStore.thy ===== *)
theory DeviceStore imports World begin

text \<open>
  The queries on \<open>subscribers\<close> and \<open>devices\<close> (\<open>internal/store/postgres/subscribers.sql.go\<close>,
  \<open>devices.sql.go\<close>).
\<close>

section \<open>Text of a jsonb value\<close>

text \<open>
  \<open>j ->> key\<close>: the member's text, a string without its quotes, null and a missing
  member as NULL. Arrays and objects print as jsonb does, with a space after each comma
  and colon.
\<close>

fun spaced_sep :: "string list \<Rightarrow> string" where
  "spaced_sep [] = []"
| "spaced_sep [s] = s"
| "spaced_sep (s # t # ss) = s @ '', '' @ spaced_sep (t # ss)"

definition jsonb_char :: "char \<Rightarrow> string" where
  "jsonb_char c = (if c \<in> {CHR ''<'', CHR ''>'', CHR ''&''} then [c] else escape_char c)"

definition jsonb_quote :: "string \<Rightarrow> string" where
  "jsonb_quote s = [CHR 0x22] @ concat (map jsonb_char s) @ [CHR 0x22]"

fun jsonb_text :: "json \<Rightarrow> string" where
  "jsonb_text JNull = ''null''"
| "jsonb_text (JBool b) = (if b then ''true'' else ''false'')"
| "jsonb_text (JNum lit) = lit"
| "jsonb_text (JStr s) = jsonb_quote s"
| "jsonb_text (JArr js) = ''['' @ spaced_sep (map jsonb_text js) @ '']''"
| "jsonb_text (JObj kvs) =
     ''{'' @ spaced_sep (map (\<lambda>(k, j). jsonb_quote k @ '': '' @ jsonb_text j) kvs) @ ''}''"

fun arrow_text :: "string \<Rightarrow> json \<Rightarrow> string option" where
  "arrow_text key (JObj kvs) = (case map_of kvs key of
      None \<Rightarrow> None
    | Some JNull \<Rightarrow> None
    | Some (JStr s) \<Rightarrow> Some s
    | Some j \<Rightarrow> Some (jsonb_text j))"
| "arrow_text key _ = None"

section \<open>Subscribers\<close>

definition active_under :: "uuid \<Rightarrow> string list \<Rightarrow> subscriber_row \<Rightarrow> device_row \<Rightarrow> bool" where
  "active_under pid exts s d \<longleftrightarrow>
     d_SubscriberID d = Some (s_ID s) \<and> s_ProjectID s = pid \<and> s_ExternalID s \<in> set exts \<and>
     s_Status s = ''subscribed'' \<and> d_Status d = ''active''"

definition sql_getActiveDevicesBySubscriberExternalIDs :: "uuid \<Rightarrow> string list \<Rightarrow> device_row list statement" where
  "sql_getActiveDevicesBySubscriberExternalIDs pid exts = reads (\<lambda>t.
     Inr [d. d \<leftarrow> devices t, s \<leftarrow> subscribers t, active_under pid exts s d])"

definition GetActiveDevicesBySubscriberExternalIDs ::
  "uuid \<Rightarrow> string list \<Rightarrow> (world, goerr + device_row list) state"
where
  "GetActiveDevicesBySubscriberExternalIDs pid exts =
     exec (sql_getActiveDevicesBySubscriberExternalIDs pid exts)"

definition same_external :: "uuid \<Rightarrow> string \<Rightarrow> subscriber_row \<Rightarrow> bool" where
  "same_external pid ext s \<longleftrightarrow> s_ProjectID s = pid \<and> s_ExternalID s = ext"

definition sql_upsertSubscriber :: "uuid \<Rightarrow> string \<Rightarrow> subscriber_row statement" where
  "sql_upsertSubscriber pid ext = (\<lambda>now u t.
     case find (same_external pid ext) (subscribers t) of
       Some s \<Rightarrow>
         (Inr (s\<lparr>s_LastSeenAt := now\<rparr>),
          t\<lparr>subscribers := upd_where (same_external pid ext) (\<lambda>s. s\<lparr>s_LastSeenAt := now\<rparr>) (subscribers t)\<rparr>)
     | None \<Rightarrow>
         if u \<in> s_ID ` set (subscribers t) then (Inl (unique_violation ''subscribers_pkey''), t)
         else if \<not> project_exists pid t then (Inl (foreign_key_violation ''subscribers_project_id_fkey''), t)
         else let s = \<lparr>s_ID = u, s_ProjectID = pid, s_ExternalID = ext, s_Status = ''subscribed'',
                       s_CreatedAt = now, s_LastSeenAt = now\<rparr>
              in (Inr s, t\<lparr>subscribers := subscribers t @ [s]\<rparr>))"

definition UpsertSubscriber :: "uuid \<Rightarrow> string \<Rightarrow> (world, goerr + subscriber_row) state" where
  "UpsertSubscriber pid ext = exec (sql_upsertSubscriber pid ext)"

section \<open>Devices\<close>

text \<open>The advisory lock orders concurrent transactions; it changes no row.\<close>

definition sql_advisoryLockDeviceUUID :: "string \<Rightarrow> unit statement" where
  "sql_advisoryLockDeviceUUID lockKey = reads (\<lambda>t. Inr ())"

definition AdvisoryLockDeviceUUID :: "string \<Rightarrow> (world, goerr + unit) state" where
  "AdvisoryLockDeviceUUID lockKey = exec (sql_advisoryLockDeviceUUID lockKey)"

definition sql_countDevicesByProject :: "uuid \<Rightarrow> int statement" where
  "sql_countDevicesByProject pid = reads (\<lambda>t.
     Inr (int (length (filter (\<lambda>d. d_ProjectID d = pid) (devices t)))))"

definition CountDevicesByProject :: "uuid \<Rightarrow> (world, goerr + int) state" where
  "CountDevicesByProject pid = exec (sql_countDevicesByProject pid)"

definition sql_getDevicesByIDs :: "uuid \<Rightarrow> uuid list \<Rightarrow> device_row list statement" where
  "sql_getDevicesByIDs pid ids = reads (\<lambda>t.
     Inr (filter (\<lambda>d. d_ProjectID d = pid \<and> d_ID d \<in> set ids) (devices t)))"

definition GetDevicesByIDs :: "uuid \<Rightarrow> uuid list \<Rightarrow> (world, goerr + device_row list) state" where
  "GetDevicesByIDs pid ids = exec (sql_getDevicesByIDs pid ids)"

text \<open>
  The listing joins a device to its subscriber on the left: without one its external id
  reads as the empty string; an empty filter argument filters nothing.
\<close>

record device_listing =
  dl_Device :: device_row
  dl_ExternalID :: string

definition external_of :: "tables \<Rightarrow> device_row \<Rightarrow> string option" where
  "external_of t d = (case d_SubscriberID d of
      None \<Rightarrow> None
    | Some sid \<Rightarrow> map_option s_ExternalID (find (\<lambda>s. s_ID s = sid) (subscribers t)))"

definition sql_listDevicesByProject ::
  "uuid \<Rightarrow> string \<Rightarrow> string \<Rightarrow> 32 word \<Rightarrow> 32 word \<Rightarrow> device_listing list statement"
where
  "sql_listDevicesByProject pid ext status off lim = reads (\<lambda>t.
     page off lim (newest_first (d_CreatedAt \<circ> dl_Device)
       [\<lparr>dl_Device = d, dl_ExternalID = (case external_of t d of None \<Rightarrow> [] | Some e \<Rightarrow> e)\<rparr>.
         d \<leftarrow> devices t,
         d_ProjectID d = pid \<and> (ext = [] \<or> external_of t d = Some ext) \<and> (status = [] \<or> d_Status d = status)]))"

definition ListDevicesByProject ::
  "uuid \<Rightarrow> string \<Rightarrow> string \<Rightarrow> 32 word \<Rightarrow> 32 word \<Rightarrow> (world, goerr + device_listing list) state"
where
  "ListDevicesByProject pid ext status off lim = exec (sql_listDevicesByProject pid ext status off lim)"

definition sql_markDeviceStatus :: "uuid \<Rightarrow> string \<Rightarrow> unit statement" where
  "sql_markDeviceStatus i status = (\<lambda>now u t.
     if device_exists i t \<and> status \<notin> set device_statuses
     then (Inl (check_violation ''devices_status_check''), t)
     else exec_only (t\<lparr>devices := upd_where (\<lambda>d. d_ID d = i)
            (\<lambda>d. d\<lparr>d_Status := status, d_UpdatedAt := now\<rparr>) (devices t)\<rparr>))"

definition MarkDeviceStatus :: "uuid \<Rightarrow> string \<Rightarrow> (world, goerr + unit) state" where
  "MarkDeviceStatus i status = exec (sql_markDeviceStatus i status)"

text \<open>A null subscriber matches no device.\<close>

definition rotated_out :: "uuid \<Rightarrow> uuid option \<Rightarrow> uuid \<Rightarrow> string \<Rightarrow> device_row \<Rightarrow> bool" where
  "rotated_out pid sid i duuid d \<longleftrightarrow>
     d_ProjectID d = pid \<and> sid \<noteq> None \<and> d_SubscriberID d = sid \<and> d_ID d \<noteq> i \<and>
     d_Status d = ''active'' \<and> arrow_text ''device_uuid'' (d_Metadata d) = Some duuid"

definition make_stale :: "instant \<Rightarrow> device_row \<Rightarrow> device_row" where
  "make_stale now d = d\<lparr>d_Status := ''stale'', d_UpdatedAt := now\<rparr>"

definition sql_markStaleDevicesByDeviceUUID ::
  "uuid \<Rightarrow> uuid option \<Rightarrow> uuid \<Rightarrow> string \<Rightarrow> device_row list statement"
where
  "sql_markStaleDevicesByDeviceUUID pid sid i duuid = (\<lambda>now u t.
     (Inr (map (make_stale now) (filter (rotated_out pid sid i duuid) (devices t))),
      t\<lparr>devices := upd_where (rotated_out pid sid i duuid) (make_stale now) (devices t)\<rparr>))"

definition MarkStaleDevicesByDeviceUUID ::
  "uuid \<Rightarrow> uuid option \<Rightarrow> uuid \<Rightarrow> string \<Rightarrow> (world, goerr + device_row list) state"
where
  "MarkStaleDevicesByDeviceUUID pid sid i duuid = exec (sql_markStaleDevicesByDeviceUUID pid sid i duuid)"

text \<open>
  The upsert checks the proposed row's constraints, then updates the row with the same
  project and token or inserts a new one; a missing subscriber keeps the old one.
\<close>

definition same_token :: "uuid \<Rightarrow> string \<Rightarrow> device_row \<Rightarrow> bool" where
  "same_token pid tok d \<longleftrightarrow> d_ProjectID d = pid \<and> d_Token d = tok"

definition coalesce :: "'a option \<Rightarrow> 'a option \<Rightarrow> 'a option" where
  "coalesce x y = (case x of None \<Rightarrow> y | Some _ \<Rightarrow> x)"

definition reregistered ::
  "string \<Rightarrow> string \<Rightarrow> json \<Rightarrow> uuid option \<Rightarrow> instant \<Rightarrow> device_row \<Rightarrow> device_row"
where
  "reregistered plat prov meta sid now d =
     d\<lparr>d_Platform := plat, d_ProviderType := prov, d_Metadata := meta,
       d_SubscriberID := coalesce sid (d_SubscriberID d), d_Status := ''active'', d_UpdatedAt := now\<rparr>"

definition sql_upsertDevice ::
  "uuid \<Rightarrow> string \<Rightarrow> string \<Rightarrow> string \<Rightarrow> json \<Rightarrow> uuid option \<Rightarrow> device_row statement"
where
  "sql_upsertDevice pid tok plat prov meta sid = (\<lambda>now u t.
     if plat \<notin> set device_platforms then (Inl (check_violation ''devices_platform_check''), t)
     else if prov \<notin> set provider_types then (Inl (check_violation ''devices_provider_type_check''), t)
     else if (\<exists>s. sid = Some s \<and> \<not> subscriber_exists pid s t)
       then (Inl (foreign_key_violation ''devices_project_id_subscriber_id_fkey''), t)
     else case find (same_token pid tok) (devices t) of
       Some d \<Rightarrow>
         (Inr (reregistered plat prov meta sid now d),
          t\<lparr>devices := upd_where (same_token pid tok) (reregistered plat prov meta sid now) (devices t)\<rparr>)
     | None \<Rightarrow>
         if device_exists u t then (Inl (unique_violation ''devices_pkey''), t)
         else if \<not> project_exists pid t then (Inl (foreign_key_violation ''devices_project_id_fkey''), t)
         else let d = \<lparr>d_ID = u, d_ProjectID = pid, d_SubscriberID = sid, d_Token = tok, d_Platform = plat,
                       d_ProviderType = prov, d_Status = ''active'', d_Metadata = meta,
                       d_CreatedAt = now, d_UpdatedAt = now\<rparr>
              in (Inr d, t\<lparr>devices := devices t @ [d]\<rparr>))"

definition UpsertDevice ::
  "uuid \<Rightarrow> string \<Rightarrow> string \<Rightarrow> string \<Rightarrow> json \<Rightarrow> uuid option \<Rightarrow> (world, goerr + device_row) state"
where
  "UpsertDevice pid tok plat prov meta sid = exec (sql_upsertDevice pid tok plat prov meta sid)"

section \<open>Reads do not write\<close>

lemma device_reads_db [frame_simps]:
  "w_db (final (GetActiveDevicesBySubscriberExternalIDs pid exts) w) = w_db w"
  "w_db (final (AdvisoryLockDeviceUUID k) w) = w_db w"
  "w_db (final (CountDevicesByProject pid) w) = w_db w"
  "w_db (final (GetDevicesByIDs pid ids) w) = w_db w"
  "w_db (final (ListDevicesByProject pid ext status off lim) w) = w_db w"
  by (simp_all add: GetActiveDevicesBySubscriberExternalIDs_def
      sql_getActiveDevicesBySubscriberExternalIDs_def AdvisoryLockDeviceUUID_def
      sql_advisoryLockDeviceUUID_def CountDevicesByProject_def sql_countDevicesByProject_def
      GetDevicesByIDs_def sql_getDevicesByIDs_def ListDevicesByProject_def
      sql_listDevicesByProject_def exec_reads_final)

lemma GetDevicesByIDs_Inr:
  "value_of (GetDevicesByIDs pid ids) w = Inr ds \<Longrightarrow>
     ds = filter (\<lambda>d. d_ProjectID d = pid \<and> d_ID d \<in> set ids) (devices (w_db w))"
  by (auto simp: GetDevicesByIDs_def sql_getDevicesByIDs_def dest!: exec_Inr(1))

lemma GetActiveDevices_Inr:
  "value_of (GetActiveDevicesBySubscriberExternalIDs pid exts) w = Inr ds \<Longrightarrow>
     ds = [d. d \<leftarrow> devices (w_db w), s \<leftarrow> subscribers (w_db w), active_under pid exts s d]"
  by (auto simp: GetActiveDevicesBySubscriberExternalIDs_def
      sql_getActiveDevicesBySubscriberExternalIDs_def dest!: exec_Inr(1))

lemmas device_methods =
  GetActiveDevicesBySubscriberExternalIDs_def UpsertSubscriber_def AdvisoryLockDeviceUUID_def
  CountDevicesByProject_def GetDevicesByIDs_def ListDevicesByProject_def MarkDeviceStatus_def
  MarkStaleDevicesByDeviceUUID_def UpsertDevice_def

end
