(* ===== verification/AccountStore.thy ===== *)
theory AccountStore imports World begin

text \<open>
  The queries on projects, provider credentials, API keys, dashboard users and their
  sessions (\<open>projects.sql.go\<close>, \<open>provider_credentials.sql.go\<close>, \<open>api_keys.sql.go\<close>,
  \<open>users.sql.go\<close>, \<open>sessions.sql.go\<close> of \<open>internal/store/postgres\<close>).
\<close>

section \<open>Projects\<close>

definition sql_createProject :: "string \<Rightarrow> string \<Rightarrow> project_row statement" where
  "sql_createProject name slug = (\<lambda>now u t.
     if u \<in> p_ID ` set (projects t) then (Inl (unique_violation ''projects_pkey''), t)
     else if slug \<in> p_Slug ` set (projects t) then (Inl (unique_violation ''projects_slug_key''), t)
     else let p = \<lparr>p_ID = u, p_Name = name, p_Slug = slug, p_Status = ''active'', p_CreatedAt = now\<rparr>
          in (Inr p, t\<lparr>projects := projects t @ [p]\<rparr>))"

definition CreateProject :: "string \<Rightarrow> string \<Rightarrow> (world, goerr + project_row) state" where
  "CreateProject name slug = exec (sql_createProject name slug)"

definition sql_getProjectByID :: "uuid \<Rightarrow> project_row statement" where
  "sql_getProjectByID i = reads (\<lambda>t. scan_row (find (\<lambda>p. p_ID p = i) (projects t)))"

definition GetProjectByID :: "uuid \<Rightarrow> (world, goerr + project_row) state" where
  "GetProjectByID i = exec (sql_getProjectByID i)"

definition sql_getProjectBySlug :: "string \<Rightarrow> project_row statement" where
  "sql_getProjectBySlug slug = reads (\<lambda>t. scan_row (find (\<lambda>p. p_Slug p = slug) (projects t)))"

definition GetProjectBySlug :: "string \<Rightarrow> (world, goerr + project_row) state" where
  "GetProjectBySlug slug = exec (sql_getProjectBySlug slug)"

definition sql_listProjects :: "project_row list statement" where
  "sql_listProjects = reads (\<lambda>t. Inr (newest_first p_CreatedAt (projects t)))"

definition ListProjects :: "(world, goerr + project_row list) state" where
  "ListProjects = exec sql_listProjects"

section \<open>Provider credentials\<close>

definition same_provider :: "uuid \<Rightarrow> string \<Rightarrow> string \<Rightarrow> credential_row \<Rightarrow> bool" where
  "same_provider pid prov envi c \<longleftrightarrow>
     c_ProjectID c = pid \<and> c_ProviderType c = prov \<and> c_Environment c = envi"

definition sql_getActiveProviderCredential :: "uuid \<Rightarrow> string \<Rightarrow> string \<Rightarrow> credential_row statement" where
  "sql_getActiveProviderCredential pid prov envi = reads (\<lambda>t.
     scan_row (find (\<lambda>c. same_provider pid prov envi c \<and> c_IsActive c) (credentials t)))"

definition GetActiveProviderCredential ::
  "uuid \<Rightarrow> string \<Rightarrow> string \<Rightarrow> (world, goerr + credential_row) state"
where
  "GetActiveProviderCredential pid prov envi = exec (sql_getActiveProviderCredential pid prov envi)"

text \<open>The listing never carries the ciphertext or the wrapped key.\<close>

record credential_listing =
  cl_ID :: uuid
  cl_ProjectID :: uuid
  cl_ProviderType :: string
  cl_Environment :: string
  cl_IsActive :: bool
  cl_CreatedAt :: instant
  cl_UpdatedAt :: instant

definition listing_of :: "credential_row \<Rightarrow> credential_listing" where
  "listing_of c = \<lparr>cl_ID = c_ID c, cl_ProjectID = c_ProjectID c, cl_ProviderType = c_ProviderType c,
     cl_Environment = c_Environment c, cl_IsActive = c_IsActive c, cl_CreatedAt = c_CreatedAt c,
     cl_UpdatedAt = c_UpdatedAt c\<rparr>"

definition sql_listProviderCredentialsByProject :: "uuid \<Rightarrow> credential_listing list statement" where
  "sql_listProviderCredentialsByProject pid = reads (\<lambda>t.
     Inr (map listing_of (sort_key c_ProviderType (filter (\<lambda>c. c_ProjectID c = pid) (credentials t)))))"

definition ListProviderCredentialsByProject :: "uuid \<Rightarrow> (world, goerr + credential_listing list) state" where
  "ListProviderCredentialsByProject pid = exec (sql_listProviderCredentialsByProject pid)"

definition replaced :: "string \<Rightarrow> string \<Rightarrow> instant \<Rightarrow> credential_row \<Rightarrow> credential_row" where
  "replaced ct dek now c =
     c\<lparr>c_Credential := ct, c_WrappedDek := dek, c_IsActive := True, c_UpdatedAt := now\<rparr>"

definition sql_upsertProviderCredential ::
  "uuid \<Rightarrow> string \<Rightarrow> string \<Rightarrow> string \<Rightarrow> string \<Rightarrow> credential_row statement"
where
  "sql_upsertProviderCredential pid prov envi ct dek = (\<lambda>now u t.
     if prov \<notin> set provider_types then (Inl (check_violation ''provider_credentials_provider_type_check''), t)
     else case find (same_provider pid prov envi) (credentials t) of
       Some c \<Rightarrow>
         (Inr (replaced ct dek now c),
          t\<lparr>credentials := upd_where (same_provider pid prov envi) (replaced ct dek now) (credentials t)\<rparr>)
     | None \<Rightarrow>
         if u \<in> c_ID ` set (credentials t) then (Inl (unique_violation ''provider_credentials_pkey''), t)
         else if \<not> project_exists pid t then (Inl (foreign_key_violation ''provider_credentials_project_id_fkey''), t)
         else let c = \<lparr>c_ID = u, c_ProjectID = pid, c_ProviderType = prov, c_Environment = envi,
                       c_Credential = ct, c_WrappedDek = dek, c_IsActive = True,
                       c_CreatedAt = now, c_UpdatedAt = now\<rparr>
              in (Inr c, t\<lparr>credentials := credentials t @ [c]\<rparr>))"

definition UpsertProviderCredential ::
  "uuid \<Rightarrow> string \<Rightarrow> string \<Rightarrow> string \<Rightarrow> string \<Rightarrow> (world, goerr + credential_row) state"
where
  "UpsertProviderCredential pid prov envi ct dek = exec (sql_upsertProviderCredential pid prov envi ct dek)"

section \<open>API keys\<close>

definition sql_createAPIKey ::
  "uuid \<Rightarrow> string \<Rightarrow> string \<Rightarrow> string \<Rightarrow> string \<Rightarrow> api_key_row statement"
where
  "sql_createAPIKey pid name prefix hash scope = (\<lambda>now u t.
     if scope \<notin> set api_key_scopes then (Inl (check_violation ''api_keys_scope_check''), t)
     else if u \<in> k_ID ` set (api_keys t) then (Inl (unique_violation ''api_keys_pkey''), t)
     else if hash \<in> k_KeyHash ` set (api_keys t) then (Inl (unique_violation ''api_keys_key_hash_key''), t)
     else if \<not> project_exists pid t then (Inl (foreign_key_violation ''api_keys_project_id_fkey''), t)
     else let k = \<lparr>k_ID = u, k_ProjectID = pid, k_Name = name, k_KeyPrefix = prefix, k_KeyHash = hash,
                   k_Scope = scope, k_CreatedAt = now, k_LastUsedAt = None, k_RevokedAt = None,
                   k_ExpiresAt = None\<rparr>
          in (Inr k, t\<lparr>api_keys := api_keys t @ [k]\<rparr>))"

definition CreateAPIKey ::
  "uuid \<Rightarrow> string \<Rightarrow> string \<Rightarrow> string \<Rightarrow> string \<Rightarrow> (world, goerr + api_key_row) state"
where
  "CreateAPIKey pid name prefix hash scope = exec (sql_createAPIKey pid name prefix hash scope)"

definition key_active :: "instant \<Rightarrow> tables \<Rightarrow> api_key_row \<Rightarrow> bool" where
  "key_active now t k \<longleftrightarrow>
     k_RevokedAt k = None \<and> (case k_ExpiresAt k of None \<Rightarrow> True | Some e \<Rightarrow> e > now) \<and>
     list_ex (\<lambda>p. p_ID p = k_ProjectID k \<and> p_Status p = ''active'') (projects t)"

definition sql_getActiveAPIKeyByHash :: "string \<Rightarrow> api_key_row statement" where
  "sql_getActiveAPIKeyByHash hash = (\<lambda>now u t.
     (scan_row (find (\<lambda>k. k_KeyHash k = hash \<and> key_active now t k) (api_keys t)), t))"

definition GetActiveAPIKeyByHash :: "string \<Rightarrow> (world, goerr + api_key_row) state" where
  "GetActiveAPIKeyByHash hash = exec (sql_getActiveAPIKeyByHash hash)"

definition sql_listAPIKeysByProject :: "uuid \<Rightarrow> api_key_row list statement" where
  "sql_listAPIKeysByProject pid = reads (\<lambda>t.
     Inr (newest_first k_CreatedAt (filter (\<lambda>k. k_ProjectID k = pid) (api_keys t))))"

definition ListAPIKeysByProject :: "uuid \<Rightarrow> (world, goerr + api_key_row list) state" where
  "ListAPIKeysByProject pid = exec (sql_listAPIKeysByProject pid)"

definition sql_revokeAPIKey :: "uuid \<Rightarrow> uuid \<Rightarrow> unit statement" where
  "sql_revokeAPIKey i pid = (\<lambda>now u t.
     exec_only (t\<lparr>api_keys := upd_where (\<lambda>k. k_ID k = i \<and> k_ProjectID k = pid)
       (\<lambda>k. k\<lparr>k_RevokedAt := Some now\<rparr>) (api_keys t)\<rparr>))"

definition RevokeAPIKey :: "uuid \<Rightarrow> uuid \<Rightarrow> (world, goerr + unit) state" where
  "RevokeAPIKey i pid = exec (sql_revokeAPIKey i pid)"

definition sql_touchAPIKeyLastUsed :: "uuid \<Rightarrow> unit statement" where
  "sql_touchAPIKeyLastUsed i = (\<lambda>now u t.
     exec_only (t\<lparr>api_keys := upd_where (\<lambda>k. k_ID k = i) (\<lambda>k. k\<lparr>k_LastUsedAt := Some now\<rparr>) (api_keys t)\<rparr>))"

definition TouchAPIKeyLastUsed :: "uuid \<Rightarrow> (world, goerr + unit) state" where
  "TouchAPIKeyLastUsed i = exec (sql_touchAPIKeyLastUsed i)"

section \<open>Users\<close>

definition sql_countUsers :: "int statement" where
  "sql_countUsers = reads (\<lambda>t. Inr (int (length (users t))))"

definition CountUsers :: "(world, goerr + int) state" where
  "CountUsers = exec sql_countUsers"

definition sql_createUser :: "string \<Rightarrow> string \<Rightarrow> user_row statement" where
  "sql_createUser email hash = (\<lambda>now u t.
     if u \<in> u_ID ` set (users t) then (Inl (unique_violation ''users_pkey''), t)
     else if email \<in> u_Email ` set (users t) then (Inl (unique_violation ''users_email_key''), t)
     else let r = \<lparr>u_ID = u, u_Email = email, u_PasswordHash = hash, u_Role = ''admin'', u_CreatedAt = now\<rparr>
          in (Inr r, t\<lparr>users := users t @ [r]\<rparr>))"

definition CreateUser :: "string \<Rightarrow> string \<Rightarrow> (world, goerr + user_row) state" where
  "CreateUser email hash = exec (sql_createUser email hash)"

definition sql_getUserByEmail :: "string \<Rightarrow> user_row statement" where
  "sql_getUserByEmail email = reads (\<lambda>t. scan_row (find (\<lambda>u. u_Email u = email) (users t)))"

definition GetUserByEmail :: "string \<Rightarrow> (world, goerr + user_row) state" where
  "GetUserByEmail email = exec (sql_getUserByEmail email)"

definition sql_getUserByID :: "uuid \<Rightarrow> user_row statement" where
  "sql_getUserByID i = reads (\<lambda>t. scan_row (find (\<lambda>u. u_ID u = i) (users t)))"

definition GetUserByID :: "uuid \<Rightarrow> (world, goerr + user_row) state" where
  "GetUserByID i = exec (sql_getUserByID i)"

text \<open>\<open>:execrows\<close>: the number of rows affected.\<close>

definition sql_updateUserPassword :: "string \<Rightarrow> string \<Rightarrow> int statement" where
  "sql_updateUserPassword email hash = (\<lambda>now u t.
     (Inr (int (length (filter (\<lambda>r. u_Email r = email) (users t)))),
      t\<lparr>users := upd_where (\<lambda>r. u_Email r = email) (\<lambda>r. r\<lparr>u_PasswordHash := hash\<rparr>) (users t)\<rparr>))"

definition UpdateUserPassword :: "string \<Rightarrow> string \<Rightarrow> (world, goerr + int) state" where
  "UpdateUserPassword email hash = exec (sql_updateUserPassword email hash)"

section \<open>Sessions\<close>

definition sql_createSession :: "uuid \<Rightarrow> string \<Rightarrow> instant \<Rightarrow> session_row statement" where
  "sql_createSession uid hash expires = (\<lambda>now u t.
     if u \<in> ss_ID ` set (sessions t) then (Inl (unique_violation ''sessions_pkey''), t)
     else if hash \<in> ss_TokenHash ` set (sessions t) then (Inl (unique_violation ''sessions_token_hash_key''), t)
     else if \<not> user_exists uid t then (Inl (foreign_key_violation ''sessions_user_id_fkey''), t)
     else let s = \<lparr>ss_ID = u, ss_UserID = uid, ss_TokenHash = hash, ss_CreatedAt = now,
                   ss_LastUsedAt = None, ss_ExpiresAt = expires, ss_RevokedAt = None\<rparr>
          in (Inr s, t\<lparr>sessions := sessions t @ [s]\<rparr>))"

definition CreateSession :: "uuid \<Rightarrow> string \<Rightarrow> instant \<Rightarrow> (world, goerr + session_row) state" where
  "CreateSession uid hash expires = exec (sql_createSession uid hash expires)"

definition session_active :: "instant \<Rightarrow> session_row \<Rightarrow> bool" where
  "session_active now s \<longleftrightarrow> ss_RevokedAt s = None \<and> ss_ExpiresAt s > now"

definition sql_getActiveSessionByHash :: "string \<Rightarrow> session_row statement" where
  "sql_getActiveSessionByHash hash = (\<lambda>now u t.
     (scan_row (find (\<lambda>s. ss_TokenHash s = hash \<and> session_active now s) (sessions t)), t))"

definition GetActiveSessionByHash :: "string \<Rightarrow> (world, goerr + session_row) state" where
  "GetActiveSessionByHash hash = exec (sql_getActiveSessionByHash hash)"

definition sql_revokeSession :: "uuid \<Rightarrow> unit statement" where
  "sql_revokeSession i = (\<lambda>now u t.
     exec_only (t\<lparr>sessions := upd_where (\<lambda>s. ss_ID s = i) (\<lambda>s. s\<lparr>ss_RevokedAt := Some now\<rparr>) (sessions t)\<rparr>))"

definition RevokeSession :: "uuid \<Rightarrow> (world, goerr + unit) state" where
  "RevokeSession i = exec (sql_revokeSession i)"

definition sql_touchSessionLastUsed :: "uuid \<Rightarrow> unit statement" where
  "sql_touchSessionLastUsed i = (\<lambda>now u t.
     exec_only (t\<lparr>sessions := upd_where (\<lambda>s. ss_ID s = i) (\<lambda>s. s\<lparr>ss_LastUsedAt := Some now\<rparr>) (sessions t)\<rparr>))"

definition TouchSessionLastUsed :: "uuid \<Rightarrow> (world, goerr + unit) state" where
  "TouchSessionLastUsed i = exec (sql_touchSessionLastUsed i)"

section \<open>Reads do not write\<close>

lemma account_reads_db [frame_simps]:
  "w_db (final (GetProjectByID i) w) = w_db w"
  "w_db (final (GetProjectBySlug slug) w) = w_db w"
  "w_db (final ListProjects w) = w_db w"
  "w_db (final (GetActiveProviderCredential pid prov envi) w) = w_db w"
  "w_db (final (ListProviderCredentialsByProject pid) w) = w_db w"
  "w_db (final (GetActiveAPIKeyByHash hash) w) = w_db w"
  "w_db (final (ListAPIKeysByProject pid) w) = w_db w"
  "w_db (final CountUsers w) = w_db w"
  "w_db (final (GetUserByEmail email) w) = w_db w"
  "w_db (final (GetUserByID i) w) = w_db w"
  "w_db (final (GetActiveSessionByHash hash) w) = w_db w"
  by (simp_all add: GetProjectByID_def sql_getProjectByID_def GetProjectBySlug_def
      sql_getProjectBySlug_def ListProjects_def sql_listProjects_def
      GetActiveProviderCredential_def sql_getActiveProviderCredential_def
      ListProviderCredentialsByProject_def sql_listProviderCredentialsByProject_def
      GetActiveAPIKeyByHash_def sql_getActiveAPIKeyByHash_def ListAPIKeysByProject_def
      sql_listAPIKeysByProject_def CountUsers_def sql_countUsers_def GetUserByEmail_def
      sql_getUserByEmail_def GetUserByID_def sql_getUserByID_def GetActiveSessionByHash_def
      sql_getActiveSessionByHash_def exec_reads_final exec_final run_stmt_def split: fault.split)

lemmas account_methods =
  CreateProject_def GetProjectByID_def GetProjectBySlug_def ListProjects_def
  GetActiveProviderCredential_def ListProviderCredentialsByProject_def UpsertProviderCredential_def
  CreateAPIKey_def GetActiveAPIKeyByHash_def ListAPIKeysByProject_def RevokeAPIKey_def
  TouchAPIKeyLastUsed_def CountUsers_def CreateUser_def GetUserByEmail_def GetUserByID_def
  UpdateUserPassword_def CreateSession_def GetActiveSessionByHash_def RevokeSession_def
  TouchSessionLastUsed_def

end
