(* ===== verification/Integrity.thy ===== *)
theory Integrity imports NotificationStore DeviceStore AccountStore begin

text \<open>
  What every interleaving of statements keeps. \<open>wstep\<close> is one writing statement of the
  source with any arguments, \<open>now()\<close> and UUID: whatever handlers run, in however many
  processes, the database evolves along \<open>wstep\<close> steps. \<open>wf_db\<close> collects the keys, unique
  indexes, check constraints and references of the schema.
\<close>

section \<open>The writes\<close>

inductive wstep :: "tables \<Rightarrow> tables \<Rightarrow> bool" where
  w_CompleteNotification: "wstep t (snd (sql_CompleteNotification i st now u t))"
| w_createNotification: "wstep t (snd (sql_createNotification pid key title body data spec now u t))"
| w_setNotificationStatus: "wstep t (snd (sql_setNotificationStatus i st now u t))"
| w_setNotificationTotals: "wstep t (snd (sql_setNotificationTotals i tot now u t))"
| w_insertNotificationRecipient: "wstep t (snd (sql_insertNotificationRecipient nid did prov now u t))"
| w_markRecipientFailed: "wstep t (snd (sql_markRecipientFailed i code msg now u t))"
| w_markRecipientSending: "wstep t (snd (sql_markRecipientSending i now u t))"
| w_markRecipientSent: "wstep t (snd (sql_markRecipientSent i msgid now u t))"
| w_upsertSubscriber: "wstep t (snd (sql_upsertSubscriber pid ext now u t))"
| w_markDeviceStatus: "wstep t (snd (sql_markDeviceStatus i st now u t))"
| w_markStaleDevices: "wstep t (snd (sql_markStaleDevicesByDeviceUUID pid sid i duuid now u t))"
| w_upsertDevice: "wstep t (snd (sql_upsertDevice pid tok plat prov meta sid now u t))"
| w_createProject: "wstep t (snd (sql_createProject name slug now u t))"
| w_upsertProviderCredential: "wstep t (snd (sql_upsertProviderCredential pid prov envi ct dek now u t))"
| w_createAPIKey: "wstep t (snd (sql_createAPIKey pid name prefix hash scope now u t))"
| w_revokeAPIKey: "wstep t (snd (sql_revokeAPIKey i pid now u t))"
| w_touchAPIKey: "wstep t (snd (sql_touchAPIKeyLastUsed i now u t))"
| w_createUser: "wstep t (snd (sql_createUser email hash now u t))"
| w_updateUserPassword: "wstep t (snd (sql_updateUserPassword email hash now u t))"
| w_createSession: "wstep t (snd (sql_createSession uid hash expires now u t))"
| w_revokeSession: "wstep t (snd (sql_revokeSession i now u t))"
| w_touchSession: "wstep t (snd (sql_touchSessionLastUsed i now u t))"

lemmas write_defs =
  sql_CompleteNotification_def sql_createNotification_def sql_setNotificationStatus_def
  sql_setNotificationTotals_def sql_insertNotificationRecipient_def sql_markRecipientFailed_def
  sql_markRecipientSending_def sql_markRecipientSent_def sql_upsertSubscriber_def
  sql_markDeviceStatus_def sql_markStaleDevicesByDeviceUUID_def sql_upsertDevice_def
  sql_createProject_def sql_upsertProviderCredential_def sql_createAPIKey_def sql_revokeAPIKey_def
  sql_touchAPIKeyLastUsed_def sql_createUser_def sql_updateUserPassword_def sql_createSession_def
  sql_revokeSession_def sql_touchSessionLastUsed_def exec_only_def Let_def

section \<open>Effect of a write on one table\<close>

text \<open>
  Each write leaves a table alone, updates rows of it without touching their identity,
  or appends one row it has checked. The three cases, per table.
\<close>

inductive notif_change :: "tables \<Rightarrow> notification_row list \<Rightarrow> bool" for t where
  "notif_change t (notifications t)"
| "(\<And>n. (n_ID (f n), n_ProjectID (f n), n_IdempotencyKey (f n), n_TargetSpec (f n)) =
          (n_ID n, n_ProjectID n, n_IdempotencyKey n, n_TargetSpec n)) \<Longrightarrow>
   (\<And>n. P n \<Longrightarrow> n \<in> set (notifications t) \<Longrightarrow>
      n_Status (f n) \<in> set notification_statuses \<or> n_Status (f n) = n_Status n) \<Longrightarrow>
   notif_change t (upd_where P f (notifications t))"
| "\<not> list_ex (key_conflict (n_ProjectID n) (n_IdempotencyKey n)) (notifications t) \<Longrightarrow>
   n_ID n \<notin> n_ID ` set (notifications t) \<Longrightarrow> project_exists (n_ProjectID n) t \<Longrightarrow>
   n_Status n \<in> set notification_statuses \<Longrightarrow>
   notif_change t (notifications t @ [n])"

inductive recip_change :: "tables \<Rightarrow> recipient_row list \<Rightarrow> bool" for t where
  "recip_change t (recipients t)"
| "(\<And>r. (r_ID (f r), r_NotificationID (f r), r_DeviceID (f r), r_ProviderType (f r)) =
          (r_ID r, r_NotificationID r, r_DeviceID r, r_ProviderType r)) \<Longrightarrow>
   (\<And>r. r_Status (f r) \<in> set recipient_statuses) \<Longrightarrow>
   recip_change t (upd_where P f (recipients t))"
| "\<not> list_ex (same_target (r_NotificationID r) (r_DeviceID r)) (recipients t) \<Longrightarrow>
   r_ID r \<notin> r_ID ` set (recipients t) \<Longrightarrow>
   notification_exists (r_NotificationID r) t \<Longrightarrow> device_exists (r_DeviceID r) t \<Longrightarrow>
   r_Status r = ''queued'' \<Longrightarrow>
   recip_change t (recipients t @ [r])"

inductive dev_change :: "tables \<Rightarrow> device_row list \<Rightarrow> bool" for t where
  "dev_change t (devices t)"
| "(\<And>d. (d_ID (f d), d_ProjectID (f d), d_Token (f d)) = (d_ID d, d_ProjectID d, d_Token d)) \<Longrightarrow>
   (\<And>d. P d \<Longrightarrow> d \<in> set (devices t) \<Longrightarrow> d_Status (f d) \<in> set device_statuses) \<Longrightarrow>
   (\<And>d. d_Platform (f d) = d_Platform d \<or> d_Platform (f d) \<in> set device_platforms) \<Longrightarrow>
   (\<And>d. d_ProviderType (f d) = d_ProviderType d \<or> d_ProviderType (f d) \<in> set provider_types) \<Longrightarrow>
   (\<And>d s. P d \<Longrightarrow> d_SubscriberID (f d) = Some s \<Longrightarrow>
      d_SubscriberID d = Some s \<or> subscriber_exists (d_ProjectID d) s t) \<Longrightarrow>
   dev_change t (upd_where P f (devices t))"
| "d_ID d \<notin> d_ID ` set (devices t) \<Longrightarrow>
   find (same_token (d_ProjectID d) (d_Token d)) (devices t) = None \<Longrightarrow>
   project_exists (d_ProjectID d) t \<Longrightarrow>
   d_Status d \<in> set device_statuses \<Longrightarrow> d_Platform d \<in> set device_platforms \<Longrightarrow>
   d_ProviderType d \<in> set provider_types \<Longrightarrow>
   (\<And>s. d_SubscriberID d = Some s \<Longrightarrow> subscriber_exists (d_ProjectID d) s t) \<Longrightarrow>
   dev_change t (devices t @ [d])"

inductive sub_change :: "tables \<Rightarrow> subscriber_row list \<Rightarrow> bool" for t where
  "sub_change t (subscribers t)"
| "(\<And>s. (s_ID (f s), s_ProjectID (f s), s_ExternalID (f s), s_Status (f s)) =
          (s_ID s, s_ProjectID s, s_ExternalID s, s_Status s)) \<Longrightarrow>
   sub_change t (upd_where P f (subscribers t))"
| "s_ID s \<notin> s_ID ` set (subscribers t) \<Longrightarrow>
   find (same_external (s_ProjectID s) (s_ExternalID s)) (subscribers t) = None \<Longrightarrow>
   project_exists (s_ProjectID s) t \<Longrightarrow> s_Status s \<in> set subscriber_statuses \<Longrightarrow>
   sub_change t (subscribers t @ [s])"

lemma statuses_simps [simp]:
  "''pending'' \<in> set notification_statuses" "''processing'' \<in> set notification_statuses"
  "''completed'' \<in> set notification_statuses" "''failed'' \<in> set notification_statuses"
  "''queued'' \<in> set recipient_statuses" "''sending'' \<in> set recipient_statuses"
  "''sent'' \<in> set recipient_statuses" "''failed'' \<in> set recipient_statuses"
  "''active'' \<in> set device_statuses" "''stale'' \<in> set device_statuses"
  "''invalid'' \<in> set device_statuses" "''subscribed'' \<in> set subscriber_statuses"
  by (simp_all add: check_lists)

lemma wstep_notif_change: "wstep t t' \<Longrightarrow> notif_change t (notifications t')"
  by (induction rule: wstep.induct)
    (auto simp: write_defs notification_exists_def image_iff
      split: option.splits
      intro: notif_change.intros)

lemma wstep_recip_change: "wstep t t' \<Longrightarrow> recip_change t (recipients t')"
  by (induction rule: wstep.induct)
    (auto simp: write_defs new_recipient_def sending_def
      split: option.splits
      intro: recip_change.intros)


lemma wstep_dev_change: "wstep t t' \<Longrightarrow> dev_change t (devices t')"
proof (induction rule: wstep.induct)
  case (w_markDeviceStatus t i st now u)
  show ?case
    by (auto simp: write_defs device_exists_def image_iff intro!: dev_change.intros)
next
  case (w_markStaleDevices t pid sid i duuid now u)
  show ?case
    by (auto simp: write_defs make_stale_def intro!: dev_change.intros)
next
  case (w_upsertDevice t pid tok plat prov meta sid now u)
  show ?case
    by (auto simp: write_defs device_exists_def reregistered_def coalesce_def same_token_def
        split: option.splits intro!: dev_change.intros)
qed (auto simp: write_defs intro: dev_change.intros split: option.splits)

lemma wstep_sub_change: "wstep t t' \<Longrightarrow> sub_change t (subscribers t')"
  by (induction rule: wstep.induct)
    (auto simp: write_defs split: option.splits intro: sub_change.intros)

text \<open>Rows are never removed and their identity never changes.\<close>

definition ids_kept :: "tables \<Rightarrow> tables \<Rightarrow> bool" where
  "ids_kept t t' \<longleftrightarrow>
     p_ID ` set (projects t) \<subseteq> p_ID ` set (projects t') \<and>
     (\<lambda>s. (s_ProjectID s, s_ID s)) ` set (subscribers t) \<subseteq> (\<lambda>s. (s_ProjectID s, s_ID s)) ` set (subscribers t') \<and>
     d_ID ` set (devices t) \<subseteq> d_ID ` set (devices t') \<and>
     n_ID ` set (notifications t) \<subseteq> n_ID ` set (notifications t') \<and>
     u_ID ` set (users t) \<subseteq> u_ID ` set (users t')"

lemma image_upd_where:
  "(\<And>r. P r \<Longrightarrow> g (f r) = g r) \<Longrightarrow> g ` set (upd_where P f rows) = g ` set rows"
  by (simp flip: set_map)

lemma wstep_ids_kept: "wstep t t' \<Longrightarrow> ids_kept t t'"
  by (induction rule: wstep.induct)
    (auto simp: write_defs ids_kept_def image_upd_where sending_def make_stale_def reregistered_def
      split: option.splits)

section \<open>Well-formed databases\<close>

definition notifications_ok :: "tables \<Rightarrow> bool" where
  "notifications_ok t \<longleftrightarrow>
     distinct (map n_ID (notifications t)) \<and>
     distinct (map (\<lambda>n. (n_ProjectID n, n_IdempotencyKey n))
       (filter (\<lambda>n. n_IdempotencyKey n \<noteq> None) (notifications t))) \<and>
     (\<forall>n \<in> set (notifications t). n_Status n \<in> set notification_statuses \<and> project_exists (n_ProjectID n) t)"

definition recipients_ok :: "tables \<Rightarrow> bool" where
  "recipients_ok t \<longleftrightarrow>
     distinct (map r_ID (recipients t)) \<and>
     distinct (map (\<lambda>r. (r_NotificationID r, r_DeviceID r)) (recipients t)) \<and>
     (\<forall>r \<in> set (recipients t). r_Status r \<in> set recipient_statuses \<and>
        notification_exists (r_NotificationID r) t \<and> device_exists (r_DeviceID r) t)"

definition devices_ok :: "tables \<Rightarrow> bool" where
  "devices_ok t \<longleftrightarrow>
     distinct (map d_ID (devices t)) \<and>
     distinct (map (\<lambda>d. (d_ProjectID d, d_Token d)) (devices t)) \<and>
     (\<forall>d \<in> set (devices t). d_Status d \<in> set device_statuses \<and> d_Platform d \<in> set device_platforms \<and>
        d_ProviderType d \<in> set provider_types \<and> project_exists (d_ProjectID d) t \<and>
        (\<forall>s. d_SubscriberID d = Some s \<longrightarrow> subscriber_exists (d_ProjectID d) s t))"

definition subscribers_ok :: "tables \<Rightarrow> bool" where
  "subscribers_ok t \<longleftrightarrow>
     distinct (map s_ID (subscribers t)) \<and>
     distinct (map (\<lambda>s. (s_ProjectID s, s_ExternalID s)) (subscribers t)) \<and>
     (\<forall>s \<in> set (subscribers t). s_Status s \<in> set subscriber_statuses \<and> project_exists (s_ProjectID s) t)"

definition accounts_ok :: "tables \<Rightarrow> bool" where
  "accounts_ok t \<longleftrightarrow>
     distinct (map p_ID (projects t)) \<and> distinct (map p_Slug (projects t)) \<and>
     distinct (map c_ID (credentials t)) \<and>
     distinct (map (\<lambda>c. (c_ProjectID c, c_ProviderType c, c_Environment c)) (credentials t)) \<and>
     distinct (map k_ID (api_keys t)) \<and> distinct (map k_KeyHash (api_keys t)) \<and>
     distinct (map u_ID (users t)) \<and> distinct (map u_Email (users t)) \<and>
     distinct (map ss_ID (sessions t)) \<and> distinct (map ss_TokenHash (sessions t)) \<and>
     (\<forall>k \<in> set (api_keys t). k_Scope k \<in> set api_key_scopes \<and> project_exists (k_ProjectID k) t) \<and>
     (\<forall>s \<in> set (sessions t). user_exists (ss_UserID s) t)"

definition wf_db :: "tables \<Rightarrow> bool" where
  "wf_db t \<longleftrightarrow> notifications_ok t \<and> recipients_ok t \<and> devices_ok t \<and> subscribers_ok t \<and> accounts_ok t"

text \<open>References survive, because rows do.\<close>

lemma exists_kept:
  assumes k: "ids_kept t t'"
  shows "project_exists pid t \<Longrightarrow> project_exists pid t'"
    and "subscriber_exists pid sid t \<Longrightarrow> subscriber_exists pid sid t'"
    and "notification_exists nid t \<Longrightarrow> notification_exists nid t'"
    and "device_exists did t \<Longrightarrow> device_exists did t'"
    and "user_exists uid t \<Longrightarrow> user_exists uid t'"
  unfolding project_exists_def subscriber_exists_def notification_exists_def device_exists_def
    user_exists_def
  using k [unfolded ids_kept_def] by - (elim conjE, erule (1) subsetD)+

lemma notif_change_ok:
  assumes "notif_change t (notifications t')" and k: "ids_kept t t'" and ok: "notifications_ok t"
  shows "notifications_ok t'"
proof -
  have ex: "project_exists (n_ProjectID n) t'" if "n \<in> set (notifications t)" for n
    using ok that by (auto simp: notifications_ok_def intro: exists_kept(1) [OF k])
  from assms(1) show ?thesis
  proof cases
    case 1
    with ok ex show ?thesis by (simp add: notifications_ok_def)
  next
    case (2 f P)
    have id: "n_ID (f n) = n_ID n" "n_ProjectID (f n) = n_ProjectID n"
      "n_IdempotencyKey (f n) = n_IdempotencyKey n" for n
      using 2(2) [of n] by simp_all
    then have "filter (\<lambda>n. n_IdempotencyKey n \<noteq> None) (upd_where P f rows) =
        upd_where P f (filter (\<lambda>n. n_IdempotencyKey n \<noteq> None) rows)" for rows
      by (induction rows) auto
    moreover have "n_Status (f n) \<in> set notification_statuses" if "P n" "n \<in> set (notifications t)" for n
      using ok that 2(3) [of n] by (auto simp: notifications_ok_def)
    ultimately show ?thesis
      using ok ex id by (auto simp: 2(1) notifications_ok_def in_set_upd_where)
  next
    case (3 n)
    have "(n_ProjectID n, n_IdempotencyKey n) \<notin>
        (\<lambda>n. (n_ProjectID n, n_IdempotencyKey n)) ` {m \<in> set (notifications t). n_IdempotencyKey m \<noteq> None}"
      using 3(2) by (auto simp: list_ex_iff key_conflict_def)
    with ok ex 3 show ?thesis
      by (auto simp: notifications_ok_def intro: exists_kept(1) [OF k])
  qed
qed

lemma recip_change_ok:
  assumes "recip_change t (recipients t')" and k: "ids_kept t t'" and ok: "recipients_ok t"
  shows "recipients_ok t'"
proof -
  have ex: "notification_exists (r_NotificationID r) t' \<and> device_exists (r_DeviceID r) t'"
    if "r \<in> set (recipients t)" for r
    using ok that by (auto simp: recipients_ok_def intro: exists_kept(3,4) [OF k])
  from assms(1) show ?thesis
  proof cases
    case 1
    with ok ex show ?thesis by (simp add: recipients_ok_def)
  next
    case (2 f P)
    have "r_ID (f r) = r_ID r" "r_NotificationID (f r) = r_NotificationID r"
      "r_DeviceID (f r) = r_DeviceID r" for r
      using 2(2) [of r] by simp_all
    then show ?thesis
      using ok ex 2 by (auto simp: recipients_ok_def in_set_upd_where)
  next
    case (3 r)
    have "(r_NotificationID r, r_DeviceID r) \<notin> (\<lambda>r. (r_NotificationID r, r_DeviceID r)) ` set (recipients t)"
      using 3(2) by (auto simp: list_ex_iff same_target_def)
    with ok ex 3 show ?thesis
      by (auto simp: recipients_ok_def intro: exists_kept(3,4) [OF k])
  qed
qed

lemma sub_change_ok:
  assumes "sub_change t (subscribers t')" and k: "ids_kept t t'" and ok: "subscribers_ok t"
  shows "subscribers_ok t'"
proof -
  have ex: "project_exists (s_ProjectID s) t'" if "s \<in> set (subscribers t)" for s
    using ok that by (auto simp: subscribers_ok_def intro: exists_kept(1) [OF k])
  from assms(1) show ?thesis
  proof cases
    case 1
    with ok ex show ?thesis by (simp add: subscribers_ok_def)
  next
    case (2 f P)
    have "s_ID (f s) = s_ID s" "s_ProjectID (f s) = s_ProjectID s"
      "s_ExternalID (f s) = s_ExternalID s" "s_Status (f s) = s_Status s" for s
      using 2(2) [of s] by simp_all
    then show ?thesis
      using ok ex 2 by (auto simp: subscribers_ok_def in_set_upd_where)
  next
    case (3 s)
    have "(s_ProjectID s, s_ExternalID s) \<notin> (\<lambda>s. (s_ProjectID s, s_ExternalID s)) ` set (subscribers t)"
      using 3(3) by (auto simp: find_None_iff same_external_def)
    with ok ex 3 show ?thesis
      by (auto simp: subscribers_ok_def intro: exists_kept(1) [OF k])
  qed
qed

lemma dev_change_ok:
  assumes "dev_change t (devices t')" and k: "ids_kept t t'" and ok: "devices_ok t"
  shows "devices_ok t'"
proof -
  have ex: "project_exists (d_ProjectID d) t'"
    "d_SubscriberID d = Some s \<Longrightarrow> subscriber_exists (d_ProjectID d) s t'"
    if "d \<in> set (devices t)" for d s
    using ok that by (auto simp: devices_ok_def intro: exists_kept(1,2) [OF k])
  from assms(1) show ?thesis
  proof cases
    case 1
    with ok ex show ?thesis by (simp add: devices_ok_def)
  next
    case (2 f P)
    have id: "d_ID (f d) = d_ID d" "d_ProjectID (f d) = d_ProjectID d" "d_Token (f d) = d_Token d" for d
      using 2(2) [of d] by simp_all
    have row: "d_Status (f d) \<in> set device_statuses \<and> d_Platform (f d) \<in> set device_platforms \<and>
        d_ProviderType (f d) \<in> set provider_types" if "P d" "d \<in> set (devices t)" for d
      using ok that 2(3-5) [of d] by (auto simp: devices_ok_def)
    have "subscriber_exists (d_ProjectID d) s t'"
      if "P d" "d \<in> set (devices t)" "d_SubscriberID (f d) = Some s" for d s
      using 2(6) [OF that(1,3)] ex(2) [OF that(2)] exists_kept(2) [OF k] by blast
    with ok ex id row show ?thesis
      by (auto simp: 2(1) devices_ok_def in_set_upd_where split: if_splits)
  next
    case (3 d)
    have "(d_ProjectID d, d_Token d) \<notin> (\<lambda>d. (d_ProjectID d, d_Token d)) ` set (devices t)"
      using 3(3) by (auto simp: find_None_iff same_token_def)
    with ok ex 3 show ?thesis
      by (auto simp: devices_ok_def intro: exists_kept(1,2) [OF k])
  qed
qed

lemma project_exists_simps [simp]:
  "project_exists pid (t\<lparr>notifications := ns\<rparr>) = project_exists pid t"
  "project_exists pid (t\<lparr>recipients := rs\<rparr>) = project_exists pid t"
  "project_exists pid (t\<lparr>devices := ds\<rparr>) = project_exists pid t"
  "project_exists pid (t\<lparr>subscribers := ss\<rparr>) = project_exists pid t"
  "project_exists pid (t\<lparr>credentials := cs\<rparr>) = project_exists pid t"
  "project_exists pid (t\<lparr>api_keys := ks\<rparr>) = project_exists pid t"
  "project_exists pid (t\<lparr>users := us\<rparr>) = project_exists pid t"
  "project_exists pid (t\<lparr>sessions := xs\<rparr>) = project_exists pid t"
  by (simp_all add: project_exists_def)

lemma user_exists_simps [simp]:
  "user_exists uid (t\<lparr>notifications := ns\<rparr>) = user_exists uid t"
  "user_exists uid (t\<lparr>recipients := rs\<rparr>) = user_exists uid t"
  "user_exists uid (t\<lparr>devices := ds\<rparr>) = user_exists uid t"
  "user_exists uid (t\<lparr>subscribers := ss\<rparr>) = user_exists uid t"
  "user_exists uid (t\<lparr>credentials := cs\<rparr>) = user_exists uid t"
  "user_exists uid (t\<lparr>api_keys := ks\<rparr>) = user_exists uid t"
  "user_exists uid (t\<lparr>projects := ps\<rparr>) = user_exists uid t"
  "user_exists uid (t\<lparr>sessions := xs\<rparr>) = user_exists uid t"
  by (simp_all add: user_exists_def)

lemma accounts_frame [simp]:
  "accounts_ok (t\<lparr>notifications := ns\<rparr>) = accounts_ok t"
  "accounts_ok (t\<lparr>recipients := rs\<rparr>) = accounts_ok t"
  "accounts_ok (t\<lparr>devices := ds\<rparr>) = accounts_ok t"
  "accounts_ok (t\<lparr>subscribers := ss\<rparr>) = accounts_ok t"
  by (simp_all add: accounts_ok_def)

lemma accounts_ok_projects:
  assumes "accounts_ok t" and "p_ID p \<notin> p_ID ` set (projects t)" and "p_Slug p \<notin> p_Slug ` set (projects t)"
  shows "accounts_ok (t\<lparr>projects := projects t @ [p]\<rparr>)"
  using assms by (auto simp: accounts_ok_def project_exists_def)

lemma accounts_ok_credentials:
  assumes "accounts_ok t" and "c_ID c \<notin> c_ID ` set (credentials t)"
    and "find (same_provider (c_ProjectID c) (c_ProviderType c) (c_Environment c)) (credentials t) = None"
  shows "accounts_ok (t\<lparr>credentials := credentials t @ [c]\<rparr>)"
  using assms by (auto simp: accounts_ok_def find_None_iff same_provider_def)

lemma accounts_ok_api_keys:
  assumes "accounts_ok t" and "k_ID k \<notin> k_ID ` set (api_keys t)"
    and "k_KeyHash k \<notin> k_KeyHash ` set (api_keys t)"
    and "k_Scope k \<in> set api_key_scopes" and "project_exists (k_ProjectID k) t"
  shows "accounts_ok (t\<lparr>api_keys := api_keys t @ [k]\<rparr>)"
  using assms by (auto simp: accounts_ok_def)

lemma accounts_ok_users:
  assumes "accounts_ok t" and "u_ID r \<notin> u_ID ` set (users t)" and "u_Email r \<notin> u_Email ` set (users t)"
  shows "accounts_ok (t\<lparr>users := users t @ [r]\<rparr>)"
  using assms by (auto simp: accounts_ok_def user_exists_def)

lemma accounts_ok_sessions:
  assumes "accounts_ok t" and "ss_ID s \<notin> ss_ID ` set (sessions t)"
    and "ss_TokenHash s \<notin> ss_TokenHash ` set (sessions t)" and "user_exists (ss_UserID s) t"
  shows "accounts_ok (t\<lparr>sessions := sessions t @ [s]\<rparr>)"
  using assms by (auto simp: accounts_ok_def)

lemma accounts_ok_updates:
  assumes "accounts_ok t"
  shows "accounts_ok (t\<lparr>credentials := upd_where P1 (replaced ct dek now) (credentials t)\<rparr>)"
    and "accounts_ok (t\<lparr>api_keys := upd_where P2 (\<lambda>k. k\<lparr>k_RevokedAt := rv\<rparr>) (api_keys t)\<rparr>)"
    and "accounts_ok (t\<lparr>api_keys := upd_where P2 (\<lambda>k. k\<lparr>k_LastUsedAt := rv\<rparr>) (api_keys t)\<rparr>)"
    and "accounts_ok (t\<lparr>users := upd_where P3 (\<lambda>r. r\<lparr>u_PasswordHash := hash\<rparr>) (users t)\<rparr>)"
    and "accounts_ok (t\<lparr>sessions := upd_where P4 (\<lambda>s. s\<lparr>ss_RevokedAt := rv\<rparr>) (sessions t)\<rparr>)"
    and "accounts_ok (t\<lparr>sessions := upd_where P4 (\<lambda>s. s\<lparr>ss_LastUsedAt := rv\<rparr>) (sessions t)\<rparr>)"
  using assms
  by (auto simp: accounts_ok_def replaced_def in_set_upd_where user_exists_def image_upd_where)

lemma wstep_accounts_ok: "wstep t t' \<Longrightarrow> accounts_ok t \<Longrightarrow> accounts_ok t'"
  by (induction rule: wstep.induct)
    (auto simp: write_defs accounts_ok_updates split: option.splits
      intro!: accounts_ok_projects accounts_ok_credentials accounts_ok_api_keys accounts_ok_users
        accounts_ok_sessions)

lemma wstep_wf_db:
  assumes "wstep t t'" and "wf_db t"
  shows "wf_db t'"
  using assms wstep_ids_kept [OF assms(1)] wstep_accounts_ok [OF assms(1)]
  unfolding wf_db_def
  by (auto intro: notif_change_ok recip_change_ok dev_change_ok sub_change_ok
      dest: wstep_notif_change wstep_recip_change wstep_dev_change wstep_sub_change)

section \<open>Every run of every process\<close>

text \<open>The migration seeds the default project and nothing else.\<close>

definition initial_db :: "instant \<Rightarrow> tables" where
  "initial_db now = \<lparr>projects = [\<lparr>p_ID = 1, p_Name = ''Default Project'', p_Slug = ''default'',
       p_Status = ''active'', p_CreatedAt = now\<rparr>],
     subscribers = [], devices = [], notifications = [], recipients = [], credentials = [],
     api_keys = [], users = [], sessions = []\<rparr>"

definition reachable_db :: "tables \<Rightarrow> bool" where
  "reachable_db t \<longleftrightarrow> (\<exists>now. wstep\<^sup>*\<^sup>* (initial_db now) t)"

lemma wf_initial_db: "wf_db (initial_db now)"
  by (simp add: wf_db_def initial_db_def notifications_ok_def recipients_ok_def devices_ok_def
      subscribers_ok_def accounts_ok_def)

lemma wsteps_wf_db: "wstep\<^sup>*\<^sup>* t t' \<Longrightarrow> wf_db t \<Longrightarrow> wf_db t'"
  by (induction rule: rtranclp_induct) (auto intro: wstep_wf_db)

lemma wf_reachable_db: "reachable_db t \<Longrightarrow> wf_db t"
  unfolding reachable_db_def by (auto intro: wsteps_wf_db wf_initial_db)

definition db_moves :: "world \<Rightarrow> world \<Rightarrow> bool" where
  "db_moves w w' \<longleftrightarrow> wstep\<^sup>*\<^sup>* (w_db w) (w_db w')"

lemma db_moves_refl: "reflp db_moves"
  by (simp add: reflp_def db_moves_def)

lemma db_moves_trans: "transp db_moves"
  by (auto simp: transp_def db_moves_def)

lemma db_moves_wf: "moves db_moves m \<Longrightarrow> wf_db (w_db w) \<Longrightarrow> wf_db (w_db (final m w))"
  by (erule wsteps_wf_db [rotated]) (auto simp: db_moves_def dest: movesD)

lemmas db_moves_rules [moves_rules] =
  moves_ret [OF db_moves_refl] moves_bind [OF db_moves_trans]
  moves_attempt [OF db_moves_refl db_moves_trans]

lemma moves_frame: "(\<And>w. w_db (final m w) = w_db w) \<Longrightarrow> moves db_moves m"
  by (simp add: moves_def db_moves_def)

lemma moves_exec:
  assumes "\<And>now u t. wstep t (snd (stmt now u t))"
  shows "moves db_moves (exec stmt)"
proof (rule movesI)
  fix w
  show "db_moves w (final (exec stmt) w)"
    using assms [of "w_db w" "se_now (next_env w)" "se_uuid (next_env w)"]
    by (auto simp: db_moves_def exec_final run_stmt_def split: fault.split)
qed

lemma method_moves [moves_rules]:
  "moves db_moves (CompleteNotification i st)"
  "moves db_moves (db_CreateNotification pid nkey title body data spec)"
  "moves db_moves (SetNotificationStatus i st)"
  "moves db_moves (SetNotificationTotals i tot)"
  "moves db_moves (InsertNotificationRecipient nid did prov)"
  "moves db_moves (MarkRecipientFailed i code msg)"
  "moves db_moves (MarkRecipientSending i)"
  "moves db_moves (MarkRecipientSent i msgid)"
  "moves db_moves (UpsertSubscriber pid ext)"
  "moves db_moves (MarkDeviceStatus i st)"
  "moves db_moves (MarkStaleDevicesByDeviceUUID pid sid i duuid)"
  "moves db_moves (UpsertDevice pid tok plat prov meta sid)"
  "moves db_moves (CreateProject name slug)"
  "moves db_moves (UpsertProviderCredential pid prov envi ct dek)"
  "moves db_moves (CreateAPIKey pid name prefix hash scope)"
  "moves db_moves (RevokeAPIKey i pid)"
  "moves db_moves (TouchAPIKeyLastUsed i)"
  "moves db_moves (CreateUser email hash)"
  "moves db_moves (UpdateUserPassword email hash)"
  "moves db_moves (CreateSession uid hash expires)"
  "moves db_moves (RevokeSession i)"
  "moves db_moves (TouchSessionLastUsed i)"
  unfolding notification_methods device_methods account_methods
  by (rule moves_exec, rule wstep.intros)+

lemmas read_moves [moves_rules] =
  notification_reads_db [THEN moves_frame] device_reads_db [THEN moves_frame]
  account_reads_db [THEN moves_frame] service_db [THEN moves_frame]

section \<open>What never changes\<close>

text \<open>A notification keeps its project, key and target; a recipient its notification and device.\<close>

lemma wstep_notification_kept:
  assumes "wstep t t'" and "n \<in> set (notifications t)"
  shows "\<exists>n' \<in> set (notifications t'). n_ID n' = n_ID n \<and> n_ProjectID n' = n_ProjectID n \<and>
    n_IdempotencyKey n' = n_IdempotencyKey n \<and> n_TargetSpec n' = n_TargetSpec n"
  using wstep_notif_change [OF assms(1)]
proof cases
  case (2 f P)
  have "(if P n then f n else n) \<in> set (notifications t')"
    using 2(1) assms(2) by (auto simp: in_set_upd_where)
  then show ?thesis
    by (rule bexI [rotated]) (use 2(2) [of n] in auto)
qed (use assms(2) in auto)

lemma wsteps_notification_kept:
  assumes "wstep\<^sup>*\<^sup>* t t'" and "n \<in> set (notifications t)"
  shows "\<exists>n' \<in> set (notifications t'). n_ID n' = n_ID n \<and> n_ProjectID n' = n_ProjectID n \<and>
    n_IdempotencyKey n' = n_IdempotencyKey n \<and> n_TargetSpec n' = n_TargetSpec n"
  using assms
proof (induction rule: rtranclp_induct)
  case (step t1 t2)
  then obtain n1 where "n1 \<in> set (notifications t1)" "n_ID n1 = n_ID n" "n_ProjectID n1 = n_ProjectID n"
    "n_IdempotencyKey n1 = n_IdempotencyKey n" "n_TargetSpec n1 = n_TargetSpec n" by blast
  with wstep_notification_kept [OF step.hyps(2)] show ?case by metis
qed blast

text \<open>A key selects at most one notification of a project.\<close>

lemma key_row_unique:
  assumes "wf_db t" and "m \<in> set (notifications t)" and "n \<in> set (notifications t)"
    and "n_ProjectID m = n_ProjectID n" and "n_IdempotencyKey m = n_IdempotencyKey n"
    and "n_IdempotencyKey n \<noteq> None"
  shows "m = n"
proof -
  have "distinct (map (\<lambda>n. (n_ProjectID n, n_IdempotencyKey n))
      (filter (\<lambda>n. n_IdempotencyKey n \<noteq> None) (notifications t)))"
    using assms(1) by (simp add: wf_db_def notifications_ok_def)
  then show ?thesis by (rule distinct_map_unique) (use assms in auto)
qed

section \<open>Properties\<close>

text \<open>
  C14. Every database that any number of processes can reach from the migrated one, by any
  interleaving of the statements the program has, is well-formed: ids, tokens, external ids,
  idempotency keys, key hashes and emails are unique where they must be, a device gets at
  most one recipient per notification, statuses satisfy their checks and references exist.
\<close>

theorem reachable_db_wf:
  assumes "reachable_db t"
  shows "wf_db t"
  using assms by (rule wf_reachable_db)

theorem reachable_db_wf_witness:
  "wf_db ((initial_db 0)\<lparr>subscribers := [\<lparr>s_ID = 5, s_ProjectID = 1, s_ExternalID = ''u'',
     s_Status = ''subscribed'', s_CreatedAt = 3, s_LastSeenAt = 3\<rparr>]\<rparr>)"
proof (rule reachable_db_wf)
  have "wstep (initial_db 0) (snd (sql_upsertSubscriber 1 ''u'' 3 5 (initial_db 0)))"
    by (rule wstep.intros)
  then show "reachable_db ((initial_db 0)\<lparr>subscribers := [\<lparr>s_ID = 5, s_ProjectID = 1, s_ExternalID = ''u'',
     s_Status = ''subscribed'', s_CreatedAt = 3, s_LastSeenAt = 3\<rparr>]\<rparr>)"
    by (auto simp: reachable_db_def initial_db_def sql_upsertSubscriber_def same_external_def
        project_exists_def Let_def intro!: exI [of _ 0])
qed

end
