(* ===== verification/Targeting.thy ===== *)
theory Targeting imports Integrity Samples begin

text \<open>
  \<open>internal/targeting/targeting.go\<close>: from a target spec to device ids. The two lookups the
  resolvers need are the interfaces \<open>DeviceLookup\<close> and \<open>GroupLookup\<close> of the source; here they
  are locales, interpreted by the store's queries.
\<close>

record Spec =
  t_DeviceIDs :: "uuid list"
  t_ExternalUserIDs :: "string list"

type_synonym devices_by_ids = "uuid \<Rightarrow> uuid list \<Rightarrow> (world, goerr + device_row list) state"
type_synonym devices_by_external = "uuid \<Rightarrow> string list \<Rightarrow> (world, goerr + device_row list) state"

type_synonym Resolver = "uuid \<Rightarrow> Spec \<Rightarrow> (world, goerr + uuid list) state"

definition ByExplicitTargets_Resolve :: "devices_by_ids \<Rightarrow> Resolver" where
  "ByExplicitTargets_Resolve byIDs projectID spec =
     (if length (t_DeviceIDs spec) = 0 then ret (Inl ErrNoTargetsSpecified)
      else attempt id (byIDs projectID (t_DeviceIDs spec)) (\<lambda>devices. ret (Inr (map d_ID devices))))"

definition ByGroup_Resolve :: "devices_by_external \<Rightarrow> Resolver" where
  "ByGroup_Resolve byExternal projectID spec =
     (if length (t_ExternalUserIDs spec) = 0 then ret (Inl ErrNoTargetsSpecified)
      else attempt id (byExternal projectID (t_ExternalUserIDs spec)) (\<lambda>devices. ret (Inr (map d_ID devices))))"

record TargetingRegistry =
  explicit :: Resolver
  group :: Resolver

definition NewRegistry :: "devices_by_ids \<Rightarrow> devices_by_external \<Rightarrow> TargetingRegistry" where
  "NewRegistry byIDs byExternal =
     \<lparr>explicit = ByExplicitTargets_Resolve byIDs, group = ByGroup_Resolve byExternal\<rparr>"

definition Registry_Resolve :: "TargetingRegistry \<Rightarrow> Resolver" where
  "Registry_Resolve r projectID spec =
     (if length (t_DeviceIDs spec) > 0 then explicit r projectID spec
      else if length (t_ExternalUserIDs spec) > 0 then group r projectID spec
      else ret (Inl ErrNoTargetsSpecified))"

text \<open>The registry of the service, backed by \<open>*postgres.Queries\<close>.\<close>

definition targeting_registry :: TargetingRegistry where
  "targeting_registry = NewRegistry GetDevicesByIDs GetActiveDevicesBySubscriberExternalIDs"

section \<open>The interfaces\<close>

locale device_lookup =
  fixes byIDs :: devices_by_ids
  assumes byIDs_exact: "value_of (byIDs pid ids) w = Inr ds \<Longrightarrow>
      set ds = {d \<in> set (devices (w_db w)). d_ProjectID d = pid \<and> d_ID d \<in> set ids}"
    and byIDs_reads: "w_db (final (byIDs pid ids) w) = w_db w"
begin

lemma explicit_resolves:
  assumes "value_of (ByExplicitTargets_Resolve byIDs pid spec) w = Inr ids"
  shows "set ids = {d_ID d |d. d \<in> set (devices (w_db w)) \<and> d_ProjectID d = pid \<and> d_ID d \<in> set (t_DeviceIDs spec)}"
proof -
  from assms obtain ds where "value_of (byIDs pid (t_DeviceIDs spec)) w = Inr ds" "ids = map d_ID ds"
    by (auto simp: ByExplicitTargets_Resolve_def split: if_splits elim!: attempt_InrE)
  with byIDs_exact show ?thesis by auto
qed

lemma explicit_reads: "w_db (final (ByExplicitTargets_Resolve byIDs pid spec) w) = w_db w"
  by (simp add: ByExplicitTargets_Resolve_def attempt_simps byIDs_reads split: sum.split)

end

locale group_lookup =
  fixes byExternal :: devices_by_external
  assumes byExternal_exact: "value_of (byExternal pid exts) w = Inr ds \<Longrightarrow>
      set ds = {d \<in> set (devices (w_db w)). \<exists>s \<in> set (subscribers (w_db w)). active_under pid exts s d}"
    and byExternal_reads: "w_db (final (byExternal pid exts) w) = w_db w"
begin

lemma group_resolves:
  assumes "value_of (ByGroup_Resolve byExternal pid spec) w = Inr ids"
  shows "set ids = {d_ID d |d. d \<in> set (devices (w_db w)) \<and>
      (\<exists>s \<in> set (subscribers (w_db w)). active_under pid (t_ExternalUserIDs spec) s d)}"
proof -
  from assms obtain ds where "value_of (byExternal pid (t_ExternalUserIDs spec)) w = Inr ds" "ids = map d_ID ds"
    by (auto simp: ByGroup_Resolve_def split: if_splits elim!: attempt_InrE)
  with byExternal_exact show ?thesis by auto
qed

lemma group_reads: "w_db (final (ByGroup_Resolve byExternal pid spec) w) = w_db w"
  by (simp add: ByGroup_Resolve_def attempt_simps byExternal_reads split: sum.split)

end

text \<open>
  The interface \<open>lookup\<close> embeds both. A device found through a subscriber of a project is
  a device of that project, because the foreign key carries the project along.
\<close>

locale lookup = device_lookup byIDs + group_lookup byExternal
  for byIDs :: devices_by_ids and byExternal :: devices_by_external
begin

lemma group_in_project:
  assumes "wf_db t" and "d \<in> set (devices t)" and "s \<in> set (subscribers t)" and "active_under pid exts s d"
  shows "d_ProjectID d = pid"
proof -
  have "subscriber_exists (d_ProjectID d) (s_ID s) t"
    using assms by (auto simp: wf_db_def devices_ok_def active_under_def)
  then obtain s' where "s' \<in> set (subscribers t)" "s_ProjectID s' = d_ProjectID d" "s_ID s' = s_ID s"
    by (auto simp: subscriber_exists_def)
  moreover have "distinct (map s_ID (subscribers t))"
    using assms(1) by (simp add: wf_db_def subscribers_ok_def)
  ultimately have "s' = s" using assms(3) by (blast intro: distinct_map_unique)
  with \<open>s_ProjectID s' = d_ProjectID d\<close> assms(4) show ?thesis by (simp add: active_under_def)
qed

lemma registry_reads: "w_db (final (Registry_Resolve (NewRegistry byIDs byExternal) pid spec) w) = w_db w"
  by (simp add: Registry_Resolve_def NewRegistry_def explicit_reads group_reads)

lemma registry_in_project:
  assumes "wf_db (w_db w)"
    and "value_of (Registry_Resolve (NewRegistry byIDs byExternal) pid spec) w = Inr ids" and "i \<in> set ids"
  shows "\<exists>d \<in> set (devices (w_db w)). d_ID d = i \<and> d_ProjectID d = pid"
proof (cases "t_DeviceIDs spec = []")
  case True
  with assms(2) have "value_of (ByGroup_Resolve byExternal pid spec) w = Inr ids"
    by (auto simp: Registry_Resolve_def NewRegistry_def split: if_splits)
  from group_resolves [OF this] assms(3) show ?thesis by (auto dest: group_in_project [OF assms(1)])
next
  case False
  with assms(2) have "value_of (ByExplicitTargets_Resolve byIDs pid spec) w = Inr ids"
    by (auto simp: Registry_Resolve_def NewRegistry_def split: if_splits)
  from explicit_resolves [OF this] assms(3) show ?thesis by auto
qed

end

section \<open>The store provides them\<close>

interpretation store: lookup GetDevicesByIDs GetActiveDevicesBySubscriberExternalIDs
proof
  fix pid ids w ds
  assume "value_of (GetDevicesByIDs pid ids) w = Inr ds"
  from GetDevicesByIDs_Inr [OF this]
  show "set ds = {d \<in> set (devices (w_db w)). d_ProjectID d = pid \<and> d_ID d \<in> set ids}" by auto
next
  fix pid exts w ds
  assume "value_of (GetActiveDevicesBySubscriberExternalIDs pid exts) w = Inr ds"
  from GetActiveDevices_Inr [OF this]
  show "set ds = {d \<in> set (devices (w_db w)). \<exists>s \<in> set (subscribers (w_db w)). active_under pid exts s d}"
    by auto
qed (simp_all add: frame_simps)

lemma Resolve_reads [frame_simps]:
  "w_db (final (Registry_Resolve targeting_registry pid spec) w) = w_db w"
  unfolding targeting_registry_def by (rule store.registry_reads)

section \<open>Properties\<close>

text \<open>
  Targeting never crosses tenants: in a well-formed database every id that resolves
  for a project is the id of a device of that project, whether the spec lists device ids
  (foreign ones are dropped) or external user ids.
\<close>

theorem Resolve_in_project:
  assumes "wf_db (w_db w)" and "value_of (Registry_Resolve targeting_registry pid spec) w = Inr ids"
    and "i \<in> set ids"
  shows "\<exists>d \<in> set (devices (w_db w)). d_ID d = i \<and> d_ProjectID d = pid"
  using assms unfolding targeting_registry_def by (rule store.registry_in_project)

definition sample_project :: project_row where
  "sample_project = \<lparr>p_ID = 1, p_Name = ''P'', p_Slug = ''p'', p_Status = ''active'', p_CreatedAt = 0\<rparr>"

definition sample_subscriber :: subscriber_row where
  "sample_subscriber = \<lparr>s_ID = 5, s_ProjectID = 1, s_ExternalID = ''u'', s_Status = ''subscribed'',
     s_CreatedAt = 0, s_LastSeenAt = 0\<rparr>"

definition sample_device :: device_row where
  "sample_device = \<lparr>d_ID = 7, d_ProjectID = 1, d_SubscriberID = Some 5, d_Token = ''tok'',
     d_Platform = ''android'', d_ProviderType = ''fcm'', d_Status = ''active'', d_Metadata = JObj [],
     d_CreatedAt = 0, d_UpdatedAt = 0\<rparr>"

definition sample_db :: tables where
  "sample_db = empty_db\<lparr>projects := [sample_project], subscribers := [sample_subscriber],
     devices := [sample_device]\<rparr>"

lemma wf_sample_db: "wf_db sample_db"
  by (simp add: wf_db_def sample_db_def empty_db_def sample_project_def sample_subscriber_def
      sample_device_def notifications_ok_def recipients_ok_def devices_ok_def subscribers_ok_def
      accounts_ok_def project_exists_def subscriber_exists_def check_lists)

theorem Resolve_in_project_witness:
  "\<exists>d \<in> set (devices sample_db). d_ID d = 7 \<and> d_ProjectID d = 1"
proof -
  let ?w = "sample_world\<lparr>w_db := sample_db\<rparr>"
  let ?spec = "\<lparr>t_DeviceIDs = [], t_ExternalUserIDs = [''u'']\<rparr>"
  have "value_of (Registry_Resolve targeting_registry 1 ?spec) ?w = Inr [7]"
    by (simp add: Registry_Resolve_def targeting_registry_def NewRegistry_def ByGroup_Resolve_def
        attempt_simps GetActiveDevicesBySubscriberExternalIDs_def
        sql_getActiveDevicesBySubscriberExternalIDs_def exec_value next_env_def sample_world_def
        sample_db_def empty_db_def active_under_def sample_subscriber_def sample_device_def)
  from Resolve_in_project [OF _ this, of 7] show ?thesis
    by (simp add: wf_sample_db)
qed

end
