(* ===== verification/Provider.thy ===== *)
theory Provider imports Samples begin

text \<open>
  \<open>internal/provider/provider.go\<close>: what a push adapter takes and returns, the registry of
  adapters, and the contract the send handler relies on (the locale \<open>push_adapter\<close>),
  which each of the four adapters is shown to meet in its own theory.
\<close>

section \<open>Requests and results\<close>

datatype Status =
    StatusUnknown
  | StatusSent
  | StatusInvalidToken
  | StatusTransientError
  | StatusThrottled

record SendRequest =
  sq_Token :: string
  sq_Title :: string
  sq_Body :: string
  sq_Data :: "gomap option"

record SendResult =
  sr_ProviderMessageID :: string
  sr_Status :: Status
  sr_RetryAfter :: duration
  sr_Err :: "goerr option"

text \<open>\<open>SendResult{}\<close>, the zero value.\<close>

definition no_result :: SendResult where
  "no_result = \<lparr>sr_ProviderMessageID = [], sr_Status = StatusUnknown, sr_RetryAfter = 0, sr_Err = None\<rparr>"

type_synonym send_fn = "string \<Rightarrow> SendRequest \<Rightarrow> (world, SendResult \<times> goerr option) state"

text \<open>\<open>TestCredential\<close> is present for the adapters that implement \<open>CredentialTester\<close>.\<close>

record Adapter =
  a_Name :: string
  a_Send :: send_fn
  a_TestCredential :: "(string \<Rightarrow> (world, goerr option) state) option"

section \<open>The registry\<close>

record registry =
  factories :: "string \<rightharpoonup> Adapter"
  instances :: "string \<rightharpoonup> Adapter"

text \<open>\<open>None\<close> is the panic on a name registered twice.\<close>

definition Register :: "string \<Rightarrow> Adapter \<Rightarrow> registry \<Rightarrow> registry option" where
  "Register name f reg =
     (case factories reg name of
        Some _ \<Rightarrow> None
      | None \<Rightarrow> Some (reg\<lparr>factories := (factories reg)(name \<mapsto> f)\<rparr>))"

definition Get :: "string \<Rightarrow> registry \<Rightarrow> Adapter option \<times> registry" where
  "Get name reg =
     (case instances reg name of
        Some a \<Rightarrow> (Some a, reg)
      | None \<Rightarrow> (case factories reg name of
          None \<Rightarrow> (None, reg)
        | Some f \<Rightarrow> (Some f, reg\<lparr>instances := (instances reg)(name \<mapsto> f)\<rparr>)))"

definition Known :: "string \<Rightarrow> registry \<Rightarrow> bool" where
  "Known name reg \<longleftrightarrow> factories reg name \<noteq> None"

definition empty_registry :: registry where
  "empty_registry = \<lparr>factories = Map.empty, instances = Map.empty\<rparr>"

text \<open>Every instance was built by the factory of its name.\<close>

definition registry_ok :: "registry \<Rightarrow> bool" where
  "registry_ok reg \<longleftrightarrow> (\<forall>name a. instances reg name = Some a \<longrightarrow> factories reg name = Some a)"

lemma registry_ok_empty: "registry_ok empty_registry"
  by (simp add: registry_ok_def empty_registry_def)

lemma registry_ok_Register: "registry_ok reg \<Longrightarrow> Register name f reg = Some reg' \<Longrightarrow> registry_ok reg'"
  by (auto simp: registry_ok_def Register_def split: option.splits)

lemma registry_ok_Get: "registry_ok reg \<Longrightarrow> registry_ok (snd (Get name reg))"
  by (auto simp: registry_ok_def Get_def split: option.splits)

lemma Get_factory: "registry_ok reg \<Longrightarrow> fst (Get name reg) = factories reg name"
  by (auto simp: registry_ok_def Get_def split: option.splits)

lemma Get_keeps_factories: "factories (snd (Get name reg)) = factories reg"
  by (simp add: Get_def split: option.split)

lemma Known_iff: "registry_ok reg \<Longrightarrow> Known name reg \<longleftrightarrow> fst (Get name reg) \<noteq> None"
  by (simp add: Known_def Get_factory)

section \<open>The contract of an adapter\<close>

text \<open>
  An adapter leaves the database and the task queue alone; it reports \<open>StatusSent\<close> only
  without an error of either kind, and anything else only with one.
\<close>

locale push_adapter =
  fixes send :: send_fn
  assumes sends_quietly: "store_side (final (send cred req) w) = store_side w"
    and sent_clean: "value_of (send cred req) w = (result, sendErr) \<Longrightarrow>
      sr_Status result = StatusSent \<longleftrightarrow> sendErr = None \<and> sr_Err result = None"
begin

lemma not_sent_named:
  assumes "value_of (send cred req) w = (result, sendErr)" and "sr_Status result \<noteq> StatusSent"
  obtains e where "sendErr = Some e" | e where "sendErr = None" and "sr_Err result = Some e"
  using sent_clean [OF assms(1)] assms(2) by (cases sendErr; cases "sr_Err result") auto

end

section \<open>Shared by the adapters\<close>

text \<open>
  \<open>resp.Header.Get\<close>: the first value of the header, its name compared in canonical form
  (the transport stores canonical names).
\<close>

definition header_get :: "string \<Rightarrow> (string \<times> string) list \<Rightarrow> string" where
  "header_get name hs = (case find (\<lambda>(k, _). header_match name k) hs of None \<Rightarrow> [] | Some (_, v) \<Rightarrow> v)"

definition one_second :: duration where
  "one_second = 1000000000"

text \<open>\<open>time.Duration(secs) * time.Second\<close>, at 64 bits.\<close>

definition retry_after :: "http_resp \<Rightarrow> duration" where
  "retry_after resp =
     (let v = header_get ''Retry-After'' (hs_Headers resp) in
      if v \<noteq> [] then (case Atoi v of Some secs \<Rightarrow> word_of_int secs * one_second | None \<Rightarrow> 0)
      else 0)"

text \<open>Up to 9223372036 seconds either way the product does not wrap around.\<close>

lemma retry_after_exact:
  assumes "header_get ''Retry-After'' (hs_Headers resp) = Itoa secs"
    and "- 9223372036 \<le> secs" and "secs \<le> 9223372036"
  shows "sint (retry_after resp) = secs * 10 ^ 9"
proof -
  have "Atoi (Itoa secs) = Some secs" using assms(2,3) by (intro Atoi_Itoa) simp_all
  moreover have "Itoa secs \<noteq> []"
    using nat_digits_props [of "nat secs"] by (simp add: Itoa_def)
  ultimately have "retry_after resp = word_of_int (secs * 10 ^ 9)"
    using assms(1) by (simp add: retry_after_def Let_def one_second_def wi_hom_mult [symmetric])
  then show ?thesis
    using int64_id [of "secs * 10 ^ 9"] assms(2,3) by (simp add: int64_def)
qed

end
