(* ===== verification/Dispatch.thy ===== *)
theory Dispatch imports Queue Crypto ApiKey Targeting Provider begin

text \<open>
  The notification pipeline, \<open>internal/dispatch\<close>: creating a notification (HTTP layer),
  fanning it out to recipients and sending to one recipient (worker).
\<close>

section \<open>Shared by the handlers\<close>

text \<open>The dependencies a \<open>Handlers\<close> value holds; \<open>h_Get\<close> is \<open>provider.Get\<close>.\<close>

record Handlers =
  h_Targeting :: TargetingRegistry
  h_Crypto :: MasterKey
  h_OutboundLimiter :: "int option"
  h_Get :: "string \<Rightarrow> Adapter option"

definition NewHandlers :: "TargetingRegistry \<Rightarrow> MasterKey \<Rightarrow> (string \<Rightarrow> Adapter option) \<Rightarrow> Handlers" where
  "NewHandlers targetingRegistry masterKey get =
     \<lparr>h_Targeting = targetingRegistry, h_Crypto = masterKey, h_OutboundLimiter = None, h_Get = get\<rparr>"

declare NewHandlers_def [simp]

definition terminalRecipientStatuses :: "string set" where
  "terminalRecipientStatuses = {''sent'', ''delivered'', ''failed''}"

text \<open>The failure to mark a recipient is only logged.\<close>

definition failRecipient :: "uuid \<Rightarrow> string \<Rightarrow> string \<Rightarrow> (world, unit) state" where
  "failRecipient recipientID code message = do {
     _ \<leftarrow> MarkRecipientFailed recipientID (TextFrom code) (TextFrom message);
     ret () }"

text \<open>What asynq's context tells about the running task.\<close>

record task_ctx =
  GetRetryCount :: "nat option"
  GetMaxRetry :: "nat option"

definition isLastAttempt :: "task_ctx \<Rightarrow> bool" where
  "isLastAttempt ctx =
     (case (GetRetryCount ctx, GetMaxRetry ctx) of
        (Some retryCount, Some maxRetry) \<Rightarrow> retryCount \<ge> maxRetry
      | _ \<Rightarrow> False)"

fun firstNonNilErr :: "goerr option list \<Rightarrow> goerr option" where
  "firstNonNilErr [] = None"
| "firstNonNilErr (None # errs) = firstNonNilErr errs"
| "firstNonNilErr (Some e # errs) = Some e"

definition errorMessage :: "goerr option list \<Rightarrow> string" where
  "errorMessage errs = (case firstNonNilErr errs of Some err \<Rightarrow> error_text err | None \<Rightarrow> [])"

section \<open>The outbound limiter\<close>

definition OutboundRateLimiter_Allow ::
  "ext \<Rightarrow> int \<Rightarrow> uuid \<Rightarrow> string \<Rightarrow> (world, bool \<times> duration) state"
where
  "OutboundRateLimiter_Allow E rps projectID providerType = do {
     let key = ''outbound:'' @ providerType @ '':'' @ uuid_String E projectID;
     res \<leftarrow> redis_Allow \<lparr>l_Key = key, l_Rate = rps\<rparr>;
     (case res of
        LimitError err \<Rightarrow> ret (True, 0)
      | LimitResult allowed retryAfter \<Rightarrow> if allowed = 0 then ret (False, retryAfter) else ret (True, 0)) }"

lemma OutboundRateLimiter_Allow_check:
  "OutboundRateLimiter_Allow E rps pid prov =
     limiter_check (''outbound:'' @ prov @ '':'' @ uuid_String E pid) rps"
  by (simp add: OutboundRateLimiter_Allow_def limiter_check_def)

interpretation outbound: gate "\<lambda>(E, rps, pid, prov). OutboundRateLimiter_Allow E rps pid prov"
proof
  fix k w
  let ?m = "case k of (E, rps, pid, prov) \<Rightarrow> OutboundRateLimiter_Allow E rps pid prov"
  show "\<not> fst (value_of ?m w) \<Longrightarrow> \<exists>log c. w_redis w log c = LimitResult 0 (snd (value_of ?m w))"
    by (cases k) (auto simp: OutboundRateLimiter_Allow_check limiter_check_value
        split: limit_result.splits if_splits)
  show "\<exists>log. final ?m w = w\<lparr>w_limits := log\<rparr>"
    by (cases k) (auto simp: OutboundRateLimiter_Allow_check limiter_check_final)
qed

section \<open>CreateNotification\<close>

record CreateNotificationRequest =
  cn_IdempotencyKey :: string
  cn_DeviceIDs :: "uuid slice"
  cn_ExternalUserIDs :: "string slice"
  cn_Title :: string
  cn_Body :: string
  cn_Data :: "gomap option"

text \<open>\<open>targetSpecJSON\<close>, as it is stored and read back, and \<open>map[string]any\<close>.\<close>

definition marshal_targetSpec :: "ext \<Rightarrow> uuid slice \<Rightarrow> string slice \<Rightarrow> json" where
  "marshal_targetSpec E ids exts = JObj
     [(''device_ids'', marshal_slice (\<lambda>u. JStr (uuid_String E u)) ids),
      (''external_user_ids'', marshal_slice JStr exts)]"

definition unmarshal_targetSpec :: "ext \<Rightarrow> json \<Rightarrow> goerr + Spec" where
  "unmarshal_targetSpec E j = from_option (do {
     kvs \<leftarrow> members j;
     ids \<leftarrow> uuid_slice_field E ''device_ids'' kvs;
     exts \<leftarrow> string_slice_field ''external_user_ids'' kvs;
     Some \<lparr>t_DeviceIDs = elems ids, t_ExternalUserIDs = elems exts\<rparr> })"

definition marshal_data :: "gomap option \<Rightarrow> json" where
  "marshal_data data = (case data of None \<Rightarrow> JNull | Some m \<Rightarrow> JObj m)"

definition unmarshal_data :: "json \<Rightarrow> goerr + gomap option" where
  "unmarshal_data j = from_option (scan_map None [j])"

definition CreateNotification ::
  "ext \<Rightarrow> uuid \<Rightarrow> CreateNotificationRequest \<Rightarrow> (world, goerr + notification_row) state"
where
  "CreateNotification E projectID req =
     (if length (elems (cn_DeviceIDs req)) = 0 \<and> length (elems (cn_ExternalUserIDs req)) = 0
      then ret (Inl ErrEmptyTargets)
      else do {
        r \<leftarrow> db_CreateNotification projectID (TextFrom (cn_IdempotencyKey req)) (TextFrom (cn_Title req))
               (TextFrom (cn_Body req)) (marshal_data (cn_Data req))
               (marshal_targetSpec E (cn_DeviceIDs req) (cn_ExternalUserIDs req));
        case r of
          Inl err \<Rightarrow>
            if errors_is err ErrNoRows
            then attempt (errorf ''fetch existing notification after idempotency-key conflict: '')
                   (GetNotificationByIdempotencyKey projectID (TextFrom (cn_IdempotencyKey req)))
                   (\<lambda>existing. ret (Inr existing))
            else ret (Inl (errorf ''create notification: '' err))
        | Inr n \<Rightarrow> do {
            qerr \<leftarrow> EnqueueFanout E \<lparr>fp_NotificationID = n_ID n, fp_ProjectID = projectID\<rparr>;
            case qerr of
              Some e \<Rightarrow> ret (Inl (errorf ''enqueue fanout: '' e))
            | None \<Rightarrow> ret (Inr n) } })"

text \<open>The Go map of the counts, in the order it is encoded.\<close>

definition RecipientStatusCounts :: "uuid \<Rightarrow> (world, goerr + (string \<times> int) list) state" where
  "RecipientStatusCounts notificationID =
     attempt id (CountRecipientStatuses notificationID) (\<lambda>rows. ret (Inr (gomap_of rows)))"

section \<open>HandleFanout\<close>

definition getOrCreateRecipient :: "uuid \<Rightarrow> uuid \<Rightarrow> string \<Rightarrow> (world, goerr + recipient_row) state" where
  "getOrCreateRecipient notificationID deviceID providerType = do {
     r \<leftarrow> InsertNotificationRecipient notificationID deviceID providerType;
     case r of
       Inr recipient \<Rightarrow> ret (Inr recipient)
     | Inl err \<Rightarrow>
         if \<not> errors_is err ErrNoRows then ret (Inl err)
         else GetRecipientByNotificationAndDevice notificationID deviceID }"

definition send_payload ::
  "FanoutPayload \<Rightarrow> string \<Rightarrow> string \<Rightarrow> gomap option \<Rightarrow> recipient_row \<Rightarrow> device_row \<Rightarrow> SendPayload"
where
  "send_payload payload title body data recipient d =
     \<lparr>sp_NotificationID = fp_NotificationID payload, sp_RecipientID = r_ID recipient, sp_DeviceID = d_ID d,
      sp_ProjectID = fp_ProjectID payload, sp_ProviderType = d_ProviderType d, sp_Token = d_Token d,
      sp_Title = title, sp_Body = body, sp_Data = data\<rparr>"

text \<open>The loop over the devices; the result is the number enqueued.\<close>

fun fanout_loop ::
  "ext \<Rightarrow> FanoutPayload \<Rightarrow> uuid \<Rightarrow> string \<Rightarrow> string \<Rightarrow> gomap option \<Rightarrow> nat \<Rightarrow> device_row list \<Rightarrow>
   (world, goerr + nat) state"
where
  "fanout_loop E payload nid title body data enqueued [] = ret (Inr enqueued)"
| "fanout_loop E payload nid title body data enqueued (d # ds) =
     attempt (errorf (''insert recipient for device '' @ uuid_String E (d_ID d) @ '': ''))
       (getOrCreateRecipient nid (d_ID d) (d_ProviderType d)) (\<lambda>recipient. do {
         qerr \<leftarrow> EnqueueSend E (send_payload payload title body data recipient d);
         case qerr of
           Some e \<Rightarrow> ret (Inl (errorf (''enqueue send for recipient '' @ uuid_String E (r_ID recipient) @ '': '') e))
         | None \<Rightarrow> fanout_loop E payload nid title body data (enqueued + 1) ds })"

definition HandleFanout :: "ext \<Rightarrow> Handlers \<Rightarrow> FanoutPayload \<Rightarrow> (world, goerr + unit) state" where
  "HandleFanout E h payload =
     attempt (errorf ''fetch notification: '')
       (GetNotification (fp_NotificationID payload) (fp_ProjectID payload)) (\<lambda>n.
     case unmarshal_targetSpec E (n_TargetSpec n) of
       Inl err \<Rightarrow> do {
         _ \<leftarrow> SetNotificationStatus (n_ID n) ''failed'';
         ret (Inl (errorf ''invalid target_spec (not retryable): '' err)) }
     | Inr spec \<Rightarrow> do {
         r \<leftarrow> Registry_Resolve (h_Targeting h) (fp_ProjectID payload) spec;
         case r of
           Inl err \<Rightarrow> do {
             _ \<leftarrow> SetNotificationStatus (n_ID n) ''failed'';
             ret (Inl (errorf ''resolve targets (not retryable): '' err)) }
         | Inr deviceIDs \<Rightarrow>
             if length deviceIDs = 0 then CompleteNotification (n_ID n) ''completed''
             else attempt (errorf ''fetch devices: '') (GetDevicesByIDs (n_ProjectID n) deviceIDs) (\<lambda>devs.
               case unmarshal_data (n_Data n) of
                 Inl err \<Rightarrow> ret (Inl (errorf ''unmarshal notification data: '' err))
               | Inr data \<Rightarrow>
                   let title = (case n_Title n of None \<Rightarrow> [] | Some s \<Rightarrow> s);
                       body = (case n_Body n of None \<Rightarrow> [] | Some s \<Rightarrow> s)
                   in attempt id (fanout_loop E payload (n_ID n) title body data 0 devs) (\<lambda>enqueued.
                      attempt (errorf ''set notification totals: '')
                        (SetNotificationTotals (n_ID n) (of_nat enqueued)) (\<lambda>_.
                      SetNotificationStatus (n_ID n) ''processing''))) })"

section \<open>HandleSend\<close>

definition environment :: string where
  "environment = ''production''"

definition limit_check :: "ext \<Rightarrow> Handlers \<Rightarrow> SendPayload \<Rightarrow> (world, bool \<times> duration) state" where
  "limit_check E h payload = (case h_OutboundLimiter h of
      None \<Rightarrow> ret (True, 0)
    | Some rps \<Rightarrow> OutboundRateLimiter_Allow E rps (sp_ProjectID payload) (sp_ProviderType payload))"

definition limit_error :: "ext \<Rightarrow> SendPayload \<Rightarrow> goerr" where
  "limit_error E payload = ErrText (''outbound rate limit exceeded for project '' @
     uuid_String E (sp_ProjectID payload) @ '' provider '' @ sp_ProviderType payload)"

definition send_request :: "SendPayload \<Rightarrow> SendRequest" where
  "send_request payload = \<lparr>sq_Token = sp_Token payload, sq_Title = sp_Title payload,
     sq_Body = sp_Body payload, sq_Data = sp_Data payload\<rparr>"

text \<open>The switch on the result's status.\<close>

definition record_outcome ::
  "task_ctx \<Rightarrow> SendPayload \<Rightarrow> SendResult \<Rightarrow> goerr option \<Rightarrow> (world, goerr + unit) state"
where
  "record_outcome ctx payload result sendErr = (case sr_Status result of
      StatusSent \<Rightarrow> MarkRecipientSent (sp_RecipientID payload) (TextFrom (sr_ProviderMessageID result))
    | StatusInvalidToken \<Rightarrow> do {
        _ \<leftarrow> MarkDeviceStatus (sp_DeviceID payload) ''invalid'';
        failRecipient (sp_RecipientID payload) ''invalid_token'' (errorMessage [sendErr, sr_Err result]);
        ret (Inr ()) }
    | StatusThrottled \<Rightarrow>
        ret (Inl (ErrThrottled (sr_RetryAfter result)
          (the (firstNonNilErr [sendErr, sr_Err result, Some (ErrText ''throttled'')]))))
    | _ \<Rightarrow> do {
        let transientErr = the (firstNonNilErr [sendErr, sr_Err result, Some (ErrText ''transient send error'')]);
        (if isLastAttempt ctx
         then failRecipient (sp_RecipientID payload) ''transient_error_exhausted'' (error_text transientErr)
         else ret ());
        ret (Inl transientErr) })"

text \<open>From the credential to the outcome.\<close>

definition send_with_credential ::
  "ext \<Rightarrow> Handlers \<Rightarrow> task_ctx \<Rightarrow> SendPayload \<Rightarrow> (world, goerr + unit) state"
where
  "send_with_credential E h ctx payload = do {
     r \<leftarrow> GetActiveProviderCredential (sp_ProjectID payload) (sp_ProviderType payload) environment;
     case r of
       Inl err \<Rightarrow> do {
         failRecipient (sp_RecipientID payload) ''no_credential'' (error_text err);
         ret (Inl (errorf2 ErrSkipRetry
           ('': no active '' @ sp_ProviderType payload @ '' credential for project: '') err)) }
     | Inr credRow \<Rightarrow> (case Open E (h_Crypto h) (c_WrappedDek credRow) (c_Credential credRow) of
         Inl err \<Rightarrow> do {
           failRecipient (sp_RecipientID payload) ''credential_decrypt_failed'' (error_text err);
           ret (Inl (errorf2 ErrSkipRetry ('': decrypt '' @ sp_ProviderType payload @ '' credential: '') err)) }
       | Inr cred \<Rightarrow> (case h_Get h (sp_ProviderType payload) of
           None \<Rightarrow> do {
             failRecipient (sp_RecipientID payload) ''unknown_provider''
               (''no adapter registered for '' @ sp_ProviderType payload);
             ret (Inl (ErrWrapped (error_text ErrSkipRetry @ '': unknown provider '' @
               go_quote (sp_ProviderType payload)) [ErrSkipRetry])) }
         | Some adapter \<Rightarrow> do {
             (result, sendErr) \<leftarrow> a_Send adapter cred (send_request payload);
             record_outcome ctx payload result sendErr })) }"

definition HandleSend :: "ext \<Rightarrow> Handlers \<Rightarrow> task_ctx \<Rightarrow> SendPayload \<Rightarrow> (world, goerr + unit) state" where
  "HandleSend E h ctx payload =
     attempt (errorf ''fetch recipient: '') (GetNotificationRecipient (sp_RecipientID payload)) (\<lambda>recipient.
     if r_Status recipient \<in> terminalRecipientStatuses then ret (Inr ())
     else do {
       (allowed, retryAfter) \<leftarrow> limit_check E h payload;
       if \<not> allowed then ret (Inl (ErrThrottled retryAfter (limit_error E payload)))
       else attempt (errorf ''mark recipient sending: '') (MarkRecipientSending (sp_RecipientID payload)) (\<lambda>_.
         send_with_credential E h ctx payload) })"

section \<open>The asynq adapters\<close>

definition AsynqFanoutHandler :: "ext \<Rightarrow> Handlers \<Rightarrow> json \<Rightarrow> (world, goerr + unit) state" where
  "AsynqFanoutHandler E h task = (case unmarshal_FanoutPayload E task of
      Inl err \<Rightarrow> ret (Inl (errorf2 ErrSkipRetry '': unmarshal fanout payload: '' err))
    | Inr payload \<Rightarrow> HandleFanout E h payload)"

definition AsynqSendHandler :: "ext \<Rightarrow> Handlers \<Rightarrow> task_ctx \<Rightarrow> json \<Rightarrow> (world, goerr + unit) state" where
  "AsynqSendHandler E h ctx task = (case unmarshal_SendPayload E task of
      Inl err \<Rightarrow> ret (Inl (errorf2 ErrSkipRetry '': unmarshal send payload: '' err))
    | Inr payload \<Rightarrow> HandleSend E h ctx payload)"

end
