(* ===== verification/CreateFacts.thy ===== *)
theory CreateFacts imports Dispatch begin

text \<open>
  Creating a notification: what the caller gets, the idempotency key, the fanout task,
  the stored target, and the status counts.
\<close>

section \<open>Movement of the database\<close>

lemma enqueue_moves [moves_rules]:
  "moves db_moves (EnqueueFanout E fp)" "moves db_moves (EnqueueSend E sp)"
  by (rule moves_frame, simp add: frame_simps)+

lemma CreateNotification_moves [moves_rules]: "moves db_moves (CreateNotification E pid req)"
  unfolding CreateNotification_def
  by (auto intro!: moves_rules split: sum.split option.split)

section \<open>The insert\<close>

lemma db_CreateNotification_Inr:
  assumes "value_of (db_CreateNotification pid key title body data spec) w = Inr n"
  shows "\<not> list_ex (key_conflict pid key) (notifications (w_db w))"
    and "n_ID n \<notin> n_ID ` set (notifications (w_db w))"
    and "n_ProjectID n = pid" "n_IdempotencyKey n = key" "n_Status n = ''pending''"
    and "n_Title n = title" "n_Body n = body" "n_Data n = data" "n_TargetSpec n = spec"
    and "w_db (final (db_CreateNotification pid key title body data spec) w) =
      (w_db w)\<lparr>notifications := notifications (w_db w) @ [n]\<rparr>"
    and "w_enqs (final (db_CreateNotification pid key title body data spec) w) = w_enqs w"
    and "w_asynq (final (db_CreateNotification pid key title body data spec) w) = w_asynq w"
proof -
  note * = exec_Inr [OF assms [unfolded db_CreateNotification_def]]
  have fin: "final (db_CreateNotification pid key title body data spec) w =
      w\<lparr>w_stmts := Suc (w_stmts w),
        w_db := snd (run_stmt (sql_createNotification pid key title body data spec) w)\<rparr>"
    using *(2) by (simp add: db_CreateNotification_def)
  from *(1) show "\<not> list_ex (key_conflict pid key) (notifications (w_db w))"
    "n_ID n \<notin> n_ID ` set (notifications (w_db w))"
    "n_ProjectID n = pid" "n_IdempotencyKey n = key" "n_Status n = ''pending''"
    "n_Title n = title" "n_Body n = body" "n_Data n = data" "n_TargetSpec n = spec"
    by (auto simp: run_stmt_def sql_createNotification_def notification_exists_def Let_def split: if_splits)
  from *(1) show "w_db (final (db_CreateNotification pid key title body data spec) w) =
      (w_db w)\<lparr>notifications := notifications (w_db w) @ [n]\<rparr>"
    unfolding fin by (auto simp: run_stmt_def sql_createNotification_def Let_def split: if_splits)
  show "w_enqs (final (db_CreateNotification pid key title body data spec) w) = w_enqs w"
    "w_asynq (final (db_CreateNotification pid key title body data spec) w) = w_asynq w"
    unfolding fin by simp_all
qed

lemma db_CreateNotification_ErrNoRows:
  assumes "value_of (db_CreateNotification pid key title body data spec) w = Inl err"
    and "errors_is err ErrNoRows"
  shows "list_ex (key_conflict pid key) (notifications (w_db w))"
    and "w_db (final (db_CreateNotification pid key title body data spec) w) = w_db w"
  using assms
  by (auto simp: db_CreateNotification_def exec_value exec_final run_stmt_def sql_createNotification_def
      Let_def split: fault.splits if_splits)

definition fanout_call :: "ext \<Rightarrow> uuid \<Rightarrow> uuid \<Rightarrow> enq_call" where
  "fanout_call E nid pid = \<lparr>e_Type = ''fanout'',
     e_Payload = marshal_FanoutPayload E \<lparr>fp_NotificationID = nid, fp_ProjectID = pid\<rparr>,
     e_Queue = ''fanout'', e_MaxRetry = 3, e_TaskID = None\<rparr>"

lemma EnqueueFanout_value:
  "value_of (EnqueueFanout E \<lparr>fp_NotificationID = nid, fp_ProjectID = pid\<rparr>) w =
     (case w_asynq w (w_enqs w) (fanout_call E nid pid) of Enqueued \<Rightarrow> None | EnqueueFailed e \<Rightarrow> Some e)"
  "final (EnqueueFanout E \<lparr>fp_NotificationID = nid, fp_ProjectID = pid\<rparr>) w =
     w\<lparr>w_enqs := w_enqs w @ [(fanout_call E nid pid, w_asynq w (w_enqs w) (fanout_call E nid pid))]\<rparr>"
  by (simp_all add: EnqueueFanout_def asynq_Enqueue_def fanout_call_def TypeFanout_def QueueFanout_def Let_def)

lemma CreateNotification_sound:
  assumes "value_of (CreateNotification E pid req) w = Inr n"
  shows "let w' = final (CreateNotification E pid req) w in
    n \<in> set (notifications (w_db w')) \<and> n_ProjectID n = pid \<and>
    n_IdempotencyKey n = TextFrom (cn_IdempotencyKey req) \<and>
    (if list_ex (key_conflict pid (TextFrom (cn_IdempotencyKey req))) (notifications (w_db w))
     then w_db w' = w_db w \<and> w_enqs w' = w_enqs w
     else w_db w' = (w_db w)\<lparr>notifications := notifications (w_db w) @ [n]\<rparr> \<and>
       n_Status n = ''pending'' \<and>
       n_TargetSpec n = marshal_targetSpec E (cn_DeviceIDs req) (cn_ExternalUserIDs req) \<and>
       w_enqs w' = w_enqs w @ [(fanout_call E (n_ID n) pid, Enqueued)])"
proof -
  let ?key = "TextFrom (cn_IdempotencyKey req)"
  let ?ins = "db_CreateNotification pid ?key (TextFrom (cn_Title req)) (TextFrom (cn_Body req))
    (marshal_data (cn_Data req)) (marshal_targetSpec E (cn_DeviceIDs req) (cn_ExternalUserIDs req))"
  have ne: "\<not> (length (elems (cn_DeviceIDs req)) = 0 \<and> length (elems (cn_ExternalUserIDs req)) = 0)"
    using assms by (auto simp: CreateNotification_def split: if_splits)
  show ?thesis
  proof (cases "value_of ?ins w")
    case (Inl err)
    with assms ne have no_rows: "errors_is err ErrNoRows"
      and get: "value_of (GetNotificationByIdempotencyKey pid ?key) (final ?ins w) = Inr n"
      by (auto simp: CreateNotification_def attempt_simps split: if_splits sum.splits)
    note conflict = db_CreateNotification_ErrNoRows [OF Inl no_rows]
    from get have n: "find (key_conflict pid ?key) (notifications (w_db w)) = Some n"
      by (auto simp: GetNotificationByIdempotencyKey_def sql_getNotificationByIdempotencyKey_def
          conflict(2) dest!: exec_Inr(1))
    moreover have "w_enqs (final ?ins w) = w_enqs w"
      by (simp add: db_CreateNotification_def frame_simps)
    moreover have "w_enqs (final (GetNotificationByIdempotencyKey pid ?key) u) = w_enqs u" for u
      by (simp add: GetNotificationByIdempotencyKey_def frame_simps)
    moreover have "final (CreateNotification E pid req) w =
        final (GetNotificationByIdempotencyKey pid ?key) (final ?ins w)"
      using ne Inl no_rows by (auto simp: CreateNotification_def attempt_simps split: sum.split)
    ultimately show ?thesis
      using conflict find_SomeD [OF n] by (auto simp: Let_def frame_simps key_conflict_def)
  next
    case (Inr m)
    note ins = db_CreateNotification_Inr [OF Inr]
    from assms ne Inr ins(11,12) have m: "m = n"
      and acc: "w_asynq w (w_enqs w) (fanout_call E (n_ID n) pid) = Enqueued"
      by (auto simp: CreateNotification_def EnqueueFanout_value split: option.splits enq_result.splits)
    have fin: "final (CreateNotification E pid req) w =
        (final ?ins w)\<lparr>w_enqs := w_enqs w @ [(fanout_call E (n_ID n) pid, Enqueued)]\<rparr>"
      using ne Inr ins(11,12) acc m
      by (auto simp: CreateNotification_def EnqueueFanout_value)
    show ?thesis
      using ins m unfolding Let_def fin by simp
  qed
qed

section \<open>Properties\<close>

text \<open>
  A successful \<open>CreateNotification\<close> returns a notification of the project that is in the
  database with the request's key; either it is a new pending row holding the request, and
  exactly one fanout task for it was accepted by the queue, or the key was taken, the
  database and the queue are as before and the row is the one that holds the key.
\<close>

theorem CreateNotification_ok:
  assumes "value_of (CreateNotification E pid req) w = Inr n"
  shows "let w' = final (CreateNotification E pid req) w in
    n \<in> set (notifications (w_db w')) \<and> n_ProjectID n = pid \<and>
    n_IdempotencyKey n = TextFrom (cn_IdempotencyKey req) \<and>
    (if list_ex (key_conflict pid (TextFrom (cn_IdempotencyKey req))) (notifications (w_db w))
     then w_db w' = w_db w \<and> w_enqs w' = w_enqs w
     else w_db w' = (w_db w)\<lparr>notifications := notifications (w_db w) @ [n]\<rparr> \<and>
       n_Status n = ''pending'' \<and>
       n_TargetSpec n = marshal_targetSpec E (cn_DeviceIDs req) (cn_ExternalUserIDs req) \<and>
       w_enqs w' = w_enqs w @ [(fanout_call E (n_ID n) pid, Enqueued)])"
  using assms by (rule CreateNotification_sound)

definition sample_request :: CreateNotificationRequest where
  "sample_request = \<lparr>cn_IdempotencyKey = ''k'', cn_DeviceIDs = Some [7], cn_ExternalUserIDs = None,
     cn_Title = ''hi'', cn_Body = [], cn_Data = None\<rparr>"

definition store_world :: world where
  "store_world = sample_world\<lparr>w_db := sample_db\<rparr>"

lemmas sample_defs = store_world_def sample_world_def sample_db_def empty_db_def sample_project_def
  sample_subscriber_def sample_device_def

lemma sample_create:
  "\<exists>n. value_of (CreateNotification sample_ext 1 sample_request) store_world = Inr n \<and> n_ID n = 100"
  by (simp add: CreateNotification_def sample_request_def db_CreateNotification_def
      sql_createNotification_def exec_value exec_final next_env_def run_stmt_def sample_defs Let_def
      notification_exists_def project_exists_def EnqueueFanout_value)

theorem CreateNotification_ok_witness:
  "\<exists>n. value_of (CreateNotification sample_ext 1 sample_request) store_world = Inr n \<and>
     w_enqs (final (CreateNotification sample_ext 1 sample_request) store_world) =
       [(fanout_call sample_ext (n_ID n) 1, Enqueued)]"
proof -
  obtain n where n: "value_of (CreateNotification sample_ext 1 sample_request) store_world = Inr n"
    using sample_create by blast
  from CreateNotification_ok [OF n] n show ?thesis
    by (auto simp: Let_def sample_defs)
qed

text \<open>
  C9. The idempotency key works across any interleaving: after a creation with a non-empty
  key, however the database evolved since, every successful creation with the same key
  returns the same notification and enqueues nothing.
\<close>

theorem CreateNotification_idempotent:
  assumes wf: "wf_db (w_db w1)" and first: "value_of (CreateNotification E pid req) w1 = Inr n"
    and key: "cn_IdempotencyKey req \<noteq> []" "cn_IdempotencyKey req' = cn_IdempotencyKey req"
    and later: "wstep\<^sup>*\<^sup>* (w_db (final (CreateNotification E pid req) w1)) (w_db w2)"
    and second: "value_of (CreateNotification E pid req') w2 = Inr n'"
  shows "n_ID n' = n_ID n \<and> w_enqs (final (CreateNotification E pid req') w2) = w_enqs w2"
proof -
  let ?t = "w_db (final (CreateNotification E pid req) w1)"
  have "n \<in> set (notifications ?t)" "n_ProjectID n = pid" "n_IdempotencyKey n = TextFrom (cn_IdempotencyKey req)"
    using CreateNotification_sound [OF first] by (auto simp: Let_def)
  with wsteps_notification_kept [OF later] obtain m where m: "m \<in> set (notifications (w_db w2))"
    "n_ID m = n_ID n" "n_ProjectID m = pid" "n_IdempotencyKey m = TextFrom (cn_IdempotencyKey req)" by metis
  then have taken: "list_ex (key_conflict pid (TextFrom (cn_IdempotencyKey req'))) (notifications (w_db w2))"
    using key by (auto simp: list_ex_iff key_conflict_def TextFrom_def)
  with CreateNotification_sound [OF second]
  have n': "n' \<in> set (notifications (w_db w2))" "n_ProjectID n' = pid"
    "n_IdempotencyKey n' = TextFrom (cn_IdempotencyKey req)"
    and enqs: "w_enqs (final (CreateNotification E pid req') w2) = w_enqs w2"
    by (auto simp: Let_def key)
  have "wf_db ?t" using CreateNotification_moves wf by (rule db_moves_wf)
  with later have "wf_db (w_db w2)" by (rule wsteps_wf_db)
  then have "m = n'"
    by (rule key_row_unique) (use m n' key in \<open>simp_all add: TextFrom_def\<close>)
  with m(2) enqs show ?thesis by simp
qed

theorem CreateNotification_idempotent_witness:
  "\<exists>n n'. value_of (CreateNotification sample_ext 1 sample_request) store_world = Inr n \<and>
     value_of (CreateNotification sample_ext 1 (sample_request\<lparr>cn_Title := ''again''\<rparr>))
       (final (CreateNotification sample_ext 1 sample_request) store_world) = Inr n' \<and> n_ID n' = n_ID n"
proof -
  let ?w = "final (CreateNotification sample_ext 1 sample_request) store_world"
  let ?again = "sample_request\<lparr>cn_Title := ''again''\<rparr>"
  obtain n where n: "value_of (CreateNotification sample_ext 1 sample_request) store_world = Inr n"
    using sample_create by blast
  have "\<exists>n'. value_of (CreateNotification sample_ext 1 ?again) ?w = Inr n'"
    by (simp add: CreateNotification_def sample_request_def db_CreateNotification_def
        sql_createNotification_def exec_value exec_final next_env_def run_stmt_def sample_defs Let_def
        notification_exists_def project_exists_def EnqueueFanout_value attempt_simps TextFrom_def
        key_conflict_def GetNotificationByIdempotencyKey_def sql_getNotificationByIdempotencyKey_def)
  then obtain n' where n': "value_of (CreateNotification sample_ext 1 ?again) ?w = Inr n'" by blast
  have "wf_db (w_db store_world)" by (simp add: store_world_def wf_sample_db)
  from CreateNotification_idempotent [OF this n _ _ _ n'] n n' show ?thesis
    by (simp add: sample_request_def)
qed

text \<open>
  C30. A fanout task the queue refuses is lost for the key's life: the creation fails, its
  row stays, and a retry with the same key that gets through returns that row as a success
  without enqueueing a fanout task.
\<close>

theorem CreateNotification_lost_fanout:
  assumes "wf_db (w_db w)" and "value_of (CreateNotification E pid req) w = Inl (errorf ''enqueue fanout: '' e)"
    and "cn_IdempotencyKey req \<noteq> []"
    and "wstep\<^sup>*\<^sup>* (w_db (final (CreateNotification E pid req) w)) (w_db w2)"
    and "value_of (CreateNotification E pid req) w2 = Inr n'"
  shows "\<exists>m. w_db (final (CreateNotification E pid req) w) = (w_db w)\<lparr>notifications := notifications (w_db w) @ [m]\<rparr> \<and>
    n_ID n' = n_ID m \<and> n_ID n' \<notin> n_ID ` set (notifications (w_db w)) \<and>
    w_enqs (final (CreateNotification E pid req) w2) = w_enqs w2"
proof -
  let ?key = "TextFrom (cn_IdempotencyKey req)"
  let ?ins = "db_CreateNotification pid ?key (TextFrom (cn_Title req)) (TextFrom (cn_Body req))
    (marshal_data (cn_Data req)) (marshal_targetSpec E (cn_DeviceIDs req) (cn_ExternalUserIDs req))"
  have ne: "\<not> (length (elems (cn_DeviceIDs req)) = 0 \<and> length (elems (cn_ExternalUserIDs req)) = 0)"
    using assms(2) by (auto simp: CreateNotification_def split: if_splits)
  obtain m where ins_m: "value_of ?ins w = Inr m"
    using assms(2) ne
    by (auto simp: CreateNotification_def attempt_simps errorf_def split: if_splits sum.splits)
  note ins = db_CreateNotification_Inr [OF ins_m]
  have t: "w_db (final (CreateNotification E pid req) w) = (w_db w)\<lparr>notifications := notifications (w_db w) @ [m]\<rparr>"
    using ne ins_m ins(10)
    by (auto simp: CreateNotification_def EnqueueFanout_value split: option.split)
  then obtain q where q: "q \<in> set (notifications (w_db w2))" "n_ID q = n_ID m" "n_ProjectID q = pid"
    "n_IdempotencyKey q = ?key"
    using wsteps_notification_kept [OF assms(4), of m] ins(3,4) by auto
  then have taken: "list_ex (key_conflict pid ?key) (notifications (w_db w2))"
    using assms(3) by (auto simp: list_ex_iff key_conflict_def TextFrom_def)
  with CreateNotification_sound [OF assms(5)]
  have n': "n' \<in> set (notifications (w_db w2))" "n_ProjectID n' = pid" "n_IdempotencyKey n' = ?key"
    and enqs: "w_enqs (final (CreateNotification E pid req) w2) = w_enqs w2"
    by (auto simp: Let_def)
  have "wf_db (w_db w2)"
    using assms(4) CreateNotification_moves assms(1) by (blast intro: wsteps_wf_db db_moves_wf)
  then have "q = n'"
    by (rule key_row_unique) (use q n' assms(3) in \<open>simp_all add: TextFrom_def\<close>)
  with q(2) ins(2) enqs t show ?thesis by (intro exI [of _ m]) simp
qed

theorem CreateNotification_lost_fanout_witness:
  "\<exists>n'. let refusing = store_world\<lparr>w_asynq := \<lambda>log c. EnqueueFailed (ErrText ''redis down'')\<rparr> in
     value_of (CreateNotification sample_ext 1 sample_request) refusing =
       Inl (errorf ''enqueue fanout: '' (ErrText ''redis down'')) \<and>
     value_of (CreateNotification sample_ext 1 sample_request)
       (final (CreateNotification sample_ext 1 sample_request) refusing) = Inr n' \<and>
     n_ID n' \<notin> n_ID ` set (notifications (w_db refusing))"
proof -
  let ?r = "store_world\<lparr>w_asynq := \<lambda>log c. EnqueueFailed (ErrText ''redis down'')\<rparr>"
  let ?w = "final (CreateNotification sample_ext 1 sample_request) ?r"
  note eval = CreateNotification_def sample_request_def db_CreateNotification_def
        sql_createNotification_def exec_value exec_final next_env_def run_stmt_def sample_defs Let_def
        notification_exists_def project_exists_def EnqueueFanout_value attempt_simps TextFrom_def
        key_conflict_def GetNotificationByIdempotencyKey_def sql_getNotificationByIdempotencyKey_def
  have a: "value_of (CreateNotification sample_ext 1 sample_request) ?r =
      Inl (errorf ''enqueue fanout: '' (ErrText ''redis down''))"
    by (simp add: eval)
  have "\<exists>n'. value_of (CreateNotification sample_ext 1 sample_request) ?w = Inr n'"
    by (simp add: eval)
  then obtain n' where n': "value_of (CreateNotification sample_ext 1 sample_request) ?w = Inr n'" by blast
  have "wf_db (w_db ?r)" by (simp add: store_world_def wf_sample_db)
  from CreateNotification_lost_fanout [OF this a _ _ n'] a n' show ?thesis
    by (auto simp: sample_request_def Let_def)
qed

text \<open>
  The target of a notification survives its trip through the database: what the fanout
  handler parses from \<open>target_spec\<close> are the ids and external ids of the request.
\<close>

theorem targetSpec_roundtrip:
  assumes "uuid_codec E"
  shows "unmarshal_targetSpec E (marshal_targetSpec E ids exts) =
    Inr \<lparr>t_DeviceIDs = elems ids, t_ExternalUserIDs = elems exts\<rparr>"
proof -
  have "scan_slice (\<lambda>j. scan_uuid E 0 [j]) None [marshal_slice (\<lambda>u. JStr (uuid_String E u)) ids] = Some ids"
    by (rule scan_slice_marshal) (use assms in \<open>simp add: uuid_codec_def\<close>)
  moreover have "scan_slice (\<lambda>j. scan_string [] [j]) None [marshal_slice JStr exts] = Some exts"
    by (rule scan_slice_marshal) simp
  ultimately show ?thesis
    by (simp add: unmarshal_targetSpec_def marshal_targetSpec_def field_decoding)
qed

theorem targetSpec_roundtrip_witness:
  "unmarshal_targetSpec sample_ext (marshal_targetSpec sample_ext (Some [7, 8]) None) =
    Inr \<lparr>t_DeviceIDs = [7, 8], t_ExternalUserIDs = []\<rparr>"
  using targetSpec_roundtrip [OF uuid_codec_sample, of "Some [7, 8]" None] by simp

lemma map_of_fold_put:
  "is_gomap m \<Longrightarrow>
     map_of (fold (\<lambda>(k, v) m. map_put k v m) kvs m) = fold (\<lambda>(k, v) m. m(k \<mapsto> v)) kvs (map_of m)"
  by (induction kvs arbitrary: m) (auto simp: map_of_map_put is_gomap_map_put)

lemma map_of_gomap_of: "map_of (gomap_of kvs) = fold (\<lambda>(k, v) m. m(k \<mapsto> v)) kvs Map.empty"
  by (simp add: gomap_of_def map_of_fold_put is_gomap_def)

lemma fold_counts:
  "fold (\<lambda>(s, c) m. m(s \<mapsto> c)) (map (\<lambda>s. (s, f s)) ss) m x = (if x \<in> set ss then Some (f x) else m x)"
  by (induction ss arbitrary: m) auto

lemma RecipientStatusCounts_Inr:
  assumes "value_of (RecipientStatusCounts nid) w = Inr counts"
  shows "counts = (let ss = map r_Status (filter (\<lambda>r. r_NotificationID r = nid) (recipients (w_db w)))
    in gomap_of (map (\<lambda>s. (s, int (count_list ss s))) (remdups ss)))"
  using assms unfolding RecipientStatusCounts_def
  by (auto simp: CountRecipientStatuses_def sql_countRecipientStatuses_def Let_def
      elim!: attempt_InrE dest!: exec_Inr(1))

lemma sum_map_put:
  "k \<notin> fst ` set m \<Longrightarrow> sum_list (map snd (map_put k (v :: int) m)) = v + sum_list (map snd m)"
  by (induction k v m rule: map_put.induct) auto

lemma sum_fold_map_put:
  "distinct (map fst kvs) \<Longrightarrow> fst ` set kvs \<inter> fst ` set m = {} \<Longrightarrow>
     sum_list (map snd (fold (\<lambda>(k, v) m. map_put k (v :: int) m) kvs m)) =
     sum_list (map snd kvs) + sum_list (map snd m)"
proof (induction kvs arbitrary: m)
  case (Cons a kvs)
  obtain k v where a: "a = (k, v)" by (cases a)
  from Cons.prems have "fst ` set kvs \<inter> fst ` set (map_put k v m) = {}"
    by (auto simp: a fst_map_put)
  with Cons show ?case by (simp add: a sum_map_put)
qed simp

lemma RecipientStatusCounts_sum:
  assumes "value_of (RecipientStatusCounts nid) w = Inr counts"
  shows "is_gomap counts"
    and "sum_list (map snd counts) =
      int (length (filter (\<lambda>r. r_NotificationID r = nid) (recipients (w_db w))))"
proof -
  let ?ss = "map r_Status (filter (\<lambda>r. r_NotificationID r = nid) (recipients (w_db w)))"
  let ?rows = "map (\<lambda>s. (s, int (count_list ?ss s))) (remdups ?ss)"
  note counts = RecipientStatusCounts_Inr [OF assms, unfolded Let_def]
  show "is_gomap counts" unfolding counts by (rule is_gomap_gomap_of)
  have "sum_list (map snd counts) = sum_list (map snd ?rows)"
    unfolding counts gomap_of_def by (subst sum_fold_map_put) (simp_all add: comp_def)
  also have "\<dots> = int (length ?ss)" by (simp only: map_map comp_def snd_conv sum_count_remdups)
  finally show "sum_list (map snd counts) =
      int (length (filter (\<lambda>r. r_NotificationID r = nid) (recipients (w_db w))))" by simp
qed

text \<open>
  The status counts of a notification account for each of its recipients once: a
  status maps to the number of recipients in it, and a status no recipient is in is absent.
\<close>

theorem RecipientStatusCounts_exact:
  assumes "value_of (RecipientStatusCounts nid) w = Inr counts"
  shows "map_of counts st =
    (let n = length (filter (\<lambda>r. r_NotificationID r = nid \<and> r_Status r = st) (recipients (w_db w)))
     in if n = 0 then None else Some (int n))"
proof -
  let ?ss = "map r_Status (filter (\<lambda>r. r_NotificationID r = nid) (recipients (w_db w)))"
  from RecipientStatusCounts_Inr [OF assms]
  have "map_of counts st = (if st \<in> set ?ss then Some (int (count_list ?ss st)) else None)"
    by (simp only: Let_def map_of_gomap_of fold_counts set_remdups)
  moreover have "count_list ?ss st =
      length (filter (\<lambda>r. r_NotificationID r = nid \<and> r_Status r = st) (recipients (w_db w)))"
    by (simp add: count_list_filter conj_commute)
  moreover have "st \<in> set ?ss \<longleftrightarrow> count_list ?ss st \<noteq> 0" by (simp add: count_list_0_iff)
  ultimately show ?thesis by (simp add: Let_def)
qed

theorem RecipientStatusCounts_exact_witness:
  "\<exists>counts. value_of (RecipientStatusCounts 9)
       (sample_world\<lparr>w_db := empty_db\<lparr>recipients := [new_recipient 9 7 ''fcm'' 0 3]\<rparr>\<rparr>) = Inr counts \<and>
     map_of counts ''queued'' = Some 1 \<and> map_of counts ''sent'' = None"
proof -
  let ?w = "sample_world\<lparr>w_db := empty_db\<lparr>recipients := [new_recipient 9 7 ''fcm'' 0 3]\<rparr>\<rparr>"
  have "\<exists>counts. value_of (RecipientStatusCounts 9) ?w = Inr counts"
    by (simp add: RecipientStatusCounts_def attempt_simps CountRecipientStatuses_def exec_value
        sql_countRecipientStatuses_def next_env_def sample_world_def Let_def)
  then obtain counts where c: "value_of (RecipientStatusCounts 9) ?w = Inr counts" by blast
  from RecipientStatusCounts_exact [OF c, of "''sent''"] RecipientStatusCounts_exact [OF c, of "''queued''"] c
  show ?thesis by (simp add: empty_db_def new_recipient_def Let_def)
qed

end
