(* ===== verification/SendFacts.thy ===== *)
theory SendFacts imports CreateFacts begin

text \<open>
  Sending to one recipient: what each branch of \<open>HandleSend\<close> does to the recipient, when a
  push can leave the service, and how a failure is rescheduled. Properties without
  \<open>healthy\<close> hold whatever the database server does with each statement.
\<close>

section \<open>The adapters a handler may meet\<close>

definition adapters_ok :: "Handlers \<Rightarrow> bool" where
  "adapters_ok h \<longleftrightarrow> (\<forall>name a. h_Get h name = Some a \<longrightarrow> push_adapter (a_Send a))"

lemma adapter_send:
  assumes "adapters_ok h" and "h_Get h name = Some a"
  shows "push_adapter (a_Send a)"
  using assms by (simp add: adapters_ok_def)

lemma limit_check_store_side [frame_simps]: "store_side (final (limit_check E h p) w) = store_side w"
  using outbound.gate_store_side [of "(E, the (h_OutboundLimiter h), sp_ProjectID p, sp_ProviderType p)" w]
  by (cases "h_OutboundLimiter h") (simp_all add: limit_check_def)

lemma limit_check_db [frame_simps]: "w_db (final (limit_check E h p) w) = w_db w"
  by (rule store_sideD(1)) (rule limit_check_store_side)

section \<open>Movement of the database\<close>

lemma failRecipient_moves [moves_rules]: "moves db_moves (failRecipient i c m)"
  unfolding failRecipient_def by (intro moves_rules)

lemma record_outcome_moves [moves_rules]: "moves db_moves (record_outcome ctx p result sendErr)"
  unfolding record_outcome_def Let_def by (auto intro!: moves_rules split: Status.split)

lemma send_with_credential_moves [moves_rules]:
  assumes "adapters_ok h"
  shows "moves db_moves (send_with_credential E h ctx p)"
proof -
  have send: "moves db_moves (a_Send a cred req)" if "h_Get h name = Some a" for name a cred req
    using push_adapter.sends_quietly [OF adapter_send [OF assms that]]
    by (intro moves_frame store_sideD(1))
  show ?thesis
    unfolding send_with_credential_def
    by (auto intro!: moves_rules send split: sum.split option.split)
qed

lemma HandleSend_moves:
  assumes "adapters_ok h"
  shows "moves db_moves (HandleSend E h ctx p)"
proof -
  have "moves db_moves (limit_check E h p)" by (rule moves_frame) (rule limit_check_db)
  then show ?thesis
    unfolding HandleSend_def by (auto intro!: moves_rules assms split: sum.split option.split)
qed

section \<open>Reads of a recipient\<close>

lemma GetNotificationRecipient_final:
  "final (GetNotificationRecipient i) w = w\<lparr>w_stmts := Suc (w_stmts w)\<rparr>"
  by (simp add: GetNotificationRecipient_def sql_getNotificationRecipient_def exec_reads_final)

lemma GetActiveProviderCredential_final:
  "final (GetActiveProviderCredential pid prov envi) w = w\<lparr>w_stmts := Suc (w_stmts w)\<rparr>"
  by (simp add: GetActiveProviderCredential_def sql_getActiveProviderCredential_def exec_reads_final)

section \<open>Properties\<close>

text \<open>
  C25. A terminal recipient is never touched again: if the recipient of a send task is sent,
  delivered or failed, \<open>HandleSend\<close> changes no row and puts nothing on the wire, whether or
  not the database answers.
\<close>

theorem HandleSend_terminal:
  assumes "find (\<lambda>r. r_ID r = sp_RecipientID p) (recipients (w_db w)) = Some r"
    and "r_Status r \<in> terminalRecipientStatuses"
  shows "final (HandleSend E h ctx p) w = w\<lparr>w_stmts := Suc (w_stmts w)\<rparr>"
proof (cases "value_of (GetNotificationRecipient (sp_RecipientID p)) w")
  case (Inl err)
  then show ?thesis by (simp add: HandleSend_def attempt_simps GetNotificationRecipient_final)
next
  case (Inr q)
  with GetNotificationRecipient_Inr [OF Inr] assms show ?thesis
    by (simp add: HandleSend_def attempt_simps GetNotificationRecipient_final)
qed

definition sample_recipient :: recipient_row where
  "sample_recipient = new_recipient 9 7 ''fcm'' 0 3"

definition sample_payload :: SendPayload where
  "sample_payload = \<lparr>sp_NotificationID = 9, sp_RecipientID = 3, sp_DeviceID = 7, sp_ProjectID = 1,
     sp_ProviderType = ''fcm'', sp_Token = ''tok'', sp_Title = ''hi'', sp_Body = ''b'', sp_Data = None\<rparr>"

definition with_recipient :: "recipient_row \<Rightarrow> world" where
  "with_recipient r = sample_world\<lparr>w_db := sample_db\<lparr>recipients := [r]\<rparr>\<rparr>"

theorem HandleSend_terminal_witness:
  "final (HandleSend sample_ext \<lparr>h_Targeting = targeting_registry, h_Crypto = [], h_OutboundLimiter = None, h_Get = Map.empty\<rparr>
     \<lparr>GetRetryCount = None, GetMaxRetry = None\<rparr> sample_payload)
     (with_recipient (sample_recipient\<lparr>r_Status := ''sent''\<rparr>)) =
   (with_recipient (sample_recipient\<lparr>r_Status := ''sent''\<rparr>))\<lparr>w_stmts := 1\<rparr>"
proof -
  let ?r = "sample_recipient\<lparr>r_Status := ''sent''\<rparr>"
  have "find (\<lambda>r. r_ID r = sp_RecipientID sample_payload) (recipients (w_db (with_recipient ?r))) = Some ?r"
    by (simp add: with_recipient_def sample_payload_def sample_recipient_def new_recipient_def)
  from HandleSend_terminal [OF this] show ?thesis
    by (simp add: terminalRecipientStatuses_def with_recipient_def sample_world_def)
qed

text \<open>
  C26. Over the ceiling nothing happens and nothing is lost: when the outbound limiter
  denies the call, the database is as before, no push left, and the error carries Redis'
  delay, does not count against the retry budget and reschedules the task after that delay.
\<close>

theorem HandleSend_throttled:
  assumes "value_of (GetNotificationRecipient (sp_RecipientID p)) w = Inr r"
    and "r_Status r \<notin> terminalRecipientStatuses"
    and "value_of (limit_check E h p) (final (GetNotificationRecipient (sp_RecipientID p)) w) = (False, delay)"
  shows "\<exists>e. value_of (HandleSend E h ctx p) w = Inl e \<and> \<not> IsFailure e \<and>
      (0 < sint delay \<longrightarrow> RetryDelayFunc backoff n e = delay) \<and>
      (\<exists>log c. w_redis (w\<lparr>w_stmts := Suc (w_stmts w)\<rparr>) log c = LimitResult 0 delay) \<and>
      w_db (final (HandleSend E h ctx p) w) = w_db w \<and>
      w_https (final (HandleSend E h ctx p) w) = w_https w \<and>
      w_pushes (final (HandleSend E h ctx p) w) = w_pushes w"
proof -
  from assms(3) obtain rps where rps: "h_OutboundLimiter h = Some rps"
    by (auto simp: limit_check_def split: option.splits)
  let ?k = "(E, rps, sp_ProjectID p, sp_ProviderType p)"
  let ?u = "w\<lparr>w_stmts := Suc (w_stmts w)\<rparr>"
  have lim: "limit_check E h p = OutboundRateLimiter_Allow E rps (sp_ProjectID p) (sp_ProviderType p)"
    by (simp add: limit_check_def rps)
  have val: "value_of (HandleSend E h ctx p) w = Inl (ErrThrottled delay (limit_error E p))"
    and fin: "final (HandleSend E h ctx p) w = final (limit_check E h p) ?u"
    using assms by (simp_all add: HandleSend_def attempt_simps GetNotificationRecipient_final)
  have "\<exists>log c. w_redis ?u log c = LimitResult 0 delay"
    using outbound.denial [of ?k ?u] assms(3) by (simp add: lim GetNotificationRecipient_final)
  moreover have "w_db (final (limit_check E h p) ?u) = w_db w"
    "w_https (final (limit_check E h p) ?u) = w_https w" "w_pushes (final (limit_check E h p) ?u) = w_pushes w"
    using outbound.gate_db [of ?k ?u] outbound.gate_wire [of ?k ?u] by (simp_all add: lim)
  ultimately show ?thesis
    unfolding val fin by (auto simp: IsFailure_def RetryDelayFunc_def)
qed

definition sample_handlers :: Handlers where
  "sample_handlers = \<lparr>h_Targeting = targeting_registry, h_Crypto = replicate 32 (CHR ''k''),
     h_OutboundLimiter = Some 10, h_Get = Map.empty\<rparr>"

theorem HandleSend_throttled_witness:
  "\<exists>e. value_of (HandleSend sample_ext sample_handlers \<lparr>GetRetryCount = Some 0, GetMaxRetry = Some 5\<rparr> sample_payload)
       ((with_recipient sample_recipient)\<lparr>w_redis := \<lambda>log c. LimitResult 0 250\<rparr>) = Inl e \<and>
     \<not> IsFailure e \<and> RetryDelayFunc (\<lambda>n err. 0) 1 e = 250"
proof -
  let ?w = "(with_recipient sample_recipient)\<lparr>w_redis := \<lambda>log c. LimitResult 0 250\<rparr>"
  have a: "value_of (GetNotificationRecipient (sp_RecipientID sample_payload)) ?w = Inr sample_recipient"
    by (simp add: GetNotificationRecipient_def sql_getNotificationRecipient_def exec_value next_env_def
        with_recipient_def sample_world_def sample_payload_def sample_recipient_def new_recipient_def)
  have b: "r_Status sample_recipient \<notin> terminalRecipientStatuses"
    by (simp add: sample_recipient_def new_recipient_def terminalRecipientStatuses_def)
  have c: "value_of (limit_check sample_ext sample_handlers sample_payload)
      (final (GetNotificationRecipient (sp_RecipientID sample_payload)) ?w) = (False, 250)"
    by (simp add: limit_check_def sample_handlers_def OutboundRateLimiter_Allow_check limiter_check_value
        GetNotificationRecipient_final)
  from HandleSend_throttled [OF a b c, of "\<lparr>GetRetryCount = Some 0, GetMaxRetry = Some 5\<rparr>" "\<lambda>n err. 0" 1]
  show ?thesis by auto
qed

section \<open>What a served run does\<close>

text \<open>The rows a failed mark and a recorded outcome leave behind.\<close>

definition failed_row :: "string \<Rightarrow> string \<Rightarrow> instant \<Rightarrow> recipient_row \<Rightarrow> recipient_row" where
  "failed_row code message now r = r\<lparr>r_Status := ''failed'', r_ErrorCode := TextFrom code,
     r_ErrorMessage := TextFrom message, r_FailedAt := Some now\<rparr>"

lemma failRecipient_healthy:
  assumes "healthy w"
  shows "w_db (final (failRecipient i code message) w) = (w_db w)\<lparr>recipients :=
    upd_where (\<lambda>r. r_ID r = i) (failed_row code message (se_now (next_env w))) (recipients (w_db w))\<rparr>"
  using assms
  by (simp add: failRecipient_def MarkRecipientFailed_def sql_markRecipientFailed_def healthy_exec
      run_stmt_def exec_only_def failed_row_def [abs_def])

text \<open>The row a result calls for: the abstract view of the switch in \<open>HandleSend\<close>.\<close>

definition recorded ::
  "task_ctx \<Rightarrow> SendResult \<Rightarrow> goerr option \<Rightarrow> instant \<Rightarrow> recipient_row \<Rightarrow> recipient_row"
where
  "recorded ctx result sendErr now r = (case sr_Status result of
      StatusSent \<Rightarrow> r\<lparr>r_Status := ''sent'', r_ProviderMessageID := TextFrom (sr_ProviderMessageID result),
        r_SentAt := Some now\<rparr>
    | StatusInvalidToken \<Rightarrow> failed_row ''invalid_token'' (errorMessage [sendErr, sr_Err result]) now r
    | StatusThrottled \<Rightarrow> r
    | _ \<Rightarrow> if isLastAttempt ctx
        then failed_row ''transient_error_exhausted''
          (errorMessage [sendErr, sr_Err result, Some (ErrText ''transient send error'')]) now r
        else r)"

text \<open>And the error the task ends in.\<close>

definition task_error :: "SendResult \<Rightarrow> goerr option \<Rightarrow> goerr option" where
  "task_error result sendErr = (case sr_Status result of
      StatusSent \<Rightarrow> None
    | StatusInvalidToken \<Rightarrow> None
    | StatusThrottled \<Rightarrow> Some (ErrThrottled (sr_RetryAfter result)
        (case firstNonNilErr [sendErr, sr_Err result] of None \<Rightarrow> ErrText ''throttled'' | Some e \<Rightarrow> e))
    | _ \<Rightarrow> Some (case firstNonNilErr [sendErr, sr_Err result] of
        None \<Rightarrow> ErrText ''transient send error'' | Some e \<Rightarrow> e))"

lemma firstNonNil_default:
  "firstNonNilErr [a, b, Some d] = Some (case firstNonNilErr [a, b] of None \<Rightarrow> d | Some e \<Rightarrow> e)"
  by (cases a; cases b) simp_all

lemma upd_where_same [simp]: "upd_where P (\<lambda>r. r) rows = rows"
  by (induction rows) auto

lemma record_outcome_healthy:
  assumes "healthy w"
  shows "\<exists>now. recipients (w_db (final (record_outcome ctx p result sendErr) w)) =
      upd_where (\<lambda>r. r_ID r = sp_RecipientID p) (recorded ctx result sendErr now) (recipients (w_db w))"
    and "value_of (record_outcome ctx p result sendErr) w =
      (case task_error result sendErr of None \<Rightarrow> Inr () | Some e \<Rightarrow> Inl e)"
proof -
  note eval = record_outcome_def recorded_def [abs_def] task_error_def firstNonNil_default errorMessage_def
    healthy_exec run_stmt_def exec_only_def Let_def
  show "\<exists>now. recipients (w_db (final (record_outcome ctx p result sendErr) w)) =
      upd_where (\<lambda>r. r_ID r = sp_RecipientID p) (recorded ctx result sendErr now) (recipients (w_db w))"
  proof (cases "sr_Status result")
    case StatusInvalidToken
    let ?u = "final (MarkDeviceStatus (sp_DeviceID p) ''invalid'') w"
    have "healthy ?u" "recipients (w_db ?u) = recipients (w_db w)"
      using assms by (simp_all add: MarkDeviceStatus_def healthy_exec run_stmt_def sql_markDeviceStatus_def exec_only_def)
    with StatusInvalidToken show ?thesis
      by (auto simp: record_outcome_def recorded_def [abs_def] failRecipient_healthy)
  next
    case StatusSent
    then show ?thesis
      using assms by (auto simp: eval MarkRecipientSent_def sql_markRecipientSent_def)
  qed (use assms in \<open>auto simp: eval failRecipient_healthy\<close>)
  show "value_of (record_outcome ctx p result sendErr) w =
      (case task_error result sendErr of None \<Rightarrow> Inr () | Some e \<Rightarrow> Inl e)"
    using assms
    by (cases "sr_Status result")
      (simp_all add: eval MarkRecipientSent_def sql_markRecipientSent_def)
qed

text \<open>The steps of a served run up to the adapter.\<close>

definition before_sending :: "ext \<Rightarrow> Handlers \<Rightarrow> SendPayload \<Rightarrow> world \<Rightarrow> world" where
  "before_sending E h p w =
     final (limit_check E h p) (final (GetNotificationRecipient (sp_RecipientID p)) w)"

definition at_sending :: "ext \<Rightarrow> Handlers \<Rightarrow> SendPayload \<Rightarrow> world \<Rightarrow> world" where
  "at_sending E h p w =
     final (GetActiveProviderCredential (sp_ProjectID p) (sp_ProviderType p) environment)
       (final (MarkRecipientSending (sp_RecipientID p)) (before_sending E h p w))"

lemma before_sending_served:
  assumes "healthy w"
  shows "w_db (before_sending E h p w) = w_db w" and "healthy (before_sending E h p w)"
proof -
  let ?u = "final (GetNotificationRecipient (sp_RecipientID p)) w"
  have "store_side (before_sending E h p w) = store_side ?u"
    by (simp add: before_sending_def limit_check_store_side)
  moreover have "w_db ?u = w_db w" "healthy ?u"
    using assms by (simp_all add: GetNotificationRecipient_final)
  ultimately show "w_db (before_sending E h p w) = w_db w" "healthy (before_sending E h p w)"
    by (auto dest: store_sideD(1) healthy_store_side)
qed

lemma upd_where_twice:
  "(\<And>r. P (g r) = P r) \<Longrightarrow> upd_where P f (upd_where P g rows) = upd_where P (f \<circ> g) rows"
  by (induction rows) auto

lemma MarkRecipientSending_served:
  assumes "healthy w" and "find (\<lambda>r. r_ID r = i) (recipients (w_db w)) = Some r" and "r_AttemptCount r \<noteq> max_int4"
  shows "value_of (MarkRecipientSending i) w = Inr (sending r)"
    and "w_db (final (MarkRecipientSending i) w) =
      (w_db w)\<lparr>recipients := upd_where (\<lambda>r. r_ID r = i) sending (recipients (w_db w))\<rparr>"
    and "healthy (final (MarkRecipientSending i) w)"
  using assms by (simp_all add: MarkRecipientSending_def sql_markRecipientSending_def healthy_exec run_stmt_def)

text \<open>A send task that reaches the credential: what is left to do, and in which world.\<close>

lemma HandleSend_served:
  assumes "healthy w" and "find (\<lambda>r. r_ID r = sp_RecipientID p) (recipients (w_db w)) = Some r"
    and "r_Status r \<notin> terminalRecipientStatuses" and "r_AttemptCount r \<noteq> max_int4"
    and "fst (value_of (limit_check E h p) (final (GetNotificationRecipient (sp_RecipientID p)) w))"
  shows "value_of (HandleSend E h ctx p) w = value_of (send_with_credential E h ctx p)
      (final (MarkRecipientSending (sp_RecipientID p)) (before_sending E h p w))"
    and "final (HandleSend E h ctx p) w = final (send_with_credential E h ctx p)
      (final (MarkRecipientSending (sp_RecipientID p)) (before_sending E h p w))"
proof -
  have get: "value_of (GetNotificationRecipient (sp_RecipientID p)) w = Inr r"
    using assms(1,2) by (simp add: GetNotificationRecipient_def sql_getNotificationRecipient_def healthy_exec run_stmt_def)
  obtain delay where lim: "value_of (limit_check E h p) (final (GetNotificationRecipient (sp_RecipientID p)) w) = (True, delay)"
    using assms(5) by (metis (full_types) prod.collapse)
  note before = before_sending_served [OF assms(1), of E h p]
  have mark: "value_of (MarkRecipientSending (sp_RecipientID p)) (before_sending E h p w) = Inr (sending r)"
    using MarkRecipientSending_served(1) [OF before(2), of "sp_RecipientID p" r] assms(2,4) before(1) by simp
  show "value_of (HandleSend E h ctx p) w = value_of (send_with_credential E h ctx p)
      (final (MarkRecipientSending (sp_RecipientID p)) (before_sending E h p w))"
    "final (HandleSend E h ctx p) w = final (send_with_credential E h ctx p)
      (final (MarkRecipientSending (sp_RecipientID p)) (before_sending E h p w))"
    using get lim mark assms(3) by (simp_all add: HandleSend_def attempt_simps before_sending_def)
qed

text \<open>A served run that reaches the adapter: what is left is to record the outcome.\<close>

lemma HandleSend_reaches:
  assumes "healthy w" and "find (\<lambda>r. r_ID r = sp_RecipientID p) (recipients (w_db w)) = Some r"
    and "r_Status r \<notin> terminalRecipientStatuses" and "r_AttemptCount r \<noteq> max_int4"
    and "fst (value_of (limit_check E h p) (final (GetNotificationRecipient (sp_RecipientID p)) w))"
    and "find (\<lambda>c. same_provider (sp_ProjectID p) (sp_ProviderType p) environment c \<and> c_IsActive c)
      (credentials (w_db w)) = Some c"
    and "Open E (h_Crypto h) (c_WrappedDek c) (c_Credential c) = Inr cred"
    and "h_Get h (sp_ProviderType p) = Some a" and "push_adapter (a_Send a)"
    and "value_of (a_Send a cred (send_request p)) (at_sending E h p w) = (result, sendErr)"
  obtains w5 where "healthy w5"
    and "w_db w5 = (w_db w)\<lparr>recipients := upd_where (\<lambda>r. r_ID r = sp_RecipientID p) sending (recipients (w_db w))\<rparr>"
    and "final (HandleSend E h ctx p) w = final (record_outcome ctx p result sendErr) w5"
    and "value_of (HandleSend E h ctx p) w = value_of (record_outcome ctx p result sendErr) w5"
proof -
  let ?i = "sp_RecipientID p"
  let ?w3 = "final (MarkRecipientSending ?i) (before_sending E h p w)"
  let ?w4 = "at_sending E h p w"
  let ?w5 = "final (a_Send a cred (send_request p)) ?w4"
  note before = before_sending_served [OF assms(1), of E h p]
  note mark = MarkRecipientSending_served [OF before(2), of ?i r, unfolded before(1), OF assms(2,4)]
  have cred: "value_of (GetActiveProviderCredential (sp_ProjectID p) (sp_ProviderType p) environment) ?w3 = Inr c"
    using mark(2,3) assms(6)
    by (simp add: GetActiveProviderCredential_def sql_getActiveProviderCredential_def healthy_exec run_stmt_def)
  have w4: "w_db ?w4 = w_db ?w3" "healthy ?w4"
    using mark(3) by (simp_all add: at_sending_def GetActiveProviderCredential_final)
  have "store_side ?w5 = store_side ?w4" by (rule push_adapter.sends_quietly [OF assms(9)])
  then have "w_db ?w5 = w_db ?w3" "healthy ?w5"
    using w4 by (auto dest: store_sideD(1) healthy_store_side)
  moreover have "final (HandleSend E h ctx p) w = final (record_outcome ctx p result sendErr) ?w5"
    "value_of (HandleSend E h ctx p) w = value_of (record_outcome ctx p result sendErr) ?w5"
    using cred assms(7,8,10)
    by (simp_all add: HandleSend_served [OF assms(1-5)] send_with_credential_def at_sending_def)
  ultimately show ?thesis using that mark(2) by simp
qed

text \<open>
  C16. In a served run that reaches the adapter, \<open>HandleSend\<close> refines its specification: the
  recipient's row becomes \<open>recorded\<close> of the attempt (sent with the provider's message id,
  failed on an invalid token or an exhausted retry, otherwise left sending with one more
  attempt counted), every other recipient is untouched, and the task ends in \<open>task_error\<close>.
\<close>

theorem HandleSend_refines:
  assumes "healthy w" and "find (\<lambda>r. r_ID r = sp_RecipientID p) (recipients (w_db w)) = Some r"
    and "r_Status r \<notin> terminalRecipientStatuses" and "r_AttemptCount r \<noteq> max_int4"
    and "fst (value_of (limit_check E h p) (final (GetNotificationRecipient (sp_RecipientID p)) w))"
    and "find (\<lambda>c. same_provider (sp_ProjectID p) (sp_ProviderType p) environment c \<and> c_IsActive c)
      (credentials (w_db w)) = Some c"
    and "Open E (h_Crypto h) (c_WrappedDek c) (c_Credential c) = Inr cred"
    and "h_Get h (sp_ProviderType p) = Some a" and "push_adapter (a_Send a)"
    and "value_of (a_Send a cred (send_request p)) (at_sending E h p w) = (result, sendErr)"
  shows "(\<exists>now. recipients (w_db (final (HandleSend E h ctx p) w)) =
      upd_where (\<lambda>r. r_ID r = sp_RecipientID p) (recorded ctx result sendErr now \<circ> sending)
        (recipients (w_db w))) \<and>
    value_of (HandleSend E h ctx p) w =
      (case task_error result sendErr of None \<Rightarrow> Inr () | Some e \<Rightarrow> Inl e)"
proof (rule HandleSend_reaches [OF assms, of ctx], goal_cases)
  case (1 w5)
  obtain now where "recipients (w_db (final (record_outcome ctx p result sendErr) w5)) =
      upd_where (\<lambda>r. r_ID r = sp_RecipientID p) (recorded ctx result sendErr now) (recipients (w_db w5))"
    using record_outcome_healthy(1) [OF 1(1)] by blast
  with 1 record_outcome_healthy(2) [OF 1(1), of ctx p result sendErr] show ?case
    by (auto simp: upd_where_twice sending_def)
qed

text \<open>An adapter for the witnesses: it answers every request with one result.\<close>

definition answering :: "SendResult \<Rightarrow> Adapter" where
  "answering result = \<lparr>a_Name = ''fcm'', a_Send = (\<lambda>cred req. ret (result, None)), a_TestCredential = None\<rparr>"

definition sent_result :: SendResult where
  "sent_result = \<lparr>sr_ProviderMessageID = ''m1'', sr_Status = StatusSent, sr_RetryAfter = 0, sr_Err = None\<rparr>"

lemma answering_sent: "push_adapter (a_Send (answering sent_result))"
  by unfold_locales (auto simp: answering_def sent_result_def)

definition sample_dek :: string where
  "sample_dek = replicate 32 (CHR ''d'')"

definition sample_credential :: credential_row where
  "sample_credential = \<lparr>c_ID = 4, c_ProjectID = 1, c_ProviderType = ''fcm'', c_Environment = ''production'',
     c_Credential = replicate 12 (CHR ''n'') @ gcm_Seal sample_ext sample_dek (replicate 12 (CHR ''n'')) ''{}'',
     c_WrappedDek = replicate 12 (CHR ''n'') @
       gcm_Seal sample_ext (h_Crypto sample_handlers) (replicate 12 (CHR ''n'')) sample_dek,
     c_IsActive = True, c_CreatedAt = 0, c_UpdatedAt = 0\<rparr>"

lemma sample_credential_opens:
  "Open sample_ext (h_Crypto sample_handlers) (c_WrappedDek sample_credential) (c_Credential sample_credential) = Inr ''{}''"
  using gcm_law_sample
  by (simp add: Open_def open_sealed_def aes_NewCipher_def sample_credential_def sample_handlers_def
      sample_dek_def NonceSize_def gcm_law_def)

definition sending_world :: world where
  "sending_world = sample_world\<lparr>w_db := sample_db\<lparr>recipients := [sample_recipient],
     credentials := [sample_credential]\<rparr>\<rparr>"

lemmas sending_simps = sending_world_def sample_world_def sample_payload_def sample_recipient_def
  new_recipient_def sample_handlers_def

theorem HandleSend_refines_witness:
  "\<exists>now. recipients (w_db (final (HandleSend sample_ext
       (sample_handlers\<lparr>h_Get := [''fcm'' \<mapsto> answering sent_result]\<rparr>)
       \<lparr>GetRetryCount = Some 0, GetMaxRetry = Some 5\<rparr> sample_payload) sending_world)) =
     [sample_recipient\<lparr>r_Status := ''sent'', r_AttemptCount := 1, r_ProviderMessageID := Some ''m1'',
       r_SentAt := Some now\<rparr>]"
proof -
  let ?h = "sample_handlers\<lparr>h_Get := [''fcm'' \<mapsto> answering sent_result]\<rparr>"
  let ?c = "\<lparr>GetRetryCount = Some 0, GetMaxRetry = Some 5\<rparr> :: task_ctx"
  have 1: "healthy sending_world" by (simp add: healthy_def sending_simps)
  have 2: "find (\<lambda>r. r_ID r = sp_RecipientID sample_payload) (recipients (w_db sending_world)) = Some sample_recipient"
    by (simp add: sending_simps)
  have 3: "r_Status sample_recipient \<notin> terminalRecipientStatuses" "r_AttemptCount sample_recipient \<noteq> max_int4"
    by (simp_all add: sending_simps terminalRecipientStatuses_def max_int4_def)
  have 4: "fst (value_of (limit_check sample_ext ?h sample_payload)
      (final (GetNotificationRecipient (sp_RecipientID sample_payload)) sending_world))"
    by (simp add: limit_check_def OutboundRateLimiter_Allow_check limiter_check_value
        GetNotificationRecipient_final sending_simps)
  have 5: "find (\<lambda>c. same_provider (sp_ProjectID sample_payload) (sp_ProviderType sample_payload) environment c \<and>
      c_IsActive c) (credentials (w_db sending_world)) = Some sample_credential"
    by (simp add: sending_simps sample_credential_def same_provider_def environment_def)
  have 6: "Open sample_ext (h_Crypto ?h) (c_WrappedDek sample_credential) (c_Credential sample_credential) = Inr ''{}''"
    using sample_credential_opens by simp
  have 7: "h_Get ?h (sp_ProviderType sample_payload) = Some (answering sent_result)"
    by (simp add: sample_payload_def)
  have 8: "value_of (a_Send (answering sent_result) ''{}'' (send_request sample_payload))
      (at_sending sample_ext ?h sample_payload sending_world) = (sent_result, None)"
    by (simp add: answering_def)
  from HandleSend_refines [OF 1 2 3 4 5 6 7 answering_sent 8, of ?c] show ?thesis
    by (auto simp: recorded_def sent_result_def sending_def TextFrom_def sending_simps)
qed

section \<open>Permanent failures\<close>

text \<open>Why a task cannot reach an adapter, in the order the handler finds out.\<close>

definition refusal :: "ext \<Rightarrow> Handlers \<Rightarrow> SendPayload \<Rightarrow> tables \<Rightarrow> string option" where
  "refusal E h p t =
     (case find (\<lambda>c. same_provider (sp_ProjectID p) (sp_ProviderType p) environment c \<and> c_IsActive c) (credentials t) of
        None \<Rightarrow> Some ''no_credential''
      | Some c \<Rightarrow> (case Open E (h_Crypto h) (c_WrappedDek c) (c_Credential c) of
          Inl err \<Rightarrow> Some ''credential_decrypt_failed''
        | Inr cred \<Rightarrow> if h_Get h (sp_ProviderType p) = None then Some ''unknown_provider'' else None))"

lemma send_refused:
  assumes "healthy w" and "refusal E h p (w_db w) = Some code"
  shows "\<exists>e message now. value_of (send_with_credential E h ctx p) w = Inl e \<and> errors_is e ErrSkipRetry \<and>
      w_db (final (send_with_credential E h ctx p) w) = (w_db w)\<lparr>recipients :=
        upd_where (\<lambda>r. r_ID r = sp_RecipientID p) (failed_row code message now) (recipients (w_db w))\<rparr>"
proof -
  let ?get = "GetActiveProviderCredential (sp_ProjectID p) (sp_ProviderType p) environment"
  let ?row = "find (\<lambda>c. same_provider (sp_ProjectID p) (sp_ProviderType p) environment c \<and> c_IsActive c)
    (credentials (w_db w))"
  have get: "value_of ?get w = scan_row ?row"
    using assms(1) by (simp add: GetActiveProviderCredential_def sql_getActiveProviderCredential_def healthy_exec run_stmt_def)
  have u: "healthy (final ?get w)" "w_db (final ?get w) = w_db w"
    using assms(1) by (simp_all add: GetActiveProviderCredential_final)
  note fail = failRecipient_healthy [OF u(1), unfolded u(2)]
  show ?thesis
  proof (cases ?row)
    case None
    with assms(2) get fail show ?thesis
      by (auto simp: refusal_def send_with_credential_def)
  next
    case (Some c)
    with assms(2) get fail show ?thesis
      by (auto simp: refusal_def send_with_credential_def split: sum.splits if_splits option.split)
  qed
qed

lemma send_task_refused:
  assumes "healthy w" and "find (\<lambda>r. r_ID r = sp_RecipientID p) (recipients (w_db w)) = Some r"
    and "r_Status r \<notin> terminalRecipientStatuses" and "r_AttemptCount r \<noteq> max_int4"
    and "fst (value_of (limit_check E h p) (final (GetNotificationRecipient (sp_RecipientID p)) w))"
    and "refusal E h p (w_db w) = Some code"
  shows "\<exists>e message now. value_of (HandleSend E h ctx p) w = Inl e \<and> errors_is e ErrSkipRetry \<and>
      w_db (final (HandleSend E h ctx p) w) = (w_db w)\<lparr>recipients :=
        upd_where (\<lambda>r. r_ID r = sp_RecipientID p) (failed_row code message now \<circ> sending)
          (recipients (w_db w))\<rparr>"
proof -
  let ?w3 = "final (MarkRecipientSending (sp_RecipientID p)) (before_sending E h p w)"
  note before = before_sending_served [OF assms(1), of E h p]
  note mark = MarkRecipientSending_served [OF before(2), of "sp_RecipientID p" r, unfolded before(1), OF assms(2,4)]
  have "refusal E h p (w_db ?w3) = Some code"
    using assms(6) mark(2) by (simp add: refusal_def)
  from send_refused [OF mark(3) this] mark(2) show ?thesis
    by (simp add: HandleSend_served [OF assms(1-5)] upd_where_twice sending_def o_def)
qed

text \<open>Without an adapter to call, nothing goes out, whatever the database does.\<close>

lemma limit_check_wire [frame_simps]:
  "w_https (final (limit_check E h p) w) = w_https w" "w_pushes (final (limit_check E h p) w) = w_pushes w"
  using outbound.gate_wire [of "(E, the (h_OutboundLimiter h), sp_ProjectID p, sp_ProviderType p)" w]
  by (cases "h_OutboundLimiter h"; simp add: limit_check_def)+

lemma failRecipient_wire [frame_simps]:
  "w_https (final (failRecipient i c m) w) = w_https w" "w_pushes (final (failRecipient i c m) w) = w_pushes w"
  by (simp_all add: failRecipient_def MarkRecipientFailed_def frame_simps)

lemma send_refused_wire:
  assumes "refusal E h p (w_db w) = Some code"
  shows "w_https (final (send_with_credential E h ctx p) w) = w_https w"
    and "w_pushes (final (send_with_credential E h ctx p) w) = w_pushes w"
proof -
  let ?get = "GetActiveProviderCredential (sp_ProjectID p) (sp_ProviderType p) environment"
  have frame: "w_https (final ?get w) = w_https w" "w_pushes (final ?get w) = w_pushes w"
    by (simp_all add: GetActiveProviderCredential_def frame_simps)
  have "find (\<lambda>c. same_provider (sp_ProjectID p) (sp_ProviderType p) environment c \<and> c_IsActive c) (credentials (w_db w)) = Some c"
    if "value_of ?get w = Inr c" for c
    using exec_Inr(1) [OF that [unfolded GetActiveProviderCredential_def]] by (simp add: sql_getActiveProviderCredential_def)
  with assms frame show "w_https (final (send_with_credential E h ctx p) w) = w_https w"
    "w_pushes (final (send_with_credential E h ctx p) w) = w_pushes w"
    by (auto simp: send_with_credential_def refusal_def frame_simps split: sum.split option.split if_splits)
qed

text \<open>
  C10. A send task that cannot reach an adapter fails for good: if the project has no active
  production credential for the provider, or it does not decrypt under the master key, or no adapter of that
  name is registered, a served run within its rate counts the attempt and marks the recipient failed with the
  code of the cause, in that order of causes, changes nothing else, puts nothing on the wire, and
  ends in an error that tells asynq not to retry.
\<close>

theorem HandleSend_refused:
  assumes "healthy w" and "find (\<lambda>r. r_ID r = sp_RecipientID p) (recipients (w_db w)) = Some r"
    and "r_Status r \<notin> terminalRecipientStatuses" and "r_AttemptCount r \<noteq> max_int4"
    and "fst (value_of (limit_check E h p) (final (GetNotificationRecipient (sp_RecipientID p)) w))"
    and "code = (case find (\<lambda>c. c_ProjectID c = sp_ProjectID p \<and> c_ProviderType c = sp_ProviderType p \<and>
        c_Environment c = ''production'' \<and> c_IsActive c) (credentials (w_db w)) of
        None \<Rightarrow> ''no_credential''
      | Some c \<Rightarrow> (case Open E (h_Crypto h) (c_WrappedDek c) (c_Credential c) of
          Inl err \<Rightarrow> ''credential_decrypt_failed''
        | Inr cred \<Rightarrow> if h_Get h (sp_ProviderType p) = None then ''unknown_provider'' else []))" and "code \<noteq> []"
  shows "\<exists>e message now. value_of (HandleSend E h ctx p) w = Inl e \<and> errors_is e ErrSkipRetry \<and>
      w_db (final (HandleSend E h ctx p) w) = (w_db w)\<lparr>recipients :=
        map (\<lambda>r. if r_ID r = sp_RecipientID p
          then r\<lparr>r_Status := ''failed'', r_AttemptCount := r_AttemptCount r + 1, r_ErrorCode := Some code,
            r_ErrorMessage := TextFrom message, r_FailedAt := Some now\<rparr>
          else r) (recipients (w_db w))\<rparr> \<and>
      w_https (final (HandleSend E h ctx p) w) = w_https w \<and> w_pushes (final (HandleSend E h ctx p) w) = w_pushes w"
proof -
  have refused: "refusal E h p (w_db w) = Some code"
    using assms(6,7) unfolding refusal_def same_provider_def environment_def
    by (auto simp: conj_assoc split: option.splits sum.splits if_splits)
  from send_task_refused [OF assms(1-5) this, of ctx] obtain e message now where
    run: "value_of (HandleSend E h ctx p) w = Inl e" "errors_is e ErrSkipRetry"
      "w_db (final (HandleSend E h ctx p) w) = (w_db w)\<lparr>recipients :=
        upd_where (\<lambda>r. r_ID r = sp_RecipientID p) (failed_row code message now \<circ> sending) (recipients (w_db w))\<rparr>" by blast
  have row: "upd_where (\<lambda>r. r_ID r = sp_RecipientID p) (failed_row code message now \<circ> sending) rows =
      map (\<lambda>r. if r_ID r = sp_RecipientID p
        then r\<lparr>r_Status := ''failed'', r_AttemptCount := r_AttemptCount r + 1, r_ErrorCode := Some code,
          r_ErrorMessage := TextFrom message, r_FailedAt := Some now\<rparr> else r) rows" for rows
    using assms(7) by (simp add: upd_where_def failed_row_def sending_def TextFrom_def)
  let ?w3 = "final (MarkRecipientSending (sp_RecipientID p)) (before_sending E h p w)"
  have "refusal E h p (w_db ?w3) = Some code"
    using refused MarkRecipientSending_served(2) [OF before_sending_served(2) [OF assms(1)], where i = "sp_RecipientID p" and r = r]
      before_sending_served(1) [OF assms(1)] assms(2,4) by (simp add: refusal_def)
  note quiet = send_refused_wire [OF this, of ctx]
  have "w_https ?w3 = w_https w" "w_pushes ?w3 = w_pushes w"
    by (simp_all add: before_sending_def MarkRecipientSending_def GetNotificationRecipient_def frame_simps)
  with run quiet show ?thesis unfolding row by (auto simp: HandleSend_served [OF assms(1-5)])
qed

theorem HandleSend_refused_witness:
  "\<exists>e. value_of (HandleSend sample_ext sample_handlers \<lparr>GetRetryCount = Some 0, GetMaxRetry = Some 5\<rparr> sample_payload)
     (with_recipient sample_recipient) = Inl e \<and> errors_is e ErrSkipRetry"
proof -
  have a: "healthy (with_recipient sample_recipient)"
    "find (\<lambda>r. r_ID r = sp_RecipientID sample_payload) (recipients (w_db (with_recipient sample_recipient))) =
      Some sample_recipient"
    "r_Status sample_recipient \<notin> terminalRecipientStatuses" "r_AttemptCount sample_recipient \<noteq> max_int4"
    by (simp_all add: healthy_def with_recipient_def sending_simps terminalRecipientStatuses_def max_int4_def)
  have b: "fst (value_of (limit_check sample_ext sample_handlers sample_payload)
      (final (GetNotificationRecipient (sp_RecipientID sample_payload)) (with_recipient sample_recipient)))"
    by (simp add: limit_check_def OutboundRateLimiter_Allow_check limiter_check_value
        GetNotificationRecipient_final with_recipient_def sending_simps)
  have c: "credentials (w_db (with_recipient sample_recipient)) = []"
    by (simp add: with_recipient_def sample_db_def empty_db_def)
  from HandleSend_refused [OF a b refl, unfolded c, of "\<lparr>GetRetryCount = Some 0, GetMaxRetry = Some 5\<rparr>"] show ?thesis
    by auto
qed

section \<open>A recipient is sent only on the provider's word\<close>

definition not_sent :: "uuid \<Rightarrow> world \<Rightarrow> bool" where
  "not_sent i w \<longleftrightarrow> (\<forall>r. find (\<lambda>r. r_ID r = i) (recipients (w_db w)) = Some r \<longrightarrow> r_Status r \<noteq> ''sent'')"

lemma keeps_not_sent_frame: "(\<And>w. w_db (final m w) = w_db w) \<Longrightarrow> keeps (not_sent i) m"
  by (simp add: keeps_def not_sent_def)

lemma keeps_not_sent_exec:
  assumes "\<And>now u t. \<exists>P f. recipients (snd (stmt now u t)) = upd_where P f (recipients t) \<and>
    (\<forall>r. r_ID (f r) = r_ID r \<and> r_Status (f r) \<noteq> ''sent'')"
  shows "keeps (not_sent i) (exec stmt)"
proof (rule keepsI)
  fix w
  assume before: "not_sent i w"
  obtain P f where f: "recipients (snd (run_stmt stmt w)) = upd_where P f (recipients (w_db w))"
    "\<And>r. r_ID (f r) = r_ID r" "\<And>r. r_Status (f r) \<noteq> ''sent''"
    using assms unfolding run_stmt_def by metis
  have "find (\<lambda>r. r_ID r = i) (upd_where P f (recipients (w_db w))) =
      map_option (\<lambda>r. if P r then f r else r) (find (\<lambda>r. r_ID r = i) (recipients (w_db w)))"
    by (rule find_upd_where) (simp add: f(2))
  with before f(1,3) have "not_sent i (w\<lparr>w_db := snd (run_stmt stmt w)\<rparr>)"
    by (auto simp: not_sent_def)
  with before show "not_sent i (final (exec stmt) w)"
    by (auto simp: not_sent_def exec_final split: fault.split)
qed

lemma not_sent_rules [keeps_rules]:
  "keeps (not_sent i) (MarkRecipientSending j)"
  "keeps (not_sent i) (failRecipient j code message)"
  "keeps (not_sent i) (MarkDeviceStatus d st)"
proof -
  have upd: "\<exists>P f. upd_where Q g rs = upd_where P f rs \<and> (\<forall>r. r_ID (f r) = r_ID r \<and> r_Status (f r) \<noteq> ''sent'')"
    if "\<And>r. r_ID (g r) = r_ID r \<and> r_Status (g r) \<noteq> ''sent''" for Q g rs
    using that by blast
  have same: "\<exists>P f. rs = upd_where P f rs \<and> (\<forall>r. r_ID (f r) = r_ID r \<and> r_Status (f r) \<noteq> ''sent'')"
    for rs :: "recipient_row list"
    by (rule exI [of _ "\<lambda>r. False"], rule exI [of _ sending]) (simp add: upd_where_def sending_def)
  show "keeps (not_sent i) (MarkRecipientSending j)"
    unfolding MarkRecipientSending_def
  proof (rule keeps_not_sent_exec)
    fix now u t
    show "\<exists>P f. recipients (snd (sql_markRecipientSending j now u t)) = upd_where P f (recipients t) \<and>
        (\<forall>r. r_ID (f r) = r_ID r \<and> r_Status (f r) \<noteq> ''sent'')"
      using same by (auto simp: sql_markRecipientSending_def sending_def intro!: upd split: option.split)
  qed
  have "keeps (not_sent i) (MarkRecipientFailed j c m)" for c m
    unfolding MarkRecipientFailed_def
    by (rule keeps_not_sent_exec) (auto simp: sql_markRecipientFailed_def exec_only_def intro!: upd)
  then show "keeps (not_sent i) (failRecipient j code message)"
    unfolding failRecipient_def by (intro keeps_rules)
  show "keeps (not_sent i) (MarkDeviceStatus d st)"
    unfolding MarkDeviceStatus_def
    by (rule keeps_not_sent_exec) (use same in \<open>auto simp: sql_markDeviceStatus_def exec_only_def\<close>)
qed

lemma record_outcome_sent:
  assumes "not_sent i w" and "\<not> not_sent i (final (record_outcome ctx p result sendErr) w)"
  shows "sr_Status result = StatusSent \<and> i = sp_RecipientID p \<and>
    (\<exists>r. r_ProviderMessageID r = TextFrom (sr_ProviderMessageID result) \<and>
    find (\<lambda>r. r_ID r = i) (recipients (w_db (final (record_outcome ctx p result sendErr) w))) = Some r)"
proof (cases "sr_Status result = StatusSent")
  case False
  then have "keeps (not_sent i) (record_outcome ctx p result sendErr)"
    unfolding record_outcome_def Let_def by (auto intro!: keeps_rules split: Status.split)
  with assms show ?thesis by (auto dest: keepsD)
next
  case True
  let ?f = "\<lambda>now r. r\<lparr>r_Status := ''sent'', r_ProviderMessageID := TextFrom (sr_ProviderMessageID result), r_SentAt := Some now\<rparr>"
  let ?P = "\<lambda>r. r_ID r = sp_RecipientID p"
  obtain r where r: "find (\<lambda>r. r_ID r = i) (recipients (w_db (final (record_outcome ctx p result sendErr) w))) = Some r"
    "r_Status r = ''sent''"
    using assms(2) by (auto simp: not_sent_def)
  have upd: "find (\<lambda>r. r_ID r = i) (upd_where ?P (?f now) (recipients (w_db w))) =
      map_option (\<lambda>r. if ?P r then ?f now r else r) (find (\<lambda>r. r_ID r = i) (recipients (w_db w)))" for now
    by (rule find_upd_where) simp
  have "r_ProviderMessageID r = TextFrom (sr_ProviderMessageID result) \<and> r_ID r = sp_RecipientID p"
    using r assms(1) True upd
    by (auto simp: record_outcome_def MarkRecipientSent_def sql_markRecipientSent_def exec_final run_stmt_def
        exec_only_def not_sent_def split: fault.splits if_splits)
  moreover have "r_ID r = i" using r(1) by (auto dest: find_SomeD)
  ultimately show ?thesis using True r by auto
qed

text \<open>What a run leaves alone around the call of the adapter.\<close>

lemma record_outcome_wire:
  "w_https (final (record_outcome ctx p result sendErr) w) = w_https w"
  "w_pushes (final (record_outcome ctx p result sendErr) w) = w_pushes w"
  by (simp_all add: record_outcome_def failRecipient_def MarkRecipientSent_def MarkRecipientFailed_def
      MarkDeviceStatus_def frame_simps Let_def split: Status.split)

lemma MarkRecipientSending_credentials: "credentials (w_db (final (MarkRecipientSending i) w)) = credentials (w_db w)"
  by (auto simp: MarkRecipientSending_def exec_final run_stmt_def sql_markRecipientSending_def split: fault.split option.split)

lemma GetActiveProviderCredential_row:
  assumes "value_of (GetActiveProviderCredential pid prov envi) w = Inr c"
  shows "c \<in> set (credentials (w_db w)) \<and> same_provider pid prov envi c \<and> c_IsActive c"
  using exec_Inr(1) [OF assms [unfolded GetActiveProviderCredential_def]]
  by (auto simp: sql_getActiveProviderCredential_def dest: find_SomeD)

text \<open>
  If a recipient was not sent before a run and is sent after it, then, whatever the database
  server, Redis and the queue did, it is the task's recipient, and in this run, after the credential was read,
  the registered adapter was called with the task's token and payload and what the active credential
  of its project and provider opens to, and returned \<open>StatusSent\<close> without an error; the row holds
  its message id; and nothing went out before or after that call.
\<close>

lemma send_sound:
  assumes "adapters_ok h" and "not_sent i w" and "\<not> not_sent i (final (HandleSend E h ctx p) w)"
  shows "\<exists>a c cred result r. h_Get h (sp_ProviderType p) = Some a \<and>
    c \<in> set (credentials (w_db w)) \<and> same_provider (sp_ProjectID p) (sp_ProviderType p) environment c \<and> c_IsActive c \<and>
    Open E (h_Crypto h) (c_WrappedDek c) (c_Credential c) = Inr cred \<and>
    value_of (a_Send a cred (send_request p)) (at_sending E h p w) = (result, None) \<and> sr_Status result = StatusSent \<and>
    w_https (final (HandleSend E h ctx p) w) = w_https (final (a_Send a cred (send_request p)) (at_sending E h p w)) \<and>
    w_pushes (final (HandleSend E h ctx p) w) = w_pushes (final (a_Send a cred (send_request p)) (at_sending E h p w)) \<and>
    find (\<lambda>r. r_ID r = i) (recipients (w_db (final (HandleSend E h ctx p) w))) = Some r \<and>
    r_ProviderMessageID r = TextFrom (sr_ProviderMessageID result) \<and> i = sp_RecipientID p"
proof -
  let ?i = "sp_RecipientID p"
  let ?w1 = "final (GetNotificationRecipient ?i) w"
  let ?w2 = "final (limit_check E h p) ?w1"
  let ?w3 = "final (MarkRecipientSending ?i) ?w2"
  let ?get = "GetActiveProviderCredential (sp_ProjectID p) (sp_ProviderType p) environment"
  let ?w4 = "final ?get ?w3"
  have w4: "at_sending E h p w = ?w4" by (simp add: at_sending_def before_sending_def)
  have n2: "not_sent i ?w1" "not_sent i ?w2"
    using assms(2) by (simp_all add: not_sent_def limit_check_db GetNotificationRecipient_final)
  have n3: "not_sent i ?w3" by (rule keepsD [OF not_sent_rules(1) n2(2)])
  then have n4: "not_sent i ?w4" by (simp add: not_sent_def GetActiveProviderCredential_final)
  have f4: "not_sent i (final (failRecipient ?i c m) ?w4)" for c m
    by (rule keepsD [OF not_sent_rules(2) n4])
  from assms(3) n2 n3 have sent: "\<not> not_sent i (final (send_with_credential E h ctx p) ?w3)"
    and run: "final (HandleSend E h ctx p) w = final (send_with_credential E h ctx p) ?w3"
    by (auto simp: HandleSend_def attempt_simps split: sum.splits prod.splits if_splits)
  obtain c where c: "value_of ?get ?w3 = Inr c"
    using sent f4 by (cases "value_of ?get ?w3") (auto simp: send_with_credential_def)
  have row: "c \<in> set (credentials (w_db w))" "same_provider (sp_ProjectID p) (sp_ProviderType p) environment c" "c_IsActive c"
    using GetActiveProviderCredential_row [OF c]
    by (simp_all add: MarkRecipientSending_credentials limit_check_db GetNotificationRecipient_final)
  obtain cred where cred: "Open E (h_Crypto h) (c_WrappedDek c) (c_Credential c) = Inr cred"
    using sent f4 c
    by (cases "Open E (h_Crypto h) (c_WrappedDek c) (c_Credential c)") (auto simp: send_with_credential_def)
  obtain a where a: "h_Get h (sp_ProviderType p) = Some a"
    using sent f4 c cred by (cases "h_Get h (sp_ProviderType p)") (auto simp: send_with_credential_def)
  obtain result sendErr where val: "value_of (a_Send a cred (send_request p)) ?w4 = (result, sendErr)"
    by (cases "value_of (a_Send a cred (send_request p)) ?w4")
  have fin: "final (send_with_credential E h ctx p) ?w3 =
      final (record_outcome ctx p result sendErr) (final (a_Send a cred (send_request p)) ?w4)"
    using c cred a val by (simp add: send_with_credential_def)
  have contract: "push_adapter (a_Send a)" using assms(1) a by (rule adapter_send)
  have "w_db (final (a_Send a cred (send_request p)) ?w4) = w_db ?w4"
    by (rule store_sideD(1)) (rule push_adapter.sends_quietly [OF contract])
  then have "not_sent i (final (a_Send a cred (send_request p)) ?w4)"
    using n4 by (simp add: not_sent_def)
  from record_outcome_sent [OF this sent [unfolded fin]] obtain r where
    r: "sr_Status result = StatusSent" "r_ProviderMessageID r = TextFrom (sr_ProviderMessageID result)" "i = ?i"
      "find (\<lambda>r. r_ID r = i) (recipients (w_db (final (HandleSend E h ctx p) w))) = Some r"
    by (auto simp: run fin)
  with push_adapter.sent_clean [OF contract val] have "sendErr = None" by simp
  with a c cred val row r show ?thesis
    unfolding w4 by (auto simp: run fin record_outcome_wire)
qed

end
