(* ===== verification/FanoutFacts.thy ===== *)
theory FanoutFacts imports SendFacts begin

text \<open>
  The fanout of a notification: the audience a spec names, and what a successful run of
  \<open>HandleFanout\<close> leaves in the database and in the send queues.
\<close>

section \<open>The audience\<close>

text \<open>The specification: the devices a target spec names in a project.\<close>

definition targeted :: "tables \<Rightarrow> uuid \<Rightarrow> Spec \<Rightarrow> device_row set" where
  "targeted t pid spec =
     (if t_DeviceIDs spec \<noteq> []
      then {d \<in> set (devices t). d_ProjectID d = pid \<and> d_ID d \<in> set (t_DeviceIDs spec)}
      else {d \<in> set (devices t). \<exists>s \<in> set (subscribers t). active_under pid (t_ExternalUserIDs spec) s d})"

lemma Resolve_targeted:
  assumes "wf_db (w_db w)" and "value_of (Registry_Resolve targeting_registry pid spec) w = Inr ids"
  shows "{d \<in> set (devices (w_db w)). d_ProjectID d = pid \<and> d_ID d \<in> set ids} = targeted (w_db w) pid spec"
    and "ids = [] \<longleftrightarrow> targeted (w_db w) pid spec = {}"
proof -
  let ?D = "set (devices (w_db w))"
  have ids: "set ids = d_ID ` targeted (w_db w) pid spec"
  proof (cases "t_DeviceIDs spec = []")
    case True
    with assms(2) have "value_of (ByGroup_Resolve GetActiveDevicesBySubscriberExternalIDs pid spec) w = Inr ids"
      by (auto simp: Registry_Resolve_def targeting_registry_def NewRegistry_def split: if_splits)
    from store.group_resolves [OF this] True show ?thesis by (auto simp: targeted_def)
  next
    case False
    with assms(2) have "value_of (ByExplicitTargets_Resolve GetDevicesByIDs pid spec) w = Inr ids"
      by (auto simp: Registry_Resolve_def targeting_registry_def NewRegistry_def split: if_splits)
    from store.explicit_resolves [OF this] False show ?thesis by (auto simp: targeted_def)
  qed
  have in_project: "targeted (w_db w) pid spec \<subseteq> {d \<in> ?D. d_ProjectID d = pid}"
    using store.group_in_project [OF assms(1)] by (auto simp: targeted_def)
  have inj: "inj_on d_ID ?D"
    using assms(1) by (simp add: wf_db_def devices_ok_def distinct_map)
  show "{d \<in> ?D. d_ProjectID d = pid \<and> d_ID d \<in> set ids} = targeted (w_db w) pid spec"
    unfolding ids using in_project inj by (auto dest: inj_onD)
  show "ids = [] \<longleftrightarrow> targeted (w_db w) pid spec = {}" using ids by auto
qed

section \<open>One recipient\<close>

lemma InsertNotificationRecipient_Inr:
  assumes "value_of (InsertNotificationRecipient nid did prov) w = Inr r"
  shows "same_target nid did r"
    and "w_db (final (InsertNotificationRecipient nid did prov) w) = (w_db w)\<lparr>recipients := recipients (w_db w) @ [r]\<rparr>"
  using exec_Inr [OF assms [unfolded InsertNotificationRecipient_def]]
  by (auto simp: InsertNotificationRecipient_def run_stmt_def sql_insertNotificationRecipient_def Let_def
      same_target_def new_recipient_def split: if_splits)

lemma InsertNotificationRecipient_conflict:
  assumes "value_of (InsertNotificationRecipient nid did prov) w = Inl err" and "errors_is err ErrNoRows"
  shows "w_db (final (InsertNotificationRecipient nid did prov) w) = w_db w"
  using assms
  by (auto simp: InsertNotificationRecipient_def exec_value exec_final run_stmt_def
      sql_insertNotificationRecipient_def Let_def split: fault.splits if_splits)

lemma getOrCreateRecipient_Inr:
  assumes "value_of (getOrCreateRecipient nid did prov) w = Inr r"
  shows "\<exists>new. w_db (final (getOrCreateRecipient nid did prov) w) =
      (w_db w)\<lparr>recipients := recipients (w_db w) @ new\<rparr> \<and> set new \<subseteq> {r} \<and>
      r \<in> set (recipients (w_db w) @ new) \<and> same_target nid did r"
proof (cases "value_of (InsertNotificationRecipient nid did prov) w")
  case (Inr q)
  with assms have "q = r" by (simp add: getOrCreateRecipient_def)
  with Inr InsertNotificationRecipient_Inr [OF Inr] show ?thesis
    by (intro exI [of _ "[r]"]) (simp add: getOrCreateRecipient_def)
next
  case (Inl err)
  let ?u = "final (InsertNotificationRecipient nid did prov) w"
  from assms Inl have err: "errors_is err ErrNoRows"
    and get: "value_of (GetRecipientByNotificationAndDevice nid did) ?u = Inr r"
    by (auto simp: getOrCreateRecipient_def split: if_splits)
  with Inl InsertNotificationRecipient_conflict [OF Inl err] GetRecipientByNotificationAndDevice_Inr [OF get]
  show ?thesis
    by (intro exI [of _ "[]"]) (auto simp: getOrCreateRecipient_def frame_simps dest: find_SomeD)
qed

lemma getOrCreateRecipient_enqs [frame_simps]:
  "w_enqs (final (getOrCreateRecipient nid did prov) w) = w_enqs w"
  by (simp add: getOrCreateRecipient_def InsertNotificationRecipient_def
      GetRecipientByNotificationAndDevice_def frame_simps split: sum.split)

section \<open>The loop\<close>

text \<open>The queue has the send task of a recipient: it took it, or already held one of that id.\<close>

definition task_queued :: "enq_call \<Rightarrow> world \<Rightarrow> bool" where
  "task_queued c w \<longleftrightarrow> (\<exists>res. (c, res) \<in> set (w_enqs w) \<and>
     (case res of Enqueued \<Rightarrow> True | EnqueueFailed e \<Rightarrow> errors_is e ErrTaskIDConflict))"

definition served_device ::
  "ext \<Rightarrow> FanoutPayload \<Rightarrow> uuid \<Rightarrow> string \<Rightarrow> string \<Rightarrow> gomap option \<Rightarrow> world \<Rightarrow> device_row \<Rightarrow> bool"
where
  "served_device E p nid title body data w d \<longleftrightarrow>
     (\<exists>r \<in> set (recipients (w_db w)). same_target nid (d_ID d) r \<and>
        task_queued (send_call E (send_payload p title body data r d)) w)"

lemma task_queued_mono: "task_queued c w \<Longrightarrow> set (w_enqs w) \<subseteq> set (w_enqs w') \<Longrightarrow> task_queued c w'"
  by (auto simp: task_queued_def)

lemma served_device_mono:
  assumes "served_device E p nid title body data w d"
    and "set (recipients (w_db w)) \<subseteq> set (recipients (w_db w'))" and "set (w_enqs w) \<subseteq> set (w_enqs w')"
  shows "served_device E p nid title body data w' d"
  using assms unfolding served_device_def by (blast intro: task_queued_mono)

lemma fanout_loop_Inr:
  assumes "value_of (fanout_loop E p nid title body data k ds) w = Inr m"
  shows "\<exists>new. w_db (final (fanout_loop E p nid title body data k ds) w) =
      (w_db w)\<lparr>recipients := recipients (w_db w) @ new\<rparr> \<and>
      (\<forall>r \<in> set new. \<exists>d \<in> set ds. same_target nid (d_ID d) r) \<and>
      set (w_enqs w) \<subseteq> set (w_enqs (final (fanout_loop E p nid title body data k ds) w)) \<and>
      (\<forall>d \<in> set ds. served_device E p nid title body data (final (fanout_loop E p nid title body data k ds) w) d) \<and>
      m = k + length ds"
  using assms
proof (induction ds arbitrary: k w)
  case Nil
  then show ?case by (intro exI [of _ "[]"]) simp
next
  case (Cons d ds)
  let ?get = "getOrCreateRecipient nid (d_ID d) (d_ProviderType d)"
  from Cons.prems obtain r where r: "value_of ?get w = Inr r"
    and fin: "final (fanout_loop E p nid title body data k (d # ds)) w =
      final (fanout_loop E p nid title body data (k + 1) ds)
        (final (EnqueueSend E (send_payload p title body data r d)) (final ?get w))"
    and rest: "value_of (fanout_loop E p nid title body data (k + 1) ds)
        (final (EnqueueSend E (send_payload p title body data r d)) (final ?get w)) = Inr m"
    and ok: "value_of (EnqueueSend E (send_payload p title body data r d)) (final ?get w) = None"
    by (auto simp: attempt_simps split: sum.splits option.splits)
  let ?sp = "send_payload p title body data r d"
  let ?u = "final (EnqueueSend E ?sp) (final ?get w)"
  from getOrCreateRecipient_Inr [OF r] obtain new where new:
    "w_db (final ?get w) = (w_db w)\<lparr>recipients := recipients (w_db w) @ new\<rparr>" "set new \<subseteq> {r}"
    "r \<in> set (recipients (w_db w) @ new)" "same_target nid (d_ID d) r" by blast
  have u_db: "w_db ?u = (w_db w)\<lparr>recipients := recipients (w_db w) @ new\<rparr>"
    by (simp add: EnqueueSend_final new(1))
  have u_enqs: "w_enqs ?u = w_enqs w @ [(send_call E ?sp, w_asynq (final ?get w) (w_enqs w) (send_call E ?sp))]"
    by (simp add: EnqueueSend_final frame_simps)
  have "task_queued (send_call E ?sp) ?u"
    using ok by (auto simp: task_queued_def u_enqs EnqueueSend_value frame_simps split: enq_result.splits if_splits)
  with new(3,4) have served: "served_device E p nid title body data ?u d"
    unfolding served_device_def u_db by auto
  from Cons.IH [OF rest] obtain new' where IH:
    "w_db (final (fanout_loop E p nid title body data (k + 1) ds) ?u) = (w_db ?u)\<lparr>recipients := recipients (w_db ?u) @ new'\<rparr>"
    "\<forall>r \<in> set new'. \<exists>d \<in> set ds. same_target nid (d_ID d) r"
    "set (w_enqs ?u) \<subseteq> set (w_enqs (final (fanout_loop E p nid title body data (k + 1) ds) ?u))"
    "\<forall>d \<in> set ds. served_device E p nid title body data (final (fanout_loop E p nid title body data (k + 1) ds) ?u) d"
    "m = k + 1 + length ds" by blast
  have "served_device E p nid title body data (final (fanout_loop E p nid title body data (k + 1) ds) ?u) d"
    by (rule served_device_mono [OF served]) (use IH(1,3) in auto)
  with IH u_db u_enqs new(2,4) show ?case
    unfolding fin by (intro exI [of _ "new @ new'"]) auto
qed

section \<open>Movement of the database\<close>

lemma getOrCreateRecipient_moves [moves_rules]: "moves db_moves (getOrCreateRecipient nid did prov)"
  unfolding getOrCreateRecipient_def by (auto intro!: moves_rules split: sum.split)

lemma fanout_loop_moves [moves_rules]: "moves db_moves (fanout_loop E p nid title body data k ds)"
  by (induction ds arbitrary: k) (auto intro!: moves_rules split: option.split)

lemma HandleFanout_moves:
  assumes "h_Targeting h = targeting_registry"
  shows "moves db_moves (HandleFanout E h p)"
proof -
  have "moves db_moves (Registry_Resolve targeting_registry pid spec)" for pid spec
    by (rule moves_frame) (rule Resolve_reads)
  then show ?thesis
    unfolding HandleFanout_def assms Let_def by (auto intro!: moves_rules split: sum.split)
qed

section \<open>A successful fanout\<close>

definition text_of :: "string option \<Rightarrow> string" where
  "text_of x = (case x of None \<Rightarrow> [] | Some s \<Rightarrow> s)"

text \<open>The last two statements of a fanout, which write the notification.\<close>

lemma set_row_served:
  assumes "value_of (SetNotificationStatus i st) w = Inr ()"
  shows "w_db (final (SetNotificationStatus i st) w) =
    (w_db w)\<lparr>notifications := upd_where (\<lambda>n. n_ID n = i) (\<lambda>n. n\<lparr>n_Status := st\<rparr>) (notifications (w_db w))\<rparr>"
  using exec_Inr [OF assms [unfolded SetNotificationStatus_def]]
  by (auto simp: SetNotificationStatus_def run_stmt_def sql_setNotificationStatus_def exec_only_def split: if_splits)

lemma set_totals_served:
  assumes "value_of (SetNotificationTotals i tot) w = Inr ()"
  shows "w_db (final (SetNotificationTotals i tot) w) =
    (w_db w)\<lparr>notifications := upd_where (\<lambda>n. n_ID n = i) (\<lambda>n. n\<lparr>n_TotalRecipients := tot\<rparr>) (notifications (w_db w))\<rparr>"
  using exec_Inr [OF assms [unfolded SetNotificationTotals_def]]
  by (auto simp: SetNotificationTotals_def run_stmt_def sql_setNotificationTotals_def exec_only_def)

lemma complete_served:
  assumes "value_of (CompleteNotification i st) w = Inr ()"
  shows "\<exists>now. w_db (final (CompleteNotification i st) w) = (w_db w)\<lparr>notifications :=
    upd_where (\<lambda>n. n_ID n = i) (\<lambda>n. n\<lparr>n_Status := st, n_CompletedAt := Some now\<rparr>) (notifications (w_db w))\<rparr>"
  using exec_Inr [OF assms [unfolded CompleteNotification_def]]
  by (auto simp: CompleteNotification_def run_stmt_def sql_CompleteNotification_def exec_only_def split: if_splits)

lemma upd_row_mem:
  "n \<in> set rows \<Longrightarrow> P n \<Longrightarrow> f n \<in> set (upd_where P f rows)"
  by (auto simp: in_set_upd_where)

text \<open>What a successful run did, by whether the audience was empty.\<close>

lemma HandleFanout_Inr:
  assumes "value_of (HandleFanout E h p) w = Inr ()" and "h_Targeting h = targeting_registry"
    and wf: "wf_db (w_db w)"
  obtains n spec where "n \<in> set (notifications (w_db w))" "n_ID n = fp_NotificationID p"
    "n_ProjectID n = fp_ProjectID p" "unmarshal_targetSpec E (n_TargetSpec n) = Inr spec"
    "targeted (w_db w) (fp_ProjectID p) spec = {}"
    "\<exists>now. w_db (final (HandleFanout E h p) w) = (w_db w)\<lparr>notifications := upd_where (\<lambda>m. n_ID m = n_ID n)
       (\<lambda>n. n\<lparr>n_Status := ''completed'', n_CompletedAt := Some now\<rparr>) (notifications (w_db w))\<rparr>"
  | n spec data devs u where "n \<in> set (notifications (w_db w))" "n_ID n = fp_NotificationID p"
    "n_ProjectID n = fp_ProjectID p" "unmarshal_targetSpec E (n_TargetSpec n) = Inr spec"
    "set devs = targeted (w_db w) (fp_ProjectID p) spec" "distinct devs" "devs \<noteq> []"
    "w_db u = w_db w"
    "value_of (fanout_loop E p (n_ID n) (text_of (n_Title n)) (text_of (n_Body n)) data 0 devs) u = Inr (length devs)"
    "w_db (final (HandleFanout E h p) w) =
      (let t = w_db (final (fanout_loop E p (n_ID n) (text_of (n_Title n)) (text_of (n_Body n)) data 0 devs) u)
       in t\<lparr>notifications := upd_where (\<lambda>m. n_ID m = n_ID n) (\<lambda>n. n\<lparr>n_Status := ''processing''\<rparr>)
          (upd_where (\<lambda>m. n_ID m = n_ID n) (\<lambda>n. n\<lparr>n_TotalRecipients := of_nat (length devs)\<rparr>) (notifications t))\<rparr>)"
    "w_enqs (final (HandleFanout E h p) w) =
      w_enqs (final (fanout_loop E p (n_ID n) (text_of (n_Title n)) (text_of (n_Body n)) data 0 devs) u)"
proof -
  let ?get = "GetNotification (fp_NotificationID p) (fp_ProjectID p)"
  let ?w1 = "final ?get w"
  obtain n where n: "value_of ?get w = Inr n"
    using assms(1) by (cases "value_of ?get w") (auto simp: HandleFanout_def attempt_simps)
  note row = GetNotification_Inr [OF n]
  obtain spec where spec: "unmarshal_targetSpec E (n_TargetSpec n) = Inr spec"
    using assms(1) n by (cases "unmarshal_targetSpec E (n_TargetSpec n)") (auto simp: HandleFanout_def attempt_simps)
  let ?res = "Registry_Resolve targeting_registry (fp_ProjectID p) spec"
  let ?w2 = "final ?res ?w1"
  obtain ids where ids: "value_of ?res ?w1 = Inr ids"
    using assms(1,2) n spec by (cases "value_of ?res ?w1") (auto simp: HandleFanout_def attempt_simps)
  have db1: "w_db ?w1 = w_db w" and db2: "w_db ?w2 = w_db w" by (simp_all add: frame_simps)
  note res = Resolve_targeted [of ?w1, unfolded db1, OF wf ids]
  note run = HandleFanout_def attempt_simps assms(2) n spec ids
  show ?thesis
  proof (cases "ids = []")
    case True
    then have "value_of (CompleteNotification (n_ID n) ''completed'') ?w2 = Inr ()"
      and fin: "final (HandleFanout E h p) w = final (CompleteNotification (n_ID n) ''completed'') ?w2"
      using assms(1) by (simp_all add: run)
    from complete_served [OF this(1)] have "\<exists>now. w_db (final (HandleFanout E h p) w) =
        (w_db w)\<lparr>notifications := upd_where (\<lambda>m. n_ID m = n_ID n)
          (\<lambda>n. n\<lparr>n_Status := ''completed'', n_CompletedAt := Some now\<rparr>) (notifications (w_db w))\<rparr>"
      by (simp add: fin db2)
    with that(1) row spec res True show ?thesis by blast
  next
    case False
    let ?fetch = "GetDevicesByIDs (n_ProjectID n) ids"
    let ?w3 = "final ?fetch ?w2"
    obtain devs where devs: "value_of ?fetch ?w2 = Inr devs"
      using assms(1) False by (cases "value_of ?fetch ?w2") (auto simp: run)
    obtain data where data: "unmarshal_data (n_Data n) = Inr data"
      using assms(1) False devs by (cases "unmarshal_data (n_Data n)") (auto simp: run)
    let ?loop = "fanout_loop E p (n_ID n) (text_of (n_Title n)) (text_of (n_Body n)) data 0 devs"
    note run = run False devs data text_of_def [symmetric] Let_def
    obtain k where k: "value_of ?loop ?w3 = Inr k"
      using assms(1) by (cases "value_of ?loop ?w3") (auto simp: run)
    have "k = length devs" using fanout_loop_Inr [OF k] by auto
    note k = k [unfolded this]
    let ?tot = "SetNotificationTotals (n_ID n) (of_nat (length devs))"
    let ?w4 = "final ?loop ?w3"
    have tot: "value_of ?tot ?w4 = Inr ()"
      using assms(1) by (cases "value_of ?tot ?w4") (auto simp: run k)
    let ?stat = "SetNotificationStatus (n_ID n) ''processing''"
    have stat: "value_of ?stat (final ?tot ?w4) = Inr ()"
      and fin: "final (HandleFanout E h p) w = final ?stat (final ?tot ?w4)"
      using assms(1) by (simp_all add: run k tot)
    have "w_db ?w3 = w_db w" by (simp add: frame_simps)
    moreover have devs_eq: "devs = filter (\<lambda>d. d_ProjectID d = fp_ProjectID p \<and> d_ID d \<in> set ids) (devices (w_db w))"
      using GetDevicesByIDs_Inr [OF devs] row by (simp add: db2)
    then have set_devs: "set devs = targeted (w_db w) (fp_ProjectID p) spec" using res(1) by auto
    moreover have "distinct devs"
      using wf by (auto simp: devs_eq wf_db_def devices_ok_def distinct_map)
    moreover have "devs \<noteq> []" using set_devs res(2) False by auto
    moreover have "w_db (final (HandleFanout E h p) w) = (let t = w_db ?w4
       in t\<lparr>notifications := upd_where (\<lambda>m. n_ID m = n_ID n) (\<lambda>n. n\<lparr>n_Status := ''processing''\<rparr>)
          (upd_where (\<lambda>m. n_ID m = n_ID n) (\<lambda>n. n\<lparr>n_TotalRecipients := of_nat (length devs)\<rparr>) (notifications t))\<rparr>)"
      by (simp add: fin set_row_served [OF stat] set_totals_served [OF tot] Let_def)
    moreover have "w_enqs (final (HandleFanout E h p) w) = w_enqs ?w4"
      by (simp add: fin SetNotificationStatus_def SetNotificationTotals_def frame_simps)
    ultimately show ?thesis using that(2) [of n spec devs ?w3 data] row spec k by blast
  qed
qed

section \<open>Properties\<close>

text \<open>
  C6. A successful fanout reaches exactly its audience. In a well-formed database, the
  notification's spec names a set of devices of its project; afterwards each of them has a
  recipient of the notification whose send task is in its provider's queue, every new
  recipient belongs to one of them, and the notification is processing with their number as
  its total, or completed if there are none.
\<close>

theorem HandleFanout_ok:
  assumes wf: "wf_db (w_db w)" and h: "h_Targeting h = targeting_registry"
    and ok: "value_of (HandleFanout E h p) w = Inr ()"
  shows "\<exists>n spec data. let w' = final (HandleFanout E h p) w;
      audience = targeted (w_db w) (fp_ProjectID p) spec in
    n \<in> set (notifications (w_db w)) \<and> n_ID n = fp_NotificationID p \<and> n_ProjectID n = fp_ProjectID p \<and>
    unmarshal_targetSpec E (n_TargetSpec n) = Inr spec \<and>
    (\<forall>d \<in> audience. served_device E p (n_ID n) (text_of (n_Title n)) (text_of (n_Body n)) data w' d) \<and>
    (\<forall>r \<in> set (recipients (w_db w')) - set (recipients (w_db w)). \<exists>d \<in> audience. same_target (n_ID n) (d_ID d) r) \<and>
    (\<exists>n' \<in> set (notifications (w_db w')). n_ID n' = n_ID n \<and>
      (if audience = {} then n_Status n' = ''completed''
       else n_Status n' = ''processing'' \<and> n_TotalRecipients n' = of_nat (card audience)))"
proof (rule HandleFanout_Inr [OF ok h wf], goal_cases)
  case (1 n spec)
  then obtain now where db: "w_db (final (HandleFanout E h p) w) = (w_db w)\<lparr>notifications :=
      upd_where (\<lambda>m. n_ID m = n_ID n) (\<lambda>n. n\<lparr>n_Status := ''completed'', n_CompletedAt := Some now\<rparr>)
        (notifications (w_db w))\<rparr>" by blast
  from 1 show ?case
    by (intro exI [of _ n] exI [of _ spec])
      (auto simp: Let_def db intro!: bexI [OF _ upd_row_mem [of n]])
next
  case (2 n spec data devs u)
  let ?loop = "fanout_loop E p (n_ID n) (text_of (n_Title n)) (text_of (n_Body n)) data 0 devs"
  let ?w' = "final (HandleFanout E h p) w"
  from fanout_loop_Inr [OF 2(9)] obtain new where
    new: "w_db (final ?loop u) = (w_db w)\<lparr>recipients := recipients (w_db w) @ new\<rparr>"
      "\<forall>r \<in> set new. \<exists>d \<in> set devs. same_target (n_ID n) (d_ID d) r"
    and served: "\<forall>d \<in> set devs. served_device E p (n_ID n) (text_of (n_Title n)) (text_of (n_Body n)) data (final ?loop u) d"
    by (auto simp: 2(8))
  have recips: "recipients (w_db ?w') = recipients (w_db (final ?loop u))" by (simp add: 2(10) Let_def)
  have "\<forall>d \<in> set devs. served_device E p (n_ID n) (text_of (n_Title n)) (text_of (n_Body n)) data ?w' d"
    using served by (auto intro: served_device_mono simp: recips 2(11))
  moreover have "\<forall>r \<in> set (recipients (w_db ?w')) - set (recipients (w_db w)).
      \<exists>d \<in> set devs. same_target (n_ID n) (d_ID d) r"
    using new by (auto simp: recips)
  moreover have "\<exists>n' \<in> set (notifications (w_db ?w')). n_ID n' = n_ID n \<and>
      n_Status n' = ''processing'' \<and> n_TotalRecipients n' = of_nat (length devs)"
    using 2(1) new(1) by (auto simp: 2(10) Let_def intro!: bexI [OF _ upd_row_mem [OF upd_row_mem [of n]]])
  moreover have "card (set devs) = length devs" using 2(6) by (rule distinct_card)
  ultimately show ?case
    using 2(1-7) by (intro exI [of _ n] exI [of _ spec] exI [of _ data]) (auto simp: Let_def)
qed

definition sample_notification :: notification_row where
  "sample_notification = \<lparr>n_ID = 9, n_ProjectID = 1, n_IdempotencyKey = None, n_Title = Some ''hi'', n_Body = None,
     n_Data = JNull, n_TargetSpec = marshal_targetSpec sample_ext (Some [7]) None, n_Status = ''pending'',
     n_TotalRecipients = 0, n_CreatedAt = 0, n_CompletedAt = None\<rparr>"

definition fanout_world :: world where
  "fanout_world = sample_world\<lparr>w_db := sample_db\<lparr>notifications := [sample_notification]\<rparr>\<rparr>"

lemma wf_fanout_world: "wf_db (w_db fanout_world)"
  using wf_sample_db
  by (simp add: fanout_world_def sample_notification_def wf_db_def notifications_ok_def recipients_ok_def
      devices_ok_def subscribers_ok_def sample_db_def empty_db_def sample_project_def project_exists_def
      subscriber_exists_def check_lists accounts_ok_def)

lemma fanout_world_runs: "value_of (HandleFanout sample_ext sample_handlers
    \<lparr>fp_NotificationID = 9, fp_ProjectID = 1\<rparr>) fanout_world = Inr ()"
proof -
  have spec: "unmarshal_targetSpec sample_ext (n_TargetSpec sample_notification) =
      Inr \<lparr>t_DeviceIDs = [7], t_ExternalUserIDs = []\<rparr>"
    by (simp add: sample_notification_def unmarshal_targetSpec_def marshal_targetSpec_def field_decoding
        marshal_slice_def uuid_codec_sample [unfolded uuid_codec_def, THEN spec])
  have n: "n_ID sample_notification = 9" "n_ProjectID sample_notification = 1"
    "n_Data sample_notification = JNull" by (simp_all add: sample_notification_def)
  show ?thesis
    by (simp add: HandleFanout_def attempt_simps GetNotification_def sql_getNotification_def exec_value
        exec_final next_env_def run_stmt_def fanout_world_def sample_defs n spec sample_handlers_def
        Registry_Resolve_def targeting_registry_def NewRegistry_def ByExplicitTargets_Resolve_def
        GetDevicesByIDs_def sql_getDevicesByIDs_def unmarshal_data_def Let_def getOrCreateRecipient_def
        InsertNotificationRecipient_def sql_insertNotificationRecipient_def notification_exists_def
        device_exists_def EnqueueSend_value EnqueueSend_final SetNotificationTotals_def
        sql_setNotificationTotals_def SetNotificationStatus_def sql_setNotificationStatus_def exec_only_def)
qed

theorem HandleFanout_ok_witness:
  "\<exists>n' \<in> set (notifications (w_db (final (HandleFanout sample_ext sample_handlers
     \<lparr>fp_NotificationID = 9, fp_ProjectID = 1\<rparr>) fanout_world))). n_ID n' = 9"
proof -
  have "h_Targeting sample_handlers = targeting_registry" by (simp add: sample_handlers_def)
  from HandleFanout_ok [OF wf_fanout_world this fanout_world_runs] show ?thesis
    by (auto simp: Let_def)
qed

text \<open>
  A notification whose stored target cannot be parsed is marked failed, but the error is
  an ordinary one: it counts as a failure and asynq retries the task, although its text
  says that it is not retryable.
\<close>

theorem HandleFanout_malformed:
  assumes "healthy w" and "value_of (GetNotification (fp_NotificationID p) (fp_ProjectID p)) w = Inr n"
    and "unmarshal_targetSpec E (n_TargetSpec n) = Inl err"
  shows "\<exists>e. value_of (HandleFanout E h p) w = Inl e \<and> \<not> errors_is e ErrSkipRetry \<and> IsFailure e \<and>
    (\<forall>m \<in> set (notifications (w_db (final (HandleFanout E h p) w))). n_ID m = n_ID n \<longrightarrow> n_Status m = ''failed'')"
proof -
  let ?u = "final (GetNotification (fp_NotificationID p) (fp_ProjectID p)) w"
  let ?set = "SetNotificationStatus (n_ID n) ''failed''"
  have "healthy ?u"
    using assms(1) by (simp add: GetNotification_def sql_getNotification_def exec_reads_final)
  then have "value_of ?set ?u = Inr ()"
    by (simp add: SetNotificationStatus_def healthy_exec run_stmt_def sql_setNotificationStatus_def exec_only_def)
  note db = set_row_served [OF this]
  have "value_of (HandleFanout E h p) w = Inl (errorf ''invalid target_spec (not retryable): '' err)"
    and "final (HandleFanout E h p) w = final ?set ?u"
    using assms(2,3) by (simp_all add: HandleFanout_def attempt_simps)
  moreover have "err = json_error"
    using assms(3) by (auto simp: unmarshal_targetSpec_def from_option_def split: option.splits)
  ultimately show ?thesis
    using db by (auto simp: IsFailure_def in_set_upd_where json_error_def)
qed

theorem HandleFanout_malformed_witness:
  "\<exists>e. value_of (HandleFanout sample_ext sample_handlers \<lparr>fp_NotificationID = 9, fp_ProjectID = 1\<rparr>)
     (sample_world\<lparr>w_db := empty_db\<lparr>notifications := [sample_notification\<lparr>n_TargetSpec := JBool True\<rparr>]\<rparr>\<rparr>) = Inl e \<and>
     \<not> errors_is e ErrSkipRetry \<and> IsFailure e"
proof -
  let ?n = "sample_notification\<lparr>n_TargetSpec := JBool True\<rparr>"
  let ?w = "sample_world\<lparr>w_db := empty_db\<lparr>notifications := [?n]\<rparr>\<rparr>"
  let ?p = "\<lparr>fp_NotificationID = 9, fp_ProjectID = 1\<rparr>"
  have "healthy ?w" by (simp add: healthy_def sample_world_def)
  moreover have "value_of (GetNotification (fp_NotificationID ?p) (fp_ProjectID ?p)) ?w = Inr ?n"
    by (simp add: GetNotification_def sql_getNotification_def exec_value next_env_def sample_world_def
        sample_notification_def)
  moreover have "unmarshal_targetSpec sample_ext (n_TargetSpec ?n) = Inl json_error"
    by (simp add: unmarshal_targetSpec_def)
  ultimately show ?thesis
    using HandleFanout_malformed [of ?w ?p ?n sample_ext json_error sample_handlers] by auto
qed

end
