(* ===== verification/Expo.thy ===== *)
theory Expo imports Provider begin

text \<open>
  \<open>internal/provider/expo/expo.go\<close>: one push through Expo's HTTP API and the reading of its
  ticket.
\<close>

section \<open>The wire format\<close>

definition expo_message :: "SendRequest \<Rightarrow> json" where
  "expo_message req = JObj ([(''to'', JStr (sq_Token req))] @ omit_empty ''title'' (sq_Title req) @
     omit_empty ''body'' (sq_Body req) @ omit_map ''data'' (sq_Data req))"

record ticket =
  tk_Status :: string
  tk_ID :: string
  tk_Message :: string
  tk_Error :: string

definition decode_ticket :: "json \<Rightarrow> ticket option" where
  "decode_ticket j = do {
     kvs \<leftarrow> members j;
     status \<leftarrow> string_field ''status'' kvs;
     i \<leftarrow> string_field ''id'' kvs;
     msg \<leftarrow> string_field ''message'' kvs;
     details \<leftarrow> struct_field ''details'' kvs;
     err \<leftarrow> string_field ''error'' details;
     Some \<lparr>tk_Status = status, tk_ID = i, tk_Message = msg, tk_Error = err\<rparr> }"

text \<open>An entry of \<open>errors\<close>: its message (the code is decoded and not used).\<close>

definition decode_request_error :: "json \<Rightarrow> string option" where
  "decode_request_error j = do {
     kvs \<leftarrow> members j;
     _ \<leftarrow> string_field ''code'' kvs;
     string_field ''message'' kvs }"

record expo_response =
  er_Data :: "ticket list"
  er_Errors :: "string list"

definition decode_expo_response :: "(string \<times> json) list \<Rightarrow> expo_response option" where
  "decode_expo_response kvs = do {
     data \<leftarrow> scan_slice decode_ticket None (jfields ''data'' kvs);
     errs \<leftarrow> scan_slice decode_request_error None (jfields ''errors'' kvs);
     Some \<lparr>er_Data = elems data, er_Errors = elems errs\<rparr> }"

section \<open>Classification\<close>

definition expo_classifyTicket :: "ticket \<Rightarrow> SendResult" where
  "expo_classifyTicket t =
     (if tk_Status t = ''ok''
      then no_result\<lparr>sr_ProviderMessageID := tk_ID t, sr_Status := StatusSent\<rparr>
      else if tk_Status t = ''error''
      then no_result\<lparr>sr_Err := Some (ErrText (''expo: '' @ tk_Message t @ '' ('' @ tk_Error t @ '')'')),
        sr_Status := (if tk_Error t = ''DeviceNotRegistered'' then StatusInvalidToken
                      else if tk_Error t = ''MessageRateExceeded'' then StatusThrottled
                      else StatusTransientError)\<rparr>
      else no_result\<lparr>sr_Status := StatusTransientError,
        sr_Err := Some (ErrText (''expo: unknown ticket status '' @ go_quote (tk_Status t)))\<rparr>)"

definition expo_read :: "http_resp \<Rightarrow> SendResult \<times> goerr option" where
  "expo_read resp =
     (if hs_StatusCode resp = 429
      then (no_result\<lparr>sr_Status := StatusThrottled, sr_RetryAfter := retry_after resp,
              sr_Err := Some (ErrText (''expo: rate limited: '' @ hs_Body resp))\<rparr>, None)
      else if hs_StatusCode resp \<noteq> 200
      then (no_result\<lparr>sr_Status := StatusTransientError,
              sr_Err := Some (ErrText (''expo: unexpected status '' @ Itoa (hs_StatusCode resp) @ '': '' @ hs_Body resp))\<rparr>, None)
      else case decode_json decode_expo_response (hs_Body resp) of
        Inl err \<Rightarrow> (no_result, Some (errorf ''expo: parse response: '' err))
      | Inr parsed \<Rightarrow>
          (case er_Errors parsed of
             msg # _ \<Rightarrow> (no_result\<lparr>sr_Status := StatusTransientError,
                 sr_Err := Some (ErrText (''expo: request-level error: '' @ msg))\<rparr>, None)
           | [] \<Rightarrow> (case er_Data parsed of
                 [] \<Rightarrow> (no_result, Some (ErrText ''expo: empty response data''))
               | t # _ \<Rightarrow> (expo_classifyTicket t, None))))"

section \<open>The adapter\<close>

definition expo_request :: "string \<Rightarrow> SendRequest \<Rightarrow> http_req" where
  "expo_request credential req =
     (let accessToken = (if credential = [] then [] else lenient_string ''access_token'' (lenient_json credential))
      in \<lparr>hr_Method = ''POST'', hr_URL = ''https://exp.host/--/api/v2/push/send'',
          hr_Headers = [(''Content-Type'', ''application/json''), (''Accept'', ''application/json'')] @
            (if accessToken \<noteq> [] then [(''Authorization'', ''Bearer '' @ accessToken)] else []),
          hr_Body = json_Marshal (JArr [expo_message req])\<rparr>)"

definition expo_Send :: "send_fn" where
  "expo_Send credential req = do {
     r \<leftarrow> http_Do (expo_request credential req);
     case r of
       Inl err \<Rightarrow> ret (no_result\<lparr>sr_Status := StatusTransientError\<rparr>, Some err)
     | Inr resp \<Rightarrow> ret (expo_read resp) }"

definition expo_adapter :: "Adapter" where
  "expo_adapter = \<lparr>a_Name = ''expo'', a_Send = expo_Send, a_TestCredential = None\<rparr>"

section \<open>The contract\<close>

lemma no_result_simps [simp]:
  "sr_Status no_result = StatusUnknown" "sr_Err no_result = None" "sr_RetryAfter no_result = 0"
  "sr_ProviderMessageID no_result = []"
  by (simp_all add: no_result_def)

lemma expo_read_clean:
  assumes "expo_read resp = (result, sendErr)"
  shows "sr_Status result = StatusSent \<longleftrightarrow> sendErr = None \<and> sr_Err result = None"
  using assms
  by (auto simp: expo_read_def expo_classifyTicket_def split: if_splits sum.splits list.splits)

interpretation expo: push_adapter expo_Send
proof
  fix cred req w result sendErr
  show "store_side (final (expo_Send cred req) w) = store_side w"
    by (simp add: expo_Send_def frame_simps split: sum.split)
  assume "value_of (expo_Send cred req) w = (result, sendErr)"
  then show "sr_Status result = StatusSent \<longleftrightarrow> sendErr = None \<and> sr_Err result = None"
    using expo_read_clean by (auto simp: expo_Send_def split: sum.splits)
qed

text \<open>Exactly one request leaves, whatever happens.\<close>

lemma expo_Send_wire: "w_https (final (expo_Send cred req) w) = w_https w @ [expo_request cred req]"
  by (simp add: expo_Send_def http_Do_def split: sum.split)

section \<open>Properties\<close>

text \<open>
  Expo's outcome is read from the ticket as documented: the push is reported sent only on
  a 200 answer without request errors whose first ticket is ok (with the ticket's id), and
  the token is reported invalid only on a ticket saying \<open>DeviceNotRegistered\<close>.
\<close>

theorem expo_read_sound:
  "let result = fst (expo_read resp) in
    (sr_Status result = StatusSent \<longleftrightarrow>
      (\<exists>t ts. hs_StatusCode resp = 200 \<and>
        decode_json decode_expo_response (hs_Body resp) = Inr \<lparr>er_Data = t # ts, er_Errors = []\<rparr> \<and>
        tk_Status t = ''ok'' \<and> sr_ProviderMessageID result = tk_ID t)) \<and>
    (sr_Status result = StatusInvalidToken \<longleftrightarrow>
      (\<exists>t ts. hs_StatusCode resp = 200 \<and>
        decode_json decode_expo_response (hs_Body resp) = Inr \<lparr>er_Data = t # ts, er_Errors = []\<rparr> \<and>
        tk_Status t = ''error'' \<and> tk_Error t = ''DeviceNotRegistered''))"
proof (cases "hs_StatusCode resp = 200")
  case False
  then show ?thesis by (auto simp: Let_def expo_read_def)
next
  case True
  show ?thesis
  proof (cases "decode_json decode_expo_response (hs_Body resp)")
    case (Inl err)
    with True show ?thesis by (auto simp: Let_def expo_read_def)
  next
    case (Inr parsed)
    with True show ?thesis
      by (cases parsed; cases "er_Errors parsed"; cases "er_Data parsed")
        (auto simp: Let_def expo_read_def expo_classifyTicket_def split: if_splits)
  qed
qed

end
