(* ===== verification/Fcm.thy ===== *)
theory Fcm imports Provider begin

text \<open>
  \<open>internal/provider/fcm/fcm.go\<close>: Firebase Cloud Messaging. The adapter caches one OAuth2
  token source per credential, keyed by its hash (\<open>w_fcm_sources\<close>); the source itself is
  third-party code.
\<close>

definition fcm_project :: "(string \<times> json) list \<Rightarrow> string option" where
  "fcm_project kvs = string_field ''project_id'' kvs"

text \<open>\<open>json.Unmarshal(credential, &cred)\<close>, then the check on \<open>cred.ProjectID\<close>.\<close>

definition fcm_credential :: "string \<Rightarrow> goerr option + string" where
  "fcm_credential credential = (case decode_json fcm_project credential of
      Inl err \<Rightarrow> Inl (Some err)
    | Inr pid \<Rightarrow> if pid = [] then Inl None else Inr pid)"

definition tokenSourceFor :: "ext \<Rightarrow> string \<Rightarrow> (world, goerr + string) state" where
  "tokenSourceFor E credential = State (\<lambda>w.
     let key = sha256_Sum256 E credential in
     (case w_fcm_sources w key of
        Some ts \<Rightarrow> (Inr ts, w)
      | None \<Rightarrow> (case jwt_Config E credential of
          Inl err \<Rightarrow> (Inl (errorf ''parse fcm service account: '' err), w)
        | Inr ts \<Rightarrow> (Inr ts, w\<lparr>w_fcm_sources := (w_fcm_sources w)(key \<mapsto> ts)\<rparr>))))"

definition fcm_invalid :: "goerr option \<Rightarrow> goerr" where
  "fcm_invalid err = errorf_nil ''fcm: invalid service account credential: '' err"

definition fcm_TestCredential :: "ext \<Rightarrow> string \<Rightarrow> (world, goerr option) state" where
  "fcm_TestCredential E credential = (case fcm_credential credential of
      Inl err \<Rightarrow> ret (Some (fcm_invalid err))
    | Inr pid \<Rightarrow> do {
        ts \<leftarrow> tokenSourceFor E credential;
        case ts of
          Inl err \<Rightarrow> ret (Some err)
        | Inr cfg \<Rightarrow> do {
            tok \<leftarrow> oauth_Token cfg;
            case tok of
              Inl err \<Rightarrow> ret (Some (errorf ''fcm: fetch oauth2 token: '' err))
            | Inr _ \<Rightarrow> ret None } })"

text \<open>FCM's data payload is a map of strings: strings as they are, the rest as JSON.\<close>

definition fcm_stringify :: "json \<Rightarrow> string" where
  "fcm_stringify v = (case v of JStr s \<Rightarrow> s | _ \<Rightarrow> json_Marshal v)"

definition fcm_stringifyData :: "gomap option \<Rightarrow> (string \<times> string) list" where
  "fcm_stringifyData data = map (\<lambda>(k, v). (k, fcm_stringify v)) (elems data)"

definition fcm_message :: "SendRequest \<Rightarrow> json" where
  "fcm_message req = JObj [(''message'', JObj (
     [(''token'', JStr (sq_Token req))] @
     (if sq_Title req \<noteq> [] \<or> sq_Body req \<noteq> []
      then [(''notification'', JObj (omit_empty ''title'' (sq_Title req) @ omit_empty ''body'' (sq_Body req)))]
      else []) @
     (if fcm_stringifyData (sq_Data req) = [] then []
      else [(''data'', JObj (map (\<lambda>(k, s). (k, JStr s)) (fcm_stringifyData (sq_Data req))))])))]"

section \<open>Classification\<close>

definition decode_fcmSuccessResponse :: "(string \<times> json) list \<Rightarrow> string option" where
  "decode_fcmSuccessResponse kvs = string_field ''name'' kvs"

text \<open>
  What the code reads of an error: its message, its status and the error code of each detail. The
  decoding error is ignored, so a field of the wrong type is left empty.
\<close>

record fcmErrorResponse =
  fe_Message :: string
  fe_Status :: string
  fe_ErrorCodes :: "string list"

definition decode_fcmErrorResponse :: "string \<Rightarrow> fcmErrorResponse" where
  "decode_fcmErrorResponse body =
     (let errs = lenient_struct ''error'' (lenient_json body)
      in \<lparr>fe_Message = lenient_string ''message'' errs, fe_Status = lenient_string ''status'' errs,
          fe_ErrorCodes = map (\<lambda>d. lenient_string ''errorCode'' (lenient_members d)) (lenient_array ''details'' errs)\<rparr>)"

text \<open>The last non-empty error code of the details.\<close>

definition fcm_errorCode :: "fcmErrorResponse \<Rightarrow> string" where
  "fcm_errorCode errResp = fold (\<lambda>c code. if c \<noteq> [] then c else code) (fe_ErrorCodes errResp) []"

definition fcm_retryAfter :: "http_resp \<Rightarrow> duration" where
  "fcm_retryAfter resp =
     (let v = header_get ''Retry-After'' (hs_Headers resp) in
      if v \<noteq> [] then (case Atoi v of Some secs \<Rightarrow> word_of_int secs * one_second | None \<Rightarrow> 0)
      else 0)"

lemma fcm_retryAfter_eq [simp]: "fcm_retryAfter resp = retry_after resp"
  by (simp add: fcm_retryAfter_def retry_after_def)

definition fcm_classifyError :: "http_resp \<Rightarrow> SendResult" where
  "fcm_classifyError resp =
     (let errResp = decode_fcmErrorResponse (hs_Body resp);
          errorCode = fcm_errorCode errResp;
          result = no_result\<lparr>sr_Err := Some (ErrText (''fcm: '' @ Itoa (hs_StatusCode resp) @ '' '' @
            fe_Status errResp @ '': '' @ fe_Message errResp))\<rparr>
      in if hs_StatusCode resp = 429
         then result\<lparr>sr_Status := StatusThrottled, sr_RetryAfter := fcm_retryAfter resp\<rparr>
         else if errorCode = ''UNREGISTERED'' \<or> errorCode = ''SENDER_ID_MISMATCH''
         then result\<lparr>sr_Status := StatusInvalidToken\<rparr>
         else if hs_StatusCode resp = 400 \<and> errorCode = ''INVALID_ARGUMENT''
         then result\<lparr>sr_Status := StatusInvalidToken\<rparr>
         else result\<lparr>sr_Status := StatusTransientError\<rparr>)"

definition fcm_read :: "http_resp \<Rightarrow> SendResult \<times> goerr option" where
  "fcm_read resp =
     (if hs_StatusCode resp = 200
      then (case decode_json decode_fcmSuccessResponse (hs_Body resp) of
          Inl err \<Rightarrow> (no_result, Some (errorf ''fcm: parse success response: '' err))
        | Inr name \<Rightarrow> (no_result\<lparr>sr_ProviderMessageID := name, sr_Status := StatusSent\<rparr>, None))
      else (fcm_classifyError resp, None))"

section \<open>The adapter\<close>

definition fcm_request :: "string \<Rightarrow> string \<Rightarrow> SendRequest \<Rightarrow> http_req" where
  "fcm_request pid accessToken req =
     \<lparr>hr_Method = ''POST'',
      hr_URL = ''https://fcm.googleapis.com/v1/projects/'' @ pid @ ''/messages:send'',
      hr_Headers = [(''Content-Type'', ''application/json''), (''Authorization'', ''Bearer '' @ accessToken)],
      hr_Body = json_Marshal (fcm_message req)\<rparr>"

definition fcm_Send :: "ext \<Rightarrow> send_fn" where
  "fcm_Send E credential req = (case fcm_credential credential of
      Inl err \<Rightarrow> ret (no_result, Some (fcm_invalid err))
    | Inr pid \<Rightarrow> do {
        ts \<leftarrow> tokenSourceFor E credential;
        case ts of
          Inl err \<Rightarrow> ret (no_result, Some err)
        | Inr cfg \<Rightarrow> do {
            tok \<leftarrow> oauth_Token cfg;
            case tok of
              Inl err \<Rightarrow> ret (no_result\<lparr>sr_Status := StatusTransientError\<rparr>,
                Some (errorf ''fcm: fetch oauth2 token: '' err))
            | Inr accessToken \<Rightarrow>
                (case url_Parse E (hr_URL (fcm_request pid accessToken req)) of
                   Some err \<Rightarrow> ret (no_result, Some err)
                 | None \<Rightarrow> do {
                     r \<leftarrow> http_Do (fcm_request pid accessToken req);
                     case r of
                       Inl err \<Rightarrow> ret (no_result\<lparr>sr_Status := StatusTransientError\<rparr>, Some err)
                     | Inr resp \<Rightarrow> ret (fcm_read resp) }) } })"

definition fcm_adapter :: "ext \<Rightarrow> Adapter" where
  "fcm_adapter E = \<lparr>a_Name = ''fcm'', a_Send = fcm_Send E, a_TestCredential = Some (fcm_TestCredential E)\<rparr>"

section \<open>The contract\<close>

lemma tokenSourceFor_side [frame_simps]:
  "store_side (final (tokenSourceFor E credential) w) = store_side w"
  "w_https (final (tokenSourceFor E credential) w) = w_https w"
  by (auto simp: tokenSourceFor_def Let_def store_side_def split: option.split sum.split)

lemma fcm_read_clean:
  assumes "fcm_read resp = (result, sendErr)"
  shows "sr_Status result = StatusSent \<longleftrightarrow> sendErr = None \<and> sr_Err result = None"
  using assms
  by (auto simp: fcm_read_def fcm_classifyError_def no_result_def Let_def split: if_splits sum.splits)

interpretation fcm: push_adapter "fcm_Send E" for E
proof
  fix cred req w result sendErr
  show "store_side (final (fcm_Send E cred req) w) = store_side w"
    by (simp add: fcm_Send_def frame_simps split: sum.split option.split)
  assume "value_of (fcm_Send E cred req) w = (result, sendErr)"
  then show "sr_Status result = StatusSent \<longleftrightarrow> sendErr = None \<and> sr_Err result = None"
    using fcm_read_clean
    by (auto simp: fcm_Send_def no_result_def split: sum.splits option.splits)
qed

text \<open>A credential is turned into a token source once: later calls find it in the cache.\<close>

lemma tokenSourceFor_cached:
  assumes "value_of (tokenSourceFor E credential) w = Inr ts"
  shows "w_fcm_sources (final (tokenSourceFor E credential) w) (sha256_Sum256 E credential) = Some ts"
  using assms by (auto simp: tokenSourceFor_def Let_def split: option.splits sum.splits)

section \<open>Properties\<close>

text \<open>
  FCM's answer decides the outcome: sent exactly on a 200 whose body parses (with the
  message name), throttled exactly on a 429, and the token invalid exactly on another
  status whose error code names the token (\<open>INVALID_ARGUMENT\<close> only with a 400).
\<close>

theorem fcm_read_sound:
  "let result = fst (fcm_read resp);
    code = fcm_errorCode (decode_fcmErrorResponse (hs_Body resp)) in
    (sr_Status result = StatusSent \<longleftrightarrow> hs_StatusCode resp = 200 \<and>
      decode_json decode_fcmSuccessResponse (hs_Body resp) = Inr (sr_ProviderMessageID result)) \<and>
    (sr_Status result = StatusThrottled \<longleftrightarrow> hs_StatusCode resp = 429) \<and>
    (sr_Status result = StatusInvalidToken \<longleftrightarrow> hs_StatusCode resp \<notin> {200, 429} \<and>
      (code \<in> {''UNREGISTERED'', ''SENDER_ID_MISMATCH''} \<or> hs_StatusCode resp = 400 \<and> code = ''INVALID_ARGUMENT''))"
  by (auto simp: fcm_read_def fcm_classifyError_def no_result_def Let_def split: sum.split)

end
