(* ===== verification/Hms.thy ===== *)
theory Hms imports Provider begin

text \<open>
  \<open>internal/provider/hms/hms.go\<close>: Huawei Push Kit. The adapter itself caches OAuth2 tokens,
  keyed by the hash of the credential (\<open>w_hms_tokens\<close>), and drops one when the API
  rejects it.
\<close>

section \<open>Credential and token\<close>

record hms_credential =
  hc_AppID :: string
  hc_AppSecret :: string

definition decode_hms_credential :: "(string \<times> json) list \<Rightarrow> hms_credential option" where
  "decode_hms_credential kvs = do {
     app \<leftarrow> string_field ''app_id'' kvs;
     secret \<leftarrow> string_field ''app_secret'' kvs;
     Some \<lparr>hc_AppID = app, hc_AppSecret = secret\<rparr> }"

definition hms_credential_of :: "string \<Rightarrow> goerr option + hms_credential" where
  "hms_credential_of credential = (case decode_json decode_hms_credential credential of
      Inl err \<Rightarrow> Inl (Some err)
    | Inr cred \<Rightarrow> if hc_AppID cred = [] \<or> hc_AppSecret cred = [] then Inl None else Inr cred)"

text \<open>\<open>url.QueryEscape\<close> and \<open>url.Values.Encode\<close> (keys in order).\<close>

definition unreserved :: "char \<Rightarrow> bool" where
  "unreserved c \<longleftrightarrow> b64_val URLAlphabet c \<noteq> None \<or> c = CHR ''.'' \<or> c = CHR ''~''"

definition upper_hex :: "nat \<Rightarrow> char" where
  "upper_hex n = ''0123456789ABCDEF'' ! (n mod 16)"

definition query_escape :: "string \<Rightarrow> string" where
  "query_escape s = concat (map (\<lambda>c.
     if unreserved c then [c] else if c = CHR '' '' then ''+''
     else [CHR ''%'', upper_hex (byte_of c div 16), upper_hex (byte_of c)]) s)"

definition hms_token_request :: "hms_credential \<Rightarrow> http_req" where
  "hms_token_request cred = \<lparr>hr_Method = ''POST'',
     hr_URL = ''https://oauth-login.cloud.huawei.com/oauth2/v3/token'',
     hr_Headers = [(''Content-Type'', ''application/x-www-form-urlencoded'')],
     hr_Body = ''client_id='' @ query_escape (hc_AppID cred) @ ''&client_secret='' @
       query_escape (hc_AppSecret cred) @ ''&grant_type=client_credentials''\<rparr>"

definition decode_hms_token :: "(string \<times> json) list \<Rightarrow> (string \<times> int) option" where
  "decode_hms_token kvs = do {
     tok \<leftarrow> string_field ''access_token'' kvs;
     expires \<leftarrow> int_field ''expires_in'' kvs;
     Some (tok, expires) }"

definition hms_cache :: "string \<Rightarrow> (world, hms_token option) state" where
  "hms_cache key = State (\<lambda>w. (w_hms_tokens w key, w))"

definition hms_store :: "string \<Rightarrow> hms_token option \<Rightarrow> (world, unit) state" where
  "hms_store key t = State (\<lambda>w. ((), w\<lparr>w_hms_tokens := (w_hms_tokens w)(key := t)\<rparr>))"

text \<open>\<open>time.Duration(expires-60) * time.Second\<close>, in 64 bits.\<close>

definition hms_lifetime :: "int \<Rightarrow> int" where
  "hms_lifetime expires = sint (word_of_int (int64 (expires - 60)) * one_second)"

text \<open>Asking the token endpoint, and keeping what it answers.\<close>

definition fetchToken :: "string \<Rightarrow> hms_credential \<Rightarrow> (world, goerr + string) state" where
  "fetchToken key cred = do {
     r \<leftarrow> http_Do (hms_token_request cred);
     case r of
       Inl err \<Rightarrow> ret (Inl (errorf ''hms: fetch oauth2 token: '' err))
     | Inr resp \<Rightarrow>
         if hs_StatusCode resp \<noteq> 200
         then ret (Inl (ErrText (''hms: oauth2 token request failed: '' @ Itoa (hs_StatusCode resp) @ '' '' @ hs_Body resp)))
         else (case decode_json decode_hms_token (hs_Body resp) of
             Inl err \<Rightarrow> ret (Inl (errorf ''hms: parse oauth2 token response: '' err))
           | Inr (tok, expires) \<Rightarrow> do {
               now \<leftarrow> time_Now;
               hms_store key (Some \<lparr>ht_accessToken = tok, ht_expiresAt = now + hms_lifetime expires\<rparr>);
               ret (Inr tok) }) }"

definition accessTokenFor :: "ext \<Rightarrow> string \<Rightarrow> hms_credential \<Rightarrow> (world, goerr + string) state" where
  "accessTokenFor E credential cred = do {
     let key = sha256_Sum256 E credential;
     cached \<leftarrow> hms_cache key;
     case cached of
       None \<Rightarrow> fetchToken key cred
     | Some t \<Rightarrow> do {
         now \<leftarrow> time_Now;
         if now < ht_expiresAt t then ret (Inr (ht_accessToken t)) else fetchToken key cred } }"

definition invalidateToken :: "ext \<Rightarrow> string \<Rightarrow> (world, unit) state" where
  "invalidateToken E credential = hms_store (sha256_Sum256 E credential) None"

definition hms_invalid :: "goerr option \<Rightarrow> goerr" where
  "hms_invalid err = errorf_nil ''hms: invalid credential: '' err"

definition hms_TestCredential :: "ext \<Rightarrow> string \<Rightarrow> (world, goerr option) state" where
  "hms_TestCredential E credential = (case hms_credential_of credential of
      Inl err \<Rightarrow> ret (Some (hms_invalid err))
    | Inr cred \<Rightarrow> do {
        r \<leftarrow> accessTokenFor E credential cred;
        case r of Inl err \<Rightarrow> ret (Some err) | Inr _ \<Rightarrow> ret None })"

section \<open>The push\<close>

definition hms_stringifyData :: "gomap option \<Rightarrow> string" where
  "hms_stringifyData data = (if elems data = [] then [] else json_Marshal (JObj (elems data)))"

definition hms_message :: "SendRequest \<Rightarrow> json" where
  "hms_message req = JObj [(''message'', JObj (
     (if sq_Title req \<noteq> [] \<or> sq_Body req \<noteq> []
      then [(''notification'', JObj (omit_empty ''title'' (sq_Title req) @ omit_empty ''body'' (sq_Body req)))]
      else []) @
     omit_empty ''data'' (hms_stringifyData (sq_Data req)) @
     [(''token'', JArr [JStr (sq_Token req)])]))]"

record hms_response =
  hp_Code :: string
  hp_Msg :: string
  hp_RequestID :: string

definition decode_hms_response :: "(string \<times> json) list \<Rightarrow> hms_response option" where
  "decode_hms_response kvs = do {
     code \<leftarrow> string_field ''code'' kvs;
     msg \<leftarrow> string_field ''msg'' kvs;
     rid \<leftarrow> string_field ''requestId'' kvs;
     Some \<lparr>hp_Code = code, hp_Msg = msg, hp_RequestID = rid\<rparr> }"

definition codeSuccess :: string where "codeSuccess = ''80000000''"
definition codeSomeTokensIllegal :: string where "codeSomeTokensIllegal = ''80100000''"
definition codeOAuthAuthError :: string where "codeOAuthAuthError = ''80200001''"
definition codeOAuthTokenExpired :: string where "codeOAuthTokenExpired = ''80200003''"
definition codeAllTokensUnregistered :: string where "codeAllTokensUnregistered = ''80300007''"
definition codeInternalServerError :: string where "codeInternalServerError = ''81000001''"

lemmas hms_codes [simp] = codeSuccess_def codeSomeTokensIllegal_def codeOAuthAuthError_def
  codeOAuthTokenExpired_def codeAllTokensUnregistered_def codeInternalServerError_def

definition hms_retryAfter :: "http_resp \<Rightarrow> duration" where
  "hms_retryAfter resp =
     (let v = header_get ''Retry-After'' (hs_Headers resp) in
      if v \<noteq> [] then (case Atoi v of Some secs \<Rightarrow> word_of_int secs * one_second | None \<Rightarrow> 0)
      else 0)"

lemma hms_retryAfter_eq [simp]: "hms_retryAfter resp = retry_after resp"
  by (simp add: hms_retryAfter_def retry_after_def)

definition hms_classify :: "ext \<Rightarrow> string \<Rightarrow> hms_response \<Rightarrow> (world, SendResult) state" where
  "hms_classify E credential parsed =
     (let err = ''hms: '' @ hp_Code parsed @ '': '' @ hp_Msg parsed in
      if hp_Code parsed = codeSuccess
      then ret (no_result\<lparr>sr_ProviderMessageID := hp_RequestID parsed, sr_Status := StatusSent\<rparr>)
      else if hp_Code parsed = codeAllTokensUnregistered \<or> hp_Code parsed = codeSomeTokensIllegal
      then ret (no_result\<lparr>sr_Status := StatusInvalidToken, sr_Err := Some (ErrText err)\<rparr>)
      else if hp_Code parsed = codeOAuthAuthError \<or> hp_Code parsed = codeOAuthTokenExpired
      then do {
        invalidateToken E credential;
        ret (no_result\<lparr>sr_Status := StatusTransientError,
          sr_Err := Some (ErrText (err @ '' (token invalidated, will refresh on retry)''))\<rparr>) }
      else if hp_Code parsed = codeInternalServerError
      then ret (no_result\<lparr>sr_Status := StatusTransientError, sr_Err := Some (ErrText err)\<rparr>)
      else ret (no_result\<lparr>sr_Status := StatusTransientError, sr_Err := Some (ErrText err)\<rparr>))"

definition hms_read :: "ext \<Rightarrow> string \<Rightarrow> http_resp \<Rightarrow> (world, SendResult \<times> goerr option) state" where
  "hms_read E credential resp =
     (if hs_StatusCode resp = 429
      then ret (no_result\<lparr>sr_Status := StatusThrottled, sr_RetryAfter := hms_retryAfter resp,
        sr_Err := Some (ErrText (''hms: rate limited: '' @ hs_Body resp))\<rparr>, None)
      else if hs_StatusCode resp \<noteq> 200
      then ret (no_result\<lparr>sr_Status := StatusTransientError, sr_Err := Some (ErrText
        (''hms: unexpected http status '' @ Itoa (hs_StatusCode resp) @ '': '' @ hs_Body resp))\<rparr>, None)
      else (case decode_json decode_hms_response (hs_Body resp) of
          Inl err \<Rightarrow> ret (no_result, Some (errorf ''hms: parse response: '' err))
        | Inr parsed \<Rightarrow> do { result \<leftarrow> hms_classify E credential parsed; ret (result, None) }))"

definition hms_request :: "hms_credential \<Rightarrow> string \<Rightarrow> SendRequest \<Rightarrow> http_req" where
  "hms_request cred token req =
     \<lparr>hr_Method = ''POST'',
      hr_URL = ''https://push-api.cloud.huawei.com/v1/'' @ hc_AppID cred @ ''/messages:send'',
      hr_Headers = [(''Content-Type'', ''application/json''), (''Accept'', ''application/json''),
        (''Authorization'', ''Bearer '' @ token)],
      hr_Body = json_Marshal (hms_message req)\<rparr>"

definition hms_Send :: "ext \<Rightarrow> send_fn" where
  "hms_Send E credential req = (case hms_credential_of credential of
      Inl err \<Rightarrow> ret (no_result, Some (hms_invalid err))
    | Inr cred \<Rightarrow> do {
        tok \<leftarrow> accessTokenFor E credential cred;
        case tok of
          Inl err \<Rightarrow> ret (no_result\<lparr>sr_Status := StatusTransientError\<rparr>, Some err)
        | Inr token \<Rightarrow>
            (case url_Parse E (hr_URL (hms_request cred token req)) of
               Some err \<Rightarrow> ret (no_result, Some err)
             | None \<Rightarrow> do {
                 r \<leftarrow> http_Do (hms_request cred token req);
                 case r of
                   Inl err \<Rightarrow> ret (no_result\<lparr>sr_Status := StatusTransientError\<rparr>, Some err)
                 | Inr resp \<Rightarrow> hms_read E credential resp }) })"

definition hms_adapter :: "ext \<Rightarrow> Adapter" where
  "hms_adapter E = \<lparr>a_Name = ''hms'', a_Send = hms_Send E, a_TestCredential = Some (hms_TestCredential E)\<rparr>"

section \<open>The contract\<close>

lemma hms_side [frame_simps]:
  "store_side (final (hms_cache key) w) = store_side w"
  "store_side (final (hms_store key t) w) = store_side w"
  by (simp_all add: hms_cache_def hms_store_def store_side_def)

lemma fetchToken_side [frame_simps]: "store_side (final (fetchToken key cred) w) = store_side w"
  by (simp add: fetchToken_def frame_simps split: sum.split prod.split)

lemma accessTokenFor_side [frame_simps]: "store_side (final (accessTokenFor E credential cred) w) = store_side w"
  by (simp add: accessTokenFor_def Let_def frame_simps split: option.split)

lemma hms_read_side [frame_simps]: "store_side (final (hms_read E credential resp) w) = store_side w"
  by (simp add: hms_read_def hms_classify_def invalidateToken_def Let_def frame_simps split: sum.split)

lemma hms_read_clean:
  assumes "value_of (hms_read E credential resp) w = (result, sendErr)"
  shows "sr_Status result = StatusSent \<longleftrightarrow> sendErr = None \<and> sr_Err result = None"
  using assms
  by (auto simp: hms_read_def hms_classify_def no_result_def Let_def split: if_splits sum.splits)

interpretation hms: push_adapter "hms_Send E" for E
proof
  fix cred req w result sendErr
  show "store_side (final (hms_Send E cred req) w) = store_side w"
    by (simp add: hms_Send_def frame_simps split: sum.split option.split)
  assume "value_of (hms_Send E cred req) w = (result, sendErr)"
  then show "sr_Status result = StatusSent \<longleftrightarrow> sendErr = None \<and> sr_Err result = None"
    using hms_read_clean [of E cred]
    by (auto simp: hms_Send_def no_result_def split: sum.splits option.splits)
qed

section \<open>Properties\<close>

text \<open>
  A rejected token does not outlive its rejection: when the push API answers a send with
  an authorization error code, the outcome is transient and the cache no longer has a token
  for the credential, so the next \<open>accessTokenFor\<close> asks the token endpoint again.
\<close>

theorem hms_rejected_token_dropped:
  assumes "hs_StatusCode resp = 200" and "decode_json decode_hms_response (hs_Body resp) = Inr parsed"
    and "hp_Code parsed \<in> {''80200001'', ''80200003''}"
  shows "sr_Status (fst (value_of (hms_read E credential resp) w)) = StatusTransientError \<and>
    w_https (final (accessTokenFor E credential cred) (final (hms_read E credential resp) w)) =
      w_https w @ [hms_token_request cred]"
  using assms
  by (auto simp: hms_read_def hms_classify_def invalidateToken_def hms_store_def hms_cache_def
      accessTokenFor_def fetchToken_def http_Do_def time_Now_def Let_def no_result_def
      split: sum.split prod.split)

definition hms_sample_response :: http_resp where
  "hms_sample_response = \<lparr>hs_StatusCode = 200, hs_Headers = [],
     hs_Body = json_Marshal (JObj [(''code'', JStr ''80200003'')])\<rparr>"

theorem hms_rejected_token_dropped_witness:
  "w_https (final (accessTokenFor sample_ext ''c'' \<lparr>hc_AppID = ''a'', hc_AppSecret = ''s''\<rparr>)
     (final (hms_read sample_ext ''c'' hms_sample_response) sample_world)) =
   [hms_token_request \<lparr>hc_AppID = ''a'', hc_AppSecret = ''s''\<rparr>]"
proof -
  have "json_Parse (hs_Body hms_sample_response) = Some (JObj [(''code'', JStr ''80200003'')])"
    unfolding hms_sample_response_def http_resp.simps
    by (rule json_Parse_Marshal) (simp add: json_clean_simps utf8_ascii maxNestingDepth_def)
  then have "decode_json decode_hms_response (hs_Body hms_sample_response) =
      Inr \<lparr>hp_Code = ''80200003'', hp_Msg = [], hp_RequestID = []\<rparr>"
    by (simp add: decode_json_def parse_json_def decode_hms_response_def string_field_def
        jfields_def key_match_def lower_char_def)
  then show ?thesis
    using hms_rejected_token_dropped [of hms_sample_response
        "\<lparr>hp_Code = ''80200003'', hp_Msg = [], hp_RequestID = []\<rparr>" sample_ext "''c''" sample_world
        "\<lparr>hc_AppID = ''a'', hc_AppSecret = ''s''\<rparr>"]
    by (simp add: sample_world_def hms_sample_response_def)
qed

text \<open>A cached token that has not expired is used without asking again.\<close>

lemma accessTokenFor_cached:
  assumes "w_hms_tokens w (sha256_Sum256 E credential) = Some t" and "w_clock w (w_reads w) < ht_expiresAt t"
  shows "value_of (accessTokenFor E credential cred) w = Inr (ht_accessToken t)"
    and "w_https (final (accessTokenFor E credential cred) w) = w_https w"
  using assms by (simp_all add: accessTokenFor_def hms_cache_def time_Now_def Let_def)

end
