(* ===== verification/Apns.thy ===== *)
theory Apns imports Provider begin

text \<open>
  \<open>internal/provider/apns/apns.go\<close>: Apple's service through the third-party client
  \<open>sideshow/apns2\<close>; clients are cached per credential (\<open>w_apns_clients\<close>).
\<close>

section \<open>The client\<close>

record apns_credential =
  aq_AuthType :: string
  aq_Environment :: string
  aq_KeyID :: string
  aq_TeamID :: string
  aq_PrivateKey :: string
  aq_CertPEM :: string
  aq_KeyPEM :: string
  aq_BundleID :: string

definition decode_apns_credential :: "(string \<times> json) list \<Rightarrow> apns_credential option" where
  "decode_apns_credential kvs = do {
     auth \<leftarrow> string_field ''auth_type'' kvs;
     env \<leftarrow> string_field ''environment'' kvs;
     kid \<leftarrow> string_field ''key_id'' kvs;
     team \<leftarrow> string_field ''team_id'' kvs;
     priv \<leftarrow> string_field ''private_key'' kvs;
     cert \<leftarrow> string_field ''cert_pem'' kvs;
     key \<leftarrow> string_field ''key_pem'' kvs;
     bundle \<leftarrow> string_field ''bundle_id'' kvs;
     Some \<lparr>aq_AuthType = auth, aq_Environment = env, aq_KeyID = kid, aq_TeamID = team,
       aq_PrivateKey = priv, aq_CertPEM = cert, aq_KeyPEM = key, aq_BundleID = bundle\<rparr> }"

definition build_client :: "ext \<Rightarrow> apns_credential \<Rightarrow> goerr + apns_client" where
  "build_client E cred =
     (let production = aq_Environment cred \<noteq> ''sandbox'' in
      if aq_AuthType cred = ''cert''
      then (case x509_KeyPair E (aq_CertPEM cred) (aq_KeyPEM cred) of
          Inl err \<Rightarrow> Inl (errorf ''apns: parse cert credential: '' err)
        | Inr pair \<Rightarrow> Inr \<lparr>ac_Key = pair, ac_KeyID = [], ac_TeamID = [], ac_Production = production\<rparr>)
      else (case p8_AuthKey E (aq_PrivateKey cred) of
          Inl err \<Rightarrow> Inl (errorf ''apns: parse .p8 private key: '' err)
        | Inr authKey \<Rightarrow> Inr \<lparr>ac_Key = authKey, ac_KeyID = aq_KeyID cred, ac_TeamID = aq_TeamID cred,
            ac_Production = production\<rparr>))"

definition clientFor :: "ext \<Rightarrow> string \<Rightarrow> (world, goerr + apns_client \<times> string) state" where
  "clientFor E credential = State (\<lambda>w.
     let key = sha256_Sum256 E credential in
     (case w_apns_clients w key of
        Some cc \<Rightarrow> (Inr cc, w)
      | None \<Rightarrow> (case decode_json decode_apns_credential credential of
          Inl err \<Rightarrow> (Inl (errorf ''apns: invalid credential: '' err), w)
        | Inr cred \<Rightarrow>
            if aq_BundleID cred = [] then (Inl (ErrText ''apns: credential missing bundle_id''), w)
            else (case build_client E cred of
                Inl err \<Rightarrow> (Inl err, w)
              | Inr client \<Rightarrow>
                  (Inr (client, aq_BundleID cred),
                   w\<lparr>w_apns_clients := (w_apns_clients w)(key \<mapsto> (client, aq_BundleID cred))\<rparr>)))))"

definition apns_TestCredential :: "ext \<Rightarrow> string \<Rightarrow> (world, goerr option) state" where
  "apns_TestCredential E credential = do {
     r \<leftarrow> clientFor E credential;
     case r of Inl err \<Rightarrow> ret (Some err) | Inr _ \<Rightarrow> ret None }"

section \<open>The push\<close>

text \<open>
  The payload starts as \<open>{"aps": {"alert": ...}}\<close>; every entry of the custom data is then
  stored into it under its own key.
\<close>

definition apns_payload :: "SendRequest \<Rightarrow> gomap" where
  "apns_payload req =
     (let aps = JObj [(''alert'', JObj [(''body'', JStr (sq_Body req)), (''title'', JStr (sq_Title req))])]
      in fold (\<lambda>(k, v) payload. map_put k v payload) (elems (sq_Data req)) [(''aps'', aps)])"

definition apns_classifyResponse :: "apns_resp \<Rightarrow> SendResult" where
  "apns_classifyResponse resp =
     (if ar_StatusCode resp = 200
      then no_result\<lparr>sr_ProviderMessageID := ar_ApnsID resp, sr_Status := StatusSent\<rparr>
      else no_result\<lparr>sr_Err := Some (ErrText (''apns: '' @ Itoa (ar_StatusCode resp) @ '' '' @ ar_Reason resp)),
        sr_Status := (if ar_Reason resp \<in> {''BadDeviceToken'', ''Unregistered'', ''DeviceTokenNotForTopic''}
                      then StatusInvalidToken
                      else if ar_Reason resp = ''TooManyRequests'' then StatusThrottled
                      else StatusTransientError)\<rparr>)"

definition apns_notification :: "apns_client \<times> string \<Rightarrow> SendRequest \<Rightarrow> apns_push" where
  "apns_notification cc req = \<lparr>ap_Client = fst cc, ap_DeviceToken = sq_Token req, ap_Topic = snd cc,
     ap_Payload = JObj (apns_payload req)\<rparr>"

definition apns_Send :: "ext \<Rightarrow> send_fn" where
  "apns_Send E credential req = do {
     r \<leftarrow> clientFor E credential;
     case r of
       Inl err \<Rightarrow> ret (no_result, Some err)
     | Inr cc \<Rightarrow> do {
         resp \<leftarrow> apns_Push (apns_notification cc req);
         case resp of
           Inl err \<Rightarrow> ret (no_result\<lparr>sr_Status := StatusTransientError\<rparr>, Some (errorf ''apns: push: '' err))
         | Inr resp \<Rightarrow> ret (apns_classifyResponse resp, None) } }"

definition apns_adapter :: "ext \<Rightarrow> Adapter" where
  "apns_adapter E = \<lparr>a_Name = ''apns'', a_Send = apns_Send E, a_TestCredential = Some (apns_TestCredential E)\<rparr>"

section \<open>The contract\<close>

lemma clientFor_side [frame_simps]: "store_side (final (clientFor E credential) w) = store_side w"
  by (auto simp: clientFor_def Let_def store_side_def split: option.split sum.split)

interpretation apns: push_adapter "apns_Send E" for E
proof
  fix cred req w result sendErr
  show "store_side (final (apns_Send E cred req) w) = store_side w"
    by (simp add: apns_Send_def frame_simps split: sum.split)
  assume "value_of (apns_Send E cred req) w = (result, sendErr)"
  then show "sr_Status result = StatusSent \<longleftrightarrow> sendErr = None \<and> sr_Err result = None"
    by (auto simp: apns_Send_def apns_classifyResponse_def no_result_def split: sum.splits if_splits)
qed

section \<open>Properties\<close>

lemma apns_payload_gomap:
  assumes "is_gomap (elems (sq_Data req))"
  shows "is_gomap (apns_payload req)"
    and "map_of (apns_payload req) = [''aps'' \<mapsto> JObj [(''alert'', JObj [(''body'', JStr (sq_Body req)),
      (''title'', JStr (sq_Title req))])]] ++ map_of (rev (elems (sq_Data req)))"
proof -
  have "is_gomap (fold (\<lambda>(k, v) payload. map_put k v payload) kvs m) \<and>
      map_of (fold (\<lambda>(k, v) payload. map_put k v payload) kvs m) = map_of m ++ map_of (rev kvs)"
    if "is_gomap m" for kvs and m :: gomap
    using that
  proof (induction kvs arbitrary: m)
    case (Cons a kvs)
    then show ?case
      by (cases a) (simp add: is_gomap_map_put map_of_map_put map_add_def fun_eq_iff split: option.split)
  qed simp
  from this [of "[(''aps'', JObj [(''alert'', JObj [(''body'', JStr (sq_Body req)), (''title'', JStr (sq_Title req))])])]"]
  show "is_gomap (apns_payload req)"
    "map_of (apns_payload req) = [''aps'' \<mapsto> JObj [(''alert'', JObj [(''body'', JStr (sq_Body req)),
      (''title'', JStr (sq_Title req))])]] ++ map_of (rev (elems (sq_Data req)))"
    by (simp_all add: apns_payload_def Let_def is_gomap_def)
qed

text \<open>
  Custom data sits beside the alert at the top level of an APNs payload: every entry of
  the data is there under its key, and the alert is under \<open>aps\<close> exactly when the data has
  no key \<open>aps\<close> of its own; if it has, the entry replaces the alert.
\<close>

theorem apns_payload_entries:
  assumes "is_gomap (elems (sq_Data req))"
  shows "(\<forall>k. k \<noteq> ''aps'' \<longrightarrow> map_of (apns_payload req) k = map_of (elems (sq_Data req)) k) \<and>
    map_of (apns_payload req) ''aps'' = (case map_of (elems (sq_Data req)) ''aps'' of
      None \<Rightarrow> Some (JObj [(''alert'', JObj [(''body'', JStr (sq_Body req)), (''title'', JStr (sq_Title req))])])
    | Some v \<Rightarrow> Some v)"
proof -
  have "distinct (map fst (elems (sq_Data req)))"
    using assms by (simp add: is_gomap_def strict_sorted_iff)
  then have "map_of (rev (elems (sq_Data req))) = map_of (elems (sq_Data req))"
    by (simp add: map_of_inject_set rev_map [symmetric])
  then show ?thesis
    using apns_payload_gomap(2) [OF assms] by (auto simp: map_add_def split: option.split)
qed

theorem apns_payload_entries_witness:
  "map_of (apns_payload \<lparr>sq_Token = ''t'', sq_Title = ''hi'', sq_Body = [], sq_Data = Some [(''aps'', JNull)]\<rparr>)
     ''aps'' = Some JNull"
  using apns_payload_entries [of "\<lparr>sq_Token = ''t'', sq_Title = ''hi'', sq_Body = [], sq_Data = Some [(''aps'', JNull)]\<rparr>"]
  by (simp add: is_gomap_def)

end
