(* ===== verification/Registered.thy ===== *)
theory Registered imports FanoutFacts Expo Fcm Hms Apns begin

text \<open>
  The registry after the \<open>init\<close> functions of the four provider packages have run, and the
  handlers as \<open>cmd/server\<close> wires them: what was proved under the adapter contract holds for
  the adapters that are registered.
\<close>

definition init_registry :: "ext \<Rightarrow> registry option" where
  "init_registry E =
     Option.bind (Register ''apns'' (apns_adapter E) empty_registry) (\<lambda>r.
     Option.bind (Register ''expo'' expo_adapter r) (\<lambda>r.
     Option.bind (Register ''fcm'' (fcm_adapter E) r) (\<lambda>r.
     Register ''hms'' (hms_adapter E) r)))"

text \<open>A registry some calls of \<open>Get\<close> after start-up.\<close>

definition registry_after :: "ext \<Rightarrow> string list \<Rightarrow> registry" where
  "registry_after E names = fold (\<lambda>name r. snd (Get name r)) names (the (init_registry E))"

definition provider_Get :: "ext \<Rightarrow> string list \<Rightarrow> string \<Rightarrow> Adapter option" where
  "provider_Get E names name = fst (Get name (registry_after E names))"

definition production_handlers :: "ext \<Rightarrow> string list \<Rightarrow> MasterKey \<Rightarrow> int option \<Rightarrow> Handlers" where
  "production_handlers E names mk rps =
     (NewHandlers targeting_registry mk (provider_Get E names))\<lparr>h_OutboundLimiter := rps\<rparr>"

lemma init_registry_Some:
  "\<exists>reg. init_registry E = Some reg \<and> registry_ok reg \<and>
     factories reg = [''apns'' \<mapsto> apns_adapter E, ''expo'' \<mapsto> expo_adapter, ''fcm'' \<mapsto> fcm_adapter E,
       ''hms'' \<mapsto> hms_adapter E]"
  by (simp add: init_registry_def Register_def empty_registry_def registry_ok_def)

lemma registry_after_props:
  "registry_ok (registry_after E names) \<and> factories (registry_after E names) =
     [''apns'' \<mapsto> apns_adapter E, ''expo'' \<mapsto> expo_adapter, ''fcm'' \<mapsto> fcm_adapter E, ''hms'' \<mapsto> hms_adapter E]"
proof -
  have "registry_ok (fold (\<lambda>name r. snd (Get name r)) names r) \<and>
      factories (fold (\<lambda>name r. snd (Get name r)) names r) = factories r" if "registry_ok r" for r
    using that by (induction names arbitrary: r) (simp_all add: registry_ok_Get Get_keeps_factories)
  with init_registry_Some [of E] show ?thesis by (auto simp: registry_after_def)
qed

lemma provider_Get_table:
  "provider_Get E names =
     [''apns'' \<mapsto> apns_adapter E, ''expo'' \<mapsto> expo_adapter, ''fcm'' \<mapsto> fcm_adapter E, ''hms'' \<mapsto> hms_adapter E]"
  using registry_after_props [of E names] by (auto simp: provider_Get_def Get_factory fun_eq_iff)

lemma production_adapters_ok: "adapters_ok (production_handlers E names mk rps)"
  using expo.push_adapter_axioms fcm.push_adapter_axioms hms.push_adapter_axioms apns.push_adapter_axioms
  by (auto simp: adapters_ok_def production_handlers_def provider_Get_table apns_adapter_def
      expo_adapter_def fcm_adapter_def hms_adapter_def split: if_splits)

section \<open>Properties\<close>

text \<open>
  Start-up registers no name twice, and the registered names are exactly those the
  database accepts as a provider type: every device of a well-formed database has its
  adapter, however many lookups came before, and the adapter answers to that name.
\<close>

theorem registry_complete:
  "init_registry E \<noteq> None \<and>
   (\<forall>name. (provider_Get E names name \<noteq> None) = (name \<in> set provider_types)) \<and>
   (\<forall>name. map_option a_Name (provider_Get E names name) \<in> {None, Some name})"
  using init_registry_Some [of E]
  by (auto simp: provider_Get_table provider_types_def apns_adapter_def expo_adapter_def fcm_adapter_def
      hms_adapter_def)

text \<open>
  C1. No recipient becomes sent unless its provider accepted the push: if a recipient was
  not sent before a run of \<open>HandleSend\<close> and is sent after it, then, whatever the database
  server, Redis and the queue did, it is the recipient of the task; in this run, in the world right
  after the active production credential of the task's project and provider was read, the adapter
  registered for that provider was called with what that credential opens to under the master
  key and with the task's token, title, body and data; that call returned \<open>StatusSent\<close> without an
  error; the row holds the message id it returned; and no other call reached a push service.
\<close>

theorem HandleSend_sent_sound:
  assumes "h = production_handlers E names mk rps"
    and "not_sent i w" and "\<not> not_sent i (final (HandleSend E h ctx p) w)"
  shows "let u1 = final (GetNotificationRecipient (sp_RecipientID p)) w;
       u2 = final (limit_check E h p) u1;
       u3 = final (MarkRecipientSending (sp_RecipientID p)) u2;
       u = final (GetActiveProviderCredential (sp_ProjectID p) (sp_ProviderType p) ''production'') u3;
       w' = final (HandleSend E h ctx p) w in
    \<exists>a c cred result r. provider_Get E names (sp_ProviderType p) = Some a \<and>
      c \<in> set (credentials (w_db w)) \<and> c_ProjectID c = sp_ProjectID p \<and> c_ProviderType c = sp_ProviderType p \<and>
      c_Environment c = ''production'' \<and> c_IsActive c \<and>
      Open E mk (c_WrappedDek c) (c_Credential c) = Inr cred \<and>
      (let call = a_Send a cred \<lparr>sq_Token = sp_Token p, sq_Title = sp_Title p, sq_Body = sp_Body p, sq_Data = sp_Data p\<rparr> in
         value_of call u = (result, None) \<and> w_https w' = w_https (final call u) \<and> w_pushes w' = w_pushes (final call u)) \<and>
      sr_Status result = StatusSent \<and> i = sp_RecipientID p \<and>
      find (\<lambda>r. r_ID r = i) (recipients (w_db w')) = Some r \<and>
      r_ProviderMessageID r = TextFrom (sr_ProviderMessageID result)"
proof -
  have "adapters_ok h" and h: "h_Get h = provider_Get E names" "h_Crypto h = mk"
    by (simp_all add: assms(1) production_adapters_ok) (simp_all add: production_handlers_def)
  from send_sound [OF this(1) assms(2,3)] obtain a c cred result r where
    "provider_Get E names (sp_ProviderType p) = Some a" "c \<in> set (credentials (w_db w))" "c_IsActive c"
    "same_provider (sp_ProjectID p) (sp_ProviderType p) ''production'' c"
    "Open E mk (c_WrappedDek c) (c_Credential c) = Inr cred" "i = sp_RecipientID p"
    "value_of (a_Send a cred (send_request p)) (at_sending E h p w) = (result, None)" "sr_Status result = StatusSent"
    "w_https (final (HandleSend E h ctx p) w) = w_https (final (a_Send a cred (send_request p)) (at_sending E h p w))"
    "w_pushes (final (HandleSend E h ctx p) w) = w_pushes (final (a_Send a cred (send_request p)) (at_sending E h p w))"
    "find (\<lambda>r. r_ID r = i) (recipients (w_db (final (HandleSend E h ctx p) w))) = Some r"
    "r_ProviderMessageID r = TextFrom (sr_ProviderMessageID result)"
    unfolding h environment_def by blast
  then show ?thesis
    unfolding Let_def at_sending_def before_sending_def environment_def send_request_def same_provider_def
    by (intro exI [of _ a] exI [of _ c] exI [of _ cred] exI [of _ result] exI [of _ r]) simp
qed

text \<open>A run through Expo: the credential opens, the server answers with an ok ticket.\<close>

definition expo_answer :: json where
  "expo_answer = JObj [(''data'', JArr [JObj [(''status'', JStr ''ok''), (''id'', JStr ''m1'')]])]"

definition expo_response :: http_resp where
  "expo_response = \<lparr>hs_StatusCode = 200, hs_Headers = [], hs_Body = json_Marshal expo_answer\<rparr>"

definition expo_handlers :: Handlers where
  "expo_handlers = production_handlers sample_ext [''fcm''] (replicate 32 (CHR ''k'')) None"

definition expo_payload :: SendPayload where
  "expo_payload = sample_payload\<lparr>sp_ProviderType := ''expo''\<rparr>"

definition expo_credential :: credential_row where
  "expo_credential = sample_credential\<lparr>c_ProviderType := ''expo''\<rparr>"

definition expo_world :: world where
  "expo_world = sending_world\<lparr>w_db := sample_db\<lparr>recipients := [sample_recipient],
     credentials := [expo_credential]\<rparr>,
     w_net := \<lambda>log q. Inr expo_response\<rparr>"

lemma expo_read_sample:
  "expo_read expo_response = (no_result\<lparr>sr_ProviderMessageID := ''m1'', sr_Status := StatusSent\<rparr>, None)"
proof -
  have "json_Parse (json_Marshal expo_answer) = Some expo_answer"
    by (rule json_Parse_Marshal) (simp add: expo_answer_def json_clean_simps utf8_ascii maxNestingDepth_def)
  then show ?thesis
    by (simp add: expo_read_def expo_response_def decode_json_def parse_json_def del: json_Marshal.simps)
      (simp add: expo_answer_def decode_expo_response_def decode_ticket_def field_decoding struct_field_def
        expo_classifyTicket_def)
qed

lemma expo_credential_opens:
  "Open sample_ext (replicate 32 (CHR ''k'')) (c_WrappedDek expo_credential) (c_Credential expo_credential) = Inr ''{}''"
  using sample_credential_opens by (simp add: expo_credential_def sample_handlers_def)

theorem HandleSend_sent_sound_witness:
  "\<exists>r. find (\<lambda>r. r_ID r = 3) (recipients (w_db (final (HandleSend sample_ext expo_handlers
       \<lparr>GetRetryCount = Some 0, GetMaxRetry = Some 5\<rparr> expo_payload) expo_world))) = Some r \<and>
     r_ProviderMessageID r = Some ''m1'' \<and>
     w_https (final (HandleSend sample_ext expo_handlers \<lparr>GetRetryCount = Some 0, GetMaxRetry = Some 5\<rparr> expo_payload) expo_world) =
       [expo_request ''{}'' \<lparr>sq_Token = ''tok'', sq_Title = ''hi'', sq_Body = ''b'', sq_Data = None\<rparr>]"
proof -
  let ?w' = "final (HandleSend sample_ext expo_handlers \<lparr>GetRetryCount = Some 0, GetMaxRetry = Some 5\<rparr>
    expo_payload) expo_world"
  have before: "not_sent 3 expo_world" by (simp add: not_sent_def expo_world_def sending_simps)
  have cred: "c_ProjectID expo_credential = 1" "c_ProviderType expo_credential = ''expo''"
    "c_Environment expo_credential = ''production''" "c_IsActive expo_credential"
    by (simp_all add: expo_credential_def sample_credential_def)
  have h: "h_Crypto expo_handlers = replicate 32 (CHR ''k'')" "h_OutboundLimiter expo_handlers = None"
    "h_Get expo_handlers ''expo'' = Some expo_adapter"
    by (simp_all add: expo_handlers_def production_handlers_def provider_Get_table)
  have row: "find (\<lambda>r. r_ID r = 3) (recipients (w_db ?w')) =
      Some (sample_recipient\<lparr>r_Status := ''sent'', r_AttemptCount := 1, r_ProviderMessageID := Some ''m1'',
        r_SentAt := Some 3\<rparr>)"
    using expo_credential_opens expo_read_sample
    by (simp add: HandleSend_def attempt_simps GetNotificationRecipient_def sql_getNotificationRecipient_def
        exec_value exec_final next_env_def expo_world_def sending_simps expo_payload_def
        terminalRecipientStatuses_def limit_check_def h MarkRecipientSending_def
        sql_markRecipientSending_def run_stmt_def max_int4_def sending_def send_with_credential_def
        GetActiveProviderCredential_def sql_getActiveProviderCredential_def same_provider_def
        environment_def cred expo_adapter_def expo_Send_def http_Do_def record_outcome_def
        MarkRecipientSent_def sql_markRecipientSent_def exec_only_def TextFrom_def no_result_def)
  then have "\<not> not_sent 3 ?w'" by (simp add: not_sent_def)
  note sound = HandleSend_sent_sound [OF expo_handlers_def before this, unfolded Let_def]
  let ?u = "final (GetActiveProviderCredential 1 ''expo'' ''production'') (final (MarkRecipientSending 3)
    (final (limit_check sample_ext expo_handlers expo_payload) (final (GetNotificationRecipient 3) expo_world)))"
  have quiet: "w_https ?u = []"
    by (simp add: GetActiveProviderCredential_def MarkRecipientSending_def GetNotificationRecipient_def limit_check_def h
        frame_simps) (simp add: expo_world_def sending_simps)
  have p: "sp_ProviderType expo_payload = ''expo''" "sp_ProjectID expo_payload = 1" "sp_RecipientID expo_payload = 3"
    "sp_Token expo_payload = ''tok''" "sp_Title expo_payload = ''hi''" "sp_Body expo_payload = ''b''" "sp_Data expo_payload = None"
    by (simp_all add: expo_payload_def sample_payload_def)
  from sound [unfolded p] obtain a c cred where call: "provider_Get sample_ext [''fcm''] ''expo'' = Some a"
    "c \<in> set (credentials (w_db expo_world))"
    "Open sample_ext (replicate 32 (CHR ''k'')) (c_WrappedDek c) (c_Credential c) = Inr cred"
    "w_https ?w' = w_https (final (a_Send a cred
       \<lparr>sq_Token = ''tok'', sq_Title = ''hi'', sq_Body = ''b'', sq_Data = None\<rparr>) ?u)"
    by blast
  have "a_Send a = expo_Send" using call(1) by (auto simp: provider_Get_table expo_adapter_def)
  moreover from call(2,3) expo_credential_opens have "cred = ''{}''" by (auto simp: expo_world_def)
  ultimately show ?thesis using call(4) row by (simp add: expo_Send_wire quiet)
qed

end
