(* ===== verification/Http.thy ===== *)
theory Http imports ApiKey Integrity begin

text \<open>
  The public HTTP API's common parts, \<open>internal/transport/http\<close>: requests and responses,
  decoding of bodies (\<open>validate.go\<close>), the error envelope (\<open>respond.go\<close>), and the
  middleware that turns an API key into a project (\<open>middleware.go\<close>).
\<close>

section \<open>Requests and responses\<close>

text \<open>
  What a handler reads of a request: headers, peer address, body, the \<open>id\<close> of the path and
  the project the middleware put into the context. A response keeps its body as JSON.
\<close>

record request =
  rq_Headers :: "(string \<times> string) list"
  rq_RemoteAddr :: string
  rq_Body :: string
  rq_id :: string
  rq_ProjectID :: "uuid option"

record response =
  rs_Status :: int
  rs_Headers :: "(string \<times> string) list"
  rs_Body :: json

definition writeJSON :: "int \<Rightarrow> json \<Rightarrow> response" where
  "writeJSON status v =
     \<lparr>rs_Status = status, rs_Headers = [(''Content-Type'', ''application/json'')], rs_Body = v\<rparr>"

definition writeError :: "int \<Rightarrow> string \<Rightarrow> response" where
  "writeError status message = writeJSON status (JObj [(''error'', JStr message)])"

definition request_header :: "string \<Rightarrow> request \<Rightarrow> string" where
  "request_header name r =
     (case find (\<lambda>(k, _). header_match name k) (rq_Headers r) of None \<Rightarrow> [] | Some (_, v) \<Rightarrow> v)"

definition contextWithProjectID :: "uuid \<Rightarrow> request \<Rightarrow> request" where
  "contextWithProjectID i r = r\<lparr>rq_ProjectID := Some i\<rparr>"

definition projectIDFromContext :: "request \<Rightarrow> uuid option" where
  "projectIDFromContext r = rq_ProjectID r"

section \<open>Bodies\<close>

definition maxRequestBodyBytes :: nat where "maxRequestBodyBytes = 1048576"

definition maxTokenLength :: nat where "maxTokenLength = 4096"

definition maxTitleLength :: nat where "maxTitleLength = 200"

definition maxBodyLength :: nat where "maxBodyLength = 1000"

definition maxIdempotencyKeyLength :: nat where "maxIdempotencyKeyLength = 255"

definition maxDataBytes :: nat where "maxDataBytes = 4096"

definition maxDeviceIDsPerRequest :: nat where "maxDeviceIDsPerRequest = 1000"

lemmas limits_def = maxRequestBodyBytes_def maxTokenLength_def maxTitleLength_def maxBodyLength_def
  maxIdempotencyKeyLength_def maxDataBytes_def maxDeviceIDsPerRequest_def

text \<open>
  The decoder reads the first JSON value of the body through a reader that fails after the
  limit: it is too large if no value is complete by then. \<open>dec\<close> decodes the value into the
  destination and refuses unknown fields.
\<close>

definition decodeJSON :: "(json \<Rightarrow> 'a option) \<Rightarrow> request \<Rightarrow> response + 'a" where
  "decodeJSON dec r =
     (let invalid = (\<lambda>err. Inl (writeError 400 (''invalid JSON body: '' @ error_text err))) in
      case json_Scan (length (rq_Body r) \<le> maxRequestBodyBytes) (take maxRequestBodyBytes (rq_Body r)) of
        ScanIncomplete \<Rightarrow>
          if length (rq_Body r) > maxRequestBodyBytes
          then Inl (writeError 413 (''request body too large (max '' @ nat_digits maxRequestBodyBytes @ '' bytes)''))
          else invalid (ErrText (if list_all json_space (rq_Body r) then ''EOF'' else ''unexpected EOF''))
      | ScanSyntax \<Rightarrow> invalid json_syntax
      | ScanValue j rest \<Rightarrow> (case dec j of None \<Rightarrow> invalid json_error | Some x \<Rightarrow> Inr x))"

definition known_fields :: "string list \<Rightarrow> (string \<times> json) list \<Rightarrow> bool" where
  "known_fields names kvs \<longleftrightarrow> list_all (\<lambda>(k, _). list_ex (\<lambda>name. key_match name k) names) kvs"

section \<open>API keys\<close>

definition is_space :: "char \<Rightarrow> bool" where
  "is_space c \<longleftrightarrow> (let n = (of_char c :: nat) in n = 32 \<or> 9 \<le> n \<and> n \<le> 13)"

definition trim_space :: "string \<Rightarrow> string" where
  "trim_space s = rev (dropWhile is_space (rev (dropWhile is_space s)))"

definition bearerToken :: "request \<Rightarrow> string option" where
  "bearerToken r = (case strip_prefix ''Bearer '' (request_header ''Authorization'' r) of
      None \<Rightarrow> None
    | Some t \<Rightarrow> (let token = trim_space t in if token = [] then None else Some token))"

text \<open>
  The delay in whole seconds, rounded up and at least 1. The code goes through a \<open>float64\<close>, which
  rounds to the same second for delays under \<open>2 ^ 23\<close> seconds.
\<close>

definition retry_seconds :: "duration \<Rightarrow> int" where
  "retry_seconds retryAfter = max 1 (- ((- sint retryAfter) div 10 ^ 9))"

text \<open>
  The write that touches the key runs detached from the request; it is placed before the
  handler here. Its failure is only logged.
\<close>

definition touchAPIKeyLastUsed :: "uuid \<Rightarrow> (world, unit) state" where
  "touchAPIKeyLastUsed i = do { _ \<leftarrow> TouchAPIKeyLastUsed i; ret () }"

type_synonym handler = "request \<Rightarrow> (world, response) state"

definition requireScope :: "ext \<Rightarrow> RateLimiter \<Rightarrow> Scope \<Rightarrow> handler \<Rightarrow> handler" where
  "requireScope E limiter minScope next_handler r = (case bearerToken r of
      None \<Rightarrow> ret (writeError 401 ''missing or malformed Authorization header'')
    | Some raw \<Rightarrow> do {
        found \<leftarrow> GetActiveAPIKeyByHash (Hash E raw);
        case found of
          Inl err \<Rightarrow>
            if errors_is err ErrNoRows then ret (writeError 401 ''invalid or revoked API key'')
            else ret (writeError 500 ''failed to resolve API key'')
        | Inr key \<Rightarrow>
            if (case ParseScope (k_Scope key) of None \<Rightarrow> True | Some scope \<Rightarrow> \<not> Satisfies scope minScope)
            then ret (writeError 403 ''API key does not have the required scope'')
            else do {
              (allowed, retryAfter) \<leftarrow> RateLimiter_Allow E limiter (k_ID key) (k_ProjectID key);
              if \<not> allowed then
                ret ((writeError 429 ''rate limit exceeded'')\<lparr>rs_Headers :=
                  [(''Retry-After'', Itoa (retry_seconds retryAfter)), (''Content-Type'', ''application/json'')]\<rparr>)
              else do {
                touchAPIKeyLastUsed (k_ID key);
                next_handler (contextWithProjectID (k_ProjectID key) r) } } })"

section \<open>Lemmas\<close>

lemma GetActiveAPIKeyByHash_Inr:
  assumes "value_of (GetActiveAPIKeyByHash hash) w = Inr k"
  shows "k \<in> set (api_keys (w_db w)) \<and> k_KeyHash k = hash \<and> key_active (se_now (next_env w)) (w_db w) k"
  using exec_Inr(1) [OF assms [unfolded GetActiveAPIKeyByHash_def]]
  by (auto simp: run_stmt_def sql_getActiveAPIKeyByHash_def dest: find_SomeD)

lemma writeError_simps [simp]:
  "rs_Status (writeError st m) = st" "rs_Body (writeError st m) = JObj [(''error'', JStr m)]"
  "rs_Status (writeJSON st v) = st" "rs_Body (writeJSON st v) = v"
  by (simp_all add: writeError_def writeJSON_def)

lemma decodeJSON_Inl:
  "decodeJSON dec r = Inl resp \<Longrightarrow> rs_Status resp \<in> {400, 413}"
  by (auto simp: decodeJSON_def Let_def split: scanned.splits if_splits option.splits)

text \<open>
  The request passed the gate in \<open>w\<close>: its key is active (unrevoked, unexpired, of an active
  project) at the \<open>now()\<close> of the key lookup, has the scope, and its rate check, made right
  after the lookup, allowed it; the handler starts in \<open>u\<close>, after the key was touched.
\<close>

definition admitted :: "ext \<Rightarrow> RateLimiter \<Rightarrow> Scope \<Rightarrow> request \<Rightarrow> world \<Rightarrow> api_key_row \<Rightarrow> world \<Rightarrow> bool" where
  "admitted E limiter minScope r w k u \<longleftrightarrow>
     (\<exists>raw. bearerToken r = Some raw \<and> k \<in> set (api_keys (w_db w)) \<and> k_KeyHash k = Hash E raw \<and>
        key_active (se_now (next_env w)) (w_db w) k \<and> k_Scope k \<in> {ScopeRead, ScopeSend} \<and>
        Satisfies (k_Scope k) minScope \<and>
        (let w1 = final (GetActiveAPIKeyByHash (Hash E raw)) w;
             check = RateLimiter_Allow E limiter (k_ID k) (k_ProjectID k) in
         fst (value_of check w1) \<and> u = final (touchAPIKeyLastUsed (k_ID k)) (final check w1)))"

lemma admitted_db:
  assumes "admitted E limiter minScope r w k u"
  obtains v where "u = final (touchAPIKeyLastUsed (k_ID k)) v" and "w_db v = w_db w"
  using assms unfolding admitted_def Let_def by (elim exE conjE) (simp add: frame_simps that)

lemma requireScope_cases:
  "(\<exists>k u. admitted E limiter minScope r w k u \<and>
      value_of (requireScope E limiter minScope next_handler r) w =
        value_of (next_handler (contextWithProjectID (k_ProjectID k) r)) u \<and>
      final (requireScope E limiter minScope next_handler r) w =
        final (next_handler (contextWithProjectID (k_ProjectID k) r)) u) \<or>
   rs_Status (value_of (requireScope E limiter minScope next_handler r) w) \<in> {401, 403, 429, 500} \<and>
     w_db (final (requireScope E limiter minScope next_handler r) w) = w_db w"
proof (cases "bearerToken r")
  case None
  then show ?thesis by (simp add: requireScope_def)
next
  case (Some raw)
  let ?get = "GetActiveAPIKeyByHash (Hash E raw)"
  let ?w1 = "final ?get w"
  have db1: "w_db ?w1 = w_db w" by (simp add: frame_simps)
  show ?thesis
  proof (cases "value_of ?get w")
    case (Inl err)
    with Some db1 show ?thesis by (auto simp: requireScope_def)
  next
    case (Inr k)
    note key = GetActiveAPIKeyByHash_Inr [OF Inr]
    let ?lim = "RateLimiter_Allow E limiter (k_ID k) (k_ProjectID k)"
    have db2: "w_db (final ?lim ?w1) = w_db w" by (simp add: frame_simps)
    obtain ok ra where lim: "value_of ?lim ?w1 = (ok, ra)" by (cases "value_of ?lim ?w1")
    show ?thesis
    proof (cases "k_Scope k \<in> {ScopeRead, ScopeSend} \<and> Satisfies (k_Scope k) minScope \<and> ok")
      case True
      have "admitted E limiter minScope r w k (final (touchAPIKeyLastUsed (k_ID k)) (final ?lim ?w1))"
        unfolding admitted_def Let_def using Some key True lim by simp
      moreover have "value_of (requireScope E limiter minScope next_handler r) w =
          value_of (next_handler (contextWithProjectID (k_ProjectID k) r)) (final (touchAPIKeyLastUsed (k_ID k)) (final ?lim ?w1))"
        "final (requireScope E limiter minScope next_handler r) w =
          final (next_handler (contextWithProjectID (k_ProjectID k) r)) (final (touchAPIKeyLastUsed (k_ID k)) (final ?lim ?w1))"
        using Some Inr True lim by (auto simp: requireScope_def ParseScope_def)
      ultimately show ?thesis by blast
    next
      case False
      then show ?thesis
        using Some Inr lim db1 db2 by (auto simp: requireScope_def ParseScope_def)
    qed
  qed
qed

section \<open>Properties\<close>

text \<open>
  C15. The middleware is a gate. Either the handler ran, exactly once, for the project of an
  API key that is active, has the required scope, hashes to the request's bearer token and
  is within its rate; or the handler did not run, the answer is 401, 403, 429 or 500 and
  the database is untouched.
\<close>

theorem requireScope_gate:
  "(\<exists>k u. admitted E limiter minScope r w k u \<and>
      value_of (requireScope E limiter minScope next_handler r) w =
        value_of (next_handler (contextWithProjectID (k_ProjectID k) r)) u \<and>
      final (requireScope E limiter minScope next_handler r) w =
        final (next_handler (contextWithProjectID (k_ProjectID k) r)) u) \<or>
   rs_Status (value_of (requireScope E limiter minScope next_handler r) w) \<in> {401, 403, 429, 500} \<and>
     w_db (final (requireScope E limiter minScope next_handler r) w) = w_db w"
  by (rule requireScope_cases)

end
