(* ===== verification/Registration.thy ===== *)
theory Registration imports Registered Http begin

text \<open>
  Device registration, \<open>internal/transport/http/devices.go\<close>: decoding and validating the
  request, the client's address, the device's metadata, and the upsert that supersedes
  rotated push tokens inside a transaction.
\<close>

section \<open>Requests\<close>

definition platforms :: "string set" where
  "platforms = {''ios'', ''android'', ''web''}"

record coordsRequest =
  co_Lat :: float64
  co_Lon :: float64

record deviceInfoRequest =
  di_Brand :: string
  di_OSVersion :: string
  di_DeviceUUID :: string
  di_Language :: string
  di_Coords :: "coordsRequest option"

record registerDeviceRequest =
  rd_Token :: string
  rd_Provider :: string
  rd_Platform :: string
  rd_ExternalUserID :: string
  rd_Device :: "deviceInfoRequest option"

definition maxDeviceInfoFieldLength :: nat where "maxDeviceInfoFieldLength = 128"

definition maxLanguageLength :: nat where "maxLanguageLength = 35"

definition maxExternalUserIDLength :: nat where "maxExternalUserIDLength = 256"

subsection \<open>Decoding\<close>

text \<open>
  A \<open>float64\<close> field; a pointer to a struct: \<open>null\<close> resets it, an object is decoded into
  what is there.
\<close>

fun scan_float :: "float64 \<Rightarrow> json list \<Rightarrow> float64 option" where
  "scan_float acc [] = Some acc"
| "scan_float acc (JNull # js) = scan_float acc js"
| "scan_float acc (JNum lit # js) =
     (case ParseFloat lit of None \<Rightarrow> None | Some f \<Rightarrow> scan_float f js)"
| "scan_float acc (j # js) = None"

fun scan_pointer ::
  "'a \<Rightarrow> ('a \<Rightarrow> (string \<times> json) list \<Rightarrow> 'a option) \<Rightarrow> 'a option \<Rightarrow> json list \<Rightarrow> 'a option option"
where
  "scan_pointer zero into acc [] = Some acc"
| "scan_pointer zero into acc (JNull # js) = scan_pointer zero into None js"
| "scan_pointer zero into acc (JObj kvs # js) =
     (case into (case acc of None \<Rightarrow> zero | Some x \<Rightarrow> x) kvs of
        None \<Rightarrow> None
      | Some y \<Rightarrow> scan_pointer zero into (Some y) js)"
| "scan_pointer zero into acc (j # js) = None"

definition decode_coords :: "coordsRequest \<Rightarrow> (string \<times> json) list \<Rightarrow> coordsRequest option" where
  "decode_coords c kvs =
     (if \<not> known_fields [''lat'', ''lon''] kvs then None else do {
        lat \<leftarrow> scan_float (co_Lat c) (jfields ''lat'' kvs);
        lon \<leftarrow> scan_float (co_Lon c) (jfields ''lon'' kvs);
        Some \<lparr>co_Lat = lat, co_Lon = lon\<rparr> })"

definition decode_deviceInfo ::
  "deviceInfoRequest \<Rightarrow> (string \<times> json) list \<Rightarrow> deviceInfoRequest option"
where
  "decode_deviceInfo d kvs =
     (if \<not> known_fields [''brand'', ''os_version'', ''device_uuid'', ''language'', ''coords''] kvs then None else do {
        brand \<leftarrow> scan_string (di_Brand d) (jfields ''brand'' kvs);
        os_version \<leftarrow> scan_string (di_OSVersion d) (jfields ''os_version'' kvs);
        device_uuid \<leftarrow> scan_string (di_DeviceUUID d) (jfields ''device_uuid'' kvs);
        language \<leftarrow> scan_string (di_Language d) (jfields ''language'' kvs);
        coords \<leftarrow> scan_pointer \<lparr>co_Lat = float_zero, co_Lon = float_zero\<rparr> decode_coords (di_Coords d) (jfields ''coords'' kvs);
        Some \<lparr>di_Brand = brand, di_OSVersion = os_version, di_DeviceUUID = device_uuid, di_Language = language,
          di_Coords = coords\<rparr> })"

definition no_deviceInfo :: deviceInfoRequest where
  "no_deviceInfo = \<lparr>di_Brand = [], di_OSVersion = [], di_DeviceUUID = [], di_Language = [], di_Coords = None\<rparr>"

definition decode_registerDeviceRequest :: "json \<Rightarrow> registerDeviceRequest option" where
  "decode_registerDeviceRequest j = do {
     kvs \<leftarrow> members j;
     if \<not> known_fields [''token'', ''provider'', ''platform'', ''external_user_id'', ''device''] kvs then None else do {
       token \<leftarrow> string_field ''token'' kvs;
       prov \<leftarrow> string_field ''provider'' kvs;
       platform \<leftarrow> string_field ''platform'' kvs;
       external_user_id \<leftarrow> string_field ''external_user_id'' kvs;
       device \<leftarrow> scan_pointer no_deviceInfo decode_deviceInfo None (jfields ''device'' kvs);
       Some \<lparr>rd_Token = token, rd_Provider = prov, rd_Platform = platform,
         rd_ExternalUserID = external_user_id, rd_Device = device\<rparr> } }"

subsection \<open>Validation\<close>

text \<open>Comparisons of a \<open>float64\<close>, \<open>m * 2 ^ e\<close> with a sign, with an integer constant.\<close>

definition signed_mantissa :: "float64 \<Rightarrow> int" where
  "signed_mantissa = (\<lambda>(neg, m, e). if neg then - int m else int m)"

definition float_less :: "float64 \<Rightarrow> int \<Rightarrow> bool" where
  "float_less x k = (let m = signed_mantissa x; e = snd (snd x) in
     if 0 \<le> e then m * 2 ^ nat e < k else m < k * 2 ^ nat (- e))"

definition float_greater :: "float64 \<Rightarrow> int \<Rightarrow> bool" where
  "float_greater x k = (let m = signed_mantissa x; e = snd (snd x) in
     if 0 \<le> e then k < m * 2 ^ nat e else k * 2 ^ nat (- e) < m)"

definition field_limit :: "string \<Rightarrow> nat \<Rightarrow> string" where
  "field_limit what n = what @ '' must be at most '' @ nat_digits n @ '' characters''"

text \<open>The message of the first violated bound.\<close>

definition validate :: "deviceInfoRequest option \<Rightarrow> string option" where
  "validate info = (case info of None \<Rightarrow> None | Some d \<Rightarrow>
     if length (di_Brand d) > maxDeviceInfoFieldLength then Some (field_limit ''device.brand'' maxDeviceInfoFieldLength)
     else if length (di_OSVersion d) > maxDeviceInfoFieldLength
     then Some (field_limit ''device.os_version'' maxDeviceInfoFieldLength)
     else if length (di_DeviceUUID d) > maxDeviceInfoFieldLength
     then Some (field_limit ''device.device_uuid'' maxDeviceInfoFieldLength)
     else if length (di_Language d) > maxLanguageLength
     then Some (field_limit ''device.language'' maxLanguageLength)
     else case di_Coords d of None \<Rightarrow> None | Some c \<Rightarrow>
       if float_less (co_Lat c) (-90) \<or> float_greater (co_Lat c) 90
       then Some (''device.coords.lat must be between -90 and 90, got '' @ fmt_float (co_Lat c))
       else if float_less (co_Lon c) (-180) \<or> float_greater (co_Lon c) 180
       then Some (''device.coords.lon must be between -180 and 180, got '' @ fmt_float (co_Lon c))
       else None)"

definition reject_register :: "ext \<Rightarrow> registerDeviceRequest \<Rightarrow> string option" where
  "reject_register E req =
     (if rd_Token req = [] then Some ''token is required''
      else if length (rd_Token req) > maxTokenLength then Some (field_limit ''token'' maxTokenLength)
      else if rd_Provider req = [] \<or> \<not> Known (rd_Provider req) (the (init_registry E))
      then Some ''provider must be one of: expo, fcm, apns, hms''
      else if rd_Platform req = [] \<or> rd_Platform req \<notin> platforms
      then Some ''platform must be one of: ios, android, web''
      else if length (rd_ExternalUserID req) > maxExternalUserIDLength
      then Some (field_limit ''external_user_id'' maxExternalUserIDLength)
      else validate (rd_Device req))"

section \<open>Metadata\<close>

text \<open>\<open>net.SplitHostPort\<close>, with an IPv6 host in brackets; its errors are not told apart.\<close>

fun index_of :: "char \<Rightarrow> string \<Rightarrow> nat option" where
  "index_of c [] = None"
| "index_of c (x # xs) = (if x = c then Some 0 else map_option Suc (index_of c xs))"

fun last_index_of :: "char \<Rightarrow> string \<Rightarrow> nat option" where
  "last_index_of c [] = None"
| "last_index_of c (x # xs) = (case last_index_of c xs of
      Some i \<Rightarrow> Some (Suc i)
    | None \<Rightarrow> if x = c then Some 0 else None)"

definition SplitHostPort :: "string \<Rightarrow> (string \<times> string) option" where
  "SplitHostPort hostport = (case last_index_of (CHR '':'') hostport of None \<Rightarrow> None | Some i \<Rightarrow>
     if hd hostport = CHR ''['' then (case index_of (CHR '']'') hostport of None \<Rightarrow> None | Some e \<Rightarrow>
       if e + 1 \<noteq> i then None
       else if CHR ''['' \<in> set (drop 1 hostport) \<or> CHR '']'' \<in> set (drop (e + 1) hostport) then None
       else Some (drop 1 (take e hostport), drop (i + 1) hostport))
     else if CHR '':'' \<in> set (take i hostport) \<or> CHR ''['' \<in> set hostport \<or> CHR '']'' \<in> set hostport then None
     else Some (take i hostport, drop (i + 1) hostport))"

definition clientIP :: "request \<Rightarrow> string" where
  "clientIP r =
     (let xff = request_header ''X-Forwarded-For'' r;
          ip = trim_space (hd (split_on (CHR '','') xff)) in
      if xff \<noteq> [] \<and> ip \<noteq> [] then ip
      else case SplitHostPort (rq_RemoteAddr r) of
        None \<Rightarrow> rq_RemoteAddr r
      | Some (host, _) \<Rightarrow> host)"

definition put_nonempty :: "string \<Rightarrow> string \<Rightarrow> gomap \<Rightarrow> gomap" where
  "put_nonempty key s m = (if s \<noteq> [] then map_put key (JStr s) m else m)"

definition coords_json :: "coordsRequest \<Rightarrow> json" where
  "coords_json c = JObj [(''lat'', JNum (json_float (co_Lat c))), (''lon'', JNum (json_float (co_Lon c)))]"

definition buildDeviceMetadata :: "deviceInfoRequest option \<Rightarrow> string \<Rightarrow> gomap" where
  "buildDeviceMetadata info ip = put_nonempty ''last_seen_ip'' ip
     (case info of None \<Rightarrow> [] | Some d \<Rightarrow>
        let m = put_nonempty ''language'' (di_Language d)
                  (put_nonempty ''device_uuid'' (di_DeviceUUID d)
                    (put_nonempty ''os_version'' (di_OSVersion d)
                      (put_nonempty ''brand'' (di_Brand d) [])))
        in case di_Coords d of None \<Rightarrow> m | Some c \<Rightarrow> map_put ''coords'' (coords_json c) m)"

section \<open>The transaction\<close>

definition upsertDevice ::
  "Queries \<Rightarrow> uuid \<Rightarrow> registerDeviceRequest \<Rightarrow> json \<Rightarrow> (world, goerr + device_row) state"
where
  "upsertDevice q projectID req metadata =
     attempt (errorf ''upsert subscriber: '')
       (if rd_ExternalUserID req \<noteq> []
        then attempt id (on_queries q (UpsertSubscriber projectID (rd_ExternalUserID req)))
               (\<lambda>subscriber. ret (Inr (Some (s_ID subscriber))))
        else ret (Inr None)) (\<lambda>subscriberID.
     attempt (errorf ''upsert device: '')
       (on_queries q (UpsertDevice projectID (rd_Token req) (rd_Platform req) (rd_Provider req) metadata subscriberID))
       (\<lambda>device. ret (Inr device)))"

definition device_uuid_of :: "registerDeviceRequest \<Rightarrow> string" where
  "device_uuid_of req = (case rd_Device req of None \<Rightarrow> [] | Some d \<Rightarrow> di_DeviceUUID d)"

text \<open>The statements between \<open>Begin\<close> and \<open>Commit\<close>, on \<open>qtx\<close>.\<close>

definition register_in_tx ::
  "Queries \<Rightarrow> ext \<Rightarrow> uuid \<Rightarrow> registerDeviceRequest \<Rightarrow> json \<Rightarrow> (world, goerr + device_row) state"
where
  "register_in_tx qtx E projectID req metadata =
     (let lockKey = uuid_String E projectID @ '':'' @ rd_ExternalUserID req @ '':'' @ device_uuid_of req in
      attempt (errorf ''acquire device registration lock: '') (on_queries qtx (AdvisoryLockDeviceUUID lockKey)) (\<lambda>_.
      attempt id (upsertDevice qtx projectID req metadata) (\<lambda>device.
      attempt (errorf ''supersede rotated devices: '')
        (on_queries qtx (MarkStaleDevicesByDeviceUUID projectID (d_SubscriberID device) (d_ID device) (device_uuid_of req)))
        (\<lambda>superseded. ret (Inr device)))))"

text \<open>The deferred rollback runs on every return after \<open>Begin\<close>, also after a commit.\<close>

definition registerDeviceSerialized ::
  "ext \<Rightarrow> uuid \<Rightarrow> registerDeviceRequest \<Rightarrow> json \<Rightarrow> (world, goerr + device_row) state"
where
  "registerDeviceSerialized E projectID req metadata =
     attempt (errorf ''begin device registration tx: '') tx_Begin (\<lambda>_. do {
       r \<leftarrow> attempt id (register_in_tx (WithTx Pool) E projectID req metadata) (\<lambda>device.
              attempt (errorf ''commit device registration tx: '') tx_Commit (\<lambda>_. ret (Inr device)));
       _ \<leftarrow> tx_Rollback;
       ret r })"

section \<open>The handler\<close>

definition register_device ::
  "ext \<Rightarrow> uuid \<Rightarrow> registerDeviceRequest \<Rightarrow> json \<Rightarrow> (world, goerr + device_row) state"
where
  "register_device E projectID req metadata =
     (if rd_ExternalUserID req \<noteq> [] \<and> device_uuid_of req \<noteq> []
      then registerDeviceSerialized E projectID req metadata
      else upsertDevice Pool projectID req metadata)"

definition registerDeviceResponse :: "ext \<Rightarrow> device_row \<Rightarrow> json" where
  "registerDeviceResponse E device = JObj [(''id'', JStr (uuid_String E (d_ID device)))]"

definition handleRegisterDevice :: "ext \<Rightarrow> handler" where
  "handleRegisterDevice E r =
     (case decodeJSON decode_registerDeviceRequest r of Inl resp \<Rightarrow> ret resp | Inr req \<Rightarrow>
     (case reject_register E req of Some msg \<Rightarrow> ret (writeError 422 msg) | None \<Rightarrow>
     (case projectIDFromContext r of
        None \<Rightarrow> ret (writeError 500 ''failed to resolve project'') | Some projectID \<Rightarrow> do {
     res \<leftarrow> register_device E projectID req (JObj (buildDeviceMetadata (rd_Device req) (clientIP r)));
     case res of
       Inl err \<Rightarrow> ret (writeError 500 ''failed to register device'')
     | Inr device \<Rightarrow> ret (writeJSON 200 (registerDeviceResponse E device)) })))"

end
