(* ===== verification/Notify.thy ===== *)
theory Notify imports CreateFacts Http begin

text \<open>
  The notification endpoints of the public API, \<open>internal/transport/http/notifications.go\<close>:
  creating a notification, its status with the recipient counts, and its recipients.
\<close>

section \<open>Creating\<close>

record createNotificationRequest =
  cr_IdempotencyKey :: string
  cr_IncludePlayerIDs :: "string slice"
  cr_IncludeExternalUserIDs :: "string slice"
  cr_IncludedSegments :: "string slice"
  cr_Filters :: "gomap option slice"
  cr_Title :: string
  cr_Body :: string
  cr_Data :: "gomap option"

definition createNotification_fields :: "string list" where
  "createNotification_fields = [''idempotency_key'', ''include_player_ids'', ''include_external_user_ids'',
     ''included_segments'', ''filters'', ''title'', ''body'', ''data'']"

definition decode_createNotificationRequest :: "json \<Rightarrow> createNotificationRequest option" where
  "decode_createNotificationRequest j = do {
     kvs \<leftarrow> members j;
     if \<not> known_fields createNotification_fields kvs then None else do {
       key \<leftarrow> string_field ''idempotency_key'' kvs;
       ids \<leftarrow> string_slice_field ''include_player_ids'' kvs;
       exts \<leftarrow> string_slice_field ''include_external_user_ids'' kvs;
       segments \<leftarrow> string_slice_field ''included_segments'' kvs;
       filters \<leftarrow> scan_slice (\<lambda>j. scan_map None [j]) None (jfields ''filters'' kvs);
       title \<leftarrow> string_field ''title'' kvs;
       body \<leftarrow> string_field ''body'' kvs;
       data \<leftarrow> map_field ''data'' kvs;
       Some \<lparr>cr_IdempotencyKey = key, cr_IncludePlayerIDs = ids, cr_IncludeExternalUserIDs = exts,
         cr_IncludedSegments = segments, cr_Filters = filters, cr_Title = title, cr_Body = body,
         cr_Data = data\<rparr> } }"

text \<open>The checks of the handler in their order: the message of the first that fails.\<close>

definition em_dash :: string where
  "em_dash = [CHR 0xE2, CHR 0x80, CHR 0x94]"

definition at_most :: "string \<Rightarrow> nat \<Rightarrow> string \<Rightarrow> string" where
  "at_most what n unit = what @ '' must be at most '' @ nat_digits n @ '' '' @ unit"

definition too_many :: "string \<Rightarrow> nat \<Rightarrow> string" where
  "too_many what n = what @ '' must contain at most '' @ nat_digits maxDeviceIDsPerRequest @
     '' entries per request, got '' @ nat_digits n"

definition reject_create :: "createNotificationRequest \<Rightarrow> string option" where
  "reject_create req =
     (let hasPlayerIDs = length (elems (cr_IncludePlayerIDs req)) > 0;
          hasExternalUserIDs = length (elems (cr_IncludeExternalUserIDs req)) > 0 in
      if length (elems (cr_IncludedSegments req)) > 0 \<or> length (elems (cr_Filters req)) > 0
      then Some (''included_segments/filters (segmentation) are not yet supported '' @ em_dash @
                 '' use include_player_ids or include_external_user_ids'')
      else if hasPlayerIDs = hasExternalUserIDs
      then Some ''exactly one of include_player_ids or include_external_user_ids is required''
      else if length (elems (cr_IncludePlayerIDs req)) > maxDeviceIDsPerRequest
      then Some (too_many ''include_player_ids'' (length (elems (cr_IncludePlayerIDs req))))
      else if length (elems (cr_IncludeExternalUserIDs req)) > maxDeviceIDsPerRequest
      then Some (too_many ''include_external_user_ids'' (length (elems (cr_IncludeExternalUserIDs req))))
      else if length (cr_IdempotencyKey req) > maxIdempotencyKeyLength
      then Some (at_most ''idempotency_key'' maxIdempotencyKeyLength ''characters'')
      else if length (cr_Title req) > maxTitleLength
      then Some (at_most ''title'' maxTitleLength ''characters'')
      else if length (cr_Body req) > maxBodyLength
      then Some (at_most ''body'' maxBodyLength ''characters'')
      else case cr_Data req of
        None \<Rightarrow> None
      | Some data \<Rightarrow>
          if length (json_Marshal (JObj data)) > maxDataBytes
          then Some (at_most ''data'' maxDataBytes ''bytes serialized'')
          else None)"

fun parse_player_ids :: "ext \<Rightarrow> string list \<Rightarrow> string + uuid list" where
  "parse_player_ids E [] = Inr []"
| "parse_player_ids E (idStr # rest) = (case uuid_Parse E idStr of
      None \<Rightarrow> Inl (''include_player_ids must be valid UUIDs, got: '' @ idStr)
    | Some i \<Rightarrow> (case parse_player_ids E rest of Inl msg \<Rightarrow> Inl msg | Inr ids \<Rightarrow> Inr (i # ids)))"

definition createNotificationResponse :: "ext \<Rightarrow> notification_row \<Rightarrow> json" where
  "createNotificationResponse E n =
     JObj [(''id'', JStr (uuid_String E (n_ID n))), (''status'', JStr (n_Status n))]"

definition dispatch_request :: "createNotificationRequest \<Rightarrow> uuid list \<Rightarrow> CreateNotificationRequest" where
  "dispatch_request req deviceIDs = \<lparr>cn_IdempotencyKey = cr_IdempotencyKey req,
     cn_DeviceIDs = Some deviceIDs, cn_ExternalUserIDs = cr_IncludeExternalUserIDs req,
     cn_Title = cr_Title req, cn_Body = cr_Body req, cn_Data = cr_Data req\<rparr>"

definition handleCreateNotification :: "ext \<Rightarrow> handler" where
  "handleCreateNotification E r =
     (case decodeJSON decode_createNotificationRequest r of Inl resp \<Rightarrow> ret resp | Inr req \<Rightarrow>
     (case reject_create req of Some msg \<Rightarrow> ret (writeError 422 msg) | None \<Rightarrow>
     (case parse_player_ids E (elems (cr_IncludePlayerIDs req)) of
        Inl msg \<Rightarrow> ret (writeError 422 msg) | Inr deviceIDs \<Rightarrow>
     (case projectIDFromContext r of
        None \<Rightarrow> ret (writeError 500 ''failed to resolve project'') | Some projectID \<Rightarrow> do {
     res \<leftarrow> CreateNotification E projectID (dispatch_request req deviceIDs);
     case res of
       Inl err \<Rightarrow>
         if errors_is err ErrEmptyTargets then ret (writeError 422 (error_text err))
         else ret (writeError 500 ''failed to create notification'')
     | Inr n \<Rightarrow> ret (writeJSON 202 (createNotificationResponse E n)) }))))"

section \<open>Status and recipients\<close>

definition notificationStatusResponse :: "ext \<Rightarrow> notification_row \<Rightarrow> (string \<times> int) list \<Rightarrow> json" where
  "notificationStatusResponse E n counts = JObj
     [(''id'', JStr (uuid_String E (n_ID n))), (''status'', JStr (n_Status n)),
      (''total_recipients'', JNum (Itoa (sint (n_TotalRecipients n)))),
      (''counts'', JObj (map (\<lambda>(status, count). (status, JNum (Itoa count))) counts))]"

definition handleGetNotification :: "ext \<Rightarrow> handler" where
  "handleGetNotification E r =
     (case uuid_Parse E (rq_id r) of
        None \<Rightarrow> ret (writeError 400 ''invalid notification id'') | Some i \<Rightarrow>
     (case projectIDFromContext r of
        None \<Rightarrow> ret (writeError 500 ''failed to resolve project'') | Some projectID \<Rightarrow> do {
     res \<leftarrow> GetNotification i projectID;
     case res of
       Inl err \<Rightarrow>
         if errors_is err ErrNoRows then ret (writeError 404 ''notification not found'')
         else ret (writeError 500 ''failed to fetch notification'')
     | Inr n \<Rightarrow> do {
         res \<leftarrow> RecipientStatusCounts i;
         case res of
           Inl err \<Rightarrow> ret (writeError 500 ''failed to fetch recipient counts'')
         | Inr counts \<Rightarrow> ret (writeJSON 200 (notificationStatusResponse E n counts)) } }))"

definition omit_nil :: "string \<Rightarrow> string option \<Rightarrow> (string \<times> json) list" where
  "omit_nil key s = (case s of None \<Rightarrow> [] | Some v \<Rightarrow> [(key, JStr v)])"

definition recipientResponse :: "ext \<Rightarrow> recipient_row \<Rightarrow> json" where
  "recipientResponse E rec = JObj
     ([(''id'', JStr (uuid_String E (r_ID rec))), (''device_id'', JStr (uuid_String E (r_DeviceID rec))),
       (''provider_type'', JStr (r_ProviderType rec)), (''status'', JStr (r_Status rec))] @
      omit_nil ''provider_message_id'' (r_ProviderMessageID rec) @
      omit_nil ''error_code'' (r_ErrorCode rec) @
      omit_nil ''error_message'' (r_ErrorMessage rec) @
      [(''attempt_count'', JNum (Itoa (sint (r_AttemptCount rec))))])"

definition handleListRecipients :: "ext \<Rightarrow> handler" where
  "handleListRecipients E r =
     (case uuid_Parse E (rq_id r) of
        None \<Rightarrow> ret (writeError 400 ''invalid notification id'') | Some i \<Rightarrow>
     (case projectIDFromContext r of
        None \<Rightarrow> ret (writeError 500 ''failed to resolve project'') | Some projectID \<Rightarrow> do {
     res \<leftarrow> ListNotificationRecipients i projectID;
     case res of
       Inl err \<Rightarrow> ret (writeError 500 ''failed to list recipients'')
     | Inr recs \<Rightarrow> ret (writeJSON 200 (JArr (map (recipientResponse E) recs))) }))"

section \<open>Lemmas\<close>

text \<open>What the API promises of a request it lets through.\<close>

definition admissible :: "createNotificationRequest \<Rightarrow> bool" where
  "admissible req \<longleftrightarrow>
     elems (cr_IncludedSegments req) = [] \<and> elems (cr_Filters req) = [] \<and>
     (elems (cr_IncludePlayerIDs req) = []) \<noteq> (elems (cr_IncludeExternalUserIDs req) = []) \<and>
     length (elems (cr_IncludePlayerIDs req)) \<le> 1000 \<and>
     length (elems (cr_IncludeExternalUserIDs req)) \<le> 1000 \<and>
     length (cr_IdempotencyKey req) \<le> 255 \<and> length (cr_Title req) \<le> 200 \<and> length (cr_Body req) \<le> 1000 \<and>
     (case cr_Data req of None \<Rightarrow> True | Some data \<Rightarrow> length (json_Marshal (JObj data)) \<le> 4096)"

lemma reject_create_None: "reject_create req = None \<longleftrightarrow> admissible req"
  by (auto simp: reject_create_def admissible_def Let_def limits_def not_less split: option.splits)

lemma parse_player_ids_Inr:
  "parse_player_ids E strs = Inr ids \<Longrightarrow> map (uuid_Parse E) strs = map Some ids"
  by (induction strs arbitrary: ids) (auto split: option.splits sum.splits)

text \<open>The queue's own errors are not the sentinel of the dispatch package.\<close>

definition queue_errors_foreign :: "world \<Rightarrow> bool" where
  "queue_errors_foreign w \<longleftrightarrow>
     (\<forall>log c. case w_asynq w log c of Enqueued \<Rightarrow> True | EnqueueFailed e \<Rightarrow> \<not> errors_is e ErrEmptyTargets)"

lemma insert_error:
  "value_of (db_CreateNotification pid key title body data spec) w = Inl err \<Longrightarrow> \<not> errors_is err ErrEmptyTargets"
  by (auto simp: db_CreateNotification_def exec_value run_stmt_def sql_createNotification_def Let_def
      unique_violation_def foreign_key_violation_def split: fault.splits if_splits)

lemma fetch_error:
  "value_of (GetNotificationByIdempotencyKey pid key) w = Inl err \<Longrightarrow> \<not> errors_is err ErrEmptyTargets"
  by (auto simp: GetNotificationByIdempotencyKey_def exec_value sql_getNotificationByIdempotencyKey_def
      split: fault.splits)

lemma CreateNotification_ErrEmptyTargets:
  assumes "value_of (CreateNotification E pid req) w = Inl err" and "errors_is err ErrEmptyTargets"
    and "queue_errors_foreign w"
  shows "elems (cn_DeviceIDs req) = [] \<and> elems (cn_ExternalUserIDs req) = []"
proof (rule ccontr)
  assume ne: "\<not> ?thesis"
  let ?ins = "db_CreateNotification pid (TextFrom (cn_IdempotencyKey req)) (TextFrom (cn_Title req))
    (TextFrom (cn_Body req)) (marshal_data (cn_Data req))
    (marshal_targetSpec E (cn_DeviceIDs req) (cn_ExternalUserIDs req))"
  show False
  proof (cases "value_of ?ins w")
    case (Inl e)
    with assms(1,2) ne insert_error [OF Inl] show False
      by (auto simp: CreateNotification_def attempt_simps dest: fetch_error split: if_splits sum.splits)
  next
    case (Inr n)
    note q = db_CreateNotification_Inr(11,12) [OF Inr]
    show False
    proof (cases "w_asynq w (w_enqs w) (fanout_call E (n_ID n) pid)")
      case Enqueued
      with assms(1) ne Inr q show False by (auto simp: CreateNotification_def EnqueueFanout_value)
    next
      case (EnqueueFailed e)
      with assms(1) ne Inr q have "err = errorf ''enqueue fanout: '' e"
        by (auto simp: CreateNotification_def EnqueueFanout_value)
      moreover have "\<not> errors_is e ErrEmptyTargets"
        using assms(3) [unfolded queue_errors_foreign_def, rule_format, of "w_enqs w" "fanout_call E (n_ID n) pid"]
        by (simp add: EnqueueFailed)
      ultimately show False using assms(2) by simp
    qed
  qed
qed

text \<open>The join with the notification, when ids are unique.\<close>

lemma join_on_key:
  fixes xs :: "'r list"
  assumes "distinct (map key ys)"
  shows "[x. x \<leftarrow> xs, y \<leftarrow> ys, key y = f x \<and> f x = i \<and> P y] =
    (if \<exists>y \<in> set ys. key y = i \<and> P y then filter (\<lambda>x. f x = i) xs else [])"
proof -
  have one: "concat (map (\<lambda>y. if key y = i \<and> P y then [x] else []) ys) =
      (if \<exists>y \<in> set ys. key y = i \<and> P y then [x] else [])" for x :: 'r
    using assms by (induction ys) (auto simp: rev_image_eqI)
  have "concat (map (\<lambda>y. if key y = f x \<and> f x = i \<and> P y then [x] else []) ys) =
      (if f x = i \<and> (\<exists>y \<in> set ys. key y = i \<and> P y) then [x] else [])" for x
    using one [of x] by (cases "f x = i") auto
  then show ?thesis by (induction xs) auto
qed

lemma listed_recipients:
  assumes "wf_db t"
  shows "[rec. rec \<leftarrow> recipients t, n \<leftarrow> notifications t,
      n_ID n = r_NotificationID rec \<and> r_NotificationID rec = i \<and> n_ProjectID n = pid] =
    (if \<exists>n \<in> set (notifications t). n_ID n = i \<and> n_ProjectID n = pid
     then filter (\<lambda>rec. r_NotificationID rec = i) (recipients t) else [])"
  by (rule join_on_key) (use assms in \<open>simp add: wf_db_def notifications_ok_def\<close>)

text \<open>A request of project 1, and one with the text of a given tree as its body.\<close>

definition sample_http :: "string \<Rightarrow> request" where
  "sample_http i = \<lparr>rq_Headers = [], rq_RemoteAddr = ''10.0.0.1:80'', rq_Body = [], rq_id = i,
     rq_ProjectID = Some 1\<rparr>"

lemma sample_http_simps [simp]:
  "rq_id (sample_http s) = s" "rq_ProjectID (sample_http s) = Some 1"
  by (simp_all add: sample_http_def)

definition posting :: "json \<Rightarrow> request" where
  "posting j = (sample_http [])\<lparr>rq_Body := json_Marshal j\<rparr>"

lemma posting_simps [simp]: "rq_ProjectID (posting j) = Some 1" "rq_Body (posting j) = json_Marshal j"
  by (simp_all add: posting_def)

lemma decode_posted:
  assumes "json_clean maxNestingDepth j" "length (json_Marshal j) \<le> maxRequestBodyBytes"
  shows "decodeJSON dec (posting j) = (case dec j of
      None \<Rightarrow> Inl (writeError 400 (''invalid JSON body: '' @ error_text json_error)) | Some x \<Rightarrow> Inr x)"
proof -
  from assms(1) have "json_Scan True (json_Marshal j) = ScanValue j []" by (rule json_Scan_Marshal)
  with assms(2) show ?thesis by (simp add: decodeJSON_def split: option.split)
qed

lemmas posted_sizes = json_clean_simps utf8_ascii maxNestingDepth_def limits_def json_quote_def runes.simps lead_def
  escape_rune_def escape_char_def

lemma parse_sample_uuid: "uuid_Parse sample_ext ''9'' = Some 9"
  by (simp add: sample_ext_def digits_uuid_def is_digit_def digit_val_def)

section \<open>Properties\<close>

text \<open>
  C22. Creating a notification over HTTP either is refused with a 4xx status and has no
  effect at all, or fails with 500, or answers 202: then the request was admissible, every
  player id was a UUID, and the notification whose id is returned is in the database, belongs
  to the caller's project and carries the request's idempotency key.
\<close>

theorem handleCreateNotification_outcome:
  assumes "queue_errors_foreign w"
  shows "let resp = value_of (handleCreateNotification E r) w; w' = final (handleCreateNotification E r) w in
    rs_Status resp = 500 \<or> rs_Status resp \<in> {400, 413, 422} \<and> w' = w \<or>
    rs_Status resp = 202 \<and>
      (\<exists>req ids pid n. decodeJSON decode_createNotificationRequest r = Inr req \<and> admissible req \<and>
        map (uuid_Parse E) (elems (cr_IncludePlayerIDs req)) = map Some ids \<and>
        rq_ProjectID r = Some pid \<and> n \<in> set (notifications (w_db w')) \<and> n_ProjectID n = pid \<and>
        n_IdempotencyKey n = TextFrom (cr_IdempotencyKey req) \<and>
        rs_Body resp = createNotificationResponse E n)"
proof (cases "decodeJSON decode_createNotificationRequest r")
  case (Inl resp)
  with decodeJSON_Inl [OF Inl] show ?thesis by (auto simp: handleCreateNotification_def Let_def)
next
  case req: (Inr req)
  show ?thesis
  proof (cases "reject_create req")
    case (Some msg)
    with req show ?thesis by (simp add: handleCreateNotification_def Let_def)
  next
    case ok: None
    then have adm: "admissible req" by (simp add: reject_create_None)
    show ?thesis
    proof (cases "parse_player_ids E (elems (cr_IncludePlayerIDs req))")
      case (Inl msg)
      with req ok show ?thesis by (simp add: handleCreateNotification_def Let_def)
    next
      case ids: (Inr ids)
      note parsed = parse_player_ids_Inr [OF ids]
      show ?thesis
      proof (cases "rq_ProjectID r")
        case None
        with req ok ids show ?thesis
          by (simp add: handleCreateNotification_def projectIDFromContext_def Let_def)
      next
        case (Some pid)
        let ?create = "CreateNotification E pid (dispatch_request req ids)"
        note run = handleCreateNotification_def projectIDFromContext_def Let_def req ok ids Some
        show ?thesis
        proof (cases "value_of ?create w")
          case (Inl err)
          have "ids = [] \<longleftrightarrow> elems (cr_IncludePlayerIDs req) = []"
            using arg_cong [OF parsed, of length] by auto
          with adm CreateNotification_ErrEmptyTargets [OF Inl _ assms]
          have "\<not> errors_is err ErrEmptyTargets"
            by (auto simp: dispatch_request_def admissible_def)
          with Inl show ?thesis by (simp add: run)
        next
          case (Inr n)
          note made = CreateNotification_sound [OF Inr, unfolded Let_def]
          from Inr have fin: "final (handleCreateNotification E r) w = final ?create w"
            and val: "value_of (handleCreateNotification E r) w = writeJSON 202 (createNotificationResponse E n)"
            by (simp_all add: run)
          show ?thesis
            unfolding Let_def fin val using made adm parsed Some req
            by (auto simp: dispatch_request_def)
        qed
      qed
    qed
  qed
qed

theorem handleCreateNotification_outcome_witness:
  "\<exists>n. rs_Status (value_of (handleCreateNotification
       sample_ext (posting (JObj [(''include_player_ids'', JArr [JStr ''9''])]))) store_world) = 202 \<and>
     n \<in> set (notifications (w_db (final (handleCreateNotification
       sample_ext (posting (JObj [(''include_player_ids'', JArr [JStr ''9''])]))) store_world)))"
proof -
  let ?E = sample_ext and ?r = "posting (JObj [(''include_player_ids'', JArr [JStr ''9''])])"
  have foreign: "queue_errors_foreign store_world"
    by (simp add: queue_errors_foreign_def store_world_def sample_world_def)
  have known: "known_fields createNotification_fields [(''include_player_ids'', JArr [JStr ''9''])]"
    by (simp add: known_fields_def createNotification_fields_def key_match_def)
  have dec: "decodeJSON decode_createNotificationRequest ?r = Inr
      \<lparr>cr_IdempotencyKey = [], cr_IncludePlayerIDs = Some [''9''], cr_IncludeExternalUserIDs = None,
       cr_IncludedSegments = None, cr_Filters = None, cr_Title = [], cr_Body = [], cr_Data = None\<rparr>"
    by (subst decode_posted) (simp_all add: posted_sizes decode_createNotificationRequest_def known
        string_field_def string_slice_field_def map_field_def jfields_def key_match_def lower_char_def Let_def)
  have "rs_Status (value_of (handleCreateNotification ?E ?r) store_world) = 202"
    by (simp add: handleCreateNotification_def dec reject_create_def limits_def parse_sample_uuid
        projectIDFromContext_def CreateNotification_def dispatch_request_def
        db_CreateNotification_def sql_createNotification_def exec_value exec_final next_env_def run_stmt_def
        sample_defs Let_def notification_exists_def project_exists_def EnqueueFanout_value)
  with handleCreateNotification_outcome [OF foreign, of ?E ?r] show ?thesis
    by (auto simp: Let_def)
qed

lemma handleGetNotification_200:
  assumes "rs_Status (value_of (handleGetNotification E r) w) = 200"
  obtains n counts v where "n \<in> set (notifications (w_db w))" "rq_ProjectID r = Some (n_ProjectID n)"
    "uuid_Parse E (rq_id r) = Some (n_ID n)"
    "value_of (handleGetNotification E r) w = writeJSON 200 (notificationStatusResponse E n counts)"
    "w_db v = w_db w" "value_of (RecipientStatusCounts (n_ID n)) v = Inr counts"
    "w_db (final (handleGetNotification E r) w) = w_db w"
proof -
  obtain i where i: "uuid_Parse E (rq_id r) = Some i"
    using assms by (auto simp: handleGetNotification_def split: option.splits)
  with assms obtain pid where pid: "rq_ProjectID r = Some pid"
    by (auto simp: handleGetNotification_def projectIDFromContext_def split: option.splits)
  note run = handleGetNotification_def projectIDFromContext_def i pid
  let ?w1 = "final (GetNotification i pid) w"
  obtain n where n: "value_of (GetNotification i pid) w = Inr n"
    using assms by (auto simp: run split: sum.splits if_splits)
  obtain counts where counts: "value_of (RecipientStatusCounts i) ?w1 = Inr counts"
    using assms n by (auto simp: run split: sum.splits)
  have db: "w_db ?w1 = w_db w" by (simp add: frame_simps)
  have "w_db (final (RecipientStatusCounts i) ?w1) = w_db w"
    using counts by (simp add: RecipientStatusCounts_def attempt_simps frame_simps split: sum.splits)
  moreover have "value_of (handleGetNotification E r) w = writeJSON 200 (notificationStatusResponse E n counts)"
    and "final (handleGetNotification E r) w = final (RecipientStatusCounts i) ?w1"
    using n counts by (simp_all add: run)
  ultimately show thesis
    using GetNotification_Inr [OF n] counts i pid db by (intro that [of n counts ?w1]) auto
qed

text \<open>
  C32. The status endpoint isolates projects: it never writes, and what it answers with 200 is
  the notification the path names, of the caller's own project, with its status and total and
  the exact counts: a status some recipient of it is in maps to the number of its recipients in
  that status, and no other status is listed.
\<close>

theorem handleGetNotification_isolated:
  assumes "rs_Status (value_of (handleGetNotification E r) w) = 200"
  shows "w_db (final (handleGetNotification E r) w) = w_db w \<and>
    (\<exists>n counts. n \<in> set (notifications (w_db w)) \<and> rq_ProjectID r = Some (n_ProjectID n) \<and>
      uuid_Parse E (rq_id r) = Some (n_ID n) \<and>
      rs_Body (value_of (handleGetNotification E r) w) = JObj
        [(''id'', JStr (uuid_String E (n_ID n))), (''status'', JStr (n_Status n)),
         (''total_recipients'', JNum (Itoa (sint (n_TotalRecipients n)))), (''counts'', JObj counts)] \<and>
      distinct (map fst counts) \<and>
      (\<forall>st. map_of counts st =
        (let k = length (filter (\<lambda>rec. r_NotificationID rec = n_ID n \<and> r_Status rec = st) (recipients (w_db w)))
         in if k = 0 then None else Some (JNum (Itoa (int k))))))"
proof -
  from handleGetNotification_200 [OF assms] obtain n counts v where n:
    "n \<in> set (notifications (w_db w))" "rq_ProjectID r = Some (n_ProjectID n)"
    "uuid_Parse E (rq_id r) = Some (n_ID n)"
    "value_of (handleGetNotification E r) w = writeJSON 200 (notificationStatusResponse E n counts)"
    "w_db v = w_db w" "value_of (RecipientStatusCounts (n_ID n)) v = Inr counts"
    "w_db (final (handleGetNotification E r) w) = w_db w" .
  let ?counts = "map (\<lambda>(status, count). (status, JNum (Itoa count))) counts"
  have "distinct (map fst ?counts)"
    using RecipientStatusCounts_sum(1) [OF n(6)] by (simp add: is_gomap_distinct comp_def case_prod_unfold)
  moreover have "map_of ?counts st = map_option (\<lambda>k. JNum (Itoa k)) (map_of counts st)" for st
    by (simp add: map_of_map)
  ultimately show ?thesis using n RecipientStatusCounts_exact [OF n(6)]
    by (intro conjI exI [of _ n] exI [of _ ?counts]) (auto simp: notificationStatusResponse_def Let_def)
qed

definition listed :: notification_row where
  "listed = \<lparr>n_ID = 9, n_ProjectID = 1, n_IdempotencyKey = None, n_Title = None, n_Body = None,
     n_Data = JNull, n_TargetSpec = JNull, n_Status = ''pending'', n_TotalRecipients = 0, n_CreatedAt = 0,
     n_CompletedAt = None\<rparr>"

definition listing_world :: world where
  "listing_world = store_world\<lparr>w_db := sample_db\<lparr>
     notifications := [listed], recipients := [new_recipient 9 7 ''fcm'' 0 3]\<rparr>\<rparr>"

lemma listing_rows:
  "notifications (w_db listing_world) = [listed]"
  "recipients (w_db listing_world) = [new_recipient 9 7 ''fcm'' 0 3]"
  "n_ID listed = 9" "n_ProjectID listed = 1" "r_NotificationID (new_recipient 9 7 ''fcm'' 0 3) = 9"
  by (simp_all add: listing_world_def listed_def new_recipient_def)

theorem handleGetNotification_isolated_witness:
  "\<exists>counts. rs_Body (value_of (handleGetNotification sample_ext (sample_http ''9'')) listing_world) = JObj
      [(''id'', JStr (uuid_String sample_ext 9)), (''status'', JStr ''pending''),
       (''total_recipients'', JNum (Itoa 0)), (''counts'', JObj counts)] \<and>
     map_of counts ''queued'' = Some (JNum (Itoa 1)) \<and> map_of counts ''sent'' = None"
proof -
  have ok: "rs_Status (value_of (handleGetNotification sample_ext (sample_http ''9'')) listing_world) = 200"
    by (simp add: handleGetNotification_def parse_sample_uuid projectIDFromContext_def
        GetNotification_def sql_getNotification_def exec_value exec_final next_env_def listing_world_def listed_def
        store_world_def sample_world_def RecipientStatusCounts_def attempt_simps CountRecipientStatuses_def
        sql_countRecipientStatuses_def Let_def)
  have row: "n_Status listed = ''pending''" "n_TotalRecipients listed = 0" "r_Status (new_recipient 9 7 ''fcm'' 0 3) = ''queued''"
    by (simp_all add: listed_def new_recipient_def)
  from handleGetNotification_isolated [OF ok] show ?thesis
    by (auto simp: listing_rows row Let_def)
qed

text \<open>
  Listing recipients isolates projects: the list is empty unless the notification is the
  caller's, and then it holds each of its recipients once, oldest first.
\<close>

theorem handleListRecipients_isolated:
  assumes "wf_db (w_db w)" and "rs_Status (value_of (handleListRecipients E r) w) = 200"
  shows "w_db (final (handleListRecipients E r) w) = w_db w \<and>
    (\<exists>i pid. uuid_Parse E (rq_id r) = Some i \<and> rq_ProjectID r = Some pid \<and>
      rs_Body (value_of (handleListRecipients E r) w) = JArr (map (recipientResponse E)
        (if \<exists>n \<in> set (notifications (w_db w)). n_ID n = i \<and> n_ProjectID n = pid
         then sort_key r_CreatedAt (filter (\<lambda>rec. r_NotificationID rec = i) (recipients (w_db w))) else [])))"
proof -
  obtain i where i: "uuid_Parse E (rq_id r) = Some i"
    using assms(2) by (auto simp: handleListRecipients_def split: option.splits)
  with assms(2) obtain pid where pid: "rq_ProjectID r = Some pid"
    by (auto simp: handleListRecipients_def projectIDFromContext_def split: option.splits)
  note run = handleListRecipients_def projectIDFromContext_def i pid
  obtain recs where recs: "value_of (ListNotificationRecipients i pid) w = Inr recs"
    using assms(2) by (auto simp: run split: sum.splits)
  have "recs = sort_key r_CreatedAt [rec. rec \<leftarrow> recipients (w_db w), n \<leftarrow> notifications (w_db w),
      n_ID n = r_NotificationID rec \<and> r_NotificationID rec = i \<and> n_ProjectID n = pid]"
    using recs by (auto simp: ListNotificationRecipients_def sql_listNotificationRecipients_def dest!: exec_Inr(1))
  with listed_recipients [OF assms(1), of i pid] recs i pid show ?thesis
    by (auto simp: run frame_simps)
qed

theorem handleListRecipients_isolated_witness:
  "rs_Body (value_of (handleListRecipients sample_ext (sample_http ''9'')) listing_world) =
     JArr [recipientResponse sample_ext (new_recipient 9 7 ''fcm'' 0 3)]"
proof -
  have ok: "rs_Status (value_of (handleListRecipients sample_ext (sample_http ''9'')) listing_world) = 200"
    by (simp add: handleListRecipients_def parse_sample_uuid projectIDFromContext_def
        ListNotificationRecipients_def sql_listNotificationRecipients_def exec_value next_env_def
        listing_world_def store_world_def sample_world_def)
  have "wf_db (w_db listing_world)"
    using wf_sample_db
    by (simp add: wf_db_def notifications_ok_def recipients_ok_def devices_ok_def subscribers_ok_def
        accounts_ok_def listing_world_def listed_def sample_defs new_recipient_def project_exists_def
        notification_exists_def device_exists_def subscriber_exists_def notification_statuses_def
        recipient_statuses_def)
  from handleListRecipients_isolated [OF this ok] show ?thesis
    by (auto simp: parse_sample_uuid listing_rows)
qed

end
