(* ===== verification/RegistrationFacts.thy ===== *)
theory RegistrationFacts imports Complex_Main Registration Notify begin

text \<open>
  What registering a device guarantees: which rows it leaves, one active token per physical
  device, all or nothing, and the bounds of what the API lets through.
\<close>

section \<open>Bounds\<close>

definition float_value :: "float64 \<Rightarrow> real" where
  "float_value x = (let m = signed_mantissa x; e = snd (snd x) in
     if 0 \<le> e then real_of_int m * 2 ^ nat e else real_of_int m / 2 ^ nat (- e))"

lemma float_less_iff: "float_less x k \<longleftrightarrow> float_value x < real_of_int k"
proof -
  define m e where "m = signed_mantissa x" and "e = snd (snd x)"
  have "real_of_int (m * 2 ^ nat e) < real_of_int k \<longleftrightarrow> m * 2 ^ nat e < k"
    and "real_of_int m < real_of_int (k * 2 ^ nat (- e)) \<longleftrightarrow> m < k * 2 ^ nat (- e)"
    by (simp_all only: of_int_less_iff)
  then show ?thesis by (simp add: float_less_def float_value_def divide_less_eq Let_def m_def e_def)
qed

lemma float_greater_iff: "float_greater x k \<longleftrightarrow> real_of_int k < float_value x"
proof -
  define m e where "m = signed_mantissa x" and "e = snd (snd x)"
  have "real_of_int k < real_of_int (m * 2 ^ nat e) \<longleftrightarrow> k < m * 2 ^ nat e"
    and "real_of_int (k * 2 ^ nat (- e)) < real_of_int m \<longleftrightarrow> k * 2 ^ nat (- e) < m"
    by (simp_all only: of_int_less_iff)
  then show ?thesis by (simp add: float_greater_def float_value_def less_divide_eq Let_def m_def e_def)
qed

text \<open>What the API promises of a registration it lets through.\<close>

definition valid_coords :: "coordsRequest \<Rightarrow> bool" where
  "valid_coords c \<longleftrightarrow> \<bar>float_value (co_Lat c)\<bar> \<le> 90 \<and> \<bar>float_value (co_Lon c)\<bar> \<le> 180"

definition valid_info :: "deviceInfoRequest \<Rightarrow> bool" where
  "valid_info d \<longleftrightarrow> length (di_Brand d) \<le> 128 \<and> length (di_OSVersion d) \<le> 128 \<and>
     length (di_DeviceUUID d) \<le> 128 \<and> length (di_Language d) \<le> 35 \<and>
     (case di_Coords d of None \<Rightarrow> True | Some c \<Rightarrow> valid_coords c)"

definition valid_registration :: "registerDeviceRequest \<Rightarrow> bool" where
  "valid_registration req \<longleftrightarrow> 0 < length (rd_Token req) \<and> length (rd_Token req) \<le> 4096 \<and>
     rd_Provider req \<in> set provider_types \<and> rd_Platform req \<in> set device_platforms \<and>
     length (rd_ExternalUserID req) \<le> 256 \<and>
     (case rd_Device req of None \<Rightarrow> True | Some d \<Rightarrow> valid_info d)"

lemma validate_None:
  "validate info = None \<longleftrightarrow> (case info of None \<Rightarrow> True | Some d \<Rightarrow> valid_info d)"
  by (auto simp: validate_def valid_info_def valid_coords_def maxDeviceInfoFieldLength_def
      maxLanguageLength_def float_less_iff float_greater_iff not_less abs_le_iff split: option.splits)

lemma Known_provider: "Known p (the (init_registry E)) \<longleftrightarrow> p \<in> set provider_types"
  using init_registry_Some [of E] by (auto simp: Known_def provider_types_def split: if_splits)

lemma reject_register_None: "reject_register E req = None \<longleftrightarrow> valid_registration req"
  by (auto simp: reject_register_def valid_registration_def validate_None Known_provider limits_def
      platforms_def device_platforms_def provider_types_def maxExternalUserIDLength_def)

section \<open>The upsert\<close>

lemma UpsertSubscriber_Inr:
  assumes "value_of (UpsertSubscriber pid ext) w = Inr s"
  shows "s \<in> set (subscribers (w_db (final (UpsertSubscriber pid ext) w)))"
    and "s_ProjectID s = pid" "s_ExternalID s = ext"
    and "devices (w_db (final (UpsertSubscriber pid ext) w)) = devices (w_db w)"
  using exec_Inr [OF assms [unfolded UpsertSubscriber_def]]
  by (auto simp: UpsertSubscriber_def run_stmt_def sql_upsertSubscriber_def same_external_def Let_def
      in_set_upd_where split: option.splits if_splits dest!: find_SomeD intro!: bexI)

lemma sql_upsertDevice_cases:
  assumes "fst (sql_upsertDevice pid tok plat prov meta sid now u t) = Inr d"
  obtains (old) d0 where "find (same_token pid tok) (devices t) = Some d0"
      "d = reregistered plat prov meta sid now d0"
      "snd (sql_upsertDevice pid tok plat prov meta sid now u t) =
        t\<lparr>devices := upd_where (same_token pid tok) (reregistered plat prov meta sid now) (devices t)\<rparr>"
  | (new) "find (same_token pid tok) (devices t) = None"
      "d = \<lparr>d_ID = u, d_ProjectID = pid, d_SubscriberID = sid, d_Token = tok, d_Platform = plat,
         d_ProviderType = prov, d_Status = ''active'', d_Metadata = meta, d_CreatedAt = now, d_UpdatedAt = now\<rparr>"
      "snd (sql_upsertDevice pid tok plat prov meta sid now u t) = t\<lparr>devices := devices t @ [d]\<rparr>"
  using assms unfolding sql_upsertDevice_def Let_def by (simp split: if_splits option.splits)

lemma UpsertDevice_Inr:
  assumes "value_of (UpsertDevice pid tok plat prov meta sid) w = Inr d"
  shows "d \<in> set (devices (w_db (final (UpsertDevice pid tok plat prov meta sid) w)))"
    and "d_ProjectID d = pid" "d_Token d = tok" "d_Platform d = plat" "d_ProviderType d = prov"
    and "d_Status d = ''active''" "d_Metadata d = meta"
    and "d_SubscriberID d = coalesce sid (case find (same_token pid tok) (devices (w_db w)) of
      None \<Rightarrow> None | Some d0 \<Rightarrow> d_SubscriberID d0)"
    and "subscribers (w_db (final (UpsertDevice pid tok plat prov meta sid) w)) = subscribers (w_db w)"
proof -
  note run = exec_Inr [OF assms [unfolded UpsertDevice_def], unfolded run_stmt_def]
  obtain now u where *: "fst (sql_upsertDevice pid tok plat prov meta sid now u (w_db w)) = Inr d"
    and fin: "w_db (final (UpsertDevice pid tok plat prov meta sid) w) =
      snd (sql_upsertDevice pid tok plat prov meta sid now u (w_db w))"
    using run by (simp add: UpsertDevice_def)
  from * show "d \<in> set (devices (w_db (final (UpsertDevice pid tok plat prov meta sid) w)))"
    unfolding fin
  proof (cases rule: sql_upsertDevice_cases)
    case (old d0)
    from find_SomeD [OF old(1)] have "d0 \<in> set (devices (w_db w))" "same_token pid tok d0" by blast+
    then show "d \<in> set (devices (snd (sql_upsertDevice pid tok plat prov meta sid now u (w_db w))))"
      unfolding old(2,3) by (force simp: in_set_upd_where)
  next
    case new
    then show "d \<in> set (devices (snd (sql_upsertDevice pid tok plat prov meta sid now u (w_db w))))" by simp
  qed
  from * show "d_ProjectID d = pid" "d_Token d = tok" "d_Platform d = plat" "d_ProviderType d = prov"
    "d_Status d = ''active''" "d_Metadata d = meta"
    by (cases rule: sql_upsertDevice_cases;
        simp add: reregistered_def same_token_def find_Some_iff, blast?)+
  from * show "d_SubscriberID d = coalesce sid (case find (same_token pid tok) (devices (w_db w)) of
      None \<Rightarrow> None | Some d0 \<Rightarrow> d_SubscriberID d0)"
    by (cases rule: sql_upsertDevice_cases) (simp_all add: reregistered_def coalesce_def split: option.split)
  from * show "subscribers (w_db (final (UpsertDevice pid tok plat prov meta sid) w)) = subscribers (w_db w)"
    unfolding fin by (cases rule: sql_upsertDevice_cases) simp_all
qed

text \<open>The row and, when an external id was given, the subscriber it belongs to.\<close>

definition registered_as :: "uuid \<Rightarrow> registerDeviceRequest \<Rightarrow> json \<Rightarrow> tables \<Rightarrow> device_row \<Rightarrow> bool" where
  "registered_as pid req meta t d \<longleftrightarrow>
     d_ProjectID d = pid \<and> d_Token d = rd_Token req \<and> d_Platform d = rd_Platform req \<and>
     d_ProviderType d = rd_Provider req \<and> d_Status d = ''active'' \<and> d_Metadata d = meta \<and>
     d \<in> set (devices t) \<and>
     (rd_ExternalUserID req \<noteq> [] \<longrightarrow> (\<exists>s \<in> set (subscribers t). d_SubscriberID d = Some (s_ID s) \<and>
        s_ProjectID s = pid \<and> s_ExternalID s = rd_ExternalUserID req))"

lemma upsertDevice_Inr:
  assumes "value_of (upsertDevice Pool pid req meta) w = Inr d"
  shows "registered_as pid req meta (w_db (final (upsertDevice Pool pid req meta) w)) d"
proof (cases "rd_ExternalUserID req = []")
  case True
  with assms have dev: "value_of (UpsertDevice pid (rd_Token req) (rd_Platform req) (rd_Provider req) meta None) w = Inr d"
    and fin: "final (upsertDevice Pool pid req meta) w =
      final (UpsertDevice pid (rd_Token req) (rd_Platform req) (rd_Provider req) meta None) w"
    by (auto simp: upsertDevice_def attempt_simps split: sum.splits)
  from UpsertDevice_Inr [OF dev] True show ?thesis unfolding registered_as_def fin by simp
next
  case False
  let ?sub = "UpsertSubscriber pid (rd_ExternalUserID req)"
  from False assms obtain s where s: "value_of ?sub w = Inr s"
    by (auto simp: upsertDevice_def attempt_simps split: sum.splits)
  let ?dev = "UpsertDevice pid (rd_Token req) (rd_Platform req) (rd_Provider req) meta (Some (s_ID s))"
  from False assms s have dev: "value_of ?dev (final ?sub w) = Inr d"
    and fin: "final (upsertDevice Pool pid req meta) w = final ?dev (final ?sub w)"
    by (auto simp: upsertDevice_def attempt_simps split: sum.splits)
  from UpsertDevice_Inr [OF dev] UpsertSubscriber_Inr [OF s] show ?thesis
    unfolding registered_as_def fin by (auto simp: coalesce_def)
qed

section \<open>Movement of the database\<close>

lemma upsertDevice_moves [moves_rules]: "moves db_moves (upsertDevice Pool pid req meta)"
  unfolding upsertDevice_def by (auto intro!: moves_rules)

lemma register_in_tx_moves: "moves db_moves (register_in_tx Pool E pid req meta)"
  unfolding register_in_tx_def Let_def on_queries.simps by (intro moves_rules)

text \<open>The same statements on the transaction and on the pool.\<close>

lemma in_tx_upsertDevice: "in_tx (upsertDevice Tx pid req meta) (upsertDevice Pool pid req meta)"
  unfolding upsertDevice_def device_methods by (intro in_tx_rules)

lemma in_tx_register: "in_tx (register_in_tx Tx E pid req meta) (register_in_tx Pool E pid req meta)"
  unfolding register_in_tx_def Let_def device_methods by (intro in_tx_rules in_tx_upsertDevice)

lemma tx_simps:
  "w_db (final tx_Begin w) = w_db w"
  "value_of tx_Begin w = Inl e \<Longrightarrow> w_tx (final tx_Begin w) = w_tx w"
  "value_of tx_Begin w = Inr u \<Longrightarrow> w_tx (final tx_Begin w) = Some (\<lambda>t. t)"
  "w_db (final tx_Rollback w) = w_db w"
  "w_tx (final tx_Rollback w) = None"
  "w_tx (final tx_Commit w) = None"
  by (auto simp: tx_Begin_def tx_Rollback_def tx_Commit_def Let_def split: fault.splits option.split)

lemma tx_Commit_cases:
  assumes "w_tx w \<noteq> None"
  shows "(\<exists>u. value_of tx_Commit w = Inr u) \<and> w_db (final tx_Commit w) = w_db (tx_view w) \<or>
    (\<exists>e. value_of tx_Commit w = Inl e) \<and> w_db (final tx_Commit w) \<in> {w_db w, w_db (tx_view w)}"
  using assms by (auto simp: tx_Commit_def tx_view_def inside_tx_def Let_def split: fault.splits)

text \<open>
  What a serialized registration leaves is what its statements would have left on the pool, in
  the world \<open>at_begin w\<close> after a \<open>Begin\<close>, or nothing; and no transaction stays open.
\<close>

definition at_begin :: "world \<Rightarrow> world" where
  "at_begin w = tx_view (final tx_Begin w)"

lemma at_begin_db: "value_of tx_Begin w = Inr u \<Longrightarrow> w_db (at_begin w) = w_db w"
  by (simp add: at_begin_def tx_view_def inside_tx_def tx_simps)

lemma registerDeviceSerialized_cases:
  fixes E pid req meta w
  defines "tx \<equiv> register_in_tx Pool E pid req meta"
  shows "(\<exists>e. value_of (registerDeviceSerialized E pid req meta) w = Inl e) \<and>
      w_db (final (registerDeviceSerialized E pid req meta) w) = w_db w \<or>
    w_db (at_begin w) = w_db w \<and> (\<exists>d. value_of tx (at_begin w) = Inr d \<and>
      (\<forall>d'. value_of (registerDeviceSerialized E pid req meta) w = Inr d' \<longrightarrow> d' = d) \<and>
      w_db (final (registerDeviceSerialized E pid req meta) w) = w_db (final tx (at_begin w)))"
proof (cases "value_of tx_Begin w")
  case (Inl e)
  then show ?thesis by (simp add: registerDeviceSerialized_def attempt_simps tx_simps)
next
  case (Inr u)
  let ?w1 = "final tx_Begin w" and ?tx = "register_in_tx Tx E pid req meta"
  have open1: "w_tx ?w1 \<noteq> None" using Inr by (simp add: tx_simps)
  note sim = in_txD [OF in_tx_register open1, of E pid req meta, folded tx_def at_begin_def]
  note run = registerDeviceSerialized_def attempt_simps tx_simps WithTx_def Inr
  show ?thesis
  proof (cases "value_of ?tx ?w1")
    case (Inl e)
    with sim(3) show ?thesis by (simp add: run)
  next
    case tx: (Inr d)
    from tx_Commit_cases [OF sim(4)] tx sim(1-3) at_begin_db [OF Inr] show ?thesis
      by (auto simp: run)
  qed
qed

lemma registerDeviceSerialized_served:
  assumes "healthy w" and "value_of (register_in_tx Pool E pid req meta) (at_begin w) = Inr d"
  shows "value_of (registerDeviceSerialized E pid req meta) w = Inr d"
proof -
  let ?w1 = "final tx_Begin w"
  have begin_ok: "value_of tx_Begin w = Inr ()" and server: "w_server ?w1 = w_server w"
    using assms(1) by (simp_all add: tx_Begin_def healthy_def next_env_def Let_def)
  then have open1: "w_tx ?w1 \<noteq> None" by (simp add: tx_simps)
  note sim = in_txD [OF in_tx_register open1, of E pid req meta, folded at_begin_def]
  from sim(4,5) server assms(1) have "\<exists>u. value_of tx_Commit (final (register_in_tx Tx E pid req meta) ?w1) = Inr u"
    by (auto simp: tx_Commit_def Let_def next_env_def healthy_def)
  with sim(1) begin_ok assms(2) show ?thesis
    by (auto simp: registerDeviceSerialized_def attempt_simps WithTx_def)
qed

lemma registerDeviceSerialized_closed:
  "w_tx (final (registerDeviceSerialized E pid req meta) w) =
     (if \<exists>e. value_of tx_Begin w = Inl e then w_tx w else None)"
  by (cases "value_of tx_Begin w") (simp_all add: registerDeviceSerialized_def attempt_simps tx_simps)

section \<open>One active token per device\<close>

lemma put_nonempty_props:
  "is_gomap m \<Longrightarrow> is_gomap (put_nonempty k s m)"
  "is_gomap m \<Longrightarrow> map_of (put_nonempty k s m) = (if s \<noteq> [] then (map_of m)(k \<mapsto> JStr s) else map_of m)"
  by (simp_all add: put_nonempty_def is_gomap_map_put map_of_map_put)

lemma is_gomap_Nil: "is_gomap []"
  by (simp add: is_gomap_def)

lemma metadata_device_uuid:
  "device_uuid_of req \<noteq> [] \<Longrightarrow>
     arrow_text ''device_uuid'' (JObj (buildDeviceMetadata (rd_Device req) ip)) = Some (device_uuid_of req)"
  by (cases "rd_Device req"; cases "di_Coords (the (rd_Device req))")
    (simp_all add: device_uuid_of_def buildDeviceMetadata_def put_nonempty_props is_gomap_Nil
      map_of_map_put is_gomap_map_put)

lemma MarkStale_Inr:
  assumes "value_of (MarkStaleDevicesByDeviceUUID pid sid i duuid) w = Inr gone"
  shows "\<exists>now. devices (w_db (final (MarkStaleDevicesByDeviceUUID pid sid i duuid) w)) =
      upd_where (rotated_out pid sid i duuid) (make_stale now) (devices (w_db w))"
    and "subscribers (w_db (final (MarkStaleDevicesByDeviceUUID pid sid i duuid) w)) = subscribers (w_db w)"
  using exec_Inr [OF assms [unfolded MarkStaleDevicesByDeviceUUID_def]]
  by (auto simp: MarkStaleDevicesByDeviceUUID_def run_stmt_def sql_markStaleDevicesByDeviceUUID_def)

text \<open>The devices of a subscriber that push to the same physical device.\<close>

definition same_device :: "uuid \<Rightarrow> uuid option \<Rightarrow> string \<Rightarrow> device_row \<Rightarrow> bool" where
  "same_device pid sid duuid d \<longleftrightarrow> d_ProjectID d = pid \<and> d_SubscriberID d = sid \<and>
     d_Status d = ''active'' \<and> arrow_text ''device_uuid'' (d_Metadata d) = Some duuid"

lemma filter_unique:
  "distinct (map key xs) \<Longrightarrow> d \<in> set xs \<Longrightarrow> P d \<Longrightarrow> (\<And>x. x \<in> set xs \<Longrightarrow> P x \<Longrightarrow> key x = key d) \<Longrightarrow>
     filter P xs = [d]"
proof (induction xs)
  case (Cons x xs)
  show ?case
  proof (cases "P x")
    case True
    then have "key x = key d" by (intro Cons.prems(4)) simp_all
    then have none: "\<not> P y" if "y \<in> set xs" for y
      using Cons.prems(1) Cons.prems(4) [of y] that by (metis distinct.simps(2) image_eqI list.set_intros(2) list.simps(9) set_map)
    then have "x = d" using Cons.prems(2,3) by auto
    moreover from none have "filter P xs = []" by (simp add: filter_empty_conv)
    ultimately show ?thesis using True by simp
  next
    case False
    with Cons.prems(2,3) have "d \<in> set xs" by auto
    moreover have "distinct (map key xs)" using Cons.prems(1) by simp
    moreover have "key y = key d" if "y \<in> set xs" "P y" for y
      using that by (intro Cons.prems(4)) simp_all
    ultimately have "filter P xs = [d]" using Cons.prems(3) by (intro Cons.IH)
    with False show ?thesis by simp
  qed
qed simp

lemma superseded:
  assumes "distinct (map d_ID ds)" and "d \<in> set ds" and "d_SubscriberID d = Some sid"
    and "same_device pid (Some sid) duuid d"
  shows "filter (same_device pid (Some sid) duuid)
    (upd_where (rotated_out pid (d_SubscriberID d) (d_ID d) duuid) (make_stale now) ds) = [d]"
proof (rule filter_unique [where key = d_ID])
  let ?ds = "upd_where (rotated_out pid (d_SubscriberID d) (d_ID d) duuid) (make_stale now) ds"
  show "distinct (map d_ID ?ds)" using assms(1) by (simp add: make_stale_def)
  have "\<not> rotated_out pid (d_SubscriberID d) (d_ID d) duuid d" by (simp add: rotated_out_def)
  then show "d \<in> set ?ds" using assms(2) by (force simp: in_set_upd_where)
  show "same_device pid (Some sid) duuid d" by (fact assms(4))
  fix x
  assume x: "x \<in> set ?ds" and same: "same_device pid (Some sid) duuid x"
  from x obtain r where r: "x = (if rotated_out pid (d_SubscriberID d) (d_ID d) duuid r then make_stale now r else r)"
    unfolding in_set_upd_where by blast
  moreover have "\<not> same_device pid (Some sid) duuid (make_stale now r)"
    by (simp add: same_device_def make_stale_def)
  ultimately have "\<not> rotated_out pid (d_SubscriberID d) (d_ID d) duuid x"
    using same by (simp split: if_splits)
  with same assms(3) show "d_ID x = d_ID d" by (simp add: same_device_def rotated_out_def)
qed

lemma register_in_tx_Inr:
  assumes "value_of (register_in_tx Pool E pid req meta) w = Inr d" and wf: "wf_db (w_db w)"
    and ext: "rd_ExternalUserID req \<noteq> []" and meta: "arrow_text ''device_uuid'' meta = Some (device_uuid_of req)"
  shows "filter (same_device pid (d_SubscriberID d) (device_uuid_of req))
      (devices (w_db (final (register_in_tx Pool E pid req meta) w))) = [d] \<and>
    registered_as pid req meta (w_db (final (register_in_tx Pool E pid req meta) w)) d"
proof -
  define lock where
    "lock = AdvisoryLockDeviceUUID (uuid_String E pid @ '':'' @ rd_ExternalUserID req @ '':'' @ device_uuid_of req)"
  have lock_db: "w_db (final lock w) = w_db w" by (simp add: lock_def frame_simps)
  let ?up = "upsertDevice Pool pid req meta"
  let ?w1 = "final lock w" and ?w2 = "final ?up (final lock w)"
  let ?stale = "\<lambda>d. MarkStaleDevicesByDeviceUUID pid (d_SubscriberID d) (d_ID d) (device_uuid_of req)"
  note body = register_in_tx_def [of Pool E pid req meta, unfolded Let_def on_queries.simps, folded lock_def]
  from assms(1) obtain u gone where lock: "value_of lock w = Inr u"
    and up: "value_of ?up ?w1 = Inr d" and gone: "value_of (?stale d) ?w2 = Inr gone"
    by (auto simp: body elim!: attempt_InrE)
  have fin: "final (register_in_tx Pool E pid req meta) w = final (?stale d) ?w2"
    using lock up gone by (simp add: body attempt_simps)
  from MarkStale_Inr(1) [OF gone] obtain now where devs: "devices (w_db (final (?stale d) ?w2)) =
      upd_where (rotated_out pid (d_SubscriberID d) (d_ID d) (device_uuid_of req)) (make_stale now) (devices (w_db ?w2))"
    by blast
  have "wf_db (w_db ?w1)" using wf by (simp add: lock_db)
  then have "wf_db (w_db ?w2)" by (rule db_moves_wf [OF upsertDevice_moves])
  then have dist: "distinct (map d_ID (devices (w_db ?w2)))" by (simp add: wf_db_def devices_ok_def)
  from upsertDevice_Inr [OF up] have reg: "registered_as pid req meta (w_db ?w2) d" .
  with ext obtain sid where sid: "d_SubscriberID d = Some sid" by (auto simp: registered_as_def)
  have one: "filter (same_device pid (Some sid) (device_uuid_of req)) (devices (w_db (final (?stale d) ?w2))) = [d]"
    unfolding devs
    by (rule superseded) (use dist reg sid meta in \<open>simp_all add: registered_as_def same_device_def\<close>)
  then have "d \<in> set (filter (same_device pid (Some sid) (device_uuid_of req)) (devices (w_db (final (?stale d) ?w2))))"
    by simp
  then have "d \<in> set (devices (w_db (final (?stale d) ?w2)))" by (simp only: set_filter) simp
  with one reg sid MarkStale_Inr(2) [OF gone] show ?thesis unfolding fin by (simp add: registered_as_def)
qed

lemma register_device_moves [moves_rules]: "moves db_moves (register_device E pid req meta)"
proof (rule movesI)
  fix w
  have "wstep\<^sup>*\<^sup>* (w_db (at_begin w)) (w_db (final (register_in_tx Pool E pid req meta) (at_begin w)))"
    using movesD [OF register_in_tx_moves, of "at_begin w"] by (simp add: db_moves_def)
  then have "wstep\<^sup>*\<^sup>* (w_db w) (w_db (final (registerDeviceSerialized E pid req meta) w))"
    using registerDeviceSerialized_cases [of E pid req meta w] by (elim disjE exE conjE) simp_all
  moreover have "wstep\<^sup>*\<^sup>* (w_db w) (w_db (final (upsertDevice Pool pid req meta) w))"
    using movesD [OF upsertDevice_moves, of w] by (simp add: db_moves_def)
  ultimately show "db_moves w (final (register_device E pid req meta) w)"
    by (simp add: register_device_def db_moves_def)
qed

lemma handleRegisterDevice_moves [moves_rules]: "moves db_moves (handleRegisterDevice E r)"
  unfolding handleRegisterDevice_def by (auto intro!: moves_rules split: sum.split option.split)

lemma register_device_Inr:
  assumes wf: "wf_db (w_db w)"
    and ok: "value_of (register_device E pid req (JObj (buildDeviceMetadata (rd_Device req) ip))) w = Inr d"
  shows "registered_as pid req (JObj (buildDeviceMetadata (rd_Device req) ip))
    (w_db (final (register_device E pid req (JObj (buildDeviceMetadata (rd_Device req) ip))) w)) d"
proof (cases "rd_ExternalUserID req \<noteq> [] \<and> device_uuid_of req \<noteq> []")
  case False
  have run: "register_device E pid req (JObj (buildDeviceMetadata (rd_Device req) ip)) =
      upsertDevice Pool pid req (JObj (buildDeviceMetadata (rd_Device req) ip))"
    by (simp only: register_device_def if_not_P [OF False])
  from ok show ?thesis unfolding run by (rule upsertDevice_Inr)
next
  case True
  let ?meta = "JObj (buildDeviceMetadata (rd_Device req) ip)"
  have run: "register_device E pid req ?meta = registerDeviceSerialized E pid req ?meta"
    using True by (simp add: register_device_def)
  from registerDeviceSerialized_cases [of E pid req ?meta w] ok
  have tx: "value_of (register_in_tx Pool E pid req ?meta) (at_begin w) = Inr d"
    and db: "w_db (final (registerDeviceSerialized E pid req ?meta) w) =
      w_db (final (register_in_tx Pool E pid req ?meta) (at_begin w))" and "w_db (at_begin w) = w_db w"
    unfolding run by auto
  from this(3) wf have "wf_db (w_db (at_begin w))" by simp
  from register_in_tx_Inr [OF tx this] True metadata_device_uuid [of req ip] show ?thesis
    unfolding run db by simp
qed

section \<open>Properties\<close>

text \<open>
  C8. Rotating a push token leaves one active row per physical device: after a registration
  with an external id and a device uuid succeeds, the active devices of that project and
  subscriber with that uuid in their metadata are exactly the one returned.
\<close>

theorem registration_one_active:
  assumes "wf_db (w_db w)" and "rd_ExternalUserID req \<noteq> []" and "device_uuid_of req \<noteq> []"
    and "value_of (register_device E pid req (JObj (buildDeviceMetadata (rd_Device req) ip))) w = Inr d"
  shows "filter (same_device pid (d_SubscriberID d) (device_uuid_of req))
    (devices (w_db (final (register_device E pid req (JObj (buildDeviceMetadata (rd_Device req) ip))) w))) = [d]"
proof -
  let ?meta = "JObj (buildDeviceMetadata (rd_Device req) ip)"
  have run: "register_device E pid req ?meta = registerDeviceSerialized E pid req ?meta"
    using assms(2,3) by (simp add: register_device_def)
  from registerDeviceSerialized_cases [of E pid req ?meta w] assms(4)
  have tx: "value_of (register_in_tx Pool E pid req ?meta) (at_begin w) = Inr d"
    and db: "w_db (final (registerDeviceSerialized E pid req ?meta) w) =
      w_db (final (register_in_tx Pool E pid req ?meta) (at_begin w))" and "w_db (at_begin w) = w_db w"
    unfolding run by auto
  from this(3) assms(1) have "wf_db (w_db (at_begin w))" by simp
  from register_in_tx_Inr [OF tx this assms(2) metadata_device_uuid [OF assms(3)]] show ?thesis
    unfolding run db by simp
qed

definition sample_register :: registerDeviceRequest where
  "sample_register = \<lparr>rd_Token = ''new'', rd_Provider = ''fcm'', rd_Platform = ''android'',
     rd_ExternalUserID = ''u'', rd_Device = Some (no_deviceInfo\<lparr>di_DeviceUUID := ''D''\<rparr>)\<rparr>"

lemmas eval_register = register_device_def registerDeviceSerialized_def register_in_tx_def upsertDevice_def
  attempt_simps tx_Begin_def tx_Commit_def tx_Rollback_def WithTx_def inside_tx_def AdvisoryLockDeviceUUID_def sql_advisoryLockDeviceUUID_def
  UpsertSubscriber_def sql_upsertSubscriber_def UpsertDevice_def sql_upsertDevice_def
  MarkStaleDevicesByDeviceUUID_def sql_markStaleDevicesByDeviceUUID_def exec_value exec_final next_env_def
  run_stmt_def sample_defs Let_def same_external_def same_token_def subscriber_exists_def device_exists_def
  project_exists_def device_platforms_def provider_types_def

theorem registration_one_active_witness:
  "\<exists>d. value_of (register_device sample_ext 1 sample_register
       (JObj (buildDeviceMetadata (rd_Device sample_register) ''10.0.0.1''))) store_world = Inr d \<and>
     filter (same_device 1 (d_SubscriberID d) ''D'') (devices (w_db (final (register_device sample_ext 1 sample_register
       (JObj (buildDeviceMetadata (rd_Device sample_register) ''10.0.0.1''))) store_world))) = [d]"
proof -
  define meta where "meta = JObj (buildDeviceMetadata (rd_Device sample_register) ''10.0.0.1'')"
  have req: "rd_ExternalUserID sample_register = ''u''" "device_uuid_of sample_register = ''D''"
    "rd_Platform sample_register = ''android''" "rd_Provider sample_register = ''fcm''" "rd_Token sample_register = ''new''"
    by (simp_all add: sample_register_def device_uuid_of_def)
  have run: "register_device sample_ext 1 sample_register meta = registerDeviceSerialized sample_ext 1 sample_register meta"
    by (simp add: register_device_def req)
  have "\<exists>d. value_of (register_in_tx Pool sample_ext 1 sample_register meta) (at_begin store_world) = Inr d"
    by (simp add: eval_register req at_begin_def tx_view_def)
  then have "\<exists>d. value_of (register_device sample_ext 1 sample_register meta) store_world = Inr d"
    unfolding run using registerDeviceSerialized_served [of store_world] by (auto simp: sample_defs healthy_def)
  then obtain d where d: "value_of (register_device sample_ext 1 sample_register meta) store_world = Inr d" by blast
  have "wf_db (w_db store_world)" by (simp add: store_world_def wf_sample_db)
  from registration_one_active [OF this _ _ d [unfolded meta_def]] d show ?thesis
    by (simp add: req meta_def)
qed

text \<open>
  C20. A serialized registration is atomic under every fault. Until the commit nothing of it is
  visible to anyone else. If it fails, nothing changed, or (the commit's answer was lost) the
  database is the one its statements would have left without a transaction, all of them
  successful; if it succeeds, it is that database. And no transaction stays open.
\<close>

theorem registerDeviceSerialized_atomic:
  assumes "w_tx w = None"
  shows "let w' = final (registerDeviceSerialized E pid req meta) w;
       whole = register_in_tx Pool E pid req meta in
   (\<forall>u. value_of tx_Begin w = Inr u \<longrightarrow>
      w_db (final (register_in_tx (WithTx Pool) E pid req meta) (final tx_Begin w)) = w_db w) \<and>
   (case value_of (registerDeviceSerialized E pid req meta) w of
      Inl e \<Rightarrow> w_db w' = w_db w \<or> (\<exists>d. value_of whole (at_begin w) = Inr d \<and> w_db w' = w_db (final whole (at_begin w)))
    | Inr d \<Rightarrow> value_of whole (at_begin w) = Inr d \<and> w_db w' = w_db (final whole (at_begin w))) \<and>
   w_tx w' = None"
proof -
  have "w_db (final (register_in_tx Tx E pid req meta) (final tx_Begin w)) = w_db w"
    if "value_of tx_Begin w = Inr u" for u
    using in_txD(3) [OF in_tx_register, of "final tx_Begin w"] that by (simp add: tx_simps)
  then show ?thesis
    using registerDeviceSerialized_cases [of E pid req meta w] assms
    by (auto simp: Let_def WithTx_def registerDeviceSerialized_closed split: sum.split)
qed

text \<open>The sample world with a server that refuses one statement, the last before the commit.\<close>

definition refusing_world :: world where
  "refusing_world = store_world\<lparr>w_server := (\<lambda>i. if i = 4 then \<lparr>se_fault = Refused ''down'', se_now = 4, se_uuid = 104\<rparr>
     else \<lparr>se_fault = Served, se_now = int i, se_uuid = of_nat (100 + i)\<rparr>)\<rparr>"

theorem registerDeviceSerialized_atomic_witness:
  "(\<exists>e. value_of (registerDeviceSerialized sample_ext 1 sample_register JNull) refusing_world = Inl e) \<and>
   w_db (final (registerDeviceSerialized sample_ext 1 sample_register JNull) refusing_world) = w_db refusing_world \<and>
   w_tx (final (registerDeviceSerialized sample_ext 1 sample_register JNull) refusing_world) = None"
proof -
  let ?whole = "register_in_tx Pool sample_ext 1 sample_register JNull"
  have "w_tx refusing_world = None" by (simp add: refusing_world_def sample_defs)
  note atomic = registerDeviceSerialized_atomic [OF this, of sample_ext 1 sample_register JNull, unfolded Let_def]
  have req: "rd_ExternalUserID sample_register = ''u''" "device_uuid_of sample_register = ''D''"
    "rd_Platform sample_register = ''android''" "rd_Provider sample_register = ''fcm''" "rd_Token sample_register = ''new''"
    by (simp_all add: sample_register_def device_uuid_of_def)
  have "\<exists>e. value_of ?whole (at_begin refusing_world) = Inl e"
    by (simp add: eval_register req at_begin_def tx_view_def refusing_world_def)
  with atomic show ?thesis
    by (cases "value_of (registerDeviceSerialized sample_ext 1 sample_register JNull) refusing_world") auto
qed

text \<open>
  Registering a known token again without an external id keeps the device: it keeps its
  id and its subscriber, and every other device stays as it is.
\<close>

theorem reregistration_keeps_subscriber:
  assumes "wf_db (w_db w)" and "rd_ExternalUserID req = []"
    and "d0 \<in> set (devices (w_db w))" and "d_ProjectID d0 = pid" and "d_Token d0 = rd_Token req"
    and "value_of (upsertDevice Pool pid req meta) w = Inr d"
  shows "d_ID d = d_ID d0 \<and> d_SubscriberID d = d_SubscriberID d0 \<and> d_Status d = ''active'' \<and>
    devices (w_db (final (upsertDevice Pool pid req meta) w)) =
      map (\<lambda>x. if x = d0 then d else x) (devices (w_db w))"
proof -
  let ?up = "UpsertDevice pid (rd_Token req) (rd_Platform req) (rd_Provider req) meta None"
  have val: "value_of ?up w = Inr d" and fin: "final (upsertDevice Pool pid req meta) w = final ?up w"
    using assms(2,6) by (auto simp: upsertDevice_def attempt_simps split: sum.splits)
  have uniq: "distinct (map (\<lambda>d. (d_ProjectID d, d_Token d)) (devices (w_db w)))"
    using assms(1) by (simp add: wf_db_def devices_ok_def)
  have same: "same_token pid (rd_Token req) x \<longleftrightarrow> x = d0" if "x \<in> set (devices (w_db w))" for x
    using distinct_map_unique [OF uniq that assms(3)] assms(4,5) by (auto simp: same_token_def)
  then have found: "find (same_token pid (rd_Token req)) (devices (w_db w)) = Some d0"
    using find_key_unique [OF uniq assms(3)] assms(4,5) by (simp add: same_token_def [abs_def])
  obtain now u where *: "fst (sql_upsertDevice pid (rd_Token req) (rd_Platform req) (rd_Provider req) meta None now u (w_db w)) = Inr d"
    and db: "w_db (final ?up w) =
      snd (sql_upsertDevice pid (rd_Token req) (rd_Platform req) (rd_Provider req) meta None now u (w_db w))"
    using exec_Inr [OF val [unfolded UpsertDevice_def]] by (simp add: UpsertDevice_def run_stmt_def)
  from * show ?thesis
  proof (cases rule: sql_upsertDevice_cases)
    case (old d1)
    with found have d: "d = reregistered (rd_Platform req) (rd_Provider req) meta None now d0" by simp
    have "devices (w_db (final ?up w)) = map (\<lambda>x. if x = d0 then d else x) (devices (w_db w))"
      unfolding db old(3) by (simp add: upd_where_def d same)
    with d show ?thesis unfolding fin by (simp add: reregistered_def coalesce_def)
  qed (use found in simp)
qed

theorem reregistration_keeps_subscriber_witness:
  "\<exists>d. value_of (upsertDevice Pool 1 (sample_register\<lparr>rd_Token := ''tok'', rd_ExternalUserID := []\<rparr>) JNull) store_world = Inr d \<and>
     d_ID d = 7 \<and> d_SubscriberID d = Some 5"
proof -
  let ?req = "sample_register\<lparr>rd_Token := ''tok'', rd_ExternalUserID := []\<rparr>"
  have "\<exists>d. value_of (upsertDevice Pool 1 ?req JNull) store_world = Inr d"
    by (simp add: eval_register sample_register_def)
  then obtain d where d: "value_of (upsertDevice Pool 1 ?req JNull) store_world = Inr d" by blast
  have dev: "sample_device \<in> set (devices (w_db store_world))" "d_ProjectID sample_device = 1"
    "d_Token sample_device = rd_Token ?req" "d_ID sample_device = 7" "d_SubscriberID sample_device = Some 5"
    by (simp_all add: sample_defs)
  have "wf_db (w_db store_world)" by (simp add: store_world_def wf_sample_db)
  from reregistration_keeps_subscriber [OF this _ dev(1-3) d] d dev(4,5) show ?thesis by simp
qed

text \<open>
  C23. The registration endpoint: a 4xx answer has no effect; a 200 answer names an active
  device of the caller's project that is in the database with the request's token, provider,
  platform and metadata and, when an external id was given, under the subscriber with it;
  and then every bound of the API held of the request.
\<close>

theorem handleRegisterDevice_outcome:
  assumes "wf_db (w_db w)"
  shows "let resp = value_of (handleRegisterDevice E r) w; w' = final (handleRegisterDevice E r) w in
    rs_Status resp = 500 \<or> rs_Status resp \<in> {400, 413, 422} \<and> w' = w \<or>
    rs_Status resp = 200 \<and>
      (\<exists>req pid d. decodeJSON decode_registerDeviceRequest r = Inr req \<and> valid_registration req \<and>
        rq_ProjectID r = Some pid \<and> rs_Body resp = registerDeviceResponse E d \<and>
        registered_as pid req (JObj (buildDeviceMetadata (rd_Device req) (clientIP r))) (w_db w') d)"
proof (cases "decodeJSON decode_registerDeviceRequest r")
  case (Inl resp)
  with decodeJSON_Inl [OF Inl] show ?thesis by (auto simp: handleRegisterDevice_def Let_def)
next
  case req: (Inr req)
  show ?thesis
  proof (cases "reject_register E req")
    case (Some msg)
    with req show ?thesis by (simp add: handleRegisterDevice_def Let_def)
  next
    case ok: None
    then have valid: "valid_registration req" by (simp add: reject_register_None)
    show ?thesis
    proof (cases "rq_ProjectID r")
      case None
      with req ok show ?thesis by (simp add: handleRegisterDevice_def projectIDFromContext_def Let_def)
    next
      case (Some pid)
      let ?meta = "JObj (buildDeviceMetadata (rd_Device req) (clientIP r))"
      note run = handleRegisterDevice_def projectIDFromContext_def Let_def req ok Some
      show ?thesis
      proof (cases "value_of (register_device E pid req ?meta) w")
        case (Inl err)
        then show ?thesis by (simp add: run)
      next
        case (Inr d)
        have reg: "registered_as pid req ?meta (w_db (final (register_device E pid req ?meta) w)) d"
          using register_device_Inr [OF assms Inr] .
        from Inr have fin: "final (handleRegisterDevice E r) w = final (register_device E pid req ?meta) w"
          and val: "value_of (handleRegisterDevice E r) w = writeJSON 200 (registerDeviceResponse E d)"
          by (simp_all add: run)
        show ?thesis unfolding Let_def fin val using valid req Some reg by auto
      qed
    qed
  qed
qed

theorem handleRegisterDevice_outcome_witness:
  "\<exists>j d. rs_Status (value_of (handleRegisterDevice sample_ext (posting j)) store_world) = 200 \<and>
     d \<in> set (devices (w_db (final (handleRegisterDevice sample_ext (posting j)) store_world))) \<and>
     d_Token d = ''new''"
proof -
  let ?kvs = "[(''token'', JStr ''new''), (''provider'', JStr ''fcm''), (''platform'', JStr ''android'')]"
  let ?E = sample_ext and ?r = "posting (JObj ?kvs)"
  have known: "known_fields [''token'', ''provider'', ''platform'', ''external_user_id'', ''device''] ?kvs"
    by (simp add: known_fields_def key_match_def)
  have dec: "decodeJSON decode_registerDeviceRequest ?r = Inr
      \<lparr>rd_Token = ''new'', rd_Provider = ''fcm'', rd_Platform = ''android'', rd_ExternalUserID = [], rd_Device = None\<rparr>"
    by (subst decode_posted) (simp_all add: posted_sizes decode_registerDeviceRequest_def known
        string_field_def jfields_def key_match_def lower_char_def Let_def)
  have ok: "rs_Status (value_of (handleRegisterDevice ?E ?r) store_world) = 200"
    by (simp add: handleRegisterDevice_def dec reject_register_def limits_def platforms_def Known_provider
        validate_def projectIDFromContext_def maxExternalUserIDLength_def eval_register)
  have "wf_db (w_db store_world)" by (simp add: store_world_def wf_sample_db)
  from handleRegisterDevice_outcome [OF this, of ?E ?r] ok dec show ?thesis
    by (auto simp: Let_def registered_as_def)
qed

end
