(* ===== verification/Router.thy ===== *)
theory Router imports RegistrationFacts begin

text \<open>
  The public API as it is wired, \<open>internal/transport/http/server.go\<close>: its routes with the
  scope each requires, and what holds of all of them together.
\<close>

record route =
  rt_Method :: string
  rt_Pattern :: string
  rt_Handler :: handler

definition NewRouter :: "ext \<Rightarrow> RateLimiter \<Rightarrow> route list" where
  "NewRouter E limiter =
     (let requireRead = requireScope E limiter ScopeRead;
          requireSend = requireScope E limiter ScopeSend in
      [\<lparr>rt_Method = ''POST'', rt_Pattern = ''/api/v1/devices'',
         rt_Handler = requireSend (handleRegisterDevice E)\<rparr>,
       \<lparr>rt_Method = ''POST'', rt_Pattern = ''/api/v1/notifications'',
         rt_Handler = requireSend (handleCreateNotification E)\<rparr>,
       \<lparr>rt_Method = ''GET'', rt_Pattern = ''/api/v1/notifications/{id}'',
         rt_Handler = requireRead (handleGetNotification E)\<rparr>,
       \<lparr>rt_Method = ''GET'', rt_Pattern = ''/api/v1/notifications/{id}/recipients'',
         rt_Handler = requireRead (handleListRecipients E)\<rparr>])"



section \<open>Changes within a project\<close>

text \<open>
  Everything but the project's own notifications, devices and subscribers is as it was, up
  to the time API keys were last used.
\<close>

definition inside :: "uuid \<Rightarrow> tables \<Rightarrow> tables \<Rightarrow> bool" where
  "inside pid t t' \<longleftrightarrow>
     filter (\<lambda>n. n_ProjectID n \<noteq> pid) (notifications t') = filter (\<lambda>n. n_ProjectID n \<noteq> pid) (notifications t) \<and>
     filter (\<lambda>d. d_ProjectID d \<noteq> pid) (devices t') = filter (\<lambda>d. d_ProjectID d \<noteq> pid) (devices t) \<and>
     filter (\<lambda>s. s_ProjectID s \<noteq> pid) (subscribers t') = filter (\<lambda>s. s_ProjectID s \<noteq> pid) (subscribers t) \<and>
     recipients t' = recipients t \<and> projects t' = projects t \<and> credentials t' = credentials t \<and>
     users t' = users t \<and> sessions t' = sessions t \<and>
     map (\<lambda>k. k\<lparr>k_LastUsedAt := None\<rparr>) (api_keys t') = map (\<lambda>k. k\<lparr>k_LastUsedAt := None\<rparr>) (api_keys t)"

definition confined :: "uuid \<Rightarrow> world \<Rightarrow> world \<Rightarrow> bool" where
  "confined pid w w' \<longleftrightarrow> inside pid (w_db w) (w_db w')"

lemma inside_refl [simp]: "inside pid t t"
  by (simp add: inside_def)

lemma inside_trans: "inside pid t u \<Longrightarrow> inside pid u v \<Longrightarrow> inside pid t v"
  by (simp add: inside_def)

lemma confined_order: "reflp (confined pid)" "transp (confined pid)"
  by (auto simp: reflp_def transp_def confined_def intro: inside_trans)

lemmas confined_rules =
  moves_ret [OF confined_order(1)] moves_bind [OF confined_order(2)] moves_attempt [OF confined_order]

lemma confined_frame: "(\<And>w. w_db (final m w) = w_db w) \<Longrightarrow> moves (confined pid) m"
  by (simp add: moves_def confined_def)

lemma confined_exec:
  assumes "\<And>now u t. inside pid t (snd (stmt now u t))"
  shows "moves (confined pid) (exec stmt)"
  unfolding moves_def confined_def exec_final run_stmt_def
  using assms by (auto split: fault.split)

lemma filter_upd_where:
  "(\<And>x. P x \<Longrightarrow> \<not> Q x) \<Longrightarrow> (\<And>x. P x \<Longrightarrow> \<not> Q (f x)) \<Longrightarrow> filter Q (upd_where P f xs) = filter Q xs"
  by (induction xs) auto

lemma own_rows:
  "filter (\<lambda>s. s_ProjectID s \<noteq> pid) (upd_where (same_external pid ext) (\<lambda>s. s\<lparr>s_LastSeenAt := now\<rparr>) ss) =
     filter (\<lambda>s. s_ProjectID s \<noteq> pid) ss"
  "filter (\<lambda>d. d_ProjectID d \<noteq> pid) (upd_where (same_token pid tok) (reregistered plat prov meta sid now) ds) =
     filter (\<lambda>d. d_ProjectID d \<noteq> pid) ds"
  "filter (\<lambda>d. d_ProjectID d \<noteq> pid) (upd_where (rotated_out pid sid i duuid) (make_stale now) ds) =
     filter (\<lambda>d. d_ProjectID d \<noteq> pid) ds"
  by (rule filter_upd_where;
      simp add: same_external_def same_token_def reregistered_def rotated_out_def make_stale_def)+

lemma used_keys:
  "map (\<lambda>k. k\<lparr>k_LastUsedAt := None\<rparr>) (upd_where P (\<lambda>k. k\<lparr>k_LastUsedAt := x\<rparr>) ks) =
     map (\<lambda>k. k\<lparr>k_LastUsedAt := None\<rparr>) ks"
  by (rule map_upd_where) simp

lemma confined_methods:
  "moves (confined pid) (db_CreateNotification pid key title body data spec)"
  "moves (confined pid) (UpsertSubscriber pid ext)"
  "moves (confined pid) (UpsertDevice pid tok plat prov meta sid)"
  "moves (confined pid) (MarkStaleDevicesByDeviceUUID pid sid i duuid)"
  "moves (confined pid) (TouchAPIKeyLastUsed i)"
  unfolding notification_methods device_methods account_methods
  by (rule confined_exec, simp add: inside_def sql_createNotification_def sql_upsertSubscriber_def
      sql_upsertDevice_def sql_markStaleDevicesByDeviceUUID_def sql_touchAPIKeyLastUsed_def exec_only_def
      own_rows used_keys Let_def split: option.split)+

lemma confined_reads:
  "moves (confined pid) (AdvisoryLockDeviceUUID k)"
  "moves (confined pid) (GetNotification i pid')"
  "moves (confined pid) (GetNotificationByIdempotencyKey pid' key)"
  "moves (confined pid) (CountRecipientStatuses nid)"
  "moves (confined pid) (ListNotificationRecipients nid pid')"
  "moves (confined pid) (EnqueueFanout E fp)"
  by (rule confined_frame, simp add: frame_simps)+

lemmas confined_intros = confined_rules confined_methods confined_reads

section \<open>The handlers stay in their project\<close>

lemma confined_CreateNotification: "moves (confined pid) (CreateNotification E pid req)"
  unfolding CreateNotification_def
  by (auto intro!: confined_intros split: sum.split option.split)

lemma confined_upsertDevice: "moves (confined pid) (upsertDevice Pool pid req meta)"
  unfolding upsertDevice_def by (auto intro!: confined_intros)

lemma confined_register_in_tx: "moves (confined pid) (register_in_tx Pool E pid req meta)"
  unfolding register_in_tx_def Let_def on_queries.simps by (intro confined_intros confined_upsertDevice)

lemma confined_register_device: "moves (confined pid) (register_device E pid req meta)"
proof (rule movesI)
  fix w
  have "inside pid (w_db (at_begin w)) (w_db (final (register_in_tx Pool E pid req meta) (at_begin w)))"
    using movesD [OF confined_register_in_tx [of pid E req meta], of "at_begin w"] by (simp add: confined_def)
  then have "inside pid (w_db w) (w_db (final (registerDeviceSerialized E pid req meta) w))"
    using registerDeviceSerialized_cases [of E pid req meta w] by (elim disjE exE conjE) simp_all
  moreover have "inside pid (w_db w) (w_db (final (upsertDevice Pool pid req meta) w))"
    using movesD [OF confined_upsertDevice, where s = w] by (simp add: confined_def)
  ultimately show "confined pid w (final (register_device E pid req meta) w)"
    by (simp add: register_device_def confined_def)
qed

lemma confined_handlers:
  assumes "rq_ProjectID r = Some pid"
  shows "moves (confined pid) (handleRegisterDevice E r)"
    and "moves (confined pid) (handleCreateNotification E r)"
    and "moves (confined pid) (handleGetNotification E r)"
    and "moves (confined pid) (handleListRecipients E r)"
  unfolding handleRegisterDevice_def handleCreateNotification_def handleGetNotification_def
    handleListRecipients_def projectIDFromContext_def assms RecipientStatusCounts_def
  by (auto intro!: confined_intros confined_register_device confined_CreateNotification
      split: sum.split option.split)

lemma touch_confined: "moves (confined pid) (touchAPIKeyLastUsed i)"
  unfolding touchAPIKeyLastUsed_def by (intro confined_intros)

lemma handler_moves:
  "moves db_moves (handleRegisterDevice E r)" "moves db_moves (handleCreateNotification E r)"
  "moves db_moves (handleGetNotification E r)" "moves db_moves (handleListRecipients E r)"
  by (rule handleRegisterDevice_moves)
    (auto simp: handleCreateNotification_def handleGetNotification_def handleListRecipients_def
      RecipientStatusCounts_def intro!: moves_rules split: sum.split option.split)

lemma RateLimiter_moves: "moves db_moves (RateLimiter_Allow E limiter kid pid)"
  by (rule moves_frame) (simp add: frame_simps)

lemma requireScope_moves:
  assumes "\<And>r. moves db_moves (h r)"
  shows "moves db_moves (requireScope E limiter scope h r)"
  unfolding requireScope_def touchAPIKeyLastUsed_def
  by (auto intro!: moves_rules RateLimiter_moves assms split: sum.split option.split prod.split)

lemma routes:
  assumes "rt \<in> set (NewRouter E limiter)"
  obtains scope h where "rt_Handler rt = requireScope E limiter scope h"
    and "h \<in> {handleRegisterDevice E, handleCreateNotification E, handleGetNotification E, handleListRecipients E}"
  using assms by (auto simp: NewRouter_def Let_def)

lemma route_moves:
  assumes "rt \<in> set (NewRouter E limiter)"
  shows "moves db_moves (rt_Handler rt r)"
proof -
  from routes [OF assms] obtain scope h where rt: "rt_Handler rt = requireScope E limiter scope h"
    and h: "h \<in> {handleRegisterDevice E, handleCreateNotification E, handleGetNotification E, handleListRecipients E}" .
  have "moves db_moves (h r')" for r' using h by (auto intro: handler_moves)
  then show ?thesis unfolding rt by (rule requireScope_moves)
qed

section \<open>The shape of responses\<close>






















section \<open>Properties\<close>

text \<open>
  C2. Tenant isolation of the whole public API: whatever the request and whatever fails
  behind it, a route either leaves the database as it was or was let through by an active
  API key (at the \<open>now()\<close> of its lookup) that hashes to the bearer token, and then changes nothing but the notifications,
  devices and subscribers of that key's project (and when keys were last used).
\<close>

theorem router_confined:
  assumes "rt \<in> set (NewRouter E limiter)"
  shows "w_db (final (rt_Handler rt r) w) = w_db w \<or>
    (\<exists>raw k. bearerToken r = Some raw \<and> k \<in> set (api_keys (w_db w)) \<and> k_KeyHash k = Hash E raw \<and>
      key_active (se_now (next_env w)) (w_db w) k \<and> inside (k_ProjectID k) (w_db w) (w_db (final (rt_Handler rt r) w)))"
proof -
  from routes [OF assms] obtain scope h where rt: "rt_Handler rt = requireScope E limiter scope h"
    and h: "h \<in> {handleRegisterDevice E, handleCreateNotification E, handleGetNotification E, handleListRecipients E}" .
  from requireScope_cases [of E limiter scope r w h] show ?thesis
  proof (elim disjE exE conjE)
    fix k u
    assume adm: "admitted E limiter scope r w k u"
      and fin: "final (requireScope E limiter scope h r) w = final (h (contextWithProjectID (k_ProjectID k) r)) u"
    let ?r = "contextWithProjectID (k_ProjectID k) r"
    from adm obtain raw where key: "bearerToken r = Some raw" "k \<in> set (api_keys (w_db w))"
      "k_KeyHash k = Hash E raw" "key_active (se_now (next_env w)) (w_db w) k"
      unfolding admitted_def by blast
    from adm obtain v where u: "u = final (touchAPIKeyLastUsed (k_ID k)) v" "w_db v = w_db w" by (rule admitted_db)
    have "inside (k_ProjectID k) (w_db w) (w_db u)"
      using movesD [OF touch_confined, where s = v] by (simp add: confined_def u)
    moreover have "moves (confined (k_ProjectID k)) (h ?r)"
      using h confined_handlers [of ?r "k_ProjectID k"] by (auto simp: contextWithProjectID_def)
    then have "inside (k_ProjectID k) (w_db u) (w_db (final (h ?r) u))"
      by (auto simp: confined_def dest: movesD)
    ultimately show ?thesis
      unfolding rt fin using key by (blast intro: inside_trans)
  qed (simp add: rt)
qed

theorem router_confined_witness:
  "w_db (final (rt_Handler (hd (NewRouter sample_ext (NewRateLimiter 10))) (sample_http [])) store_world) = sample_db"
proof -
  have "hd (NewRouter sample_ext (NewRateLimiter 10)) \<in> set (NewRouter sample_ext (NewRateLimiter 10))"
    by (simp add: NewRouter_def Let_def)
  from router_confined [OF this, of "sample_http []" store_world] show ?thesis
    by (simp add: bearerToken_def request_header_def sample_http_def strip_prefix_def store_world_def)
qed


end
