(* ===== verification/Worker.thy ===== *)
theory Worker imports Router begin

text \<open>
  The worker process as \<open>cmd/server/main.go\<close> wires it.
\<close>

section \<open>The worker\<close>

definition supportedProviders :: "string list" where
  "supportedProviders = [''expo'', ''fcm'', ''apns'', ''hms'']"

text \<open>The queues it consumes, with their priorities.\<close>

definition worker_queues :: "(string \<times> nat) list" where
  "worker_queues = (QueueFanout, 5) # map (\<lambda>providerType. (SendTypeFor providerType, 10)) supportedProviders"

type_synonym task_handler = "task_ctx \<Rightarrow> json \<Rightarrow> (world, goerr + unit) state"

text \<open>The handler of each task type; asynq picks the one registered for exactly the type.\<close>

definition worker_mux :: "ext \<Rightarrow> Handlers \<Rightarrow> (string \<times> task_handler) list" where
  "worker_mux E h = (TypeFanout, \<lambda>ctx. AsynqFanoutHandler E h) #
     map (\<lambda>providerType. (SendTypeFor providerType, AsynqSendHandler E h)) supportedProviders"

lemma worker_lookup:
  "p \<in> set provider_types \<Longrightarrow>
     map_of worker_queues (SendTypeFor p) = Some 10 \<and>
     map_of (worker_mux E h) (SendTypeFor p) = Some (AsynqSendHandler E h)"
  by (auto simp: worker_queues_def worker_mux_def supportedProviders_def provider_types_def SendTypeFor_def
      QueueFanout_def TypeFanout_def)

lemma worker_fanout:
  "map_of worker_queues QueueFanout = Some 5"
  "map_of (worker_mux E h) TypeFanout = Some (\<lambda>ctx. AsynqFanoutHandler E h)"
  by (simp_all add: worker_queues_def worker_mux_def)

lemma production_targeting: "h_Targeting (production_handlers E names mk rps) = targeting_registry"
  by (simp add: production_handlers_def)

lemma worker_moves:
  assumes "(type, handler) \<in> set (worker_mux E (production_handlers E names mk rps))"
  shows "moves db_moves (handler ctx task)"
proof -
  let ?h = "production_handlers E names mk rps"
  have "moves db_moves (AsynqFanoutHandler E ?h task)"
    unfolding AsynqFanoutHandler_def
    by (auto intro!: moves_rules HandleFanout_moves production_targeting split: sum.split)
  moreover have "moves db_moves (AsynqSendHandler E ?h ctx task)"
    unfolding AsynqSendHandler_def
    by (auto intro!: moves_rules HandleSend_moves production_adapters_ok split: sum.split)
  ultimately show ?thesis using assms by (auto simp: worker_mux_def)
qed

section \<open>Properties\<close>

text \<open>
  Every task the program enqueues for a provider the schema knows lands in a queue the
  worker consumes, has a handler there, and the handler does what \<open>HandleSend\<close> (for a fanout
  task \<open>HandleFanout\<close>) does with the payload that was enqueued.
\<close>

theorem tasks_reach_handlers:
  assumes "uuid_codec E" and "sp_ProviderType p \<in> set provider_types"
    and "canonical (elems (sp_Data p))" and "sp_Data p \<noteq> Some []"
  shows "e_Queue (send_call E p) \<in> dom (map_of worker_queues) \<and>
    (\<exists>handler. map_of (worker_mux E h) (e_Type (send_call E p)) = Some handler \<and>
      handler ctx (e_Payload (send_call E p)) = HandleSend E h ctx p) \<and>
    e_Queue (fanout_call E nid pid) \<in> dom (map_of worker_queues) \<and>
    (\<exists>handler. map_of (worker_mux E h) (e_Type (fanout_call E nid pid)) = Some handler \<and>
      handler ctx (e_Payload (fanout_call E nid pid)) =
        HandleFanout E h \<lparr>fp_NotificationID = nid, fp_ProjectID = pid\<rparr>)"
proof -
  have "canonical (case sp_Data p of None \<Rightarrow> [] | Some m \<Rightarrow> m)"
    using assms(3) by (simp add: elems_def)
  from SendPayload_decodes [OF assms(1) this]
  have "unmarshal_SendPayload E (marshal_SendPayload E p) = Inr p"
    using assms(4) by simp
  moreover note FanoutPayload_roundtrip [OF assms(1)] worker_lookup [OF assms(2), of E h] worker_fanout
  ultimately show ?thesis
    by (simp add: send_call_def fanout_call_def Let_def AsynqSendHandler_def AsynqFanoutHandler_def
        QueueFanout_def TypeFanout_def domI)
qed

theorem tasks_reach_handlers_witness:
  "\<exists>handler. map_of (worker_mux sample_ext sample_handlers) (e_Type (send_call sample_ext sample_payload)) = Some handler \<and>
     handler \<lparr>GetRetryCount = Some 0, GetMaxRetry = Some 5\<rparr> (e_Payload (send_call sample_ext sample_payload)) =
       HandleSend sample_ext sample_handlers \<lparr>GetRetryCount = Some 0, GetMaxRetry = Some 5\<rparr> sample_payload"
proof -
  have "sp_ProviderType sample_payload \<in> set provider_types" "canonical (elems (sp_Data sample_payload))"
    "sp_Data sample_payload \<noteq> Some []"
    by (simp_all add: sample_payload_def provider_types_def canonical_def is_gomap_def)
  from tasks_reach_handlers [OF uuid_codec_sample this] show ?thesis by blast
qed

end
