(* ===== verification/Auth.thy ===== *)
theory Auth imports Samples begin

text \<open>
  \<open>internal/auth\<close>: argon2id password hashes in the self-describing text format, and session
  tokens. \<open>argon2.IDKey\<close> is third-party code; it panics on a zero time or thread count.
\<close>

section \<open>Passwords\<close>

definition argon2Time :: nat where
  "argon2Time = 1"

definition argon2Memory :: nat where
  "argon2Memory = 65536"

definition argon2Threads :: nat where
  "argon2Threads = 4"

definition argon2KeyLen :: nat where
  "argon2KeyLen = 32"

definition saltLen :: nat where
  "saltLen = 16"

text \<open>The documented law of \<open>argon2.IDKey\<close> the code relies on: the key has the length asked for.\<close>

definition argon2_law :: "ext \<Rightarrow> bool" where
  "argon2_law E \<longleftrightarrow> (\<forall>plain salt t m p n. length (argon2_IDKey E plain salt t m p n) = n)"

definition format_hash :: "string \<Rightarrow> string \<Rightarrow> string" where
  "format_hash salt hash =
     ''$argon2id$v='' @ nat_digits 19 @ ''$m='' @ nat_digits argon2Memory @ '',t='' @ nat_digits argon2Time @
     '',p='' @ nat_digits argon2Threads @ ''$'' @ b64_encode StdAlphabet False salt @ ''$'' @
     b64_encode StdAlphabet False hash"

definition HashPassword :: "ext \<Rightarrow> string \<Rightarrow> (world, goerr + string) state" where
  "HashPassword E plain = attempt (errorf ''generate salt: '') (rand_Read saltLen) (\<lambda>salt.
     let hash = argon2_IDKey E plain salt argon2Time argon2Memory argon2Threads argon2KeyLen
     in ret (Inr (format_hash salt hash)))"

text \<open>\<open>fmt.Sscanf(parts[2], "v=%d", &version)\<close>: text after the last verb is not read.\<close>

definition scan_version :: "string \<Rightarrow> int option" where
  "scan_version s = do {
     s \<leftarrow> strip_prefix ''v='' s;
     (v, _) \<leftarrow> scan_int s;
     Some v }"

definition scan_params :: "string \<Rightarrow> (nat \<times> nat \<times> nat) option" where
  "scan_params s = do {
     s \<leftarrow> strip_prefix ''m='' s;
     (memory, s) \<leftarrow> scan_uint 32 s;
     s \<leftarrow> strip_prefix '',t='' s;
     (iterations, s) \<leftarrow> scan_uint 32 s;
     s \<leftarrow> strip_prefix '',p='' s;
     (threads, _) \<leftarrow> scan_uint 8 s;
     Some (memory, iterations, threads) }"

definition scan_error :: goerr where
  "scan_error = ErrText ''input does not match format''"

definition b64_error :: goerr where
  "b64_error = ErrText ''illegal base64 data''"

text \<open>\<open>None\<close> is the panic of \<open>IDKey\<close>.\<close>

definition VerifyPassword :: "ext \<Rightarrow> string \<Rightarrow> string \<Rightarrow> (goerr + bool) option" where
  "VerifyPassword E encoded plain =
     (let parts = split_on (CHR ''$'') encoded in
      if length parts \<noteq> 6 \<or> parts ! 1 \<noteq> ''argon2id''
      then Some (Inl (ErrText ''verify password: unrecognized hash format''))
      else (case scan_version (parts ! 2) of
        None \<Rightarrow> Some (Inl (errorf ''verify password: parse version: '' scan_error))
      | Some version \<Rightarrow> (case scan_params (parts ! 3) of
          None \<Rightarrow> Some (Inl (errorf ''verify password: parse params: '' scan_error))
        | Some (memory, iterations, threads) \<Rightarrow> (case b64_decode StdAlphabet False (parts ! 4) of
            None \<Rightarrow> Some (Inl (errorf ''verify password: decode salt: '' b64_error))
          | Some salt \<Rightarrow> (case b64_decode StdAlphabet False (parts ! 5) of
              None \<Rightarrow> Some (Inl (errorf ''verify password: decode hash: '' b64_error))
            | Some want \<Rightarrow>
                if iterations < 1 \<or> threads < 1 then None
                else Some (Inr (argon2_IDKey E plain salt iterations memory threads (length want) = want)))))))"

section \<open>Sessions\<close>

definition sessionTokenPrefix :: string where
  "sessionTokenPrefix = ''sd_''"

definition sessionRandomBytes :: nat where
  "sessionRandomBytes = 32"

text \<open>Seven days in nanoseconds.\<close>

definition SessionTTL :: int where
  "SessionTTL = 7 * 24 * 3600 * 10 ^ 9"

definition GenerateSessionToken :: "(world, goerr + string) state" where
  "GenerateSessionToken = attempt (errorf ''generate session token: '') (rand_Read sessionRandomBytes) (\<lambda>b.
     ret (Inr (sessionTokenPrefix @ b64_encode URLAlphabet False b)))"

definition HashSessionToken :: "ext \<Rightarrow> string \<Rightarrow> string" where
  "HashSessionToken E raw = hex_encode (sha256_Sum256 E raw)"

section \<open>Lemmas\<close>

lemma dollar_free:
  "CHR ''$'' \<notin> set (nat_digits n)" "CHR ''$'' \<notin> set (b64_encode al padded s)"
  using nat_digits_props [of n] b64_encode_plain [of "CHR ''$''" al padded s]
  by (auto simp: list_all_iff is_digit_def)

lemma split_format_hash:
  "split_on (CHR ''$'') (format_hash salt hash) =
     [[], ''argon2id'', ''v='' @ nat_digits 19,
      ''m='' @ nat_digits argon2Memory @ '',t='' @ nat_digits argon2Time @ '',p='' @ nat_digits argon2Threads,
      b64_encode StdAlphabet False salt, b64_encode StdAlphabet False hash]"
proof -
  let ?m = "''m='' @ nat_digits argon2Memory @ '',t='' @ nat_digits argon2Time @ '',p='' @ nat_digits argon2Threads"
  have "format_hash salt hash = [] @ CHR ''$'' # ''argon2id'' @ CHR ''$'' # (''v='' @ nat_digits 19) @ CHR ''$'' #
      ?m @ CHR ''$'' # b64_encode StdAlphabet False salt @ CHR ''$'' # b64_encode StdAlphabet False hash"
    by (simp add: format_hash_def)
  moreover have "CHR ''$'' \<notin> set ([] :: string)" "CHR ''$'' \<notin> set ''argon2id''"
    "CHR ''$'' \<notin> set (''v='' @ nat_digits 19)" "CHR ''$'' \<notin> set ?m"
    by (simp_all add: dollar_free)
  ultimately show ?thesis
    by (simp only: split_on_append split_on_free dollar_free not_False_eq_True)
qed

lemma scan_format:
  "scan_version (''v='' @ nat_digits 19) = Some 19"
  "scan_params (''m='' @ nat_digits argon2Memory @ '',t='' @ nat_digits argon2Time @ '',p='' @ nat_digits argon2Threads) =
     Some (argon2Memory, argon2Time, argon2Threads)"
proof -
  have "scan_int (nat_digits 19 @ []) = Some (int 19, [])" by (rule scan_int_digits) simp_all
  then show "scan_version (''v='' @ nat_digits 19) = Some 19"
    unfolding scan_version_def by (simp only: strip_prefix_append bind.bind_lunit prod.case append_Nil2) simp
  have "scan_uint 32 (nat_digits argon2Memory @ '',t='' @ nat_digits argon2Time @ '',p='' @ nat_digits argon2Threads) =
      Some (argon2Memory, '',t='' @ nat_digits argon2Time @ '',p='' @ nat_digits argon2Threads)"
    "scan_uint 32 (nat_digits argon2Time @ '',p='' @ nat_digits argon2Threads) =
      Some (argon2Time, '',p='' @ nat_digits argon2Threads)"
    "scan_uint 8 (nat_digits argon2Threads @ []) = Some (argon2Threads, [])"
    by (rule scan_uint_digits; simp add: argon2Memory_def argon2Time_def argon2Threads_def is_digit_def)+
  then show "scan_params (''m='' @ nat_digits argon2Memory @ '',t='' @ nat_digits argon2Time @ '',p='' @
      nat_digits argon2Threads) = Some (argon2Memory, argon2Time, argon2Threads)"
    unfolding scan_params_def by (simp only: strip_prefix_append bind.bind_lunit prod.case append_Nil2 refl)
qed

lemma HashPassword_verifies:
  assumes "argon2_law E" and "value_of (HashPassword E plain) w = Inr encoded"
  shows "\<exists>salt. length salt = saltLen \<and>
    encoded = format_hash salt (argon2_IDKey E plain salt 1 65536 4 32) \<and>
    VerifyPassword E encoded candidate =
      Some (Inr (argon2_IDKey E candidate salt 1 65536 4 32 = argon2_IDKey E plain salt 1 65536 4 32))"
proof -
  from assms(2) obtain salt where salt: "length salt = saltLen"
    and enc: "encoded = format_hash salt (argon2_IDKey E plain salt argon2Time argon2Memory argon2Threads argon2KeyLen)"
    unfolding HashPassword_def by (auto simp: Let_def elim!: attempt_InrE dest: rand_Read_length)
  define v where "v = ''v='' @ nat_digits 19"
  define m where "m = ''m='' @ nat_digits argon2Memory @ '',t='' @ nat_digits argon2Time @ '',p='' @ nat_digits argon2Threads"
  have params: "argon2Time = 1" "argon2Threads = 4" "argon2Memory = 65536" "argon2KeyLen = 32"
    by (simp_all add: argon2Time_def argon2Threads_def argon2Memory_def argon2KeyLen_def)
  note text_facts = split_format_hash [folded v_def m_def] scan_format [folded v_def m_def]
  have "VerifyPassword E encoded candidate =
      Some (Inr (argon2_IDKey E candidate salt 1 65536 4 32 = argon2_IDKey E plain salt 1 65536 4 32))"
    using assms(1) by (simp add: params text_facts VerifyPassword_def Let_def enc b64_decode_encode argon2_law_def)
  with salt enc params show ?thesis by auto
qed

section \<open>Properties\<close>

text \<open>
  A hash \<open>HashPassword\<close> produced never makes \<open>VerifyPassword\<close> fail or panic; the
  verdict on a candidate is whether argon2id maps it, under the stored salt, to the key it
  mapped the password to. In particular the password itself is accepted.
\<close>

theorem VerifyPassword_HashPassword:
  assumes "argon2_law E" and "value_of (HashPassword E plain) w = Inr encoded"
  shows "\<exists>salt. length salt = saltLen \<and>
    encoded = format_hash salt (argon2_IDKey E plain salt 1 65536 4 32) \<and>
    VerifyPassword E encoded candidate =
      Some (Inr (argon2_IDKey E candidate salt 1 65536 4 32 = argon2_IDKey E plain salt 1 65536 4 32))"
  using assms by (rule HashPassword_verifies)

theorem VerifyPassword_HashPassword_witness:
  "\<exists>encoded. value_of (HashPassword sample_ext ''pw'') sample_world = Inr encoded \<and>
     VerifyPassword sample_ext encoded ''pw'' = Some (Inr True)"
proof -
  have "argon2_law sample_ext" by (auto simp: argon2_law_def sample_ext_def min_def)
  moreover obtain encoded where "value_of (HashPassword sample_ext ''pw'') sample_world = Inr encoded"
    by (simp add: HashPassword_def attempt_simps rand_Read_def sample_world_def Let_def)
  ultimately show ?thesis
    using VerifyPassword_HashPassword [of sample_ext "''pw''" sample_world encoded "''pw''"] by auto
qed

end
