(* ===== verification/Commands.thy ===== *)
theory Commands imports Worker Auth begin

text \<open>
  The administrative subcommands of \<open>cmd/server/main.go\<close>, after their flags are parsed: the
  values of flags and environment variables, the contents of the credential file and of
  standard input are arguments. A successful \<open>create-api-key\<close> returns what it prints.
\<close>

definition NewPostgresPool :: "(world, goerr + unit) state" where
  "NewPostgresPool = exec (reads (\<lambda>t. Inr ()))"

definition failed :: "string \<Rightarrow> (world, goerr + 'a) state" where
  "failed msg = ret (Inl (ErrText msg))"

section \<open>seed-credential\<close>

text \<open>The JSON check only asks whether the whole file is one JSON value.\<close>

definition runSeedCredential ::
  "ext \<Rightarrow> string \<Rightarrow> string \<Rightarrow> string \<Rightarrow> string \<Rightarrow> (goerr + string) \<Rightarrow> (world, goerr + unit) state"
where
  "runSeedCredential E cfgMasterKey providerType file projectSlug contents =
     (if file = [] then failed ''seed-credential: --file is required''
      else case LoadMasterKey cfgMasterKey of
        Inl err \<Rightarrow> ret (Inl (errorf ''load master key: '' err))
      | Inr masterKey \<Rightarrow> (case contents of
          Inl err \<Rightarrow> ret (Inl (errorf ''read credential file: '' err))
        | Inr raw \<Rightarrow> (case parse_json raw of
            Inl err \<Rightarrow> ret (Inl (errorf ''credential file is not valid JSON: '' err))
          | Inr js \<Rightarrow>
              attempt (errorf ''encrypt credential: '') (Seal E masterKey raw) (\<lambda>(wrappedDEK, ciphertext).
              attempt (errorf ''connect postgres: '') NewPostgresPool (\<lambda>_.
              attempt (errorf (''resolve project '' @ go_quote projectSlug @ '': '')) (GetProjectBySlug projectSlug) (\<lambda>project.
              attempt (errorf ''upsert provider credential: '')
                (UpsertProviderCredential (p_ID project) providerType ''production'' ciphertext wrappedDEK) (\<lambda>_.
              ret (Inr ()))))))))"

section \<open>create-project, create-api-key\<close>

definition runCreateProject :: "string \<Rightarrow> string \<Rightarrow> (world, goerr + unit) state" where
  "runCreateProject name slug =
     (if name = [] \<or> slug = [] then failed ''create-project: --name and --slug are required''
      else attempt (errorf ''connect postgres: '') NewPostgresPool (\<lambda>_.
           attempt (errorf ''create project: '') (CreateProject name slug) (\<lambda>project. ret (Inr ()))))"

definition api_key_message :: "string \<Rightarrow> Scope \<Rightarrow> string \<Rightarrow> string" where
  "api_key_message projectSlug scope raw =
     ''API key created for project '' @ go_quote projectSlug @ '' (scope='' @ scope @ ''). Save it now '' @ em_dash @
     '' it cannot be shown again:'' @ [CHR 0x0A] @ raw @ [CHR 0x0A]"

definition runCreateAPIKey :: "ext \<Rightarrow> string \<Rightarrow> string \<Rightarrow> string \<Rightarrow> (world, goerr + string) state" where
  "runCreateAPIKey E projectSlug name scopeFlag =
     (if projectSlug = [] \<or> name = [] then failed ''create-api-key: --project and --name are required''
      else case ParseScope scopeFlag of
        None \<Rightarrow> failed (''create-api-key: --scope must be '' @ go_quote ScopeRead @ '' or '' @ go_quote ScopeSend)
      | Some scope \<Rightarrow>
          attempt (errorf ''connect postgres: '') NewPostgresPool (\<lambda>_.
          attempt (errorf (''resolve project '' @ go_quote projectSlug @ '': '')) (GetProjectBySlug projectSlug) (\<lambda>project.
          attempt (errorf ''generate api key: '') Generate (\<lambda>(raw, prefix).
          attempt (errorf ''create api key: '') (CreateAPIKey (p_ID project) name prefix (Hash E raw) scope) (\<lambda>_.
          ret (Inr (api_key_message projectSlug scope raw)))))))"

section \<open>bootstrap, reset-password\<close>

definition runBootstrap :: "ext \<Rightarrow> string \<Rightarrow> string \<Rightarrow> (world, goerr + unit) state" where
  "runBootstrap E email password =
     (if email = [] \<or> password = []
      then failed ''bootstrap: BOOTSTRAP_ADMIN_EMAIL and BOOTSTRAP_ADMIN_PASSWORD are required''
      else attempt (errorf ''connect postgres: '') NewPostgresPool (\<lambda>_.
           attempt (errorf ''count users: '') CountUsers (\<lambda>count.
           if count > 0 then ret (Inr ())
           else attempt (errorf ''hash password: '') (HashPassword E password) (\<lambda>hash.
                attempt (errorf ''create admin user: '') (CreateUser email hash) (\<lambda>_. ret (Inr ()))))))"

definition resetPasswordMinLength :: nat where
  "resetPasswordMinLength = 8"

definition trim_newlines :: "string \<Rightarrow> string" where
  "trim_newlines s = rev (dropWhile (\<lambda>c. c = CHR 0x0D \<or> c = CHR 0x0A) (rev s))"

definition runResetPassword :: "ext \<Rightarrow> string \<Rightarrow> (goerr + string) \<Rightarrow> (world, goerr + unit) state" where
  "runResetPassword E email stdin =
     (if email = [] then failed ''reset-password: --email is required''
      else case stdin of
        Inl err \<Rightarrow> ret (Inl (errorf ''read new password from stdin: '' err))
      | Inr rawPassword \<Rightarrow>
          (let password = trim_newlines rawPassword in
           if length password < resetPasswordMinLength
           then failed (''reset-password: password must be at least '' @ nat_digits resetPasswordMinLength @ '' characters'')
           else attempt (errorf ''hash password: '') (HashPassword E password) (\<lambda>hash.
                attempt (errorf ''connect postgres: '') NewPostgresPool (\<lambda>_.
                attempt (errorf ''update password: '') (UpdateUserPassword email hash) (\<lambda>rows.
                if rows = 0 then failed (''reset-password: no user with email '' @ go_quote email)
                else ret (Inr ()))))))"

section \<open>healthcheck, migrate\<close>

text \<open>The probe's exit code.\<close>

definition runHealthcheckProbe :: "ext \<Rightarrow> string \<Rightarrow> (world, nat) state" where
  "runHealthcheckProbe E cfgHTTPAddr =
     (let port = (case SplitHostPort cfgHTTPAddr of None \<Rightarrow> ''8080'' | Some (_, port) \<Rightarrow> port);
          url = ''http://127.0.0.1:'' @ port @ ''/healthz''
      in case url_Parse E url of
        Some err \<Rightarrow> ret 1
      | None \<Rightarrow> do {
          res \<leftarrow> http_Do \<lparr>hr_Method = ''GET'', hr_URL = url, hr_Headers = [], hr_Body = []\<rparr>;
          ret (case res of Inl err \<Rightarrow> 1 | Inr resp \<Rightarrow> if hs_StatusCode resp \<noteq> 200 then 1 else 0) })"

definition pgx5MigrateURL :: "string \<Rightarrow> string" where
  "pgx5MigrateURL databaseURL = (case strip_prefix ''postgresql://'' databaseURL of
      Some rest \<Rightarrow> ''pgx5://'' @ rest
    | None \<Rightarrow> (case strip_prefix ''postgres://'' databaseURL of
        Some rest \<Rightarrow> ''pgx5://'' @ rest
      | None \<Rightarrow> databaseURL))"

end
