(* ===== verification/CommandFacts.thy ===== *)
theory CommandFacts imports Commands begin

text \<open>
  The administrative commands against the rest of the program: what they write is what the
  API, the worker and the dashboard later accept.
\<close>

section \<open>Lemmas\<close>

lemma pool_db [frame_simps]: "w_db (final NewPostgresPool w) = w_db w"
  by (simp add: NewPostgresPool_def exec_reads_final)

lemma Generate_db [frame_simps]: "w_db (final Generate w) = w_db w"
  by (simp add: Generate_def attempt_simps frame_simps Let_def split: sum.split)

lemma HashPassword_db [frame_simps]: "w_db (final (HashPassword E p) w) = w_db w"
  by (simp add: HashPassword_def attempt_simps frame_simps Let_def split: sum.split)

lemma GetProjectBySlug_Inr:
  "value_of (GetProjectBySlug slug) w = Inr p \<Longrightarrow> find (\<lambda>p. p_Slug p = slug) (projects (w_db w)) = Some p"
  by (auto simp: GetProjectBySlug_def sql_getProjectBySlug_def dest!: exec_Inr(1))

lemma slug_selects:
  assumes "wf_db t" and "p \<in> set (projects t)" and "p_Slug p = slug"
  shows "find (\<lambda>p. p_Slug p = slug) (projects t) = Some p"
  using find_key_unique [of p_Slug "projects t" p] assms by (simp add: wf_db_def accounts_ok_def)

lemma CreateAPIKey_Inr:
  assumes "value_of (CreateAPIKey pid name prefix hash scope) w = Inr k"
  shows "k_ProjectID k = pid \<and> k_KeyHash k = hash \<and> k_Scope k = scope \<and> k_RevokedAt k = None \<and>
    k_ExpiresAt k = None \<and> scope \<in> set api_key_scopes \<and> hash \<notin> k_KeyHash ` set (api_keys (w_db w)) \<and>
    w_db (final (CreateAPIKey pid name prefix hash scope) w) = (w_db w)\<lparr>api_keys := api_keys (w_db w) @ [k]\<rparr>"
  using exec_Inr [OF assms [unfolded CreateAPIKey_def]]
  by (auto simp: CreateAPIKey_def run_stmt_def sql_createAPIKey_def Let_def split: if_splits)

lemma UpsertProviderCredential_Inr:
  assumes "value_of (UpsertProviderCredential pid prov envi ct dek) w = Inr c"
  shows "\<exists>row. find (\<lambda>c. same_provider pid prov envi c \<and> c_IsActive c)
      (credentials (w_db (final (UpsertProviderCredential pid prov envi ct dek) w))) = Some row \<and>
    c_Credential row = ct \<and> c_WrappedDek row = dek"
proof -
  note run = exec_Inr [OF assms [unfolded UpsertProviderCredential_def], unfolded run_stmt_def]
  let ?now = "se_now (next_env w)"
  have rep: "find (\<lambda>c. same_provider pid prov envi c \<and> c_IsActive c)
      (upd_where (same_provider pid prov envi) (replaced ct dek now) cs) =
    map_option (replaced ct dek now) (find (same_provider pid prov envi) cs)" for now cs
    by (induction cs) (auto simp: same_provider_def replaced_def)
  have none: "find (same_provider pid prov envi) cs = None \<Longrightarrow>
      find (\<lambda>c. same_provider pid prov envi c \<and> c_IsActive c) cs = None" for cs
    by (auto simp: find_None_iff)
  show ?thesis
  proof (cases "find (same_provider pid prov envi) (credentials (w_db w))")
    case None
    with run none [OF None] show ?thesis
      by (auto simp: UpsertProviderCredential_def sql_upsertProviderCredential_def Let_def same_provider_def
          split: if_splits)
  next
    case (Some c0)
    with run rep [of ?now "credentials (w_db w)"] show ?thesis
      by (auto simp: UpsertProviderCredential_def sql_upsertProviderCredential_def replaced_def split: if_splits)
  qed
qed

lemma runCreateAPIKey_Inr:
  assumes "value_of (runCreateAPIKey E slug name scope) w = Inr out"
  obtains p raw prefix k u where "find (\<lambda>p. p_Slug p = slug) (projects (w_db w)) = Some p"
    and "value_of Generate u = Inr (raw, prefix)" and "out = api_key_message slug scope raw"
    and "scope \<in> {ScopeRead, ScopeSend}"
    and "k_ProjectID k = p_ID p" "k_KeyHash k = Hash E raw" "k_Scope k = scope" "k_RevokedAt k = None"
      "k_ExpiresAt k = None" "Hash E raw \<notin> k_KeyHash ` set (api_keys (w_db w))"
    and "w_db (final (runCreateAPIKey E slug name scope) w) = (w_db w)\<lparr>api_keys := api_keys (w_db w) @ [k]\<rparr>"
proof -
  have args: "\<not> (slug = [] \<or> name = [])" and parse: "ParseScope scope = Some scope"
    and scope: "scope \<in> {ScopeRead, ScopeSend}"
    using assms by (auto simp: runCreateAPIKey_def failed_def ParseScope_def split: if_splits option.splits)
  let ?w1 = "final NewPostgresPool w"
  let ?w2 = "final (GetProjectBySlug slug) ?w1"
  let ?w3 = "final Generate ?w2"
  from assms args parse obtain c p raw prefix k where pool: "value_of NewPostgresPool w = Inr c"
    and p: "value_of (GetProjectBySlug slug) ?w1 = Inr p"
    and gen: "value_of Generate ?w2 = Inr (raw, prefix)"
    and key: "value_of (CreateAPIKey (p_ID p) name prefix (Hash E raw) scope) ?w3 = Inr k"
    and out: "out = api_key_message slug scope raw"
    by (auto simp: runCreateAPIKey_def elim!: attempt_InrE split: prod.splits)
  have fin: "final (runCreateAPIKey E slug name scope) w =
      final (CreateAPIKey (p_ID p) name prefix (Hash E raw) scope) ?w3"
    using args parse pool p gen key by (simp add: runCreateAPIKey_def attempt_simps)
  have db: "w_db ?w1 = w_db w" "w_db ?w3 = w_db w" by (simp_all add: frame_simps)
  show ?thesis
    by (rule that [of p ?w2 raw prefix k])
      (use GetProjectBySlug_Inr [OF p] CreateAPIKey_Inr [OF key] gen out scope db in \<open>auto simp: fin\<close>)
qed

text \<open>A key contains no white space, so the header that carries it reads back as it.\<close>

lemma b64_char_visible: "n < 64 \<Longrightarrow> 33 \<le> (of_char (b64_char al n) :: nat)"
  by (cases al) (auto simp: b64_char_def of_char_char_of)

lemma b64_encode_visible: "x \<in> set (b64_encode al padded s) \<Longrightarrow> 33 \<le> (of_char x :: nat)"
proof (induction al padded s rule: b64_encode.induct)
  case (2 al padded a)
  then show ?case by (auto simp: pad_with_def b64_char_visible bounds_bytes split: if_splits)
next
  case (3 al padded a b)
  then show ?case by (auto simp: pad_with_def b64_char_visible bounds_bytes split: if_splits)
next
  case (4 al padded a b c xs)
  then show ?case by (auto simp: b64_char_visible bounds_bytes)
qed simp

lemma raw_visible:
  assumes "value_of Generate w = Inr (raw, prefix)"
  shows "raw \<noteq> [] \<and> (\<forall>c \<in> set raw. \<not> is_space c)"
proof -
  from Generate_Inr [OF assms] obtain b where raw: "raw = livePrefix @ b64_encode URLAlphabet False b" by blast
  have "33 \<le> (of_char c :: nat)" if "c \<in> set livePrefix" for c
    using that by (auto simp: livePrefix_def)
  with b64_encode_visible [of _ URLAlphabet False b] have "33 \<le> (of_char c :: nat)" if "c \<in> set raw" for c
    using that by (auto simp: raw)
  then show ?thesis by (fastforce simp: is_space_def Let_def raw livePrefix_def)
qed

lemma length_b64_encode: "length (b64_encode al False b) = (4 * length b + 2) div 3"
  by (induction al False b rule: b64_encode.induct) (simp_all add: pad_with_def)

text \<open>A key is 51 bytes, of which the prefix shows the first 14.\<close>

lemma Generate_prefix:
  assumes "value_of Generate w = Inr (raw, prefix)"
  shows "length raw = 51 \<and> prefix = take 14 raw"
  using assms
  by (auto simp: Generate_def livePrefix_def displayPrefixLen_def length_b64_encode Let_def
      elim!: attempt_InrE dest!: rand_Read_length)

lemma trim_space_visible:
  assumes "\<forall>c \<in> set s. \<not> is_space c"
  shows "trim_space s = s"
proof -
  have "dropWhile is_space t = t" if "set t \<subseteq> set s" for t
    using that assms by (cases t) auto
  from this [of s] this [of "rev s"] show ?thesis by (simp add: trim_space_def)
qed

lemma find_new_key:
  assumes "k_KeyHash k = h" and "h \<notin> k_KeyHash ` set ks" and "P k"
  shows "find (\<lambda>k. k_KeyHash k = h \<and> P k) (ks @ [k]) = Some k"
proof -
  have "find (\<lambda>k. k_KeyHash k = h \<and> P k) ks = None"
    using assms(2) by (auto simp: find_None_iff)
  with assms(1,3) show ?thesis by simp
qed

lemma limiter_allows:
  assumes "\<And>log c d. w_redis w log c \<noteq> LimitResult 0 d"
  shows "fst (value_of (RateLimiter_Allow E limiter kid pid) w)"
  using inbound.denial [of "(E, limiter, kid, pid)" w] assms by auto

text \<open>A new key that is active opens every route its scope satisfies, for its project.\<close>

lemma new_key_admitted:
  assumes "value_of Generate g = Inr (raw, prefix)" and "api_keys (w_db u) = ks @ [k]"
    and "k_KeyHash k = Hash E raw" and "Hash E raw \<notin> k_KeyHash ` set ks" and "\<And>now. key_active now (w_db u) k"
    and "k_Scope k \<in> {ScopeRead, ScopeSend}" and "Satisfies (k_Scope k) minScope"
    and "healthy u" and "\<And>log c d. w_redis u log c \<noteq> LimitResult 0 d"
    and "request_header ''Authorization'' r = ''Bearer '' @ raw"
  shows "\<exists>v. admitted E limiter minScope r u k v \<and>
    value_of (requireScope E limiter minScope h r) u = value_of (h (contextWithProjectID (k_ProjectID k) r)) v \<and>
    final (requireScope E limiter minScope h r) u = final (h (contextWithProjectID (k_ProjectID k) r)) v"
proof -
  have bearer: "bearerToken r = Some raw"
    using raw_visible [OF assms(1)] unfolding bearerToken_def assms(10) strip_prefix_append
    by (simp add: trim_space_visible)
  have get: "value_of (GetActiveAPIKeyByHash (Hash E raw)) u = Inr k"
    using find_new_key [of k "Hash E raw" ks "key_active (se_now (next_env u)) (w_db u)"] assms(3-5)
    by (simp add: GetActiveAPIKeyByHash_def healthy_exec [OF assms(8)] run_stmt_def sql_getActiveAPIKeyByHash_def assms(2))
  let ?u1 = "final (GetActiveAPIKeyByHash (Hash E raw)) u"
  have "w_redis ?u1 = w_redis u" by (simp add: GetActiveAPIKeyByHash_def exec_final)
  then have allowed: "fst (value_of (RateLimiter_Allow E limiter (k_ID k) (k_ProjectID k)) ?u1)"
    using assms(9) by (intro limiter_allows) simp
  have parse: "ParseScope (k_Scope k) = Some (k_Scope k)" using assms(6) by (auto simp: ParseScope_def)
  have adm: "admitted E limiter minScope r u k
      (final (touchAPIKeyLastUsed (k_ID k)) (final (RateLimiter_Allow E limiter (k_ID k) (k_ProjectID k)) ?u1))"
    using bearer allowed assms(2,3,5-7) by (simp add: admitted_def Let_def)
  show ?thesis
    by (rule exI, rule conjI [OF adm])
      (use bearer get parse allowed assms(7) in \<open>auto simp: requireScope_def split: prod.split\<close>)
qed

section \<open>Properties\<close>

text \<open>
  The key \<open>create-api-key\<close> prints works: for as long as the database is as the command
  left it, a request that presents it passes the middleware of every route its scope
  satisfies, and the handler runs for the project the command named (if that project is
  active, the server serves and Redis reports no limit exceeded).
\<close>

theorem created_key_admits:
  assumes "wf_db (w_db w)" and "value_of (runCreateAPIKey E slug name scope) w = Inr (api_key_message slug scope raw)"
    and "p \<in> set (projects (w_db w))" and "p_Slug p = slug" and "p_Status p = ''active''"
    and "w_db u = w_db (final (runCreateAPIKey E slug name scope) w)" and "healthy u"
    and "\<And>log c d. w_redis u log c \<noteq> LimitResult 0 d"
    and "request_header ''Authorization'' r = ''Bearer '' @ raw" and "Satisfies scope minScope"
  shows "\<exists>v. value_of (requireScope E limiter minScope h r) u = value_of (h (contextWithProjectID (p_ID p) r)) v"
proof (rule runCreateAPIKey_Inr [OF assms(2)], goal_cases)
  case (1 q raw' prefix k v)
  have q: "q = p" using 1(1) slug_selects [OF assms(1,3,4)] by simp
  have raw: "raw' = raw" using 1(3) by (simp add: api_key_message_def)
  have "key_active now (w_db u) k" for now
    using 1(5,8,9) assms(3,5) q unfolding key_active_def assms(6) 1(11)
    by (auto simp: list_ex_iff)
  then show ?case
    using new_key_admitted [OF 1(2) _ _ _ _ _ _ assms(7,8), of "api_keys (w_db w)" k E minScope r limiter h] 1(4-10) q
      assms(9,10) by (auto simp: raw assms(6) 1(11))
qed

lemma sample_project_row:
  "p_ID sample_project = 1" "p_Slug sample_project = ''p''" "p_Status sample_project = ''active''"
  "sample_project \<in> set (projects (w_db store_world))" "projects (w_db store_world) = [sample_project]"
  "api_keys (w_db store_world) = []" "credentials (w_db store_world) = []" "users (w_db store_world) = []"
  by (simp_all add: sample_defs)

lemma store_world_healthy: "healthy store_world"
  by (simp add: healthy_def store_world_def sample_world_def)

lemma sample_create_key:
  "\<exists>raw. value_of (runCreateAPIKey sample_ext ''p'' ''backend'' ''send'') store_world =
     Inr (api_key_message ''p'' ''send'' raw)"
  by (simp add: runCreateAPIKey_def attempt_simps NewPostgresPool_def GetProjectBySlug_def sql_getProjectBySlug_def
      Generate_def rand_Read_def CreateAPIKey_def sql_createAPIKey_def exec_value exec_final next_env_def
      run_stmt_def sample_defs Let_def ParseScope_def ScopeSend_def ScopeRead_def api_key_scopes_def
      project_exists_def) blast

lemma sample_final:
  "healthy (final (runCreateAPIKey E slug name scope) store_world)"
  "w_redis (final (runCreateAPIKey E slug name scope) store_world) q c \<noteq> LimitResult 0 d"
  by (simp_all add: healthy_def runCreateAPIKey_def failed_def attempt_simps NewPostgresPool_def GetProjectBySlug_def
      Generate_def rand_Read_def CreateAPIKey_def exec_final sample_defs Let_def
      split: sum.split option.split prod.split)

theorem created_key_admits_witness:
  "\<exists>raw. value_of (runCreateAPIKey sample_ext ''p'' ''backend'' ''send'') store_world =
       Inr (api_key_message ''p'' ''send'' raw) \<and>
     value_of (requireScope sample_ext (NewRateLimiter 10) ScopeRead (\<lambda>r. ret (writeJSON 200 JNull))
       (sample_http []\<lparr>rq_Headers := [(''Authorization'', ''Bearer '' @ raw)]\<rparr>))
       (final (runCreateAPIKey sample_ext ''p'' ''backend'' ''send'') store_world) = writeJSON 200 JNull"
proof -
  obtain raw where raw: "value_of (runCreateAPIKey sample_ext ''p'' ''backend'' ''send'') store_world =
      Inr (api_key_message ''p'' ''send'' raw)" using sample_create_key by blast
  let ?r = "sample_http []\<lparr>rq_Headers := [(''Authorization'', ''Bearer '' @ raw)]\<rparr>"
  have wf: "wf_db (w_db store_world)" by (simp add: store_world_def wf_sample_db)
  have header: "request_header ''Authorization'' ?r = ''Bearer '' @ raw"
    by (simp add: request_header_def header_match_def)
  have scope: "Satisfies ''send'' ScopeRead" by (simp add: Satisfies_def ScopeSend_def)
  from created_key_admits [where h = "\<lambda>r. ret (writeJSON 200 JNull)",
      OF wf raw sample_project_row(4,2,3) refl sample_final header scope]
  have "value_of (requireScope sample_ext (NewRateLimiter 10) ScopeRead (\<lambda>r. ret (writeJSON 200 JNull)) ?r)
      (final (runCreateAPIKey sample_ext ''p'' ''backend'' ''send'') store_world) = writeJSON 200 JNull"
    by simp
  with raw show ?thesis by blast
qed

text \<open>
  What \<open>seed-credential\<close> stores is what the worker gets back: after it succeeds, the
  active credential of the project and provider opens, under the configured master key, to
  the bytes of the file.
\<close>

theorem seeded_credential_opens:
  assumes "gcm_law E" and "wf_db (w_db w)" and "LoadMasterKey cfg = Inr mk"
    and "value_of (runSeedCredential E cfg prov file slug (Inr raw)) w = Inr ()"
    and "p \<in> set (projects (w_db w))" and "p_Slug p = slug"
    and "w_db u = w_db (final (runSeedCredential E cfg prov file slug (Inr raw)) w)" and "healthy u"
  shows "\<exists>row. value_of (GetActiveProviderCredential (p_ID p) prov environment) u = Inr row \<and>
    Open E mk (c_WrappedDek row) (c_Credential row) = Inr raw"
proof -
  have path: "file \<noteq> []" and "\<exists>js. parse_json raw = Inr js"
    using assms(4) by (auto simp: runSeedCredential_def failed_def assms(3) split: if_splits sum.splits)
  then obtain js where js: "parse_json raw = Inr js" by blast
  note run = runSeedCredential_def assms(3) js
  let ?w1 = "final (Seal E mk raw) w"
  let ?w2 = "final NewPostgresPool ?w1"
  let ?w3 = "final (GetProjectBySlug slug) ?w2"
  from assms(4) path obtain dek ct c q row where seal: "value_of (Seal E mk raw) w = Inr (dek, ct)"
    and pool: "value_of NewPostgresPool ?w1 = Inr c" and q: "value_of (GetProjectBySlug slug) ?w2 = Inr q"
    and up: "value_of (UpsertProviderCredential (p_ID q) prov ''production'' ct dek) ?w3 = Inr row"
    by (auto simp: run elim!: attempt_InrE split: prod.splits)
  have fin: "final (runSeedCredential E cfg prov file slug (Inr raw)) w =
      final (UpsertProviderCredential (p_ID q) prov ''production'' ct dek) ?w3"
    using path seal pool q up by (simp add: run attempt_simps)
  have "w_db ?w2 = w_db w" by (simp add: frame_simps)
  with GetProjectBySlug_Inr [OF q] slug_selects [OF assms(2,5,6)] have "q = p" by simp
  with UpsertProviderCredential_Inr [OF up] Seal_opens [OF assms(1) seal] show ?thesis
    unfolding GetActiveProviderCredential_def healthy_exec(1) [OF assms(8)]
    by (auto simp: sql_getActiveProviderCredential_def assms(7) fin environment_def)
qed

theorem seeded_credential_opens_witness:
  "\<exists>row. value_of (GetActiveProviderCredential 1 ''fcm'' environment)
       (final (runSeedCredential sample_ext
         (b64_encode StdAlphabet True (replicate 32 (CHR ''k''))) ''fcm'' ''f'' ''p'' (Inr ''{}'')) store_world) = Inr row \<and>
     Open sample_ext (replicate 32 (CHR ''k''))
       (c_WrappedDek row) (c_Credential row) = Inr ''{}''"
proof -
  let ?E = "sample_ext"
  define cfg where "cfg = b64_encode StdAlphabet True (replicate 32 (CHR ''k''))"
  have mk: "LoadMasterKey cfg = Inr (replicate 32 (CHR ''k''))"
    unfolding cfg_def by (rule LoadMasterKey_encode) (simp add: keySize_def)
  note law = gcm_law_sample
  have wf: "wf_db (w_db store_world)" by (simp add: store_world_def wf_sample_db)
  have parsed: "json_Parse ''{}'' = Some (JObj [])" by code_simp
  note eval = parsed runSeedCredential_def mk parse_json_def Seal_def seal_def attempt_simps rand_Read_def keySize_def
    aes_NewCipher_def NewPostgresPool_def GetProjectBySlug_def UpsertProviderCredential_def
    exec_final failed_def
  have run: "value_of (runSeedCredential ?E cfg ''fcm'' ''f'' ''p'' (Inr ''{}'')) store_world = Inr ()"
    by (simp add: eval exec_value sql_getProjectBySlug_def sql_upsertProviderCredential_def next_env_def run_stmt_def
        sample_defs Let_def provider_types_def project_exists_def)
  have "healthy (final (runSeedCredential ?E cfg ''fcm'' ''f'' ''p'' (Inr ''{}'')) store_world)"
    by (simp add: healthy_def eval sample_defs split: sum.split option.split prod.split)
  from seeded_credential_opens [OF law wf mk run sample_project_row(4,2) refl this] show ?thesis
    by (simp only: sample_project_row(1) cfg_def)
qed

lemma CreateUser_Inr:
  assumes "value_of (CreateUser email hash) w = Inr r"
  shows "u_Email r = email \<and> u_PasswordHash r = hash \<and>
    w_db (final (CreateUser email hash) w) = (w_db w)\<lparr>users := users (w_db w) @ [r]\<rparr>"
  using exec_Inr [OF assms [unfolded CreateUser_def]]
  by (auto simp: CreateUser_def run_stmt_def sql_createUser_def Let_def split: if_splits)

lemma UpdateUserPassword_Inr:
  assumes "value_of (UpdateUserPassword email hash) w = Inr rows"
  shows "rows = int (length (filter (\<lambda>r. u_Email r = email) (users (w_db w)))) \<and>
    w_db (final (UpdateUserPassword email hash) w) = (w_db w)\<lparr>users :=
      upd_where (\<lambda>r. u_Email r = email) (\<lambda>r. r\<lparr>u_PasswordHash := hash\<rparr>) (users (w_db w))\<rparr>"
  using exec_Inr [OF assms [unfolded UpdateUserPassword_def]]
  by (auto simp: UpdateUserPassword_def run_stmt_def sql_updateUserPassword_def)

lemma HashPassword_accepts:
  "argon2_law E \<Longrightarrow> value_of (HashPassword E password) w = Inr hash \<Longrightarrow>
     VerifyPassword E hash password = Some (Inr True)"
  using HashPassword_verifies [of E password w hash password] by auto

lemma argon2_sample: "argon2_law sample_ext"
  by (auto simp: argon2_law_def sample_ext_def min_def)

definition sample_user :: user_row where
  "sample_user = \<lparr>u_ID = 2, u_Email = ''a@b'', u_PasswordHash = ''x'', u_Role = ''admin'', u_CreatedAt = 0\<rparr>"

definition user_world :: world where
  "user_world = store_world\<lparr>w_db := sample_db\<lparr>users := [sample_user]\<rparr>\<rparr>"

text \<open>
  \<open>bootstrap\<close> makes exactly the first administrator: on a database with users it changes
  nothing; on one without, its success leaves one user with the given email, whose stored
  hash accepts the given password.
\<close>

theorem bootstrap_first_admin:
  assumes "argon2_law E" and "value_of (runBootstrap E email password) w = Inr ()"
  shows "let w' = final (runBootstrap E email password) w in
    if users (w_db w) = []
    then \<exists>r. w_db w' = (w_db w)\<lparr>users := [r]\<rparr> \<and> u_Email r = email \<and>
      VerifyPassword E (u_PasswordHash r) password = Some (Inr True)
    else w_db w' = w_db w"
proof -
  have args: "\<not> (email = [] \<or> password = [])"
    using assms(2) by (auto simp: runBootstrap_def failed_def split: if_splits)
  let ?w1 = "final NewPostgresPool w"
  let ?w2 = "final CountUsers ?w1"
  let ?w3 = "final (HashPassword E password) ?w2"
  from assms(2) args obtain c k where pool: "value_of NewPostgresPool w = Inr c"
    and count: "value_of CountUsers ?w1 = Inr k"
    by (auto simp: runBootstrap_def elim!: attempt_InrE)
  have db: "w_db ?w1 = w_db w" "w_db ?w2 = w_db w" "w_db ?w3 = w_db w" by (simp_all add: frame_simps)
  have k: "k = int (length (users (w_db w)))"
    using count by (auto simp: CountUsers_def sql_countUsers_def db(1) dest!: exec_Inr(1))
  show ?thesis
  proof (cases "users (w_db w) = []")
    case True
    with assms(2) args pool count k obtain hash r where hash: "value_of (HashPassword E password) ?w2 = Inr hash"
      and user: "value_of (CreateUser email hash) ?w3 = Inr r"
      by (auto simp: runBootstrap_def attempt_simps split: sum.splits)
    have "final (runBootstrap E email password) w = final (CreateUser email hash) ?w3"
      using args pool count k True hash user by (simp add: runBootstrap_def attempt_simps)
    with CreateUser_Inr [OF user] HashPassword_accepts [OF assms(1) hash] True show ?thesis
      by (auto simp: Let_def db)
  next
    case False
    then have "final (runBootstrap E email password) w = ?w2"
      using args pool count k by (simp add: runBootstrap_def attempt_simps)
    with False show ?thesis by (simp add: db)
  qed
qed

theorem bootstrap_first_admin_witness:
  "\<exists>r. users (w_db (final (runBootstrap sample_ext ''a@b'' ''secret'') store_world)) = [r] \<and>
     VerifyPassword sample_ext (u_PasswordHash r) ''secret'' = Some (Inr True)"
proof -
  have "value_of (runBootstrap sample_ext ''a@b'' ''secret'') store_world = Inr ()"
    by (simp add: runBootstrap_def attempt_simps NewPostgresPool_def CountUsers_def sql_countUsers_def
        HashPassword_def rand_Read_def CreateUser_def sql_createUser_def exec_value exec_final next_env_def
        run_stmt_def sample_defs Let_def)
  from bootstrap_first_admin [OF argon2_sample this] show ?thesis
    by (auto simp: Let_def sample_project_row)
qed

text \<open>
  \<open>reset-password\<close> succeeds only for an email some user has and a new password of eight
  bytes or more (line ends at the end of the input do not count); then every user with that
  email has a hash that accepts the new password, and all other users are as they were.
\<close>

theorem reset_password_accepts:
  assumes "argon2_law E" and "value_of (runResetPassword E email (Inr input)) w = Inr ()"
  shows "8 \<le> length (trim_newlines input) \<and> email \<in> u_Email ` set (users (w_db w)) \<and>
    (\<exists>hash. VerifyPassword E hash (trim_newlines input) = Some (Inr True) \<and>
      w_db (final (runResetPassword E email (Inr input)) w) = (w_db w)\<lparr>users :=
        map (\<lambda>r. if u_Email r = email then r\<lparr>u_PasswordHash := hash\<rparr> else r) (users (w_db w))\<rparr>)"
proof -
  let ?pw = "trim_newlines input"
  have args: "email \<noteq> []" and len: "\<not> length ?pw < resetPasswordMinLength"
    using assms(2) by (auto simp: runResetPassword_def failed_def Let_def split: if_splits)
  let ?w1 = "final (HashPassword E ?pw) w"
  let ?w2 = "final NewPostgresPool ?w1"
  from assms(2) args len obtain hash c rows where hash: "value_of (HashPassword E ?pw) w = Inr hash"
    and pool: "value_of NewPostgresPool ?w1 = Inr c"
    and upd: "value_of (UpdateUserPassword email hash) ?w2 = Inr rows" and rows: "rows \<noteq> 0"
    by (auto simp: runResetPassword_def failed_def Let_def elim!: attempt_InrE split: if_splits)
  have fin: "final (runResetPassword E email (Inr input)) w = final (UpdateUserPassword email hash) ?w2"
    using args len hash pool upd rows by (simp add: runResetPassword_def attempt_simps Let_def)
  have db: "w_db ?w2 = w_db w" by (simp add: frame_simps)
  from UpdateUserPassword_Inr [OF upd] rows have "email \<in> u_Email ` set (users (w_db w))"
    by (auto simp: db filter_empty_conv)
  with UpdateUserPassword_Inr [OF upd] HashPassword_accepts [OF assms(1) hash] len show ?thesis
    by (auto simp: fin db resetPasswordMinLength_def upd_where_def)
qed

theorem reset_password_accepts_witness:
  "\<exists>hash. VerifyPassword sample_ext hash ''longenough'' = Some (Inr True) \<and>
     users (w_db (final (runResetPassword sample_ext ''a@b'' (Inr (''longenough'' @ [CHR 0x0A]))) user_world)) =
       [sample_user\<lparr>u_PasswordHash := hash\<rparr>]"
proof -
  have trim: "trim_newlines (''longenough'' @ [CHR 0x0A]) = ''longenough''"
    by (simp add: trim_newlines_def)
  have "value_of (runResetPassword sample_ext ''a@b'' (Inr (''longenough'' @ [CHR 0x0A]))) user_world = Inr ()"
    unfolding runResetPassword_def sum.case trim Let_def
    by (simp add: attempt_simps NewPostgresPool_def UpdateUserPassword_def sql_updateUserPassword_def
        HashPassword_def rand_Read_def exec_value exec_final next_env_def user_world_def sample_user_def
        run_stmt_def sample_defs Let_def resetPasswordMinLength_def)
  from reset_password_accepts [OF argon2_sample this] show ?thesis
    unfolding trim by (auto simp: user_world_def sample_user_def)
qed

end
