(* ===== verification/Views.thy ===== *)
theory Views imports Http CreateFacts begin

text \<open>
  What the dashboard shows: the view types of \<open>internal/dashboard/templates/types.go\<close>, the
  conversions of rows to views (\<open>toXView\<close> of \<open>internal/dashboard\<close>), and a page as the call of
  the template that renders it.
\<close>

section \<open>View types\<close>

record Message =
  m_Text :: string
  m_Kind :: string

record Project =
  pv_ID :: string
  pv_Name :: string
  pv_Slug :: string
  pv_Status :: string
  pv_CreatedAt :: instant

record ProviderCredential =
  cv_ProviderType :: string
  cv_Environment :: string
  cv_IsActive :: bool
  cv_UpdatedAt :: instant

record APIKey =
  kv_ID :: string
  kv_Name :: string
  kv_KeyPrefix :: string
  kv_Scope :: string
  kv_CreatedAt :: instant
  kv_LastUsedAt :: "instant option"
  kv_Revoked :: bool

record Device =
  dv_ID :: string
  dv_ExternalID :: string
  dv_Platform :: string
  dv_ProviderType :: string
  dv_Status :: string
  dv_CreatedAt :: instant

record Notification =
  nv_ID :: string
  nv_Status :: string
  nv_TotalRecipients :: "32 word"
  nv_CreatedAt :: instant

text \<open>The counts are \<open>int64\<close>; \<open>Terminal\<close> adds them at that width.\<close>

record RecipientCounts =
  rc_Queued :: int
  rc_Sending :: int
  rc_Sent :: int
  rc_Delivered :: int
  rc_Failed :: int

definition Terminal :: "RecipientCounts \<Rightarrow> 32 word \<Rightarrow> bool" where
  "Terminal c tot \<longleftrightarrow> int64 (rc_Sent c + rc_Delivered c + rc_Failed c) \<ge> sint tot"

record Recipient =
  rv_ID :: string
  rv_DeviceID :: string
  rv_ProviderType :: string
  rv_Status :: string
  rv_ProviderMessageID :: string
  rv_ErrorMessage :: string
  rv_AttemptCount :: "32 word"

record ProjectStats =
  st_DeviceCount :: int
  st_ActiveProviderCount :: nat
  st_ProviderCount :: nat
  st_ActiveAPIKeyCount :: nat
  st_APIKeyCount :: nat
  st_RecentNotifications :: "Notification list"

definition errMsg :: "string \<Rightarrow> Message" where
  "errMsg txt = \<lparr>m_Text = txt, m_Kind = ''error''\<rparr>"

definition okMsg :: "string \<Rightarrow> Message" where
  "okMsg txt = \<lparr>m_Text = txt, m_Kind = ''success''\<rparr>"

definition no_message :: Message where
  "no_message = \<lparr>m_Text = [], m_Kind = []\<rparr>"

section \<open>Rows to views\<close>

definition toProjectView :: "ext \<Rightarrow> project_row \<Rightarrow> Project" where
  "toProjectView E p = \<lparr>pv_ID = uuid_String E (p_ID p), pv_Name = p_Name p, pv_Slug = p_Slug p,
     pv_Status = p_Status p, pv_CreatedAt = p_CreatedAt p\<rparr>"

definition toProviderCredentialView :: "credential_listing \<Rightarrow> ProviderCredential" where
  "toProviderCredentialView c = \<lparr>cv_ProviderType = cl_ProviderType c, cv_Environment = cl_Environment c,
     cv_IsActive = cl_IsActive c, cv_UpdatedAt = cl_UpdatedAt c\<rparr>"

definition toAPIKeyView :: "ext \<Rightarrow> api_key_row \<Rightarrow> APIKey" where
  "toAPIKeyView E k = \<lparr>kv_ID = uuid_String E (k_ID k), kv_Name = k_Name k, kv_KeyPrefix = k_KeyPrefix k,
     kv_Scope = k_Scope k, kv_CreatedAt = k_CreatedAt k, kv_LastUsedAt = k_LastUsedAt k,
     kv_Revoked = (k_RevokedAt k \<noteq> None)\<rparr>"

definition toDeviceView :: "ext \<Rightarrow> device_listing \<Rightarrow> Device" where
  "toDeviceView E d = \<lparr>dv_ID = uuid_String E (d_ID (dl_Device d)), dv_ExternalID = dl_ExternalID d,
     dv_Platform = d_Platform (dl_Device d), dv_ProviderType = d_ProviderType (dl_Device d), dv_Status = d_Status (dl_Device d),
     dv_CreatedAt = d_CreatedAt (dl_Device d)\<rparr>"

definition toNotificationView :: "ext \<Rightarrow> notification_row \<Rightarrow> Notification" where
  "toNotificationView E n = \<lparr>nv_ID = uuid_String E (n_ID n), nv_Status = n_Status n,
     nv_TotalRecipients = n_TotalRecipients n, nv_CreatedAt = n_CreatedAt n\<rparr>"

definition toRecipientView :: "ext \<Rightarrow> recipient_row \<Rightarrow> Recipient" where
  "toRecipientView E rec = \<lparr>rv_ID = uuid_String E (r_ID rec), rv_DeviceID = uuid_String E (r_DeviceID rec),
     rv_ProviderType = r_ProviderType rec, rv_Status = r_Status rec,
     rv_ProviderMessageID = (case r_ProviderMessageID rec of Some m \<Rightarrow> m | None \<Rightarrow> []),
     rv_ErrorMessage = (case r_ErrorMessage rec of Some m \<Rightarrow> m | None \<Rightarrow> []),
     rv_AttemptCount = r_AttemptCount rec\<rparr>"

text \<open>Indexing a Go map without the key gives 0.\<close>

definition count_of :: "(string \<times> int) list \<Rightarrow> string \<Rightarrow> int" where
  "count_of counts status = (case map_of counts status of None \<Rightarrow> 0 | Some n \<Rightarrow> n)"

definition toRecipientCounts :: "(string \<times> int) list \<Rightarrow> RecipientCounts" where
  "toRecipientCounts counts = \<lparr>rc_Queued = count_of counts ''queued'', rc_Sending = count_of counts ''sending'',
     rc_Sent = count_of counts ''sent'', rc_Delivered = count_of counts ''delivered'',
     rc_Failed = count_of counts ''failed''\<rparr>"

text \<open>The counts of the store, and what they say of its recipients.\<close>

definition terminal_recipients :: "uuid \<Rightarrow> tables \<Rightarrow> nat" where
  "terminal_recipients nid t = length (filter (\<lambda>rec. r_NotificationID rec = nid \<and>
     r_Status rec \<in> terminalRecipientStatuses) (recipients t))"

lemma count_of_store:
  assumes "value_of (RecipientStatusCounts nid) w = Inr counts"
  shows "count_of counts st =
    int (length (filter (\<lambda>rec. r_NotificationID rec = nid \<and> r_Status rec = st) (recipients (w_db w))))"
  using RecipientStatusCounts_exact [OF assms, of st] by (simp add: count_of_def Let_def)

lemma terminal_split:
  "length (filter (\<lambda>rec. r_NotificationID rec = nid \<and> r_Status rec \<in> terminalRecipientStatuses) rs) =
      length (filter (\<lambda>rec. r_NotificationID rec = nid \<and> r_Status rec = ''sent'') rs) +
      length (filter (\<lambda>rec. r_NotificationID rec = nid \<and> r_Status rec = ''delivered'') rs) +
      length (filter (\<lambda>rec. r_NotificationID rec = nid \<and> r_Status rec = ''failed'') rs)"
  by (induction rs) (auto simp: terminalRecipientStatuses_def)

lemma Terminal_store:
  assumes "value_of (RecipientStatusCounts nid) w = Inr counts" "length (recipients (w_db w)) < 2 ^ 63"
  shows "Terminal (toRecipientCounts counts) tot \<longleftrightarrow> sint tot \<le> int (terminal_recipients nid (w_db w))"
proof -
  have "count_of counts ''sent'' + count_of counts ''delivered'' + count_of counts ''failed'' =
      int (terminal_recipients nid (w_db w))"
    by (simp add: count_of_store [OF assms(1)] terminal_recipients_def terminal_split)
  moreover have "terminal_recipients nid (w_db w) < 2 ^ 63"
    unfolding terminal_recipients_def using assms(2) by (rule le_less_trans [OF length_filter_le])
  ultimately show ?thesis by (simp add: Terminal_def toRecipientCounts_def int64_id)
qed

section \<open>Pages\<close>

text \<open>One constructor per page template, with its arguments.\<close>

datatype page =
    SetupPage string
  | LoginPage string
  | HomePage string "Project list"
  | ProjectsListPage string "Project list" Message
  | ProjectOverviewPage string Project "Project list" ProjectStats
  | ProvidersTabPage string Project "Project list" "ProviderCredential list" Message
  | APIKeysTabPage string Project "Project list" "APIKey list" string Message
  | DevicesTabPage string Project "Project list" "Device list" string string
  | NotificationsTabPage string Project "Project list" "Notification list"
  | NotificationDetailPage string Project "Project list" string string "32 word" RecipientCounts "Recipient list" bool
  | RecipientsFragment string "Recipient list" bool

end
