(* ===== verification/Dashboard.thy ===== *)
theory Dashboard imports Views Registered Auth begin

text \<open>
  The dashboard's server, \<open>internal/dashboard\<close>: requests and responses, the two gates every
  request passes (\<open>middleware.go\<close>), first-run setup (\<open>setup_handlers.go\<close>), login and logout
  (\<open>auth_handlers.go\<close>).
\<close>

section \<open>Requests and responses\<close>

text \<open>
  What the handlers read of a request: path, cookies, the form (\<open>None\<close>: \<open>ParseForm\<close> fails),
  the query, the URL parameters of the route, and the user the middleware put into the
  context. \<open>Aborted\<close> is the answer to a handler that panics: the connection is closed.
\<close>

record dash_request =
  q_Path :: string
  q_Cookies :: "(string \<times> string) list"
  q_Form :: "(string \<times> string) list option"
  q_Query :: "(string \<times> string) list"
  q_projectID :: string
  q_keyID :: string
  q_id :: string
  q_UserID :: "uuid option"

record cookie =
  ck_Name :: string
  ck_Value :: string
  ck_Path :: string
  ck_HttpOnly :: bool
  ck_Secure :: bool
  ck_SameSiteLax :: bool
  ck_Expires :: "instant option"
  ck_MaxAge :: int

datatype dash_body =
    Rendered page
  | Redirect string
  | HTTPError int string
  | StaticFile string
  | Aborted

record dash_response =
  ds_SetCookies :: "cookie list"
  ds_Body :: dash_body

type_synonym dash_handler = "dash_request \<Rightarrow> (world, dash_response) state"

definition respond :: "dash_body \<Rightarrow> (world, dash_response) state" where
  "respond b = ret \<lparr>ds_SetCookies = [], ds_Body = b\<rparr>"

definition renderPage :: "page \<Rightarrow> (world, dash_response) state" where
  "renderPage p = respond (Rendered p)"

definition internal_error :: "(world, dash_response) state" where
  "internal_error = respond (HTTPError 500 ''internal error'')"

text \<open>\<open>r.FormValue\<close>, \<open>url.Values.Get\<close> and \<open>r.Cookie\<close>: the first value of the name.\<close>

definition FormValue :: "string \<Rightarrow> (string \<times> string) list \<Rightarrow> string" where
  "FormValue key vs = (case find (\<lambda>(k, _). k = key) vs of None \<Rightarrow> [] | Some (_, v) \<Rightarrow> v)"

definition Cookie :: "string \<Rightarrow> dash_request \<Rightarrow> string option" where
  "Cookie name r = map_option snd (find (\<lambda>(k, _). k = name) (q_Cookies r))"

text \<open>\<open>x, err := m; if err != nil { failed } ...\<close> in a handler.\<close>

definition on_error ::
  "('s, 'e + 'a) state \<Rightarrow> ('e \<Rightarrow> ('s, 'b) state) \<Rightarrow> ('a \<Rightarrow> ('s, 'b) state) \<Rightarrow> ('s, 'b) state"
where
  "on_error m failed k = do { r \<leftarrow> m; case r of Inl e \<Rightarrow> failed e | Inr x \<Rightarrow> k x }"

lemma on_error_simps:
  "final (on_error m failed k) s =
     (case value_of m s of Inl e \<Rightarrow> final (failed e) (final m s) | Inr x \<Rightarrow> final (k x) (final m s))"
  "value_of (on_error m failed k) s =
     (case value_of m s of Inl e \<Rightarrow> value_of (failed e) (final m s) | Inr x \<Rightarrow> value_of (k x) (final m s))"
  by (simp_all add: on_error_def split: sum.split)

lemma respond_simps [simp]:
  "final (respond b) w = w" "value_of (respond b) w = \<lparr>ds_SetCookies = [], ds_Body = b\<rparr>"
  "final (renderPage p) w = w" "value_of (renderPage p) w = \<lparr>ds_SetCookies = [], ds_Body = Rendered p\<rparr>"
  "final internal_error w = w"
  "value_of internal_error w = \<lparr>ds_SetCookies = [], ds_Body = HTTPError 500 ''internal error''\<rparr>"
  by (simp_all add: respond_def renderPage_def internal_error_def)

section \<open>The server\<close>

record Server =
  sv_MasterKey :: MasterKey
  sv_CookieSecure :: bool
  sv_Providers :: registry

definition sessionCookieName :: string where
  "sessionCookieName = ''slaypush_session''"

definition contextWithUserID :: "uuid \<Rightarrow> dash_request \<Rightarrow> dash_request" where
  "contextWithUserID i r = r\<lparr>q_UserID := Some i\<rparr>"

definition userIDFromContext :: "dash_request \<Rightarrow> uuid option" where
  "userIDFromContext r = q_UserID r"

section \<open>The gates\<close>

definition setupGate :: "dash_handler \<Rightarrow> dash_handler" where
  "setupGate next_handler r =
     (if strip_prefix ''/static/'' (q_Path r) \<noteq> None then next_handler r
      else on_error CountUsers (\<lambda>_. internal_error) (\<lambda>count.
        let setupComplete = count > 0 in
        if q_Path r = ''/setup'' then
          (if setupComplete then respond (Redirect ''/login'') else next_handler r)
        else if \<not> setupComplete then respond (Redirect ''/setup'')
        else next_handler r))"

text \<open>
  The write that touches the session runs detached from the request; it is placed before
  the handler here. Its failure is only logged.
\<close>

definition touchSessionLastUsed :: "uuid \<Rightarrow> (world, unit) state" where
  "touchSessionLastUsed i = do { _ \<leftarrow> TouchSessionLastUsed i; ret () }"

definition requireSession :: "ext \<Rightarrow> dash_handler \<Rightarrow> dash_handler" where
  "requireSession E next_handler r = (case Cookie sessionCookieName r of
      None \<Rightarrow> respond (Redirect ''/login'')
    | Some token \<Rightarrow>
        if token = [] then respond (Redirect ''/login'')
        else on_error (GetActiveSessionByHash (HashSessionToken E token)) (\<lambda>_. respond (Redirect ''/login'')) (\<lambda>session. do {
          touchSessionLastUsed (ss_ID session);
          next_handler (contextWithUserID (ss_UserID session) r) }))"

section \<open>Setup\<close>

definition minPasswordLength :: nat where
  "minPasswordLength = 8"

definition handleSetupPage :: dash_handler where
  "handleSetupPage r = renderPage (SetupPage [])"

definition handleSetup :: "ext \<Rightarrow> dash_handler" where
  "handleSetup E r = (case q_Form r of
      None \<Rightarrow> renderPage (SetupPage ''invalid form submission'')
    | Some form \<Rightarrow>
        (let email = FormValue ''email'' form; password = FormValue ''password'' form in
         if email = [] \<or> CHR 0x40 \<notin> set email then renderPage (SetupPage ''a valid email is required'')
         else if length password < minPasswordLength
         then renderPage (SetupPage (''password must be at least '' @ nat_digits minPasswordLength @ '' characters''))
         else on_error (HashPassword E password) (\<lambda>_. internal_error) (\<lambda>hash.
              on_error (CreateUser email hash)
                (\<lambda>_. renderPage (SetupPage ''failed to create admin account (email may already be in use)'')) (\<lambda>_.
              respond (Redirect ''/login'')))))"

section \<open>Login and logout\<close>

definition handleLoginPage :: dash_handler where
  "handleLoginPage r = renderPage (LoginPage [])"

definition session_cookie :: "Server \<Rightarrow> string \<Rightarrow> instant option \<Rightarrow> int \<Rightarrow> cookie" where
  "session_cookie s token expires maxAge = \<lparr>ck_Name = sessionCookieName, ck_Value = token, ck_Path = ''/'',
     ck_HttpOnly = True, ck_Secure = sv_CookieSecure s, ck_SameSiteLax = True, ck_Expires = expires,
     ck_MaxAge = maxAge\<rparr>"

definition handleLogin :: "ext \<Rightarrow> Server \<Rightarrow> dash_handler" where
  "handleLogin E s r = (case q_Form r of
      None \<Rightarrow> renderPage (LoginPage ''invalid form submission'')
    | Some form \<Rightarrow>
        (let email = FormValue ''email'' form; password = FormValue ''password'' form;
             refused = renderPage (LoginPage ''invalid email or password'') in
         on_error (GetUserByEmail email) (\<lambda>_. refused) (\<lambda>user.
         case VerifyPassword E (u_PasswordHash user) password of
           None \<Rightarrow> respond Aborted
         | Some (Inl _) \<Rightarrow> refused
         | Some (Inr ok) \<Rightarrow>
             if \<not> ok then refused
             else on_error GenerateSessionToken (\<lambda>_. internal_error) (\<lambda>rawToken. do {
               now \<leftarrow> time_Now;
               let expiresAt = now + SessionTTL;
               on_error (CreateSession (u_ID user) (HashSessionToken E rawToken) expiresAt) (\<lambda>_. internal_error) (\<lambda>_.
                 ret \<lparr>ds_SetCookies = [session_cookie s rawToken (Some expiresAt) 0],
                      ds_Body = Redirect ''/''\<rparr>) }))))"

definition revoke_presented :: "ext \<Rightarrow> dash_request \<Rightarrow> (world, unit) state" where
  "revoke_presented E r = (case Cookie sessionCookieName r of
      None \<Rightarrow> ret ()
    | Some token \<Rightarrow>
        if token = [] then ret ()
        else on_error (GetActiveSessionByHash (HashSessionToken E token)) (\<lambda>_. ret ()) (\<lambda>session. do {
          _ \<leftarrow> RevokeSession (ss_ID session); ret () }))"

definition handleLogout :: "ext \<Rightarrow> Server \<Rightarrow> dash_handler" where
  "handleLogout E s r = do {
     revoke_presented E r;
     ret \<lparr>ds_SetCookies = [session_cookie s [] None (- 1)], ds_Body = Redirect ''/login''\<rparr> }"

end
