(* ===== verification/DashboardPages.thy ===== *)
theory DashboardPages imports Dashboard Commands begin

text \<open>
  The dashboard's pages behind the session gate: home, projects, provider credentials, API
  keys, devices and notifications (\<open>home_handler.go\<close>, \<open>projects.go\<close>, \<open>providers.go\<close>,
  \<open>apikeys.go\<close>, \<open>devices.go\<close>, \<open>notifications.go\<close>), and the routes (\<open>server.go\<close>).
\<close>

section \<open>Shared by the pages\<close>

definition visibleProjects :: "(world, goerr + project_row list) state" where
  "visibleProjects = ListProjects"

definition visibleProject :: "uuid \<Rightarrow> (world, goerr + project_row) state" where
  "visibleProject i = GetProjectByID i"

definition currentUserEmail :: "dash_request \<Rightarrow> (world, goerr + string) state" where
  "currentUserEmail r = (case userIDFromContext r of
      None \<Rightarrow> failed ''no authenticated user in request context''
    | Some userID \<Rightarrow> attempt id (GetUserByID userID) (\<lambda>user. ret (Inr (u_Email user))))"

definition sidebarProjects :: "ext \<Rightarrow> (world, goerr + Project list) state" where
  "sidebarProjects E = attempt id visibleProjects (\<lambda>ps. ret (Inr (map (toProjectView E) ps)))"

definition projectIDFromRoute :: "ext \<Rightarrow> dash_request \<Rightarrow> uuid option" where
  "projectIDFromRoute E r = uuid_Parse E (q_projectID r)"

text \<open>The opening lines of every handler below \<open>/projects/{projectID}\<close>.\<close>

definition in_project :: "ext \<Rightarrow> dash_request \<Rightarrow> (project_row \<Rightarrow> (world, dash_response) state) \<Rightarrow> (world, dash_response) state" where
  "in_project E r k = (case projectIDFromRoute E r of
      None \<Rightarrow> respond (HTTPError 400 ''invalid project id'')
    | Some i \<Rightarrow> on_error (visibleProject i) (\<lambda>_. respond (HTTPError 404 ''project not found'')) k)"

section \<open>Home and projects\<close>

definition handleHome :: "ext \<Rightarrow> dash_handler" where
  "handleHome E r = (case userIDFromContext r of
      None \<Rightarrow> respond (Redirect ''/login'')
    | Some userID \<Rightarrow>
        on_error (GetUserByID userID) (\<lambda>_. internal_error) (\<lambda>user.
        on_error visibleProjects (\<lambda>_. internal_error) (\<lambda>ps.
        renderPage (HomePage (u_Email user) (map (toProjectView E) ps)))))"

definition renderProjectsList :: "ext \<Rightarrow> dash_request \<Rightarrow> Message \<Rightarrow> (world, dash_response) state" where
  "renderProjectsList E r message =
     on_error (currentUserEmail r) (\<lambda>_. internal_error) (\<lambda>email.
     on_error visibleProjects (\<lambda>_. internal_error) (\<lambda>ps.
     renderPage (ProjectsListPage email (map (toProjectView E) ps) message)))"

definition handleListProjects :: "ext \<Rightarrow> dash_handler" where
  "handleListProjects E r = renderProjectsList E r no_message"

definition handleCreateProject :: "ext \<Rightarrow> dash_handler" where
  "handleCreateProject E r = (case q_Form r of
      None \<Rightarrow> renderProjectsList E r (errMsg ''invalid form submission'')
    | Some form \<Rightarrow>
        (let name = FormValue ''name'' form; slug = FormValue ''slug'' form in
         if name = [] \<or> slug = [] then renderProjectsList E r (errMsg ''name and slug are required'')
         else on_error (CreateProject name slug)
           (\<lambda>_. renderProjectsList E r (errMsg ''failed to create project (slug may already be in use)'')) (\<lambda>_.
         respond (Redirect ''/projects''))))"

definition recentNotificationsPageSize :: "32 word" where
  "recentNotificationsPageSize = 5"

definition projectStats :: "ext \<Rightarrow> project_row \<Rightarrow> (world, goerr + ProjectStats) state" where
  "projectStats E project =
     attempt id (CountDevicesByProject (p_ID project)) (\<lambda>deviceCount.
     attempt id (ListProviderCredentialsByProject (p_ID project)) (\<lambda>creds.
     attempt id (ListAPIKeysByProject (p_ID project)) (\<lambda>keys.
     attempt id (ListNotificationsByProject (p_ID project) 0 recentNotificationsPageSize) (\<lambda>ns.
     ret (Inr \<lparr>st_DeviceCount = deviceCount,
       st_ActiveProviderCount = length (filter cl_IsActive creds), st_ProviderCount = length creds,
       st_ActiveAPIKeyCount = length (filter (\<lambda>k. k_RevokedAt k = None) keys), st_APIKeyCount = length keys,
       st_RecentNotifications = map (toNotificationView E) ns\<rparr>)))))"

definition handleProjectOverview :: "ext \<Rightarrow> dash_handler" where
  "handleProjectOverview E r = in_project E r (\<lambda>project.
     on_error (currentUserEmail r) (\<lambda>_. internal_error) (\<lambda>email.
     on_error (sidebarProjects E) (\<lambda>_. internal_error) (\<lambda>allProjects.
     on_error (projectStats E project) (\<lambda>_. internal_error) (\<lambda>stats.
     renderPage (ProjectOverviewPage email (toProjectView E project) allProjects stats)))))"

section \<open>Provider credentials\<close>

definition defaultCredentialEnvironment :: string where
  "defaultCredentialEnvironment = ''production''"

definition renderProvidersTab :: "ext \<Rightarrow> dash_request \<Rightarrow> project_row \<Rightarrow> Message \<Rightarrow> (world, dash_response) state" where
  "renderProvidersTab E r project message =
     on_error (currentUserEmail r) (\<lambda>_. internal_error) (\<lambda>email.
     on_error (ListProviderCredentialsByProject (p_ID project)) (\<lambda>_. internal_error) (\<lambda>creds.
     on_error (sidebarProjects E) (\<lambda>_. internal_error) (\<lambda>allProjects.
     renderPage (ProvidersTabPage email (toProjectView E project) allProjects
       (map toProviderCredentialView creds) message))))"

definition handleProvidersTab :: "ext \<Rightarrow> dash_handler" where
  "handleProvidersTab E r = in_project E r (\<lambda>project. renderProvidersTab E r project no_message)"

text \<open>\<open>json.Valid\<close>: the text is one JSON value.\<close>

definition json_Valid :: "string \<Rightarrow> bool" where
  "json_Valid s \<longleftrightarrow> json_Parse s \<noteq> None"

definition handleUpsertProviderCredential :: "ext \<Rightarrow> Server \<Rightarrow> dash_handler" where
  "handleUpsertProviderCredential E s r = in_project E r (\<lambda>project.
     let tab = renderProvidersTab E r project in
     case q_Form r of
       None \<Rightarrow> tab (errMsg ''invalid form submission'')
     | Some form \<Rightarrow>
         (let providerType = FormValue ''provider'' form; credentialText = FormValue ''credential'' form in
          if \<not> Known providerType (sv_Providers s) then tab (errMsg ''unknown provider type'')
          else if \<not> json_Valid credentialText then tab (errMsg ''credential must be valid JSON'')
          else on_error (Seal E (sv_MasterKey s) credentialText) (\<lambda>_. internal_error) (\<lambda>(wrappedDEK, ciphertext).
               on_error (UpsertProviderCredential (p_ID project) providerType defaultCredentialEnvironment
                   ciphertext wrappedDEK)
                 (\<lambda>_. tab (errMsg ''failed to save credential'')) (\<lambda>_.
               tab (okMsg ''credential saved'')))))"

definition handleTestProviderCredential :: "ext \<Rightarrow> Server \<Rightarrow> dash_handler" where
  "handleTestProviderCredential E s r = in_project E r (\<lambda>project.
     let tab = renderProvidersTab E r project in
     case q_Form r of
       None \<Rightarrow> tab (errMsg ''invalid form submission'')
     | Some form \<Rightarrow>
         (let providerType = FormValue ''provider'' form; refused = (\<lambda>msg. tab (errMsg (providerType @ msg))) in
          on_error (GetActiveProviderCredential (p_ID project) providerType defaultCredentialEnvironment)
            (\<lambda>_. refused '': no active credential configured'') (\<lambda>stored.
          case Open E (sv_MasterKey s) (c_WrappedDek stored) (c_Credential stored) of
            Inl _ \<Rightarrow> refused '': failed to decrypt stored credential''
          | Inr plaintext \<Rightarrow> (case fst (Get providerType (sv_Providers s)) of
              None \<Rightarrow> refused '': unknown provider''
            | Some adapter \<Rightarrow> (case a_TestCredential adapter of
                None \<Rightarrow>
                  if \<not> json_Valid plaintext then refused '': stored credential is not valid JSON''
                  else tab \<lparr>m_Text = providerType @
                    '': credential shape looks valid (no live check available for this provider)'', m_Kind = []\<rparr>
              | Some TestCredential \<Rightarrow> do {
                  res \<leftarrow> TestCredential plaintext;
                  case res of
                    Some err \<Rightarrow> refused ('': test failed '' @ em_dash @ '' '' @ error_text err)
                  | None \<Rightarrow> tab (okMsg (providerType @ '': credential test passed'')) })))))"

section \<open>API keys\<close>

definition renderAPIKeysTab ::
  "ext \<Rightarrow> dash_request \<Rightarrow> project_row \<Rightarrow> string \<Rightarrow> Message \<Rightarrow> (world, dash_response) state"
where
  "renderAPIKeysTab E r project revealedKey message =
     on_error (currentUserEmail r) (\<lambda>_. internal_error) (\<lambda>email.
     on_error (ListAPIKeysByProject (p_ID project)) (\<lambda>_. internal_error) (\<lambda>keys.
     on_error (sidebarProjects E) (\<lambda>_. internal_error) (\<lambda>allProjects.
     renderPage (APIKeysTabPage email (toProjectView E project) allProjects
       (map (toAPIKeyView E) keys) revealedKey message))))"

definition handleAPIKeysTab :: "ext \<Rightarrow> dash_handler" where
  "handleAPIKeysTab E r = in_project E r (\<lambda>project. renderAPIKeysTab E r project [] no_message)"

definition handleCreateAPIKey :: "ext \<Rightarrow> dash_handler" where
  "handleCreateAPIKey E r = in_project E r (\<lambda>project. case q_Form r of
      None \<Rightarrow> renderAPIKeysTab E r project [] (errMsg ''invalid form submission'')
    | Some form \<Rightarrow>
        (let name = FormValue ''name'' form;
             refused = renderAPIKeysTab E r project [] (errMsg ''name is required and scope must be read or send'') in
         case ParseScope (FormValue ''scope'' form) of
           None \<Rightarrow> refused
         | Some scope \<Rightarrow>
             if name = [] then refused
             else on_error Generate (\<lambda>_. internal_error) (\<lambda>(raw, prefix).
                  on_error (CreateAPIKey (p_ID project) name prefix (Hash E raw) scope)
                    (\<lambda>_. renderAPIKeysTab E r project [] (errMsg ''failed to create api key'')) (\<lambda>_.
                  renderAPIKeysTab E r project raw no_message))))"

definition handleRevokeAPIKey :: "ext \<Rightarrow> dash_handler" where
  "handleRevokeAPIKey E r = (case projectIDFromRoute E r of
      None \<Rightarrow> respond (HTTPError 400 ''invalid project id'')
    | Some projectID \<Rightarrow> (case uuid_Parse E (q_keyID r) of
        None \<Rightarrow> respond (HTTPError 400 ''invalid api key id'')
      | Some keyID \<Rightarrow> do {
          _ \<leftarrow> RevokeAPIKey keyID projectID;
          respond (Redirect (''/projects/'' @ uuid_String E projectID @ ''/api-keys'')) }))"

section \<open>Devices\<close>

definition deviceBrowserPageSize :: "32 word" where
  "deviceBrowserPageSize = 50"

definition handleDevicesTab :: "ext \<Rightarrow> dash_handler" where
  "handleDevicesTab E r = in_project E r (\<lambda>project.
     let externalID = FormValue ''external_id'' (q_Query r); status = FormValue ''status'' (q_Query r) in
     on_error (ListDevicesByProject (p_ID project) externalID status 0 deviceBrowserPageSize) (\<lambda>_. internal_error) (\<lambda>ds.
     on_error (currentUserEmail r) (\<lambda>_. internal_error) (\<lambda>email.
     on_error (sidebarProjects E) (\<lambda>_. internal_error) (\<lambda>allProjects.
     renderPage (DevicesTabPage email (toProjectView E project) allProjects
       (map (toDeviceView E) ds) externalID status)))))"

section \<open>Notifications\<close>

definition notificationHistoryPageSize :: "32 word" where
  "notificationHistoryPageSize = 50"

definition handleNotificationsTab :: "ext \<Rightarrow> dash_handler" where
  "handleNotificationsTab E r = in_project E r (\<lambda>project.
     on_error (ListNotificationsByProject (p_ID project) 0 notificationHistoryPageSize) (\<lambda>_. internal_error) (\<lambda>ns.
     on_error (currentUserEmail r) (\<lambda>_. internal_error) (\<lambda>email.
     on_error (sidebarProjects E) (\<lambda>_. internal_error) (\<lambda>allProjects.
     renderPage (NotificationsTabPage email (toProjectView E project) allProjects
       (map (toNotificationView E) ns))))))"

definition notificationRecipients ::
  "uuid \<Rightarrow> (world, goerr + notification_row \<times> recipient_row list) state"
where
  "notificationRecipients i =
     attempt id (GetNotificationByID i) (\<lambda>n.
     attempt id (ListNotificationRecipients (n_ID n) (n_ProjectID n)) (\<lambda>rs.
     ret (Inr (n, rs))))"

definition handleNotificationDetail :: "ext \<Rightarrow> dash_handler" where
  "handleNotificationDetail E r = (case uuid_Parse E (q_id r) of
      None \<Rightarrow> respond (HTTPError 400 ''invalid notification id'')
    | Some i \<Rightarrow>
        on_error (notificationRecipients i) (\<lambda>_. respond (HTTPError 404 ''notification not found'')) (\<lambda>(n, rs).
        on_error (RecipientStatusCounts i) (\<lambda>_. internal_error) (\<lambda>counts.
        on_error (currentUserEmail r) (\<lambda>_. internal_error) (\<lambda>email.
        on_error (visibleProject (n_ProjectID n)) (\<lambda>_. respond (HTTPError 404 ''project not found'')) (\<lambda>project.
        on_error (sidebarProjects E) (\<lambda>_. internal_error) (\<lambda>allProjects.
        let recipientCounts = toRecipientCounts counts in
        renderPage (NotificationDetailPage email (toProjectView E project) allProjects (uuid_String E i)
          (n_Status n) (n_TotalRecipients n) recipientCounts (map (toRecipientView E) rs)
          (Terminal recipientCounts (n_TotalRecipients n)))))))))"

definition handleRecipientsFragment :: "ext \<Rightarrow> dash_handler" where
  "handleRecipientsFragment E r = (case uuid_Parse E (q_id r) of
      None \<Rightarrow> respond (HTTPError 400 ''invalid notification id'')
    | Some i \<Rightarrow>
        on_error (notificationRecipients i) (\<lambda>_. respond (HTTPError 404 ''notification not found'')) (\<lambda>(n, rs).
        on_error (RecipientStatusCounts i) (\<lambda>_. internal_error) (\<lambda>counts.
        renderPage (RecipientsFragment (uuid_String E i) (map (toRecipientView E) rs)
          (Terminal (toRecipientCounts counts) (n_TotalRecipients n))))))"

section \<open>The routes\<close>

record dash_route =
  dt_Method :: string
  dt_Pattern :: string
  dt_Handler :: dash_handler

definition handleStatic :: dash_handler where
  "handleStatic r = respond (StaticFile (q_Path r))"

text \<open>The routes open to everybody, and those behind the session gate.\<close>

definition public_routes :: "ext \<Rightarrow> Server \<Rightarrow> (string \<times> string \<times> dash_handler) list" where
  "public_routes E s =
     [(''*'', ''/static/*'', handleStatic),
      (''GET'', ''/setup'', handleSetupPage),
      (''POST'', ''/setup'', handleSetup E),
      (''GET'', ''/login'', handleLoginPage),
      (''POST'', ''/login'', handleLogin E s),
      (''POST'', ''/logout'', handleLogout E s)]"

definition session_routes :: "ext \<Rightarrow> Server \<Rightarrow> (string \<times> string \<times> dash_handler) list" where
  "session_routes E s =
     [(''GET'', ''/'', handleHome E),
      (''GET'', ''/projects'', handleListProjects E),
      (''POST'', ''/projects'', handleCreateProject E),
      (''GET'', ''/projects/{projectID}/'', handleProjectOverview E),
      (''GET'', ''/projects/{projectID}/providers'', handleProvidersTab E),
      (''POST'', ''/projects/{projectID}/providers'', handleUpsertProviderCredential E s),
      (''POST'', ''/projects/{projectID}/providers/test'', handleTestProviderCredential E s),
      (''GET'', ''/projects/{projectID}/api-keys'', handleAPIKeysTab E),
      (''POST'', ''/projects/{projectID}/api-keys'', handleCreateAPIKey E),
      (''POST'', ''/projects/{projectID}/api-keys/{keyID}/revoke'', handleRevokeAPIKey E),
      (''GET'', ''/projects/{projectID}/devices'', handleDevicesTab E),
      (''GET'', ''/projects/{projectID}/notifications'', handleNotificationsTab E),
      (''GET'', ''/notifications/{id}'', handleNotificationDetail E),
      (''GET'', ''/notifications/{id}/recipients-fragment'', handleRecipientsFragment E)]"

definition dashboard_NewRouter :: "ext \<Rightarrow> Server \<Rightarrow> dash_route list" where
  "dashboard_NewRouter E s =
     map (\<lambda>(m, pattern, h). \<lparr>dt_Method = m, dt_Pattern = pattern, dt_Handler = setupGate h\<rparr>) (public_routes E s) @
     map (\<lambda>(m, pattern, h). \<lparr>dt_Method = m, dt_Pattern = pattern, dt_Handler = setupGate (requireSession E h)\<rparr>)
       (session_routes E s)"

end
