(* ===== verification/DashboardFacts.thy ===== *)
theory DashboardFacts imports DashboardPages CommandFacts begin

text \<open>
  What holds of all dashboard routes together: the credential tests leave the store alone
  (the locale \<open>credential_tester\<close>), every handler moves the database along \<open>wstep\<close>, pages
  that are fetched change nothing, and nothing behind the session gate runs without one.
\<close>

section \<open>Credential tests\<close>

text \<open>\<open>provider.CredentialTester\<close>, as far as the dashboard relies on it.\<close>

locale credential_tester =
  fixes test :: "string \<Rightarrow> (world, goerr option) state"
  assumes tests_quietly: "store_side (final (test cred) w) = store_side w"
begin

lemma test_db: "w_db (final (test cred) w) = w_db w"
  using store_sideD(1) [OF tests_quietly] .

end

interpretation fcm_test: credential_tester "fcm_TestCredential E" for E
  by unfold_locales (simp add: fcm_TestCredential_def frame_simps split: sum.split)

interpretation hms_test: credential_tester "hms_TestCredential E" for E
  by unfold_locales (simp add: hms_TestCredential_def frame_simps split: sum.split)

interpretation apns_test: credential_tester "apns_TestCredential E" for E
  by unfold_locales (simp add: apns_TestCredential_def frame_simps split: sum.split)

text \<open>The dashboard as \<open>runServe\<close> wires it, some lookups of adapters later.\<close>

definition production_server :: "ext \<Rightarrow> string list \<Rightarrow> MasterKey \<Rightarrow> bool \<Rightarrow> Server" where
  "production_server E names mk secure = \<lparr>sv_MasterKey = mk, sv_CookieSecure = secure,
     sv_Providers = registry_after E names\<rparr>"

lemma production_testers:
  assumes "fst (Get p (sv_Providers (production_server E names mk secure))) = Some a"
    and "a_TestCredential a = Some t"
  shows "w_db (final (t cred) w) = w_db w"
proof -
  have "provider_Get E names p = Some a"
    using assms(1) by (simp add: production_server_def provider_Get_def)
  with assms(2) show ?thesis
    using fcm_test.test_db hms_test.test_db apns_test.test_db
    by (auto simp: provider_Get_table apns_adapter_def expo_adapter_def fcm_adapter_def hms_adapter_def
        split: if_splits)
qed

section \<open>Handlers move the database\<close>

definition same_db :: "world \<Rightarrow> world \<Rightarrow> bool" where
  "same_db w w' \<longleftrightarrow> w_db w' = w_db w"

lemma same_db_order: "reflp same_db" "transp same_db"
  by (auto simp: reflp_def transp_def same_db_def)

lemma same_db_frame: "(\<And>w. w_db (final m w) = w_db w) \<Longrightarrow> moves same_db m"
  by (simp add: moves_def same_db_def)

lemma same_db_moves: "moves same_db m \<Longrightarrow> moves db_moves m"
  by (rule moves_frame) (simp add: moves_def same_db_def)

lemma moves_on_error:
  "transp R \<Longrightarrow> moves R m \<Longrightarrow> (\<And>e. moves R (failed_with e)) \<Longrightarrow> (\<And>x. moves R (k x)) \<Longrightarrow>
     moves R (on_error m failed_with k)"
  unfolding on_error_def by (erule moves_bind) (auto split: sum.split)

lemma moves_respond: "reflp R \<Longrightarrow> moves R (respond b)" "reflp R \<Longrightarrow> moves R (renderPage p)"
  "reflp R \<Longrightarrow> moves R internal_error"
  by (simp_all add: moves_def reflpD)

lemmas dash_moves [moves_rules] =
  moves_on_error [OF db_moves_trans] moves_respond [OF db_moves_refl]

lemmas same_db_rules =
  moves_ret [OF same_db_order(1)] moves_bind [OF same_db_order(2)] moves_attempt [OF same_db_order]
  moves_on_error [OF same_db_order(2)] moves_respond [OF same_db_order(1)]
  notification_reads_db [THEN same_db_frame] device_reads_db [THEN same_db_frame]
  account_reads_db [THEN same_db_frame] service_db [THEN same_db_frame]
  Seal_db [THEN same_db_frame]

lemma page_reads:
  "moves same_db (currentUserEmail r)" "moves same_db (sidebarProjects E)" "moves same_db (visibleProject i)"
  "moves same_db visibleProjects" "moves same_db (projectStats E project)"
  "moves same_db (notificationRecipients i)" "moves same_db (RecipientStatusCounts i)"
  by (auto simp: currentUserEmail_def failed_def sidebarProjects_def visibleProject_def visibleProjects_def
      projectStats_def notificationRecipients_def RecipientStatusCounts_def
      intro!: same_db_rules split: option.split)

lemma tabs_read:
  "moves same_db (renderProjectsList E r message)" "moves same_db (renderProvidersTab E r project message)"
  "moves same_db (renderAPIKeysTab E r project revealed message)"
  by (auto simp: renderProjectsList_def renderProvidersTab_def renderAPIKeysTab_def
      intro!: same_db_rules page_reads)

lemma in_project_moves:
  "reflp R \<Longrightarrow> transp R \<Longrightarrow> (\<And>i. moves R (visibleProject i)) \<Longrightarrow> (\<And>p. moves R (k p)) \<Longrightarrow> moves R (in_project E r k)"
  unfolding in_project_def by (auto intro!: moves_on_error moves_respond split: option.split)

lemma fetched_pages:
  "moves same_db (handleStatic r)" "moves same_db (handleSetupPage r)" "moves same_db (handleLoginPage r)"
  "moves same_db (handleHome E r)" "moves same_db (handleListProjects E r)"
  "moves same_db (handleProjectOverview E r)" "moves same_db (handleProvidersTab E r)"
  "moves same_db (handleAPIKeysTab E r)" "moves same_db (handleDevicesTab E r)"
  "moves same_db (handleNotificationsTab E r)" "moves same_db (handleNotificationDetail E r)"
  "moves same_db (handleRecipientsFragment E r)"
  by (auto simp: handleStatic_def handleSetupPage_def handleLoginPage_def handleHome_def handleListProjects_def
      handleProjectOverview_def handleProvidersTab_def handleAPIKeysTab_def handleDevicesTab_def
      handleNotificationsTab_def handleNotificationDetail_def handleRecipientsFragment_def Let_def
      intro!: same_db_rules page_reads tabs_read in_project_moves same_db_order split: option.split)

lemma test_moves:
  assumes "s = production_server E names mk secure"
  shows "moves same_db (handleTestProviderCredential E s r)"
proof -
  have "moves same_db (t cred)"
    if "fst (Get p (sv_Providers s)) = Some a" and "a_TestCredential a = Some t" for p a t cred
    using production_testers [OF that(1) [unfolded assms] that(2)] by (simp add: moves_def same_db_def)
  then show ?thesis
    unfolding handleTestProviderCredential_def Let_def
    by (intro in_project_moves same_db_order)
      (auto intro!: same_db_rules page_reads tabs_read split: option.split sum.split)
qed

lemma GenerateSessionToken_db [frame_simps]: "w_db (final GenerateSessionToken w) = w_db w"
  by (simp add: GenerateSessionToken_def attempt_simps frame_simps split: sum.split)

lemmas account_tools [moves_rules] =
  HashPassword_db [THEN moves_frame] Generate_db [THEN moves_frame] GenerateSessionToken_db [THEN moves_frame] Seal_db [THEN moves_frame]
  page_reads [THEN same_db_moves] tabs_read [THEN same_db_moves]
  in_project_moves [OF db_moves_refl db_moves_trans]

lemma public_handlers_move:
  "moves db_moves (handleSetup E r)" "moves db_moves (handleLogin E s r)" "moves db_moves (handleLogout E s r)"
  by (auto simp: handleSetup_def handleLogin_def handleLogout_def revoke_presented_def Let_def
      intro!: moves_rules split: option.split sum.split)

lemma session_handlers_move:
  "moves db_moves (handleCreateProject E r)" "moves db_moves (handleUpsertProviderCredential E s r)"
  "moves db_moves (handleCreateAPIKey E r)" "moves db_moves (handleRevokeAPIKey E r)"
  by (auto simp: handleCreateProject_def handleUpsertProviderCredential_def handleCreateAPIKey_def
      handleRevokeAPIKey_def Let_def intro!: moves_rules split: option.split prod.split)

lemma gates_move:
  assumes "\<And>r. moves db_moves (h r)"
  shows "moves db_moves (setupGate h r)" and "moves db_moves (requireSession E h r)"
  by (auto simp: setupGate_def requireSession_def touchSessionLastUsed_def Let_def
      intro!: moves_rules assms split: option.split)

lemma dashboard_moves:
  assumes "s = production_server E names mk secure" and "rt \<in> set (dashboard_NewRouter E s)"
  shows "moves db_moves (dt_Handler rt r)"
proof -
  have "moves db_moves (h r)" if "(m, pattern, h) \<in> set (public_routes E s)" for m pattern h r
    using that by (auto simp: public_routes_def intro: same_db_moves fetched_pages public_handlers_move)
  moreover have "moves db_moves (h r)" if "(m, pattern, h) \<in> set (session_routes E s)" for m pattern h r
    using that by (auto simp: session_routes_def
        intro: same_db_moves fetched_pages session_handlers_move test_moves [OF assms(1)])
  ultimately show ?thesis
    using assms(2) unfolding dashboard_NewRouter_def by (auto intro!: gates_move)
qed

section \<open>The gates\<close>

text \<open>
  A cookie with a token for a session that is neither revoked nor expired, at the \<open>now()\<close> of
  the lookup in \<open>w\<close>; and the world in which the page's handler then starts.
\<close>

definition signed_in :: "ext \<Rightarrow> dash_request \<Rightarrow> world \<Rightarrow> session_row \<Rightarrow> bool" where
  "signed_in E r w s \<longleftrightarrow> s \<in> set (sessions (w_db w)) \<and>
     (\<exists>token. Cookie sessionCookieName r = Some token \<and> token \<noteq> [] \<and> ss_TokenHash s = HashSessionToken E token) \<and>
     ss_RevokedAt s = None \<and> se_now (next_env w) < ss_ExpiresAt s"

definition signed_world :: "session_row \<Rightarrow> world \<Rightarrow> world" where
  "signed_world s w = final (touchSessionLastUsed (ss_ID s)) (final (GetActiveSessionByHash (ss_TokenHash s)) w)"

text \<open>The world in which \<open>setupGate\<close> hands a request on: it counts the users first, but for static files.\<close>

definition past_setup :: "dash_request \<Rightarrow> world \<Rightarrow> world" where
  "past_setup r w = (if strip_prefix ''/static/'' (q_Path r) = None then final CountUsers w else w)"

lemma past_setup_db [simp]: "w_db (past_setup r w) = w_db w"
  by (simp add: past_setup_def frame_simps)

text \<open>Nothing changed but the time sessions were last used.\<close>

definition only_touched :: "tables \<Rightarrow> tables \<Rightarrow> bool" where
  "only_touched t t' \<longleftrightarrow> t' = t\<lparr>sessions := sessions t'\<rparr> \<and>
     map (\<lambda>s. s\<lparr>ss_LastUsedAt := None\<rparr>) (sessions t') = map (\<lambda>s. s\<lparr>ss_LastUsedAt := None\<rparr>) (sessions t)"

lemma only_touched_refl [simp]: "only_touched t t"
  by (simp add: only_touched_def)

lemma touch_only_touched: "only_touched (w_db w) (w_db (final (touchSessionLastUsed i) w))"
proof -
  have "map (\<lambda>s. s\<lparr>ss_LastUsedAt := None\<rparr>) (upd_where P (\<lambda>s. s\<lparr>ss_LastUsedAt := x\<rparr>) ss) =
      map (\<lambda>s. s\<lparr>ss_LastUsedAt := None\<rparr>) ss" for P x ss
    by (rule map_upd_where) simp
  then show ?thesis
    by (simp add: touchSessionLastUsed_def TouchSessionLastUsed_def sql_touchSessionLastUsed_def exec_only_def
        exec_final run_stmt_def only_touched_def split: fault.split)
qed

lemma GetActiveSessionByHash_Inr:
  assumes "value_of (GetActiveSessionByHash hash) w = Inr s"
  shows "s \<in> set (sessions (w_db w)) \<and> ss_TokenHash s = hash \<and> session_active (se_now (next_env w)) s"
  using exec_Inr(1) [OF assms [unfolded GetActiveSessionByHash_def]]
  by (auto simp: run_stmt_def sql_getActiveSessionByHash_def dest: find_SomeD)

text \<open>What a gate answers instead of running the handler.\<close>

definition turned_away :: "dash_response \<Rightarrow> bool" where
  "turned_away resp \<longleftrightarrow> ds_SetCookies resp = [] \<and>
     ds_Body resp \<in> {Redirect ''/login'', Redirect ''/setup'', HTTPError 500 ''internal error''}"

lemma requireSession_cases:
  "(\<exists>s u. signed_in E r w s \<and> u = signed_world s w \<and> only_touched (w_db w) (w_db u) \<and>
      value_of (requireSession E h r) w = value_of (h (contextWithUserID (ss_UserID s) r)) u \<and>
      final (requireSession E h r) w = final (h (contextWithUserID (ss_UserID s) r)) u) \<or>
   turned_away (value_of (requireSession E h r) w) \<and> w_db (final (requireSession E h r) w) = w_db w"
proof (cases "Cookie sessionCookieName r = None \<or> Cookie sessionCookieName r = Some []")
  case True
  then show ?thesis by (auto simp: requireSession_def turned_away_def)
next
  case False
  then obtain token where token: "Cookie sessionCookieName r = Some token" "token \<noteq> []" by auto
  let ?get = "GetActiveSessionByHash (HashSessionToken E token)"
  have db: "w_db (final ?get w) = w_db w" by (simp add: frame_simps)
  show ?thesis
  proof (cases "value_of ?get w")
    case (Inl e)
    with token db show ?thesis by (simp add: requireSession_def on_error_simps turned_away_def)
  next
    case (Inr s)
    from GetActiveSessionByHash_Inr [OF this] have signed: "signed_in E r w s"
      and hash: "ss_TokenHash s = HashSessionToken E token"
      using token by (auto simp: signed_in_def session_active_def)
    note signed
    moreover have "only_touched (w_db w) (w_db (final (touchSessionLastUsed (ss_ID s)) (final ?get w)))"
      using touch_only_touched [of "final ?get w" "ss_ID s"] by (simp add: db)
    moreover have "value_of (requireSession E h r) w =
        value_of (h (contextWithUserID (ss_UserID s) r)) (final (touchSessionLastUsed (ss_ID s)) (final ?get w))"
      "final (requireSession E h r) w =
        final (h (contextWithUserID (ss_UserID s) r)) (final (touchSessionLastUsed (ss_ID s)) (final ?get w))"
      using token Inr by (simp_all add: requireSession_def on_error_simps)
    ultimately show ?thesis unfolding signed_world_def by (metis hash)
  qed
qed

lemma setupGate_cases:
  "(\<exists>u. u = past_setup r w \<and> value_of (setupGate h r) w = value_of (h r) u \<and>
      final (setupGate h r) w = final (h r) u) \<or>
   turned_away (value_of (setupGate h r) w) \<and> w_db (final (setupGate h r) w) = w_db w"
proof (cases "strip_prefix ''/static/'' (q_Path r)")
  case None
  have "w_db (final CountUsers w) = w_db w" by (simp add: frame_simps)
  with None show ?thesis
    by (cases "value_of CountUsers w") (auto simp: setupGate_def on_error_simps turned_away_def past_setup_def Let_def)
qed (auto simp: setupGate_def past_setup_def)

lemma gated_cases:
  "(\<exists>s u. signed_in E r (past_setup r w) s \<and> u = signed_world s (past_setup r w) \<and> only_touched (w_db w) (w_db u) \<and>
      value_of (setupGate (requireSession E h) r) w = value_of (h (contextWithUserID (ss_UserID s) r)) u \<and>
      final (setupGate (requireSession E h) r) w = final (h (contextWithUserID (ss_UserID s) r)) u) \<or>
   turned_away (value_of (setupGate (requireSession E h) r) w) \<and>
     w_db (final (setupGate (requireSession E h) r) w) = w_db w"
  using setupGate_cases [where h = "requireSession E h" and r = r and w = w]
proof (elim disjE exE conjE)
  fix u assume u: "u = past_setup r w"
    "value_of (setupGate (requireSession E h) r) w = value_of (requireSession E h r) u"
    "final (setupGate (requireSession E h) r) w = final (requireSession E h r) u"
  from requireSession_cases [of E r "past_setup r w" h] show ?thesis unfolding u past_setup_db .
qed blast

definition open_patterns :: "string list" where
  "open_patterns = [''/static/*'', ''/setup'', ''/login'', ''/logout'']"

section \<open>A signed-in user\<close>

definition dash_user :: user_row where
  "dash_user = \<lparr>u_ID = 2, u_Email = ''a@b'', u_PasswordHash = ''x'', u_Role = ''admin'', u_CreatedAt = 0\<rparr>"

definition signed_session :: session_row where
  "signed_session = \<lparr>ss_ID = 7, ss_UserID = 2, ss_TokenHash = HashSessionToken sample_ext ''t'', ss_CreatedAt = 0,
     ss_LastUsedAt = None, ss_ExpiresAt = 10 ^ 18, ss_RevokedAt = None\<rparr>"

definition session_world :: world where
  "session_world = store_world\<lparr>w_db := sample_db\<lparr>users := [dash_user], sessions := [signed_session]\<rparr>\<rparr>"

definition sample_server :: Server where
  "sample_server = production_server sample_ext [] (replicate 32 (CHR ''k'')) True"

definition visit :: "string \<Rightarrow> dash_request" where
  "visit path = \<lparr>q_Path = path, q_Cookies = [(sessionCookieName, ''t'')], q_Form = Some [], q_Query = [],
     q_projectID = ''1'', q_keyID = [], q_id = [], q_UserID = None\<rparr>"

lemma home_shown:
  "ds_Body (value_of (setupGate (requireSession sample_ext (handleHome sample_ext)) (visit ''/'')) session_world) =
     Rendered (HomePage ''a@b'' [toProjectView sample_ext sample_project])"
  by (simp add: setupGate_def requireSession_def handleHome_def on_error_simps CountUsers_def sql_countUsers_def
      GetActiveSessionByHash_def sql_getActiveSessionByHash_def touchSessionLastUsed_def TouchSessionLastUsed_def
      sql_touchSessionLastUsed_def GetUserByID_def sql_getUserByID_def visibleProjects_def ListProjects_def
      sql_listProjects_def exec_only_def exec_value exec_final next_env_def run_stmt_def visit_def Cookie_def
      strip_prefix_def Let_def contextWithUserID_def userIDFromContext_def session_active_def newest_first_def
      session_world_def signed_session_def dash_user_def sample_defs)

section \<open>Properties\<close>

text \<open>
  C7. Nothing of the dashboard but the static files, setup, login and logout runs without a
  session: a request to any other route is either turned away (to login, to setup, or with
  an internal error) with no effect, or carries a cookie whose token hashes to an active
  session: one neither revoked nor past its expiry at the \<open>now()\<close> of the lookup; then the page's
  handler runs once, for the user of that session, right after that session was touched, on a
  database in which at most the time of last use changed.
\<close>

theorem dashboard_requires_session:
  assumes "rt \<in> set (dashboard_NewRouter E s)" and "dt_Pattern rt \<notin> set open_patterns"
  shows "turned_away (value_of (dt_Handler rt r) w) \<and> w_db (final (dt_Handler rt r) w) = w_db w \<or>
    (\<exists>h sess u. (dt_Method rt, dt_Pattern rt, h) \<in> set (session_routes E s) \<and>
      signed_in E r (past_setup r w) sess \<and> u = signed_world sess (past_setup r w) \<and>
      only_touched (w_db w) (w_db u) \<and>
      value_of (dt_Handler rt r) w = value_of (h (contextWithUserID (ss_UserID sess) r)) u \<and>
      final (dt_Handler rt r) w = final (h (contextWithUserID (ss_UserID sess) r)) u)"
proof -
  from assms obtain h where h: "(dt_Method rt, dt_Pattern rt, h) \<in> set (session_routes E s)"
    and rt: "dt_Handler rt = setupGate (requireSession E h)"
    unfolding dashboard_NewRouter_def by (auto simp: public_routes_def open_patterns_def)
  from gated_cases [of E r w h] h show ?thesis unfolding rt by blast
qed

theorem dashboard_requires_session_witness:
  "\<exists>sess. signed_in sample_ext (visit ''/'') (past_setup (visit ''/'') session_world) sess \<and> ss_UserID sess = 2"
proof -
  let ?rt = "\<lparr>dt_Method = ''GET'', dt_Pattern = ''/'', dt_Handler = setupGate (requireSession sample_ext (handleHome sample_ext))\<rparr>"
  have "?rt \<in> set (dashboard_NewRouter sample_ext sample_server)" "dt_Pattern ?rt \<notin> set open_patterns"
    by (simp_all add: dashboard_NewRouter_def session_routes_def open_patterns_def)
  from dashboard_requires_session [OF this, of "visit ''/''" session_world] home_shown show ?thesis
    by (auto simp: turned_away_def signed_in_def session_world_def signed_session_def)
qed

text \<open>
  C35. Fetching never changes anything: a GET of any route of the dashboard leaves the
  database as it was, but for the time the session was last used.
\<close>

theorem dashboard_get_safe:
  assumes "rt \<in> set (dashboard_NewRouter E s)" and "dt_Method rt = ''GET''"
  shows "only_touched (w_db w) (w_db (final (dt_Handler rt r) w))"
proof -
  have same: "w_db (final (h r) u) = w_db u" if "moves same_db (h r)" for h :: dash_handler and r u
    using that by (simp add: moves_def same_db_def)
  from assms consider h where "(''GET'', dt_Pattern rt, h) \<in> set (public_routes E s)" "dt_Handler rt = setupGate h"
    | h where "(''GET'', dt_Pattern rt, h) \<in> set (session_routes E s)" "dt_Handler rt = setupGate (requireSession E h)"
    unfolding dashboard_NewRouter_def by auto
  then show ?thesis
  proof cases
    case 1
    then have "moves same_db (h r)" for r by (auto simp: public_routes_def intro: fetched_pages)
    with setupGate_cases [where h = h and r = r and w = w] same show ?thesis unfolding 1(2) by auto
  next
    case 2
    then have "moves same_db (h r)" for r by (auto simp: session_routes_def intro: fetched_pages)
    with gated_cases [of E r w h] same show ?thesis unfolding 2(2) by auto
  qed
qed

theorem dashboard_get_safe_witness:
  "only_touched (w_db session_world) (w_db (final (setupGate (requireSession sample_ext (handleHome sample_ext)) (visit ''/'')) session_world))"
proof -
  let ?rt = "\<lparr>dt_Method = ''GET'', dt_Pattern = ''/'', dt_Handler = setupGate (requireSession sample_ext (handleHome sample_ext))\<rparr>"
  have "?rt \<in> set (dashboard_NewRouter sample_ext sample_server)" "dt_Method ?rt = ''GET''"
    by (simp_all add: dashboard_NewRouter_def session_routes_def)
  from dashboard_get_safe [OF this, of session_world "visit ''/''"] show ?thesis by simp
qed

end
