(* ===== verification/System.thy ===== *)
theory System imports DashboardFacts begin

text \<open>
  The running system: any number of API, dashboard and worker processes and administrative
  commands on one database, as a step relation, and what every run of it keeps.
\<close>

section \<open>The running system\<close>

text \<open>
  One step is a request served by a route of the API or of the dashboard, a task run by the
  worker on whatever payload, a subcommand, or writes of another process and arbitrary changes
  of the services around.
\<close>

inductive system_step :: "world \<Rightarrow> world \<Rightarrow> bool" where
  api: "rt \<in> set (NewRouter E limiter) \<Longrightarrow> system_step w (final (rt_Handler rt r) w)"
| dash: "rt \<in> set (dashboard_NewRouter E (production_server E names mk secure)) \<Longrightarrow>
    system_step w (final (dt_Handler rt r) w)"
| work: "(type, handler) \<in> set (worker_mux E (production_handlers E names mk rps)) \<Longrightarrow>
    system_step w (final (handler ctx task) w)"
| seed: "system_step w (final (runSeedCredential E cfg prov path slug contents) w)"
| new_project: "system_step w (final (runCreateProject name slug) w)"
| new_key: "system_step w (final (runCreateAPIKey E slug name scope) w)"
| bootstrap: "system_step w (final (runBootstrap E email password) w)"
| reset: "system_step w (final (runResetPassword E email stdin) w)"
| elsewhere: "wstep\<^sup>*\<^sup>* (w_db w) (w_db w') \<Longrightarrow> system_step w w'"

inductive_cases system_stepE: "system_step w w'"

lemma command_moves:
  "moves db_moves (runSeedCredential E cfg prov path slug contents)"
  "moves db_moves (runCreateProject name slug)"
  "moves db_moves (runCreateAPIKey E slug name scope)"
  "moves db_moves (runBootstrap E email password)"
  "moves db_moves (runResetPassword E email stdin)"
  by (auto simp: runSeedCredential_def runCreateProject_def runCreateAPIKey_def runBootstrap_def
      runResetPassword_def failed_def Let_def intro!: moves_rules pool_db [THEN moves_frame]
      split: sum.split option.split prod.split)

lemma system_step_db: "system_step w w' \<Longrightarrow> wstep\<^sup>*\<^sup>* (w_db w) (w_db w')"
  by (erule system_stepE)
    (simp_all add: movesD [OF route_moves, unfolded db_moves_def] movesD [OF worker_moves, unfolded db_moves_def]
      movesD [OF dashboard_moves [OF refl], unfolded db_moves_def] command_moves [THEN movesD, unfolded db_moves_def])

lemma system_run_db: "system_step\<^sup>*\<^sup>* w w' \<Longrightarrow> wstep\<^sup>*\<^sup>* (w_db w) (w_db w')"
  by (induction rule: rtranclp_induct) (auto dest: system_step_db)

text \<open>
  Every step is a run of statements, so what the statements keep (\<open>wsteps_wf_db\<close>) every run of the
  system keeps.
\<close>

lemma system_keeps_wf:
  assumes "wf_db (w_db w)" and "system_step\<^sup>*\<^sup>* w w'"
  shows "wf_db (w_db w')"
  using system_run_db [OF assms(2)] assms(1) by (rule wsteps_wf_db)

section \<open>Properties\<close>

text \<open>
  C11. An accepted notification is durable: from any state with a well-formed database, once
  creation returned it, every state any run of the system reaches has the notification with
  the same project, key and target, in a well-formed database.
\<close>

theorem accepted_notification_durable:
  assumes "wf_db (w_db w)" and "value_of (CreateNotification E pid req) w = Inr n"
    and "system_step\<^sup>*\<^sup>* (final (CreateNotification E pid req) w) w'"
  shows "wf_db (w_db w') \<and> (\<exists>n' \<in> set (notifications (w_db w')). n_ID n' = n_ID n \<and> n_ProjectID n' = pid \<and>
    n_IdempotencyKey n' = TextFrom (cn_IdempotencyKey req) \<and> n_TargetSpec n' = n_TargetSpec n)"
proof -
  note run = system_run_db [OF assms(3)]
  from CreateNotification_sound [OF assms(2)]
  have "n \<in> set (notifications (w_db (final (CreateNotification E pid req) w)))" "n_ProjectID n = pid"
    "n_IdempotencyKey n = TextFrom (cn_IdempotencyKey req)" by (auto simp: Let_def)
  moreover have "wf_db (w_db w')"
    using CreateNotification_moves assms(1) by (blast intro: wsteps_wf_db [OF run] db_moves_wf)
  ultimately show ?thesis using wsteps_notification_kept [OF run] by metis
qed

theorem accepted_notification_durable_witness:
  "\<exists>n' \<in> set (notifications (w_db (final (rt_Handler (hd (NewRouter sample_ext (NewRateLimiter 10))) (sample_http []))
       (final (CreateNotification sample_ext 1 sample_request) store_world)))). n_ID n' = 100"
proof -
  obtain n where n: "value_of (CreateNotification sample_ext 1 sample_request) store_world = Inr n" "n_ID n = 100"
    using sample_create by blast
  have "wf_db (w_db store_world)" by (simp add: store_world_def wf_sample_db)
  moreover have "hd (NewRouter sample_ext (NewRateLimiter 10)) \<in> set (NewRouter sample_ext (NewRateLimiter 10))"
    by (simp add: NewRouter_def Let_def)
  then have "system_step\<^sup>*\<^sup>* (final (CreateNotification sample_ext 1 sample_request) store_world)
      (final (rt_Handler (hd (NewRouter sample_ext (NewRateLimiter 10))) (sample_http []))
        (final (CreateNotification sample_ext 1 sample_request) store_world))"
    by (blast intro: system_step.api)
  ultimately show ?thesis using accepted_notification_durable [OF _ n(1)] n(2) by metis
qed

end
