(* ===== verification/SessionFacts.thy ===== *)
theory SessionFacts imports System begin

text \<open>
  Who is let in, over time: what no statement ever undoes (a revocation, the existence of a
  user), what a login grants, what a logout and a revoked API key end.
\<close>

section \<open>What no statement undoes\<close>

text \<open>A later row for the same session, key or user.\<close>

definition later_session :: "session_row \<Rightarrow> session_row \<Rightarrow> bool" where
  "later_session s s' \<longleftrightarrow> ss_ID s' = ss_ID s \<and> ss_UserID s' = ss_UserID s \<and> ss_TokenHash s' = ss_TokenHash s \<and>
     ss_ExpiresAt s' = ss_ExpiresAt s \<and> (ss_RevokedAt s \<noteq> None \<longrightarrow> ss_RevokedAt s' \<noteq> None)"

definition later_key :: "api_key_row \<Rightarrow> api_key_row \<Rightarrow> bool" where
  "later_key k k' \<longleftrightarrow> k_ID k' = k_ID k \<and> k_ProjectID k' = k_ProjectID k \<and> k_KeyHash k' = k_KeyHash k \<and>
     k_Scope k' = k_Scope k \<and> k_ExpiresAt k' = k_ExpiresAt k \<and> (k_RevokedAt k \<noteq> None \<longrightarrow> k_RevokedAt k' \<noteq> None)"

lemma later_refl [simp]: "later_session s s" "later_key k k"
  by (simp_all add: later_session_def later_key_def)

lemma later_trans:
  "later_session s s' \<Longrightarrow> later_session s' s'' \<Longrightarrow> later_session s s''"
  "later_key k k' \<Longrightarrow> later_key k' k'' \<Longrightarrow> later_key k k''"
  by (simp_all add: later_session_def later_key_def)

text \<open>A write keeps the rows of a table, makes some of them later, or appends one.\<close>

inductive grows :: "('r \<Rightarrow> 'r \<Rightarrow> bool) \<Rightarrow> 'r list \<Rightarrow> 'r list \<Rightarrow> bool" for later xs where
  "grows later xs xs"
| "(\<And>x. later x (f x)) \<Longrightarrow> grows later xs (upd_where P f xs)"
| "grows later xs (xs @ [x])"

lemma grows_kept:
  assumes "grows later xs ys" and "x \<in> set xs" and "\<And>x. later x x"
  shows "\<exists>y \<in> set ys. later x y"
  using assms(1)
proof cases
  case (2 f P)
  with assms show ?thesis
    by (intro bexI [of _ "if P x then f x else x"]) (auto simp: in_set_upd_where)
qed (use assms in auto)

lemma wstep_sessions_grow: "wstep t t' \<Longrightarrow> grows later_session (sessions t) (sessions t')"
  by (induction rule: wstep.induct)
    (auto simp: write_defs later_session_def split: option.splits intro: grows.intros)

lemma wstep_keys_grow: "wstep t t' \<Longrightarrow> grows later_key (api_keys t) (api_keys t')"
  by (induction rule: wstep.induct)
    (auto simp: write_defs later_key_def split: option.splits intro: grows.intros)

lemma wstep_session_kept:
  "wstep t t' \<Longrightarrow> s \<in> set (sessions t) \<Longrightarrow> \<exists>s' \<in> set (sessions t'). later_session s s'"
  by (rule grows_kept [OF wstep_sessions_grow]) simp_all

lemma wstep_key_kept:
  "wstep t t' \<Longrightarrow> k \<in> set (api_keys t) \<Longrightarrow> \<exists>k' \<in> set (api_keys t'). later_key k k'"
  by (rule grows_kept [OF wstep_keys_grow]) simp_all

lemma wsteps_session_kept:
  "wstep\<^sup>*\<^sup>* t t' \<Longrightarrow> s \<in> set (sessions t) \<Longrightarrow> \<exists>s' \<in> set (sessions t'). later_session s s'"
  by (induction rule: rtranclp_induct) (auto intro: later_refl dest!: wstep_session_kept intro: later_trans(1))

lemma wsteps_key_kept:
  "wstep\<^sup>*\<^sup>* t t' \<Longrightarrow> k \<in> set (api_keys t) \<Longrightarrow> \<exists>k' \<in> set (api_keys t'). later_key k k'"
  by (induction rule: rtranclp_induct) (auto intro: later_refl dest!: wstep_key_kept intro: later_trans(2))

lemma wsteps_users_kept: "wstep\<^sup>*\<^sup>* t t' \<Longrightarrow> users t \<noteq> [] \<Longrightarrow> users t' \<noteq> []"
  by (induction rule: rtranclp_induct) (auto dest!: wstep_ids_kept simp: ids_kept_def)

text \<open>A session or key that is revoked is not found by its hash again.\<close>

lemma revoked_session_lost:
  assumes "wf_db (w_db w)" and "s \<in> set (sessions (w_db w))" and "ss_RevokedAt s \<noteq> None"
    and "ss_TokenHash s = hash"
  shows "\<exists>e. value_of (GetActiveSessionByHash hash) w = Inl e"
proof (cases "value_of (GetActiveSessionByHash hash) w")
  case (Inr s')
  from GetActiveSessionByHash_Inr [OF this] assms have "s' = s"
    by (auto simp: wf_db_def accounts_ok_def intro: distinct_map_unique)
  with GetActiveSessionByHash_Inr [OF Inr] assms(3) show ?thesis by (simp add: session_active_def)
qed blast

lemma revoked_key_lost:
  assumes "wf_db (w_db w)" and "k \<in> set (api_keys (w_db w))" and "k_RevokedAt k \<noteq> None" and "k_KeyHash k = hash"
  shows "\<exists>e. value_of (GetActiveAPIKeyByHash hash) w = Inl e"
proof (cases "value_of (GetActiveAPIKeyByHash hash) w")
  case (Inr k')
  from GetActiveAPIKeyByHash_Inr [OF this] assms have "k' = k"
    by (auto simp: wf_db_def accounts_ok_def intro: distinct_map_unique)
  with GetActiveAPIKeyByHash_Inr [OF Inr] assms(3) show ?thesis by (simp add: key_active_def)
qed blast

lemma revoked_session_redirected:
  assumes "wf_db (w_db w)" and "s \<in> set (sessions (w_db w))" and "ss_RevokedAt s \<noteq> None"
    and "ss_TokenHash s = HashSessionToken E token" and "Cookie sessionCookieName r = Some token"
  shows "ds_Body (value_of (requireSession E h r) w) = Redirect ''/login'' \<and>
    w_db (final (requireSession E h r) w) = w_db w"
  using revoked_session_lost [OF assms(1-4)] assms(5)
  by (auto simp: requireSession_def on_error_simps frame_simps)

lemma revoked_key_rejected:
  assumes "wf_db (w_db w)" and "k \<in> set (api_keys (w_db w))" and "k_RevokedAt k \<noteq> None"
    and "k_KeyHash k = Hash E raw" and "bearerToken r = Some raw"
  shows "rs_Status (value_of (requireScope E limiter scope h r) w) \<in> {401, 500} \<and>
    w_db (final (requireScope E limiter scope h r) w) = w_db w"
  using revoked_key_lost [OF assms(1-4)] assms(5)
  by (auto simp: requireScope_def frame_simps split: if_splits)

section \<open>Revoking\<close>

lemma find_unique:
  assumes "distinct (map key xs)" and "x \<in> set xs" and "P x" and "\<And>y. P y \<Longrightarrow> key y = key x"
  shows "find P xs = Some x"
proof -
  obtain y where y: "find P xs = Some y" using assms(2,3) by (cases "find P xs") (auto simp: find_None_iff)
  from find_SomeD [OF this] assms have "y = x" by (blast intro: distinct_map_unique)
  with y show ?thesis by simp
qed

lemma revoke_presented_healthy:
  assumes "wf_db (w_db w)" and "healthy w" and "Cookie sessionCookieName r = Some token" and "token \<noteq> []"
    and "s \<in> set (sessions (w_db w))" and "ss_TokenHash s = HashSessionToken E token"
    and "session_active (se_now (next_env w)) s"
  shows "\<exists>s' \<in> set (sessions (w_db (final (revoke_presented E r) w))).
    ss_TokenHash s' = HashSessionToken E token \<and> ss_RevokedAt s' \<noteq> None"
proof -
  have "find (\<lambda>s. ss_TokenHash s = HashSessionToken E token \<and> session_active (se_now (next_env w)) s)
      (sessions (w_db w)) = Some s"
      using assms(1,5-7) by (intro find_unique [where key = ss_TokenHash]) (auto simp: wf_db_def accounts_ok_def)
  then show ?thesis
    using assms(2-6)
    by (auto simp: revoke_presented_def on_error_simps GetActiveSessionByHash_def sql_getActiveSessionByHash_def
        RevokeSession_def sql_revokeSession_def healthy_exec run_stmt_def next_env_def exec_only_def
        intro!: bexI [OF _ upd_row_mem])
qed

lemma revoke_key_healthy:
  assumes "healthy w" and "k \<in> set (api_keys (w_db w))"
  shows "\<exists>k' \<in> set (api_keys (w_db (final (RevokeAPIKey (k_ID k) (k_ProjectID k)) w))).
    k_KeyHash k' = k_KeyHash k \<and> k_RevokedAt k' \<noteq> None"
  using assms
  by (auto simp: RevokeAPIKey_def sql_revokeAPIKey_def healthy_exec run_stmt_def exec_only_def
      intro!: bexI [OF _ upd_row_mem])

section \<open>A key to revoke\<close>

definition dash_key :: api_key_row where
  "dash_key = \<lparr>k_ID = 9, k_ProjectID = 1, k_Name = ''backend'', k_KeyPrefix = ''sp_live_'',
     k_KeyHash = Hash sample_ext ''k'', k_Scope = ''send'', k_CreatedAt = 0, k_LastUsedAt = None,
     k_RevokedAt = None, k_ExpiresAt = None\<rparr>"

definition key_world :: world where
  "key_world = store_world\<lparr>w_db := sample_db\<lparr>api_keys := [dash_key]\<rparr>\<rparr>"

lemma wf_session_world: "wf_db (w_db session_world)" and wf_key_world: "wf_db (w_db key_world)"
  using wf_sample_db
  by (auto simp: session_world_def key_world_def dash_key_def dash_user_def signed_session_def wf_db_def
      notifications_ok_def recipients_ok_def devices_ok_def subscribers_ok_def accounts_ok_def sample_db_def
      empty_db_def sample_project_def project_exists_def user_exists_def subscriber_exists_def
      notification_exists_def device_exists_def api_key_scopes_def)

section \<open>Properties\<close>

text \<open>
  C12. Logging out is final: once a logout was served for an active session, no request with
  that session's cookie gets past the session gate again, in any state any run of the whole
  system reaches, and the attempt changes nothing.
\<close>

theorem logout_final:
  assumes "wf_db (w_db w)" and "healthy w" and "Cookie sessionCookieName r = Some token" and "token \<noteq> []"
    and "s \<in> set (sessions (w_db w))" and "ss_TokenHash s = HashSessionToken E token"
    and "session_active (se_now (next_env w)) s"
    and "system_step\<^sup>*\<^sup>* (final (handleLogout E srv r) w) w'"
    and "Cookie sessionCookieName r' = Some token"
  shows "ds_Body (value_of (requireSession E h r') w') = Redirect ''/login'' \<and>
    w_db (final (requireSession E h r') w') = w_db w'"
proof -
  let ?w1 = "final (handleLogout E srv r) w"
  have fin: "final (revoke_presented E r) w = ?w1" by (simp add: handleLogout_def)
  from revoke_presented_healthy [OF assms(1-7)] obtain s1 where s1: "s1 \<in> set (sessions (w_db ?w1))"
    "ss_TokenHash s1 = HashSessionToken E token" "ss_RevokedAt s1 \<noteq> None" unfolding fin by blast
  note run = system_run_db [OF assms(8)]
  from wsteps_session_kept [OF run s1(1)] s1(2,3) obtain s2 where "s2 \<in> set (sessions (w_db w'))"
    "ss_TokenHash s2 = HashSessionToken E token" "ss_RevokedAt s2 \<noteq> None"
    by (auto simp: later_session_def)
  moreover have "wf_db (w_db w')"
    using db_moves_wf [OF public_handlers_move(3) assms(1)] by (rule wsteps_wf_db [OF run])
  ultimately show ?thesis using revoked_session_redirected assms(9) by blast
qed

theorem logout_final_witness:
  "ds_Body (value_of (requireSession sample_ext (handleHome sample_ext) (visit ''/''))
     (final (handleLogout sample_ext sample_server (visit ''/logout'')) session_world)) = Redirect ''/login''"
proof -
  have cookies: "Cookie sessionCookieName (visit path) = Some ''t''" for path
    by (simp add: Cookie_def visit_def)
  have "healthy session_world" "signed_session \<in> set (sessions (w_db session_world))"
    "session_active (se_now (next_env session_world)) signed_session" "ss_TokenHash signed_session = HashSessionToken sample_ext ''t''"
    by (simp_all add: session_world_def signed_session_def healthy_def sample_defs session_active_def next_env_def)
  from logout_final [OF wf_session_world this(1) cookies _ this(2,4,3) rtranclp.rtrancl_refl cookies]
  show ?thesis by blast
qed

text \<open>
  C13. So is revoking an API key: once the dashboard's revocation of a key was served, every
  route of the public API refuses the key with 401 (or 500, when the lookup itself fails)
  and does nothing, in any state any run of the system reaches.
\<close>

theorem revoked_key_final:
  assumes "wf_db (w_db w)" and "healthy w" and "k \<in> set (api_keys (w_db w))"
    and "uuid_Parse E (q_projectID r) = Some (k_ProjectID k)" and "uuid_Parse E (q_keyID r) = Some (k_ID k)"
    and "system_step\<^sup>*\<^sup>* (final (handleRevokeAPIKey E r) w) w'"
    and "rt \<in> set (NewRouter E limiter)" and "bearerToken q = Some raw" and "Hash E raw = k_KeyHash k"
  shows "rs_Status (value_of (rt_Handler rt q) w') \<in> {401, 500} \<and> w_db (final (rt_Handler rt q) w') = w_db w'"
proof -
  let ?w1 = "final (handleRevokeAPIKey E r) w"
  have fin: "?w1 = final (RevokeAPIKey (k_ID k) (k_ProjectID k)) w"
    using assms(4,5) by (simp add: handleRevokeAPIKey_def projectIDFromRoute_def)
  from revoke_key_healthy [OF assms(2,3)] obtain k1 where k1: "k1 \<in> set (api_keys (w_db ?w1))"
    "k_KeyHash k1 = k_KeyHash k" "k_RevokedAt k1 \<noteq> None" unfolding fin by blast
  note run = system_run_db [OF assms(6)]
  from wsteps_key_kept [OF run k1(1)] k1(2,3) obtain k2 where "k2 \<in> set (api_keys (w_db w'))"
    "k_KeyHash k2 = Hash E raw" "k_RevokedAt k2 \<noteq> None"
    by (auto simp: later_key_def assms(9))
  moreover have "wf_db (w_db w')"
    using db_moves_wf [OF session_handlers_move(4) assms(1)] by (rule wsteps_wf_db [OF run])
  moreover from routes [OF assms(7)] obtain scope h where "rt_Handler rt = requireScope E limiter scope h" .
  ultimately show ?thesis using revoked_key_rejected assms(8) by metis
qed

theorem revoked_key_final_witness:
  "rs_Status (value_of (rt_Handler (hd (NewRouter sample_ext (NewRateLimiter 10)))
       (sample_http []\<lparr>rq_Headers := [(''Authorization'', ''Bearer k'')]\<rparr>))
     (final (handleRevokeAPIKey sample_ext ((visit ''/'')\<lparr>q_keyID := ''9''\<rparr>)) key_world)) \<in> {401, 500}"
proof -
  let ?r = "(visit ''/'')\<lparr>q_keyID := ''9''\<rparr>" and ?q = "sample_http []\<lparr>rq_Headers := [(''Authorization'', ''Bearer k'')]\<rparr>"
  have key: "healthy key_world" "dash_key \<in> set (api_keys (w_db key_world))" "Hash sample_ext ''k'' = k_KeyHash dash_key"
    by (simp_all add: key_world_def dash_key_def healthy_def sample_defs)
  have ids: "uuid_Parse sample_ext (q_projectID ?r) = Some (k_ProjectID dash_key)"
    "uuid_Parse sample_ext (q_keyID ?r) = Some (k_ID dash_key)"
    by (simp_all add: sample_ext_def digits_uuid_def visit_def dash_key_def is_digit_def digit_val_def)
  have route: "hd (NewRouter sample_ext (NewRateLimiter 10)) \<in> set (NewRouter sample_ext (NewRateLimiter 10))"
    by (simp add: NewRouter_def Let_def)
  have "bearerToken ?q = Some ''k''"
    by (simp add: bearerToken_def request_header_def sample_http_def header_match_def strip_prefix_def trim_space_def is_space_def)
  from revoked_key_final [OF wf_key_world key(1,2) ids rtranclp.rtrancl_refl route this key(3)] show ?thesis by blast
qed

text \<open>
  C19. Setup closes for good: once there is a user, in any state any run of the system
  reaches, a setup request creates nobody; it is sent to login (or told of an internal
  error).
\<close>

theorem setup_closed:
  assumes "users (w_db w) \<noteq> []" and "system_step\<^sup>*\<^sup>* w w'" and "q_Path r = ''/setup''"
  shows "ds_Body (value_of (setupGate h r) w') \<in> {Redirect ''/login'', HTTPError 500 ''internal error''} \<and>
    w_db (final (setupGate h r) w') = w_db w'"
proof -
  have "users (w_db w') \<noteq> []" using wsteps_users_kept [OF system_run_db [OF assms(2)] assms(1)] .
  moreover have "value_of CountUsers w' = Inr n \<Longrightarrow> n = int (length (users (w_db w')))" for n
    by (auto simp: CountUsers_def sql_countUsers_def dest!: exec_Inr(1))
  ultimately show ?thesis
    using assms(3) by (cases "value_of CountUsers w'")
      (auto simp: setupGate_def strip_prefix_def on_error_simps Let_def frame_simps)
qed

theorem setup_closed_witness:
  "w_db (final (setupGate (handleSetup sample_ext) (visit ''/setup'')) session_world) = w_db session_world"
proof -
  have "users (w_db session_world) \<noteq> []" "q_Path (visit ''/setup'') = ''/setup''"
    by (simp_all add: session_world_def visit_def)
  from setup_closed [OF this(1) rtranclp.rtrancl_refl this(2)] show ?thesis by blast
qed

end
