(* ===== verification/LoginFacts.thy ===== *)
theory LoginFacts imports SessionFacts begin

text \<open>
  From an empty installation to a signed-in administrator: what a login checks and grants,
  the first run end to end, and what happens when two first runs meet.
\<close>

section \<open>When nothing fails\<close>

text \<open>A world in which nothing fails: statements are served, randomness is there.\<close>

definition outside where
  "outside w = (w_server w, w_entropy w, w_clock w)"

definition running_well :: "world \<Rightarrow> bool" where
  "running_well w \<longleftrightarrow> healthy w \<and> (\<forall>i. w_entropy w i \<noteq> None)"

lemma outside_kept:
  "outside (final (exec stmt) w) = outside w" "outside (final (rand_Read n) w) = outside w"
  "outside (final time_Now w) = outside w"
  by (simp_all add: outside_def exec_final rand_Read_def time_Now_def)

lemma running_well_healthy: "running_well w \<Longrightarrow> healthy w"
  by (simp add: running_well_def)

lemma running_well_outside: "outside w' = outside w \<Longrightarrow> running_well w' = running_well w"
  by (simp add: outside_def running_well_def healthy_def)

lemma outside_methods:
  "outside (final CountUsers w) = outside w" "outside (final (GetUserByEmail email) w) = outside w"
  "outside (final (CreateUser email hash) w) = outside w" "outside (final (CreateSession i hash expires) w) = outside w"
  "outside (final (HashPassword E password) w) = outside w" "outside (final GenerateSessionToken w) = outside w"
  "outside (final (GetActiveSessionByHash hash) w) = outside w" "outside (final (touchSessionLastUsed i) w) = outside w"
  by (simp_all add: CountUsers_def GetUserByEmail_def CreateUser_def CreateSession_def HashPassword_def
      GenerateSessionToken_def GetActiveSessionByHash_def touchSessionLastUsed_def TouchSessionLastUsed_def
      attempt_simps Let_def outside_kept split: sum.split)

section \<open>Logging in\<close>

lemma GetUserByEmail_Inr:
  "value_of (GetUserByEmail email) w = Inr user \<Longrightarrow> user \<in> set (users (w_db w)) \<and> u_Email user = email"
  by (auto simp: GetUserByEmail_def sql_getUserByEmail_def dest!: exec_Inr(1) dest: find_SomeD)

lemma CreateSession_Inr:
  assumes "value_of (CreateSession uid hash expires) w = Inr s"
  shows "ss_UserID s = uid \<and> ss_TokenHash s = hash \<and> ss_ExpiresAt s = expires \<and> ss_RevokedAt s = None \<and>
    w_db (final (CreateSession uid hash expires) w) = (w_db w)\<lparr>sessions := sessions (w_db w) @ [s]\<rparr>"
  using exec_Inr [OF assms [unfolded CreateSession_def]]
  by (auto simp: CreateSession_def run_stmt_def sql_createSession_def Let_def split: if_splits)

text \<open>Everything a login that redirects home has gone through.\<close>

lemma handleLogin_home:
  assumes "ds_Body (value_of (handleLogin E srv r) w) = Redirect ''/''"
  obtains form user token issued sess w3 where "q_Form r = Some form" and "user \<in> set (users (w_db w))"
    and "u_Email user = FormValue ''email'' form"
    and "VerifyPassword E (u_PasswordHash user) (FormValue ''password'' form) = Some (Inr True)"
    and "ds_SetCookies (value_of (handleLogin E srv r) w) = [session_cookie srv token (Some (issued + SessionTTL)) 0]"
    and "w_db w3 = w_db w"
    and "value_of (CreateSession (u_ID user) (HashSessionToken E token) (issued + SessionTTL)) w3 = Inr sess"
    and "final (handleLogin E srv r) w = final (CreateSession (u_ID user) (HashSessionToken E token) (issued + SessionTTL)) w3"
    and "\<exists>u. value_of GenerateSessionToken u = Inr token"
proof -
  from assms obtain form where form: "q_Form r = Some form"
    by (cases "q_Form r") (auto simp: handleLogin_def)
  let ?get = "GetUserByEmail (FormValue ''email'' form)"
  from assms form obtain user where user: "value_of ?get w = Inr user"
    by (cases "value_of ?get w") (auto simp: handleLogin_def on_error_simps Let_def)
  from assms form user have ok: "VerifyPassword E (u_PasswordHash user) (FormValue ''password'' form) = Some (Inr True)"
    by (auto simp: handleLogin_def on_error_simps Let_def split: option.splits sum.splits if_splits)
  let ?w1 = "final ?get w"
  from assms form user ok obtain token where token: "value_of GenerateSessionToken ?w1 = Inr token"
    by (cases "value_of GenerateSessionToken ?w1") (auto simp: handleLogin_def on_error_simps Let_def)
  let ?w2 = "final GenerateSessionToken ?w1"
  let ?at = "value_of time_Now ?w2"
  let ?w3 = "final time_Now ?w2"
  let ?create = "CreateSession (u_ID user) (HashSessionToken E token) (?at + SessionTTL)"
  from assms form user ok token obtain sess where sess: "value_of ?create ?w3 = Inr sess"
    by (cases "value_of ?create ?w3") (auto simp: handleLogin_def on_error_simps Let_def)
  have "w_db ?w3 = w_db w" by (simp add: frame_simps)
  moreover have "ds_SetCookies (value_of (handleLogin E srv r) w) = [session_cookie srv token (Some (?at + SessionTTL)) 0]"
    "final (handleLogin E srv r) w = final ?create ?w3"
    using form user ok token sess by (simp_all add: handleLogin_def on_error_simps Let_def)
  ultimately show ?thesis using that form GetUserByEmail_Inr [OF user] ok sess token by blast
qed

lemma active_session_admitted:
  assumes "wf_db (w_db u)" and "healthy u" and "s \<in> set (sessions (w_db u))"
    and "ss_TokenHash s = HashSessionToken E token" and "ss_RevokedAt s = None"
    and "se_now (next_env u) < ss_ExpiresAt s" and "Cookie sessionCookieName r = Some token" and "token \<noteq> []"
  shows "\<exists>u'. only_touched (w_db u) (w_db u') \<and> outside u' = outside u \<and>
    value_of (requireSession E h r) u = value_of (h (contextWithUserID (ss_UserID s) r)) u' \<and>
    final (requireSession E h r) u = final (h (contextWithUserID (ss_UserID s) r)) u'"
proof -
  let ?get = "GetActiveSessionByHash (HashSessionToken E token)"
  have "find (\<lambda>s. ss_TokenHash s = HashSessionToken E token \<and> session_active (se_now (next_env u)) s)
      (sessions (w_db u)) = Some s"
    using assms(1,3-6) by (intro find_unique [where key = ss_TokenHash])
      (auto simp: wf_db_def accounts_ok_def session_active_def)
  then have "value_of ?get u = Inr s"
    using assms(2) by (simp add: GetActiveSessionByHash_def sql_getActiveSessionByHash_def healthy_exec run_stmt_def)
  then have "value_of (requireSession E h r) u =
      value_of (h (contextWithUserID (ss_UserID s) r)) (final (touchSessionLastUsed (ss_ID s)) (final ?get u))"
    "final (requireSession E h r) u =
      final (h (contextWithUserID (ss_UserID s) r)) (final (touchSessionLastUsed (ss_ID s)) (final ?get u))"
    using assms(7,8) by (simp_all add: requireSession_def on_error_simps)
  moreover have "only_touched (w_db u) (w_db (final (touchSessionLastUsed (ss_ID s)) (final ?get u)))"
    using touch_only_touched [of "final ?get u" "ss_ID s"] by (simp add: frame_simps)
  moreover have "outside (final (touchSessionLastUsed (ss_ID s)) (final ?get u)) = outside u"
    by (simp add: outside_methods)
  ultimately show ?thesis by blast
qed

lemma token_nonempty: "value_of GenerateSessionToken u = Inr token \<Longrightarrow> token \<noteq> []"
  by (auto simp: GenerateSessionToken_def sessionTokenPrefix_def elim!: attempt_InrE)

section \<open>The first run\<close>

lemma running_well_draws:
  assumes "running_well w"
  shows "\<exists>hash. value_of (HashPassword E password) w = Inr hash"
    and "\<exists>token. value_of GenerateSessionToken w = Inr token"
  using assms
  by (auto simp: HashPassword_def GenerateSessionToken_def attempt_simps rand_Read_def running_well_def Let_def
      split: option.split)

lemma running_well_CountUsers:
  "running_well w \<Longrightarrow> value_of CountUsers w = Inr (int (length (users (w_db w))))"
  by (simp add: running_well_def CountUsers_def sql_countUsers_def healthy_exec)

definition valid_signup :: "string \<Rightarrow> string \<Rightarrow> dash_request \<Rightarrow> bool" where
  "valid_signup email password r \<longleftrightarrow> CHR 0x40 \<in> set email \<and> 8 \<le> length password \<and>
     (\<exists>form. q_Form r = Some form \<and> FormValue ''email'' form = email \<and> FormValue ''password'' form = password)"

lemma handleSetup_creates:
  assumes "argon2_law E" and "running_well w" and "valid_signup email password r"
    and "email \<notin> u_Email ` set (users (w_db w))" and "se_uuid (next_env w) \<notin> u_ID ` set (users (w_db w))"
  shows "\<exists>row. ds_Body (value_of (handleSetup E r) w) = Redirect ''/login'' \<and>
    w_db (final (handleSetup E r) w) = (w_db w)\<lparr>users := users (w_db w) @ [row]\<rparr> \<and> u_Email row = email \<and>
    u_ID row = se_uuid (next_env w) \<and> VerifyPassword E (u_PasswordHash row) password = Some (Inr True) \<and>
    outside (final (handleSetup E r) w) = outside w \<and> w_stmts (final (handleSetup E r) w) = Suc (w_stmts w)"
proof -
  obtain form where form: "q_Form r = Some form" "FormValue ''email'' form = email" "FormValue ''password'' form = password"
    and valid: "CHR 0x40 \<in> set email" "\<not> length password < minPasswordLength"
    using assms(3) by (auto simp: valid_signup_def minPasswordLength_def)
  from valid(1) have nonempty: "email \<noteq> []" by auto
  obtain hash where hash: "value_of (HashPassword E password) w = Inr hash"
    using running_well_draws(1) [OF assms(2)] by blast
  let ?w1 = "final (HashPassword E password) w"
  have db: "w_db ?w1 = w_db w" by (simp add: HashPassword_db)
  have "healthy ?w1"
    using assms(2) running_well_outside [OF outside_methods(5)] by (blast intro: running_well_healthy)
  moreover have stmts: "w_stmts ?w1 = w_stmts w" and env: "next_env ?w1 = next_env w"
    by (simp_all add: HashPassword_def attempt_simps rand_Read_def Let_def next_env_def split: sum.split)
  ultimately obtain row where row: "value_of (CreateUser email hash) ?w1 = Inr row" and i: "u_ID row = se_uuid (next_env w)"
    using assms(4,5) by (auto simp: CreateUser_def sql_createUser_def healthy_exec run_stmt_def db Let_def)
  have "value_of (handleSetup E r) w = \<lparr>ds_SetCookies = [], ds_Body = Redirect ''/login''\<rparr>"
    "final (handleSetup E r) w = final (CreateUser email hash) ?w1"
    using form valid nonempty hash row by (simp_all add: handleSetup_def on_error_simps Let_def)
  moreover have "w_stmts (final (CreateUser email hash) ?w1) = Suc (w_stmts w)"
    by (simp add: CreateUser_def exec_final stmts)
  ultimately show ?thesis using CreateUser_Inr [OF row] HashPassword_accepts [OF assms(1) hash] i
    by (auto simp: db outside_methods)
qed

lemma handleLogin_succeeds:
  assumes "running_well w" and "wf_db (w_db w)" and "sessions (w_db w) = []" and "user \<in> set (users (w_db w))"
    and "q_Form r = Some form" and "FormValue ''email'' form = u_Email user"
    and "VerifyPassword E (u_PasswordHash user) (FormValue ''password'' form) = Some (Inr True)"
  shows "\<exists>token issued sess w3. value_of (handleLogin E srv r) w =
      \<lparr>ds_SetCookies = [session_cookie srv token (Some (issued + SessionTTL)) 0], ds_Body = Redirect ''/''\<rparr> \<and>
    issued \<in> range (w_clock w) \<and> token \<noteq> [] \<and> ss_UserID sess = u_ID user \<and> ss_RevokedAt sess = None \<and>
    ss_TokenHash sess = HashSessionToken E token \<and> ss_ExpiresAt sess = issued + SessionTTL \<and>
    w_db (final (handleLogin E srv r) w) = (w_db w)\<lparr>sessions := [sess]\<rparr> \<and>
    outside (final (handleLogin E srv r) w) = outside w"
proof -
  let ?get = "GetUserByEmail (u_Email user)"
  have "find (\<lambda>u. u_Email u = u_Email user) (users (w_db w)) = Some user"
    using assms(2,4) by (intro find_key_unique) (auto simp: wf_db_def accounts_ok_def)
  then have user: "value_of ?get w = Inr user"
    using assms(1) by (simp add: GetUserByEmail_def sql_getUserByEmail_def running_well_def healthy_exec)
  let ?w1 = "final ?get w"
  have well1: "running_well ?w1" using assms(1) running_well_outside [OF outside_methods(2)] by blast
  then obtain token where token: "value_of GenerateSessionToken ?w1 = Inr token"
    using running_well_draws(2) by blast
  let ?w2 = "final GenerateSessionToken ?w1"
  let ?issued = "value_of time_Now ?w2" and ?w3 = "final time_Now ?w2"
  have out3: "outside ?w3 = outside w" "outside ?w2 = outside w" by (simp_all only: outside_kept outside_methods)
  have db: "w_db ?w3 = w_db w" by (simp add: frame_simps)
  let ?create = "CreateSession (u_ID user) (HashSessionToken E token) (?issued + SessionTTL)"
  have "healthy ?w3" using assms(1) running_well_outside [OF out3(1)] by (simp add: running_well_healthy)
  then obtain sess where sess: "value_of ?create ?w3 = Inr sess"
    using assms(3,4) by (auto simp: CreateSession_def sql_createSession_def healthy_exec run_stmt_def db user_exists_def Let_def)
  have "value_of (handleLogin E srv r) w =
      \<lparr>ds_SetCookies = [session_cookie srv token (Some (?issued + SessionTTL)) 0], ds_Body = Redirect ''/''\<rparr>"
    "final (handleLogin E srv r) w = final ?create ?w3"
    using assms(5-7) user token sess by (simp_all add: handleLogin_def on_error_simps Let_def)
  moreover have "?issued \<in> range (w_clock w)" using out3(2) by (simp add: time_Now_def outside_def)
  ultimately show ?thesis
    using CreateSession_Inr [OF sess] assms(3) token_nonempty [OF token] out3(1)
    by (auto simp: db outside_methods)
qed

lemma handleHome_shows:
  assumes "running_well w" and "distinct (map u_ID (users (w_db w)))" and "user \<in> set (users (w_db w))"
  shows "ds_Body (value_of (handleHome E (contextWithUserID (u_ID user) r)) w) =
    Rendered (HomePage (u_Email user) (map (toProjectView E) (newest_first p_CreatedAt (projects (w_db w)))))"
proof -
  have "healthy w" using assms(1) by (simp add: running_well_def)
  moreover have "find (\<lambda>u. u_ID u = u_ID user) (users (w_db w)) = Some user"
    using assms(2,3) by (rule find_key_unique)
  ultimately show ?thesis
    by (simp add: handleHome_def userIDFromContext_def contextWithUserID_def on_error_simps GetUserByID_def
        sql_getUserByID_def visibleProjects_def ListProjects_def sql_listProjects_def healthy_exec)
qed

lemma setupGate_passes:
  assumes "running_well w" and "q_Path r = ''/setup'' \<and> users (w_db w) = [] \<or> q_Path r \<in> {''/'', ''/login''} \<and> users (w_db w) \<noteq> []"
  shows "value_of (setupGate h r) w = value_of (h r) (final CountUsers w)"
    and "final (setupGate h r) w = final (h r) (final CountUsers w)"
  using assms(2) running_well_CountUsers [OF assms(1)]
  by (auto simp: setupGate_def strip_prefix_def on_error_simps Let_def)

lemma counted:
  "running_well (final CountUsers w) = running_well w" "w_db (final CountUsers w) = w_db w"
  "outside (final CountUsers w) = outside w"
  by (simp_all add: running_well_outside [OF outside_methods(1)] frame_simps outside_methods)

text \<open>The home page of the one user, through both gates.\<close>

lemma home_after_login:
  assumes "running_well w" and "wf_db (w_db w)" and "w_db w = t\<lparr>users := [row], sessions := [sess]\<rparr>"
    and "ss_UserID sess = u_ID row" and "ss_TokenHash sess = HashSessionToken E token" and "ss_RevokedAt sess = None"
    and "\<forall>i. se_now (w_server w i) < ss_ExpiresAt sess"
    and "q_Path r = ''/''" and "Cookie sessionCookieName r = Some token" and "token \<noteq> []"
  shows "ds_Body (value_of (setupGate (requireSession E (handleHome E)) r) w) =
    Rendered (HomePage (u_Email row) (map (toProjectView E) (newest_first p_CreatedAt (projects t))))"
proof -
  let ?g = "final CountUsers w"
  have g: "healthy ?g" "sess \<in> set (sessions (w_db ?g))" "wf_db (w_db ?g)"
    using assms(1-3) by (simp_all add: running_well_healthy counted)
  have "outside ?g = outside w" by (rule counted)
  then have "se_now (next_env ?g) < ss_ExpiresAt sess"
    using assms(7) by (simp add: outside_def next_env_def)
  from active_session_admitted [OF g(3,1,2) assms(5,6) this assms(9,10), of "handleHome E"]
  obtain u where touched: "only_touched (w_db w) (w_db u)" and u: "outside u = outside ?g"
    and val: "value_of (requireSession E (handleHome E) r) ?g = value_of (handleHome E (contextWithUserID (u_ID row) r)) u"
    by (auto simp: assms(4) counted)
  have "running_well u" using running_well_outside [OF u] assms(1) by (simp add: counted)
  moreover obtain ss where "w_db u = t\<lparr>users := [row], sessions := ss\<rparr>"
    using touched unfolding only_touched_def assms(3) by auto
  ultimately show ?thesis
    using handleHome_shows [of u row E r] assms(8) setupGate_passes [OF assms(1), of r] by (simp add: val assms(3))
qed

section \<open>A first run\<close>

definition signup :: "string \<Rightarrow> string \<Rightarrow> dash_request" where
  "signup path email = (visit path)\<lparr>q_Cookies := [], q_Form := Some [(''email'', email), (''password'', ''longenough'')]\<rparr>"

definition first_world :: world where
  "first_world = store_world\<lparr>w_server := (\<lambda>i. \<lparr>se_fault = Served, se_now = 0, se_uuid = of_nat (100 + i)\<rparr>)\<rparr>"

lemma signup_valid: "CHR 0x40 \<in> set email \<Longrightarrow> valid_signup email ''longenough'' (signup path email)"
  by (simp add: valid_signup_def signup_def FormValue_def)

lemma signup_path: "q_Path (signup path email) = path"
  by (simp add: signup_def visit_def)

lemma first_world_well: "running_well first_world" "wf_db (w_db first_world)" "users (w_db first_world) = []"
  "\<forall>i j. se_now (w_server first_world i) < w_clock first_world j + SessionTTL"
  "projects (w_db first_world) = [sample_project]"
  "se_uuid (w_server first_world (w_stmts first_world + 2)) \<noteq> se_uuid (w_server first_world (w_stmts first_world + 3))"
  "sessions (w_db first_world) = []"
  using wf_sample_db
  by (simp_all add: running_well_def healthy_def first_world_def sample_defs SessionTTL_def)

section \<open>Properties\<close>

text \<open>
  C18. A login that succeeds has checked the password of a user with the given email, and
  grants what the gate then honours: an http-only cookie with a token, valid for seven days
  of the server's clock. In every state any run of the system reaches in which that session
  was not revoked, a request with the cookie before the session expires is let through, as
  that user.
\<close>

theorem login_grants:
  assumes "wf_db (w_db w)" and "ds_Body (value_of (handleLogin E srv r) w) = Redirect ''/''"
  shows "\<exists>form user token issued. q_Form r = Some form \<and> user \<in> set (users (w_db w)) \<and>
    u_Email user = FormValue ''email'' form \<and>
    VerifyPassword E (u_PasswordHash user) (FormValue ''password'' form) = Some (Inr True) \<and>
    ds_SetCookies (value_of (handleLogin E srv r) w) = [session_cookie srv token (Some (issued + SessionTTL)) 0] \<and>
    (\<forall>u r' h. system_step\<^sup>*\<^sup>* (final (handleLogin E srv r) w) u \<longrightarrow> healthy u \<longrightarrow>
      (\<forall>s \<in> set (sessions (w_db u)). ss_TokenHash s = HashSessionToken E token \<longrightarrow> ss_RevokedAt s = None) \<longrightarrow>
      se_now (next_env u) < issued + SessionTTL \<longrightarrow> Cookie sessionCookieName r' = Some token \<longrightarrow>
      (\<exists>u'. only_touched (w_db u) (w_db u') \<and>
        value_of (requireSession E h r') u = value_of (h (contextWithUserID (u_ID user) r')) u' \<and>
        final (requireSession E h r') u = final (h (contextWithUserID (u_ID user) r')) u'))"
proof -
  from handleLogin_home [OF assms(2)] obtain form user token issued sess w3 where
    login: "q_Form r = Some form" "user \<in> set (users (w_db w))" "u_Email user = FormValue ''email'' form"
      "VerifyPassword E (u_PasswordHash user) (FormValue ''password'' form) = Some (Inr True)"
      "ds_SetCookies (value_of (handleLogin E srv r) w) = [session_cookie srv token (Some (issued + SessionTTL)) 0]"
    and sess: "value_of (CreateSession (u_ID user) (HashSessionToken E token) (issued + SessionTTL)) w3 = Inr sess"
    and fin: "final (handleLogin E srv r) w = final (CreateSession (u_ID user) (HashSessionToken E token) (issued + SessionTTL)) w3"
    and token: "token \<noteq> []" by (metis token_nonempty)
  have "\<exists>u'. only_touched (w_db u) (w_db u') \<and>
        value_of (requireSession E h r') u = value_of (h (contextWithUserID (u_ID user) r')) u' \<and>
        final (requireSession E h r') u = final (h (contextWithUserID (u_ID user) r')) u'"
    if run: "system_step\<^sup>*\<^sup>* (final (handleLogin E srv r) w) u" and "healthy u"
      and "\<forall>s \<in> set (sessions (w_db u)). ss_TokenHash s = HashSessionToken E token \<longrightarrow> ss_RevokedAt s = None"
      and "se_now (next_env u) < issued + SessionTTL" and "Cookie sessionCookieName r' = Some token" for u r' h
  proof -
    note row = CreateSession_Inr [OF sess]
    then have "sess \<in> set (sessions (w_db (final (handleLogin E srv r) w)))" by (simp add: fin)
    from wsteps_session_kept [OF system_run_db [OF run] this] row obtain s where
      "s \<in> set (sessions (w_db u))" "ss_TokenHash s = HashSessionToken E token" "ss_UserID s = u_ID user"
      "ss_ExpiresAt s = issued + SessionTTL" by (auto simp: later_session_def)
    moreover have "wf_db (w_db u)"
      using db_moves_wf [OF public_handlers_move(2) assms(1)] by (rule wsteps_wf_db [OF system_run_db [OF run]])
    ultimately show ?thesis using active_session_admitted [of u s E token r' h] that token by metis
  qed
  with login show ?thesis by blast
qed

theorem login_grants_witness:
  "let w = final (handleSetup sample_ext (signup ''/setup'' ''a@b'')) first_world;
       resp = value_of (handleLogin sample_ext sample_server (signup ''/login'' ''a@b'')) w in
   \<exists>user token issued. user \<in> set (users (w_db w)) \<and> u_Email user = ''a@b'' \<and>
     ds_SetCookies resp = [session_cookie sample_server token (Some (issued + SessionTTL)) 0]"
proof -
  let ?form = "[(''email'', ''a@b''), (''password'', ''longenough'')]"
  define w where "w = final (handleSetup sample_ext (signup ''/setup'' ''a@b'')) first_world"
  have valid: "valid_signup ''a@b'' ''longenough'' (signup ''/setup'' ''a@b'')" by (rule signup_valid) simp
  obtain row where row: "w_db w = (w_db first_world)\<lparr>users := [row]\<rparr>" "u_Email row = ''a@b''"
    "VerifyPassword sample_ext (u_PasswordHash row) ''longenough'' = Some (Inr True)" and out: "outside w = outside first_world"
    using handleSetup_creates [OF argon2_sample first_world_well(1) valid] first_world_well(3) unfolding w_def by auto
  have wf: "wf_db (w_db w)" unfolding w_def using db_moves_wf [OF public_handlers_move(1) first_world_well(2)] .
  have well: "running_well w" using running_well_outside [OF out] first_world_well(1) by simp
  have form: "q_Form (signup ''/login'' ''a@b'') = Some ?form" "FormValue ''email'' ?form = u_Email row"
    "FormValue ''password'' ?form = ''longenough''" by (simp_all add: signup_def FormValue_def row(2))
  have verified: "VerifyPassword sample_ext (u_PasswordHash row) (FormValue ''password'' ?form) = Some (Inr True)"
    unfolding form(3) by (rule row(3))
  have rows: "sessions (w_db w) = []" "row \<in> set (users (w_db w))" by (simp_all add: row(1) first_world_well(7))
  have "ds_Body (value_of (handleLogin sample_ext sample_server (signup ''/login'' ''a@b'')) w) = Redirect ''/''"
    using handleLogin_succeeds [OF well wf rows form(1,2) verified, of sample_server] by auto
  from login_grants [OF wf this] show ?thesis
    unfolding Let_def w_def [symmetric] form(1) using form(2) row(2) by auto
qed

text \<open>
  C17. The first run works end to end: on an installation without users, where nothing
  fails and the clocks of server and database are less than seven days apart, a valid setup
  form leads to login, the same email and password then log in, and the cookie that login
  sets shows the home page of that user with all projects.
\<close>

theorem first_run_works:
  assumes "argon2_law E" and "wf_db (w_db w)" and "running_well w" and "users (w_db w) = []"
    and "\<forall>i j. se_now (w_server w i) < w_clock w j + SessionTTL"
    and "valid_signup email password r1" and "q_Path r1 = ''/setup''"
    and "valid_signup email password r2" and "q_Path r2 = ''/login''"
  shows "let w1 = final (setupGate (handleSetup E) r1) w; w2 = final (setupGate (handleLogin E srv) r2) w1 in
    ds_Body (value_of (setupGate (handleSetup E) r1) w) = Redirect ''/login'' \<and>
    ds_Body (value_of (setupGate (handleLogin E srv) r2) w1) = Redirect ''/'' \<and>
    (\<exists>c. ds_SetCookies (value_of (setupGate (handleLogin E srv) r2) w1) = [c] \<and> ck_HttpOnly c \<and>
      (\<forall>r3. q_Path r3 = ''/'' \<longrightarrow> Cookie (ck_Name c) r3 = Some (ck_Value c) \<longrightarrow>
        ds_Body (value_of (setupGate (requireSession E (handleHome E)) r3) w2) =
          Rendered (HomePage email (map (toProjectView E) (newest_first p_CreatedAt (projects (w_db w)))))))"
proof -
  let ?w1 = "final (handleSetup E r1) (final CountUsers w)"
  let ?w2 = "final (handleLogin E srv r2) (final CountUsers ?w1)"
  have nosess: "sessions (w_db w) = []"
    using assms(2,4) by (cases "sessions (w_db w)") (auto simp: wf_db_def accounts_ok_def user_exists_def)
  obtain row where made: "ds_Body (value_of (handleSetup E r1) (final CountUsers w)) = Redirect ''/login''"
    and db1: "w_db ?w1 = (w_db w)\<lparr>users := [row]\<rparr>" and row: "u_Email row = email"
    "VerifyPassword E (u_PasswordHash row) password = Some (Inr True)" and out1: "outside ?w1 = outside w"
    using handleSetup_creates [OF assms(1) _ assms(6), of "final CountUsers w"] assms(3,4) by (auto simp: counted)
  have well1: "running_well ?w1" using running_well_outside [OF out1] assms(3) by simp
  have wf1: "wf_db (w_db ?w1)"
    using db_moves_wf [OF public_handlers_move(1) [of E r1], of "final CountUsers w"] assms(2) by (simp add: counted)
  obtain form where "q_Form r2 = Some form" "FormValue ''email'' form = u_Email row" "FormValue ''password'' form = password"
    using assms(8) row(1) by (auto simp: valid_signup_def)
  with handleLogin_succeeds [of "final CountUsers ?w1" row r2 form E srv] well1 wf1 nosess row(2)
  obtain token issued sess where login: "value_of (handleLogin E srv r2) (final CountUsers ?w1) =
      \<lparr>ds_SetCookies = [session_cookie srv token (Some (issued + SessionTTL)) 0], ds_Body = Redirect ''/''\<rparr>"
    and issued: "issued \<in> range (w_clock (final CountUsers ?w1))" and token: "token \<noteq> []"
    and sess: "ss_UserID sess = u_ID row" "ss_TokenHash sess = HashSessionToken E token" "ss_RevokedAt sess = None"
      "ss_ExpiresAt sess = issued + SessionTTL"
    and db2: "w_db ?w2 = (w_db w)\<lparr>users := [row], sessions := [sess]\<rparr>" and out2: "outside ?w2 = outside w"
    by (auto simp: counted db1 out1)
  have "outside (final CountUsers ?w1) = outside w" using out1 by (simp add: counted)
  with assms(5) issued out2 have "\<forall>i. se_now (w_server ?w2 i) < ss_ExpiresAt sess"
    by (auto simp: sess(4) outside_def)
  moreover have "wf_db (w_db ?w2)"
    using db_moves_wf [OF public_handlers_move(2) [of E srv r2], of "final CountUsers ?w1"] wf1 by (simp add: counted)
  moreover have "running_well ?w2" using running_well_outside [OF out2] assms(3) by simp
  ultimately have "ds_Body (value_of (setupGate (requireSession E (handleHome E)) r3) ?w2) =
      Rendered (HomePage email (map (toProjectView E) (newest_first p_CreatedAt (projects (w_db w)))))"
    if "q_Path r3 = ''/''" "Cookie sessionCookieName r3 = Some token" for r3
    using home_after_login [OF _ _ db2 sess(1-3) _ that token] row(1) by simp
  moreover note setupGate_passes [OF assms(3), of r1 "handleSetup E"] setupGate_passes [OF well1, of r2 "handleLogin E srv"]
  ultimately show ?thesis
    using made login assms(4,7,9) by (simp add: Let_def db1 session_cookie_def)
qed

theorem first_run_works_witness:
  "let w1 = final (setupGate (handleSetup sample_ext) (signup ''/setup'' ''a@b'')) first_world;
       w2 = final (setupGate (handleLogin sample_ext sample_server) (signup ''/login'' ''a@b'')) w1 in
   \<exists>c. ds_SetCookies (value_of (setupGate (handleLogin sample_ext sample_server) (signup ''/login'' ''a@b'')) w1) = [c] \<and>
     (\<forall>r3. q_Path r3 = ''/'' \<longrightarrow> Cookie (ck_Name c) r3 = Some (ck_Value c) \<longrightarrow>
       ds_Body (value_of (setupGate (requireSession sample_ext (handleHome sample_ext)) r3) w2) =
         Rendered (HomePage ''a@b'' [toProjectView sample_ext sample_project]))"
proof -
  have email: "CHR 0x40 \<in> set ''a@b''" by simp
  have list: "newest_first p_CreatedAt [sample_project] = [sample_project]" by (simp add: newest_first_def)
  from first_run_works [OF argon2_sample first_world_well(2,1,3,4) signup_valid [OF email] signup_path
      signup_valid [OF email] signup_path, of sample_server]
  show ?thesis unfolding first_world_well(5) list Let_def list.map by blast
qed

text \<open>
  C31. The gate of setup is a check before an act: two setup requests that both find no user
  both get through. If the second is served while the first sits between its gate and its
  handler, both are sent to login and the installation has two administrators.
\<close>

theorem setup_race:
  assumes "argon2_law E" and "running_well w" and "users (w_db w) = []"
    and "se_uuid (w_server w (w_stmts w + 2)) \<noteq> se_uuid (w_server w (w_stmts w + 3))"
    and "valid_signup emailA passwordA rA" and "q_Path rA = ''/setup''"
    and "valid_signup emailB passwordB rB" and "q_Path rB = ''/setup''" and "emailA \<noteq> emailB"
  shows "let wA = final CountUsers w; wB = final (setupGate (handleSetup E) rB) wA in
    value_of (setupGate (handleSetup E) rA) w = value_of (handleSetup E rA) wA \<and>
    ds_Body (value_of (setupGate (handleSetup E) rB) wA) = Redirect ''/login'' \<and>
    ds_Body (value_of (handleSetup E rA) wB) = Redirect ''/login'' \<and>
    map u_Email (users (w_db (final (handleSetup E rA) wB))) = [emailB, emailA]"
proof -
  let ?wA = "final CountUsers w"
  let ?gB = "final CountUsers ?wA"
  let ?wB = "final (handleSetup E rB) ?gB"
  have wellA: "running_well ?wA" "users (w_db ?wA) = []" using assms(2,3) by (simp_all add: counted)
  obtain b where b: "ds_Body (value_of (handleSetup E rB) ?gB) = Redirect ''/login''"
    "w_db ?wB = (w_db w)\<lparr>users := [b]\<rparr>" "u_Email b = emailB" "u_ID b = se_uuid (next_env ?gB)"
    and outB: "outside ?wB = outside w" and stB: "w_stmts ?wB = Suc (w_stmts ?gB)"
    using handleSetup_creates [OF assms(1) _ assms(7), of ?gB] assms(2,3) by (auto simp: counted)
  have "running_well ?wB" using running_well_outside [OF outB] assms(2) by simp
  moreover have "outside ?gB = outside w" by (simp add: counted)
  with outB have srv: "w_server ?wB = w_server w" "w_server ?gB = w_server w" by (simp_all add: outside_def)
  have "w_stmts ?gB = w_stmts w + 2" by (simp add: CountUsers_def sql_countUsers_def exec_reads_final)
  then have "se_uuid (next_env ?wB) \<noteq> u_ID b"
    unfolding b(4) next_env_def stB srv using assms(4) by (simp add: numeral_3_eq_3 numeral_2_eq_2)
  ultimately obtain a where "ds_Body (value_of (handleSetup E rA) ?wB) = Redirect ''/login''"
    "w_db (final (handleSetup E rA) ?wB) = (w_db w)\<lparr>users := [b, a]\<rparr>" "u_Email a = emailA"
    using handleSetup_creates [OF assms(1) _ assms(5), of ?wB] assms(9) b(3) by (auto simp: b(2))
  then show ?thesis
    using b(1,3) setupGate_passes [OF assms(2), of rA] setupGate_passes [OF wellA(1), of rB] assms(3,6,8)
    by (simp add: Let_def counted)
qed

theorem setup_race_witness:
  "let wA = final CountUsers first_world;
       wB = final (setupGate (handleSetup sample_ext) (signup ''/setup'' ''b@c'')) wA in
   map u_Email (users (w_db (final (handleSetup sample_ext (signup ''/setup'' ''a@b'')) wB))) = [''b@c'', ''a@b'']"
proof -
  have emails: "CHR 0x40 \<in> set ''a@b''" "CHR 0x40 \<in> set ''b@c''" "''a@b'' \<noteq> ''b@c''" by simp_all
  from setup_race [OF argon2_sample first_world_well(1,3,6) signup_valid [OF emails(1)] signup_path
      signup_valid [OF emails(2)] signup_path emails(3)]
  show ?thesis by (simp add: Let_def)
qed

end
