(* ===== verification/ConsoleFacts.thy ===== *)
theory ConsoleFacts imports SessionFacts begin

text \<open>
  What the dashboard's forms do, against the rest of the program: a credential saved there is
  the one the worker opens, a test that passed has asked the provider, a key revealed there
  is let in by the API.
\<close>

section \<open>Running a page\<close>

lemma on_error_Inr:
  "value_of m w = Inr x \<Longrightarrow> value_of (on_error m failed_with k) w = value_of (k x) (final m w)"
  "value_of m w = Inr x \<Longrightarrow> final (on_error m failed_with k) w = final (k x) (final m w)"
  by (simp_all add: on_error_simps)

lemma visibleProject_Inr:
  "value_of (visibleProject i) w = Inr p \<Longrightarrow> p \<in> set (projects (w_db w)) \<and> p_ID p = i"
  by (auto simp: visibleProject_def GetProjectByID_def sql_getProjectByID_def dest!: exec_Inr(1) dest: find_SomeD)

text \<open>A page below a project was rendered: the project exists and the rest of the handler ran.\<close>

lemma in_project_rendered:
  assumes "ds_Body (value_of (in_project E r k) w) = Rendered pg"
  obtains i p u where "uuid_Parse E (q_projectID r) = Some i" and "p \<in> set (projects (w_db w))" and "p_ID p = i"
    and "w_db u = w_db w" and "value_of (in_project E r k) w = value_of (k p) u"
    and "final (in_project E r k) w = final (k p) u" and "u = final (GetProjectByID i) w"
proof -
  from assms obtain i where i: "uuid_Parse E (q_projectID r) = Some i"
    by (cases "uuid_Parse E (q_projectID r)") (auto simp: in_project_def projectIDFromRoute_def)
  with assms obtain p where p: "value_of (visibleProject i) w = Inr p"
    by (cases "value_of (visibleProject i) w") (auto simp: in_project_def projectIDFromRoute_def on_error_simps)
  show ?thesis
    by (rule that [of i p "final (visibleProject i) w"])
      (use i p visibleProject_Inr [OF p] in \<open>auto simp: in_project_def projectIDFromRoute_def on_error_Inr visibleProject_def frame_simps\<close>)
qed

lemma tab_message:
  "ds_Body (value_of (renderProvidersTab E r project message) w) = Rendered (ProvidersTabPage em v ps cs message') \<Longrightarrow>
     message' = message"
  "ds_Body (value_of (renderAPIKeysTab E r project revealed message) w) = Rendered (APIKeysTabPage em v ps ks revealed' message') \<Longrightarrow>
     revealed' = revealed \<and> message' = message"
  by (auto simp: renderProvidersTab_def renderAPIKeysTab_def on_error_simps split: sum.splits)

lemma tab_db:
  "w_db (final (renderProvidersTab E r project message) w) = w_db w"
  "w_db (final (renderAPIKeysTab E r project revealed message) w) = w_db w"
  using tabs_read(2) [of E r project message, THEN movesD, of w]
    tabs_read(3) [of E r project revealed message, THEN movesD, of w] by (simp_all add: same_db_def)

lemma tab_wire:
  "w_https (final (renderProvidersTab E r project message) w) = w_https w"
  "w_oauths (final (renderProvidersTab E r project message) w) = w_oauths w"
  by (simp_all add: renderProvidersTab_def currentUserEmail_def sidebarProjects_def visibleProjects_def
      ListProviderCredentialsByProject_def GetUserByID_def ListProjects_def on_error_simps attempt_simps exec_final
      failed_def split: sum.split option.split)

lemma message_kinds: "errMsg a \<noteq> okMsg b" "okMsg b \<noteq> errMsg a" "errMsg a \<noteq> no_message" "okMsg a = okMsg b \<longleftrightarrow> a = b"
  by (simp_all add: errMsg_def okMsg_def no_message_def)

section \<open>A user at the forms\<close>

definition account_text :: string where
  "account_text = json_Marshal (JObj [(''project_id'', JStr ''x'')])"

lemma account_parses: "json_Parse account_text = Some (JObj [(''project_id'', JStr ''x'')])"
  unfolding account_text_def
  by (rule json_Parse_Marshal) (simp add: json_clean_simps utf8_ascii maxNestingDepth_def)

lemma empty_object: "json_Parse ''{}'' = Some (JObj [])"
  by code_simp

definition account_credential :: credential_row where
  "account_credential = sample_credential\<lparr>c_Credential := replicate 12 (CHR ''n'') @
     gcm_Seal sample_ext sample_dek (replicate 12 (CHR ''n'')) account_text\<rparr>"

definition console_server :: Server where
  "console_server = production_server sample_ext [] (replicate 32 (CHR ''k'')) True"

definition submit :: "(string \<times> string) list \<Rightarrow> dash_request" where
  "submit form = (visit ''/'')\<lparr>q_Form := Some form, q_UserID := Some 2\<rparr>"

lemma submit_simps [simp]: "q_Form (submit form) = Some form" "q_UserID (submit form) = Some 2"
  "q_projectID (submit form) = ''1''"
  by (simp_all add: submit_def visit_def)

lemma console_simps:
  "gcm_law sample_ext" "uuid_Parse sample_ext ''1'' = Some 1" "Known p (sv_Providers console_server) \<longleftrightarrow> p \<in> set provider_types"
  "sv_MasterKey console_server = replicate 32 (CHR ''k'')" "json_Valid ''{}''"
  using gcm_law_sample registry_after_props [of sample_ext "[]"]
  by (simp_all add: empty_object sample_ext_def gcm_law_def digits_uuid_def is_digit_def digit_val_def
      console_server_def production_server_def Known_def provider_types_def json_Valid_def)

lemmas page_eval = in_project_def projectIDFromRoute_def visibleProject_def on_error_simps currentUserEmail_def
  sidebarProjects_def visibleProjects_def GetProjectByID_def sql_getProjectByID_def userIDFromContext_def
  GetUserByID_def sql_getUserByID_def ListProjects_def sql_listProjects_def exec_value exec_final next_env_def
  run_stmt_def attempt_simps Let_def

lemma saved_sample:
  "\<exists>em view ps cs. ds_Body (value_of (handleUpsertProviderCredential sample_ext console_server
      (submit [(''provider'', ''fcm''), (''credential'', ''{}'')])) session_world) =
    Rendered (ProvidersTabPage em view ps cs (okMsg ''credential saved''))"
  by (simp add: handleUpsertProviderCredential_def console_simps FormValue_def provider_types_def page_eval
      Seal_def seal_def rand_Read_def keySize_def aes_NewCipher_def UpsertProviderCredential_def
      sql_upsertProviderCredential_def project_exists_def renderProvidersTab_def ListProviderCredentialsByProject_def
      sql_listProviderCredentialsByProject_def session_world_def dash_user_def sample_defs)

lemma revealed_sample:
  "\<exists>em view ps ks raw m. raw \<noteq> [] \<and> ds_Body (value_of (handleCreateAPIKey sample_ext
      (submit [(''name'', ''backend''), (''scope'', ''send'')])) session_world) =
    Rendered (APIKeysTabPage em view ps ks raw m)"
  by (simp add: handleCreateAPIKey_def console_simps FormValue_def page_eval ParseScope_def ScopeSend_def ScopeRead_def
      Generate_def rand_Read_def CreateAPIKey_def sql_createAPIKey_def api_key_scopes_def project_exists_def
      renderAPIKeysTab_def ListAPIKeysByProject_def sql_listAPIKeysByProject_def livePrefix_def
      session_world_def dash_user_def sample_defs)

definition credential_world :: world where
  "credential_world = session_world\<lparr>w_db := (w_db session_world)\<lparr>credentials := [account_credential]\<rparr>\<rparr>"

lemma sample_opens_console:
  "Open sample_ext (replicate 32 (CHR ''k'')) (c_WrappedDek account_credential) (c_Credential account_credential) = Inr account_text"
  using gcm_law_sample
  by (simp add: Open_def open_sealed_def aes_NewCipher_def account_credential_def sample_credential_def sample_handlers_def
      sample_dek_def NonceSize_def gcm_law_def)

lemma tested_sample:
  "\<exists>em view ps cs. ds_Body (value_of (handleTestProviderCredential sample_ext console_server
      (submit [(''provider'', ''fcm'')])) credential_world) =
    Rendered (ProvidersTabPage em view ps cs (okMsg (''fcm'' @ '': credential test passed'')))"
proof -
  have adapter: "fst (Get ''fcm'' (sv_Providers console_server)) = Some (fcm_adapter sample_ext)"
    using fun_cong [OF provider_Get_table [of sample_ext "[]"], of "''fcm''"]
    by (simp add: provider_Get_def console_server_def production_server_def)
  have active: "same_provider 1 ''fcm'' ''production'' account_credential" "c_IsActive account_credential"
    by (simp_all add: same_provider_def account_credential_def sample_credential_def)
  have fcm: "fcm_credential account_text = Inr ''x''" "jwt_Config sample_ext = Inr"
    by (simp_all add: fcm_credential_def fcm_project_def decode_json_def parse_json_def account_parses sample_ext_def
        string_field_def jfields_def key_match_def fun_eq_iff)
  show ?thesis
    by (simp add: handleTestProviderCredential_def console_simps(2,4) FormValue_def page_eval sample_opens_console adapter
        active fcm fcm_adapter_def fcm_TestCredential_def tokenSourceFor_def oauth_Token_def
        GetActiveProviderCredential_def sql_getActiveProviderCredential_def defaultCredentialEnvironment_def
        renderProvidersTab_def ListProviderCredentialsByProject_def sql_listProviderCredentialsByProject_def
        credential_world_def session_world_def dash_user_def sample_defs)
qed

section \<open>Properties\<close>

text \<open>
  C27. A credential the dashboard reports as saved is what the worker gets: it was submitted
  for a registered provider, and the active credential of that project and provider opens,
  under the server's master key, to the text of the form.
\<close>

theorem saved_credential_opens:
  assumes "gcm_law E"
    and "ds_Body (value_of (handleUpsertProviderCredential E s r) w) =
      Rendered (ProvidersTabPage em view ps cs (okMsg ''credential saved''))"
    and "w_db u = w_db (final (handleUpsertProviderCredential E s r) w)" and "healthy u"
  shows "\<exists>form pid row. q_Form r = Some form \<and> uuid_Parse E (q_projectID r) = Some pid \<and>
    Known (FormValue ''provider'' form) (sv_Providers s) \<and>
    value_of (GetActiveProviderCredential pid (FormValue ''provider'' form) environment) u = Inr row \<and>
    Open E (sv_MasterKey s) (c_WrappedDek row) (c_Credential row) = Inr (FormValue ''credential'' form)"
proof (rule in_project_rendered [OF assms(2) [unfolded handleUpsertProviderCredential_def]], goal_cases)
  case (1 i p v)
  note run = assms(2) [unfolded handleUpsertProviderCredential_def 1(5)]
  obtain form where form: "q_Form r = Some form"
    using run by (cases "q_Form r") (auto simp: Let_def message_kinds dest!: tab_message)
  let ?prov = "FormValue ''provider'' form" and ?text = "FormValue ''credential'' form"
  let ?seal = "Seal E (sv_MasterKey s) ?text"
  have known: "Known ?prov (sv_Providers s)" and valid: "json_Valid ?text"
    using run by (auto simp: Let_def form message_kinds split: if_splits dest!: tab_message)
  obtain dek ct where seal: "value_of ?seal v = Inr (dek, ct)"
    using run by (cases "value_of ?seal v") (auto simp: Let_def form known valid on_error_simps)
  let ?up = "UpsertProviderCredential (p_ID p) ?prov defaultCredentialEnvironment ct dek"
  obtain c where up: "value_of ?up (final ?seal v) = Inr c"
    using run by (cases "value_of ?up (final ?seal v)")
      (auto simp: Let_def form known valid seal on_error_simps message_kinds dest!: tab_message)
  have "w_db u = w_db (final ?up (final ?seal v))"
    using assms(3) unfolding handleUpsertProviderCredential_def 1(6)
    by (simp add: Let_def form known valid seal up on_error_simps tab_db)
  with UpsertProviderCredential_Inr [OF up] Seal_opens [OF assms(1) seal] show ?case
    using 1(1,3) form known
    by (auto simp: GetActiveProviderCredential_def sql_getActiveProviderCredential_def healthy_exec(1) [OF assms(4)]
        environment_def defaultCredentialEnvironment_def)
qed

theorem saved_credential_opens_witness:
  "\<exists>row. value_of (GetActiveProviderCredential 1 ''fcm'' environment)
       (final (handleUpsertProviderCredential sample_ext console_server
         (submit [(''provider'', ''fcm''), (''credential'', ''{}'')])) session_world) = Inr row \<and>
     Open sample_ext (replicate 32 (CHR ''k'')) (c_WrappedDek row) (c_Credential row) = Inr ''{}''"
proof -
  let ?r = "submit [(''provider'', ''fcm''), (''credential'', ''{}'')]"
  let ?w = "final (handleUpsertProviderCredential sample_ext console_server ?r) session_world"
  obtain em view ps cs where page: "ds_Body (value_of (handleUpsertProviderCredential sample_ext console_server ?r) session_world) =
      Rendered (ProvidersTabPage em view ps cs (okMsg ''credential saved''))" using saved_sample by blast
  let ?u = "session_world\<lparr>w_db := w_db ?w\<rparr>"
  have "healthy session_world" by (simp add: session_world_def sample_defs healthy_def)
  then have u: "w_db ?u = w_db ?w" "healthy ?u" by simp_all
  from saved_credential_opens [OF console_simps(1) page u] obtain row where
    "value_of (GetActiveProviderCredential 1 ''fcm'' environment) ?u = Inr row"
    "Open sample_ext (replicate 32 (CHR ''k'')) (c_WrappedDek row) (c_Credential row) = Inr ''{}''"
    by (auto simp: FormValue_def console_simps)
  moreover have "healthy ?w"
    by (simp add: healthy_def handleUpsertProviderCredential_def console_simps FormValue_def provider_types_def page_eval
        Seal_def seal_def rand_Read_def keySize_def aes_NewCipher_def UpsertProviderCredential_def
        renderProvidersTab_def ListProviderCredentialsByProject_def session_world_def sample_defs
        split: sum.split fault.split)
  ultimately show ?thesis
    using u(2) by (auto simp: GetActiveProviderCredential_def sql_getActiveProviderCredential_def healthy_exec)
qed

text \<open>
  C29. A test the dashboard reports as passed was one: the project has an active credential
  for that provider, it opens, and in this very request, in the world right after the credential was
  read, the registered adapter's own test ran on its content and accepted it.
\<close>

theorem credential_test_sound:
  assumes "ds_Body (value_of (handleTestProviderCredential E s r) w) =
    Rendered (ProvidersTabPage em view ps cs (okMsg (prov @ '': credential test passed'')))"
  shows "\<exists>pid row plaintext a test. uuid_Parse E (q_projectID r) = Some pid \<and>
    row \<in> set (credentials (w_db w)) \<and> same_provider pid prov environment row \<and> c_IsActive row \<and>
    Open E (sv_MasterKey s) (c_WrappedDek row) (c_Credential row) = Inr plaintext \<and>
    fst (Get prov (sv_Providers s)) = Some a \<and> a_TestCredential a = Some test \<and>
    (let u = final (GetActiveProviderCredential pid prov environment) (final (GetProjectByID pid) w) in
      value_of (test plaintext) u = None \<and>
      w_https (final (handleTestProviderCredential E s r) w) = w_https (final (test plaintext) u) \<and>
      w_oauths (final (handleTestProviderCredential E s r) w) = w_oauths (final (test plaintext) u))"
proof (rule in_project_rendered [OF assms [unfolded handleTestProviderCredential_def]], goal_cases)
  case (1 i p v)
  note run = assms [unfolded handleTestProviderCredential_def 1(5)]
  obtain form where form: "q_Form r = Some form"
    using run by (cases "q_Form r") (auto simp: Let_def message_kinds dest!: tab_message)
  let ?prov = "FormValue ''provider'' form"
  let ?get = "GetActiveProviderCredential (p_ID p) ?prov defaultCredentialEnvironment"
  obtain row where row: "value_of ?get v = Inr row"
    using run by (cases "value_of ?get v") (auto simp: Let_def form on_error_simps message_kinds dest!: tab_message)
  obtain plaintext where opens: "Open E (sv_MasterKey s) (c_WrappedDek row) (c_Credential row) = Inr plaintext"
    using run by (cases "Open E (sv_MasterKey s) (c_WrappedDek row) (c_Credential row)")
      (auto simp: Let_def form row on_error_simps message_kinds dest!: tab_message)
  obtain a where a: "fst (Get ?prov (sv_Providers s)) = Some a"
    using run by (cases "fst (Get ?prov (sv_Providers s))")
      (auto simp: Let_def form row opens on_error_simps message_kinds dest!: tab_message)
  obtain test where test: "a_TestCredential a = Some test"
    using run by (cases "a_TestCredential a")
      (auto simp: Let_def form row opens a on_error_simps okMsg_def errMsg_def split: if_splits dest!: tab_message)
  have passed: "value_of (test plaintext) (final ?get v) = None" and prov: "prov = ?prov"
    using run by (auto simp: Let_def form row opens a test on_error_simps message_kinds split: option.splits dest!: tab_message)
  have "row \<in> set (credentials (w_db w)) \<and> same_provider i ?prov environment row \<and> c_IsActive row"
    using exec_Inr(1) [OF row [unfolded GetActiveProviderCredential_def]] 1(3,4)
    by (auto simp: sql_getActiveProviderCredential_def environment_def defaultCredentialEnvironment_def dest: find_SomeD)
  moreover have "final (handleTestProviderCredential E s r) w =
      final (renderProvidersTab E r p (okMsg (?prov @ '': credential test passed''))) (final (test plaintext) (final ?get v))"
    unfolding handleTestProviderCredential_def 1(6)
    using passed by (simp add: Let_def form row opens a test on_error_simps)
  ultimately show ?case using 1(1,3,7) opens a test passed unfolding prov
    by (auto simp: Let_def tab_wire environment_def defaultCredentialEnvironment_def)
qed

theorem credential_test_sound_witness:
  "\<exists>a test u. fst (Get ''fcm'' (sv_Providers console_server)) = Some a \<and> a_TestCredential a = Some test \<and>
     u = final (GetActiveProviderCredential 1 ''fcm'' environment) (final (GetProjectByID 1) credential_world) \<and>
     value_of (test account_text) u = None"
proof -
  obtain em view ps cs where page: "ds_Body (value_of (handleTestProviderCredential sample_ext console_server
      (submit [(''provider'', ''fcm'')])) credential_world) =
    Rendered (ProvidersTabPage em view ps cs (okMsg (''fcm'' @ '': credential test passed'')))"
    using tested_sample by blast
  have "row = account_credential" if "row \<in> set (credentials (w_db credential_world))" for row
    using that by (simp add: credential_world_def)
  with credential_test_sound [OF page] sample_opens_console console_simps(2) show ?thesis
    unfolding console_simps(4) Let_def submit_simps by (metis sum.inject(2) option.inject)
qed

text \<open>
  C28. A key the dashboard reveals works, and only its hash was stored: the page left the database
  as it was but for one new key, of the page's project with the name and scope of the form,
  never to expire, that holds the SHA-256 of the revealed text and, of its 51 bytes, the first 14.
  For as long as the database is as the page left it, a request presenting the key passes the
  middleware of every route the chosen scope satisfies, for that project (if it is active,
  the server serves and Redis reports no limit exceeded).
\<close>

theorem revealed_key_admits:
  assumes "ds_Body (value_of (handleCreateAPIKey E r) w) = Rendered (APIKeysTabPage em view ps keys raw message)"
    and "raw \<noteq> []" and "\<forall>p \<in> set (projects (w_db w)). uuid_Parse E (q_projectID r) = Some (p_ID p) \<longrightarrow> p_Status p = ''active''"
    and "w_db u = w_db (final (handleCreateAPIKey E r) w)" and "healthy u"
    and "\<And>lg c d. w_redis u lg c \<noteq> LimitResult 0 d"
    and "request_header ''Authorization'' q = ''Bearer '' @ raw"
  shows "\<exists>form pid k. q_Form r = Some form \<and> uuid_Parse E (q_projectID r) = Some pid \<and>
    w_db u = (w_db w)\<lparr>api_keys := api_keys (w_db w) @ [k]\<rparr> \<and>
    k = \<lparr>k_ID = k_ID k, k_ProjectID = pid, k_Name = FormValue ''name'' form, k_KeyPrefix = take 14 raw,
      k_KeyHash = hex_encode (sha256_Sum256 E raw), k_Scope = FormValue ''scope'' form, k_CreatedAt = k_CreatedAt k,
      k_LastUsedAt = None, k_RevokedAt = None, k_ExpiresAt = None\<rparr> \<and>
    length raw = 51 \<and>
    (Satisfies (FormValue ''scope'' form) minScope \<longrightarrow>
      (\<exists>v. admitted E limiter minScope q u k v \<and>
        value_of (requireScope E limiter minScope h q) u = value_of (h (contextWithProjectID pid q)) v))"
proof (rule in_project_rendered [OF assms(1) [unfolded handleCreateAPIKey_def]], goal_cases)
  case (1 i p v)
  note run = assms(1) [unfolded handleCreateAPIKey_def 1(5)]
  obtain form where form: "q_Form r = Some form"
    using run assms(2) by (cases "q_Form r") (auto dest!: tab_message)
  let ?name = "FormValue ''name'' form" and ?scope = "FormValue ''scope'' form"
  have name: "?name \<noteq> []" and parse: "ParseScope ?scope = Some ?scope" and scope: "?scope \<in> {ScopeRead, ScopeSend}"
    using run assms(2) by (auto simp: Let_def form ParseScope_def split: if_splits dest!: tab_message)
  obtain raw' prefix where gen: "value_of Generate v = Inr (raw', prefix)"
    using run by (cases "value_of Generate v") (auto simp: Let_def form name parse on_error_simps)
  let ?create = "CreateAPIKey (p_ID p) ?name prefix (Hash E raw') ?scope"
  obtain k where k: "value_of ?create (final Generate v) = Inr k"
    using run assms(2) by (cases "value_of ?create (final Generate v)")
      (auto simp: Let_def form name parse gen on_error_simps dest!: tab_message)
  have raw: "raw' = raw"
    using run by (auto simp: Let_def form name parse gen k on_error_simps dest!: tab_message)
  note row = CreateAPIKey_Inr [OF k, unfolded raw]
  have exact: "k = \<lparr>k_ID = k_ID k, k_ProjectID = p_ID p, k_Name = ?name, k_KeyPrefix = prefix, k_KeyHash = Hash E raw,
      k_Scope = ?scope, k_CreatedAt = k_CreatedAt k, k_LastUsedAt = None, k_RevokedAt = None, k_ExpiresAt = None\<rparr>"
    using exec_Inr(1) [OF k [unfolded CreateAPIKey_def]]
    by (auto simp: run_stmt_def sql_createAPIKey_def Let_def raw split: if_splits)
  have "w_db u = w_db (final ?create (final Generate v))"
    using assms(4) unfolding handleCreateAPIKey_def 1(6)
    by (simp add: Let_def form name parse gen k on_error_simps tab_db)
  with row 1(4) have db: "w_db u = (w_db w)\<lparr>api_keys := api_keys (w_db w) @ [k]\<rparr>"
    by (simp add: raw frame_simps)
  then have "key_active now (w_db u) k" for now
    using row assms(3) 1(1-3) by (auto simp: key_active_def list_ex_iff)
  with row scope have "Satisfies ?scope minScope \<Longrightarrow>
      \<exists>v. admitted E limiter minScope q u k v \<and>
        value_of (requireScope E limiter minScope h q) u = value_of (h (contextWithProjectID i q)) v"
    using new_key_admitted [OF gen [unfolded raw] _ _ _ _ _ _ assms(5,6,7), of "api_keys (w_db w)" k E minScope limiter h] 1(3,4)
    by (auto simp: db frame_simps)
  with exact Generate_prefix [OF gen] 1(1,3) form show ?case
    by (intro exI [of _ form] exI [of _ i] exI [of _ k]) (auto simp: db Hash_def raw)
qed

theorem revealed_key_admits_witness:
  "\<exists>raw v. value_of (requireScope sample_ext (NewRateLimiter 10) ScopeRead (\<lambda>r. ret (writeJSON 200 JNull))
       (sample_http []\<lparr>rq_Headers := [(''Authorization'', ''Bearer '' @ raw)]\<rparr>))
       (session_world\<lparr>w_db := w_db (final (handleCreateAPIKey sample_ext
         (submit [(''name'', ''backend''), (''scope'', ''send'')])) session_world)\<rparr>) = writeJSON 200 JNull"
proof -
  let ?r = "submit [(''name'', ''backend''), (''scope'', ''send'')]"
  let ?u = "session_world\<lparr>w_db := w_db (final (handleCreateAPIKey sample_ext ?r) session_world)\<rparr>"
  obtain em view ps ks raw m where page: "ds_Body (value_of (handleCreateAPIKey sample_ext ?r) session_world) =
      Rendered (APIKeysTabPage em view ps ks raw m)" and raw: "raw \<noteq> []" using revealed_sample by blast
  let ?q = "sample_http []\<lparr>rq_Headers := [(''Authorization'', ''Bearer '' @ raw)]\<rparr>"
  have active: "\<forall>p \<in> set (projects (w_db session_world)).
      uuid_Parse sample_ext (q_projectID ?r) = Some (p_ID p) \<longrightarrow> p_Status p = ''active''"
    by (simp add: session_world_def sample_defs)
  have "healthy session_world" by (simp add: session_world_def sample_defs healthy_def)
  then have u: "w_db ?u = w_db (final (handleCreateAPIKey sample_ext ?r) session_world)" "healthy ?u" by simp_all
  have redis: "w_redis ?u lg c \<noteq> LimitResult 0 d" for lg c d by (simp add: session_world_def sample_defs)
  have header: "request_header ''Authorization'' ?q = ''Bearer '' @ raw" by (simp add: request_header_def header_match_def)
  have scope: "Satisfies (FormValue ''scope'' [(''name'', ''backend''), (''scope'', ''send'')]) ScopeRead"
    by (simp add: Satisfies_def ScopeSend_def FormValue_def)
  from revealed_key_admits [OF page raw active u redis header, where h = "\<lambda>r. ret (writeJSON 200 JNull)"
      and minScope = ScopeRead and limiter = "NewRateLimiter 10"] scope
  show ?thesis by auto
qed

end
