(* ===== verification/Markup.thy ===== *)
theory Markup imports Views begin

text \<open>
  What the templates of \<open>internal/dashboard/templates\<close> are made of. The code templ generates writes
  literal markup and, through functions of the templ library, values; a component is modelled as
  the list of what it writes, and the library is an argument of rendering it.
\<close>

section \<open>Chunks\<close>

text \<open>
  \<open>Lit\<close>: \<open>templruntime.WriteString\<close> of a literal; \<open>Text\<close>: \<open>templ.EscapeString\<close> of a string; \<open>Attr\<close>:
  \<open>templ.ResolveAttributeValue\<close>; \<open>Link\<close>: \<open>templ.EscapeString\<close> of \<open>templ.URL\<close>; \<open>Class\<close>: the attribute
  value of \<open>templ.CSSClasses\<close>; \<open>CSSItems\<close>: \<open>templ.RenderCSSItems\<close>. Rendering goes to a buffer, so
  the error of a single write is that of the whole, which \<open>renderPage\<close> ignores.
\<close>

datatype chunk =
    Lit string
  | Text string
  | Attr string
  | Link string
  | Class "string list"
  | CSSItems "string list"

type_synonym component = "chunk list"

record templ =
  tp_EscapeString :: "string \<Rightarrow> string"
  tp_ResolveAttributeValue :: "string \<Rightarrow> string"
  tp_URL :: "string \<Rightarrow> string"
  tp_CSSClasses :: "string list \<Rightarrow> string"
  tp_RenderCSSItems :: "string list \<Rightarrow> string"

fun write_chunk :: "templ \<Rightarrow> chunk \<Rightarrow> string" where
  "write_chunk T (Lit s) = s"
| "write_chunk T (Text s) = tp_EscapeString T s"
| "write_chunk T (Attr s) = tp_ResolveAttributeValue T s"
| "write_chunk T (Link s) = tp_EscapeString T (tp_URL T s)"
| "write_chunk T (Class cs) = tp_ResolveAttributeValue T (tp_CSSClasses T cs)"
| "write_chunk T (CSSItems cs) = tp_RenderCSSItems T cs"

definition Render :: "templ \<Rightarrow> component \<Rightarrow> string" where
  "Render T c = concat (map (write_chunk T) c)"

text \<open>
  The documented laws of the library: escaped text and attribute values contain no angle
  bracket and no double quote (they are written as entities), and for classes that are plain
  names no style element is rendered.
\<close>

definition escaped :: "string \<Rightarrow> bool" where
  "escaped s \<longleftrightarrow> list_all (\<lambda>c. c \<notin> {CHR ''<'', CHR ''>'', CHR 0x22}) s"

definition templ_laws :: "templ \<Rightarrow> bool" where
  "templ_laws T \<longleftrightarrow> (\<forall>s. escaped (tp_EscapeString T s)) \<and> (\<forall>s. escaped (tp_ResolveAttributeValue T s)) \<and>
     (\<forall>cs. tp_RenderCSSItems T cs = [])"

section \<open>Reading markup\<close>

text \<open>
  Where a reader of HTML is: in text, inside a tag, or inside a double-quoted attribute value of
  one.
\<close>

datatype place = InText | InTag | InValue

fun scan_char :: "place \<Rightarrow> char \<Rightarrow> place" where
  "scan_char InText c = (if c = CHR ''<'' then InTag else InText)"
| "scan_char InTag c = (if c = CHR ''>'' then InText else if c = CHR 0x22 then InValue else InTag)"
| "scan_char InValue c = (if c = CHR 0x22 then InTag else InValue)"

definition scan :: "place \<Rightarrow> string \<Rightarrow> place" where
  "scan p s = fold (\<lambda>c p. scan_char p c) s p"

text \<open>The tags that are read: their brackets, names, attribute names and quotes.\<close>

fun tags :: "place \<Rightarrow> string \<Rightarrow> string" where
  "tags p [] = []"
| "tags p (c # cs) =
     (let p' = scan_char p c in if p = InTag \<or> p' = InTag then c # tags p' cs else tags p' cs)"

text \<open>Where a component leaves the reader, if every value in it stands where its escaping is meant for.\<close>

fun after_chunk :: "chunk \<Rightarrow> place \<Rightarrow> place option" where
  "after_chunk (Lit s) p = Some (scan p s)"
| "after_chunk (Text s) p = (if p = InText then Some p else None)"
| "after_chunk (Attr s) p = (if p = InValue then Some p else None)"
| "after_chunk (Link s) p = (if p = InValue then Some p else None)"
| "after_chunk (Class cs) p = (if p = InValue then Some p else None)"
| "after_chunk (CSSItems cs) p = (if p = InText then Some p else None)"

fun after :: "component \<Rightarrow> place \<Rightarrow> place option" where
  "after [] p = Some p"
| "after (c # cs) p = Option.bind (after_chunk c p) (after cs)"

definition literal_of :: "chunk \<Rightarrow> string" where
  "literal_of c = (case c of Lit s \<Rightarrow> s | _ \<Rightarrow> [])"

section \<open>Lemmas\<close>

lemma scan_append: "scan p (s @ t) = scan (scan p s) t"
  by (simp add: scan_def)

lemma tags_append: "tags p (s @ t) = tags p s @ tags (scan p s) t"
  by (induction s arbitrary: p) (simp_all add: scan_def Let_def)

lemma escaped_stays:
  assumes "escaped s" "p \<noteq> InTag"
  shows "scan p s = p" "tags p s = []"
  using assms by (induction s; cases p; simp add: scan_def escaped_def Let_def)+

lemma after_append: "after (c @ d) p = Option.bind (after c p) (after d)"
  by (induction c arbitrary: p) (simp_all split: bind_split)

lemma after_concat:
  "(\<And>x. x \<in> set xs \<Longrightarrow> after (f x) p = Some p) \<Longrightarrow> after (concat (map f xs)) p = Some p"
  by (induction xs) (simp_all add: after_append)

lemma write_chunk_read:
  assumes "templ_laws T" "after_chunk c p = Some q"
  shows "scan p (write_chunk T c) = q \<and> tags p (write_chunk T c) = tags p (literal_of c)"
  using assms by (cases c) (auto simp: templ_laws_def literal_of_def scan_def escaped_stays(2)
      escaped_stays(1) [unfolded scan_def] split: if_splits)

lemma literal_read: "after_chunk c p = Some q \<Longrightarrow> scan p (literal_of c) = q"
  by (cases c) (auto simp: literal_of_def scan_def split: if_splits)

lemma Render_read:
  assumes "templ_laws T"
  shows "after c p = Some q \<Longrightarrow>
    scan p (Render T c) = q \<and> tags p (Render T c) = tags p (concat (map literal_of c))"
proof (induction c arbitrary: p)
  case Nil
  then show ?case by (simp add: Render_def scan_def)
next
  case (Cons ch c)
  then obtain r where r: "after_chunk ch p = Some r" "after c r = Some q"
    by (auto simp: bind_eq_Some_conv)
  from write_chunk_read [OF assms r(1)] literal_read [OF r(1)] Cons.IH [OF r(2)] show ?case
    by (simp add: Render_def scan_append tags_append)
qed

end
