(* ===== verification/Templates.thy ===== *)
theory Templates imports Markup begin

text \<open>
  The templates of \<open>internal/dashboard/templates\<close>, one definition per template, written from the
  code templ generates for it (\<open>X_templ.go\<close>). \<open>fmt\<close> is \<open>Time.Format("2006-01-02 15:04")\<close> in the
  zone the database driver gives its times.
\<close>

section \<open>Small components\<close>

definition statusBadgeClass :: "string \<Rightarrow> string" where
  "statusBadgeClass status =
     (let s = map lower_char status in
      if s \<in> {''active'', ''sent'', ''delivered'', ''yes''} then ''badge-success''
      else if s \<in> {''queued'', ''sending'', ''stale'', ''pending''} then ''badge-warning''
      else if s \<in> {''invalid'', ''revoked'', ''failed'', ''no''} then ''badge-danger''
      else ''badge-neutral'')"

definition StatusBadge :: "string \<Rightarrow> component" where
  "StatusBadge status =
     [CSSItems [''badge'', statusBadgeClass status],
      Lit ''<span class=\"'',
      Class [''badge'', statusBadgeClass status],
      Lit ''\">'',
      Text status,
      Lit ''</span>'']"

definition IDValue :: "string \<Rightarrow> component" where
  "IDValue value =
     (if value = []
      then [Lit ''<span class=\"muted\">&mdash;</span>'']
      else [Lit ''<code class=\"id-value\" title=\"'',
            Attr value,
            Lit ''\">'',
            Text value,
            Lit ''</code>''])"

definition calloutClass :: "string \<Rightarrow> string" where
  "calloutClass kind =
     (if kind = ''error'' then ''callout-error''
      else if kind = ''success'' then ''callout-success'' else ''callout-note'')"

definition Callout :: "Message \<Rightarrow> component" where
  "Callout m =
     (if m_Text m \<noteq> []
      then [CSSItems [''callout'', calloutClass (m_Kind m)],
            Lit ''<p class=\"'',
            Class [''callout'', calloutClass (m_Kind m)],
            Lit ''\">'',
            Text (m_Text m),
            Lit ''</p>'']
      else [])"

definition PageHeader :: "string \<Rightarrow> component" where
  "PageHeader title =
     [Lit ''<div class=\"page-header\"><h1>'',
      Text title,
      Lit ''</h1></div>'']"

definition EmptyState :: "nat \<Rightarrow> string \<Rightarrow> component" where
  "EmptyState colspan message =
     [Lit ''<tr><td colspan=\"'',
      Attr (Itoa (int colspan)),
      Lit ''\" class=\"empty-state\">'',
      Text message,
      Lit ''</td></tr>'']"

section \<open>Layouts\<close>

record Sidebar =
  sb_Projects :: "Project list"
  sb_ProjectID :: string
  sb_ActiveNav :: string

definition head :: "string \<Rightarrow> component" where
  "head title =
     [Lit ''<head><meta charset=\"UTF-8\"><meta name=\"viewport\" content=\"width=device-width, initial-scale=1\"><title>'',
      Text title,
      Lit ('' '' @ [CHR 0xC2, CHR 0xB7] @ '' Slay Push</title><link rel=\"stylesheet\" href=\"/static/pico.min.css\"><link rel=\"stylesheet\" href=\"/static/style.css\"><script src=\"/static/htmx.min.js\"></script></head>'')]"

definition brand :: component where
  "brand =
     [Lit ''<a href=\"/\" class=\"brand\"><img src=\"/static/images/logo.svg\" alt=\"\"> <strong>Slay Push</strong></a>'']"

definition AuthLayout :: "string \<Rightarrow> component \<Rightarrow> component" where
  "AuthLayout title children =
     [Lit ''<!doctype html><html lang=\"en\">''] @
     head title @
     [Lit ''<body><main class=\"auth-shell\">''] @
     children @
     [Lit ''</main></body></html>'']"

definition sidebarNavLink :: "string \<Rightarrow> string \<Rightarrow> string \<Rightarrow> string \<Rightarrow> string \<Rightarrow> component" where
  "sidebarNavLink projectID section href label active =
     (if active = section
      then [Lit ''<a href=\"'',
            Link href,
            Lit ''\" aria-current=\"page\">'',
            Text label,
            Lit ''</a>'']
      else [Lit ''<a href=\"'',
            Link href,
            Lit ''\">'',
            Text label,
            Lit ''</a>''])"

definition sidebar :: "string \<Rightarrow> Sidebar \<Rightarrow> component" where
  "sidebar userEmail sb =
     [Lit ''<aside class=\"sidebar\"><div class=\"sidebar-brand\">''] @
     brand @
     [Lit ''</div><div class=\"sidebar-section\"><div class=\"sidebar-section-label\">Projects</div><ul class=\"sidebar-projects\">''] @
     concat (map (\<lambda>p.
       [Lit ''<li>''] @
       (if pv_ID p = sb_ProjectID sb
        then [Lit ''<a href=\"'',
              Link (''/projects/'' @ pv_ID p),
              Lit ''\" aria-current=\"page\">'',
              Text (pv_Name p),
              Lit ''</a>'']
        else [Lit ''<a href=\"'',
              Link (''/projects/'' @ pv_ID p),
              Lit ''\">'',
              Text (pv_Name p),
              Lit ''</a>'']) @
       [Lit ''</li>'']) (sb_Projects sb)) @
     [Lit ''</ul><a href=\"/projects\" class=\"sidebar-manage-link\">Manage projects</a></div>''] @
     (if sb_ProjectID sb \<noteq> []
      then [Lit ''<div class=\"sidebar-section\"><div class=\"sidebar-section-label\">Project</div><ul class=\"sidebar-nav\"><li>''] @
           sidebarNavLink (sb_ProjectID sb) ''overview'' (''/projects/'' @ sb_ProjectID sb) ''Overview'' (sb_ActiveNav sb) @
           [Lit ''</li><li>''] @
           sidebarNavLink (sb_ProjectID sb) ''providers'' (''/projects/'' @ sb_ProjectID sb @ ''/providers'') ''Providers'' (sb_ActiveNav sb) @
           [Lit ''</li><li>''] @
           sidebarNavLink (sb_ProjectID sb) ''api-keys'' (''/projects/'' @ sb_ProjectID sb @ ''/api-keys'') ''API Keys'' (sb_ActiveNav sb) @
           [Lit ''</li><li>''] @
           sidebarNavLink (sb_ProjectID sb) ''devices'' (''/projects/'' @ sb_ProjectID sb @ ''/devices'') ''Devices'' (sb_ActiveNav sb) @
           [Lit ''</li><li>''] @
           sidebarNavLink (sb_ProjectID sb) ''notifications'' (''/projects/'' @ sb_ProjectID sb @ ''/notifications'') ''Notifications'' (sb_ActiveNav sb) @
           [Lit ''</li></ul></div>'']
      else []) @
     [Lit ''<div class=\"sidebar-footer\"><div class=\"sidebar-user\">'',
      Text userEmail,
      Lit ''</div><form method=\"post\" action=\"/logout\" class=\"inline-form\"><button type=\"submit\" class=\"outline secondary\">Log out</button></form></div></aside>'']"

definition Layout :: "string \<Rightarrow> string \<Rightarrow> Sidebar \<Rightarrow> component \<Rightarrow> component" where
  "Layout title userEmail sb children =
     [Lit ''<!doctype html><html lang=\"en\">''] @
     head title @
     [Lit ''<body><div class=\"app-shell\">''] @
     sidebar userEmail sb @
     [Lit ''<div class=\"app-main\"><main class=\"app-content\">''] @
     children @
     [Lit ''</main></div></div></body></html>'']"

section \<open>Pages\<close>

definition Setup :: "string \<Rightarrow> component" where
  "Setup message =
     AuthLayout ''Setup'' (
     [Lit ''<article class=\"auth-page\">''] @
     brand @
     [Lit ''<hgroup><h1>Welcome to Slay Push</h1><p>Create the first admin account to get started.</p></hgroup> ''] @
     (if message \<noteq> []
      then [Lit ''<p class=\"error\">'',
            Text message,
            Lit ''</p>'']
      else []) @
     [Lit ''<form method=\"post\" action=\"/setup\"><label>Email <input type=\"email\" name=\"email\" required autofocus></label> <label>Password <input type=\"password\" name=\"password\" required minlength=\"8\"></label> <button type=\"submit\">Create admin account</button></form></article>''])"

definition Login :: "string \<Rightarrow> component" where
  "Login message =
     AuthLayout ''Log in'' (
     [Lit ''<article class=\"auth-page\">''] @
     brand @
     [Lit ''<hgroup><h1>Log in</h1><p>Access your dashboard</p></hgroup> ''] @
     (if message \<noteq> []
      then [Lit ''<p class=\"error\">'',
            Text message,
            Lit ''</p>'']
      else []) @
     [Lit ''<form method=\"post\" action=\"/login\"><label>Email <input type=\"email\" name=\"email\" required autofocus></label> <label>Password <input type=\"password\" name=\"password\" required></label> <button type=\"submit\">Log in</button></form></article>''])"

definition Home :: "string \<Rightarrow> Project list \<Rightarrow> component" where
  "Home userEmail ps =
     Layout ''Dashboard'' userEmail
       (\<lparr>sb_Projects = ps, sb_ProjectID = [], sb_ActiveNav = []\<rparr>) (
     PageHeader ''Dashboard'' @
     [Lit '' <article><header><span>Projects</span> <a href=\"/projects\" role=\"button\" class=\"outline\">Manage projects &rarr;</a></header>''] @
     (if ps = []
      then [Lit ''<p class=\"empty-state\">No projects yet.</p>'']
      else [Lit ''<ul class=\"item-list\">''] @
           concat (map (\<lambda>p.
             [Lit ''<li><a href=\"'',
              Link (''/projects/'' @ pv_ID p),
              Lit ''\">'',
              Text (pv_Name p),
              Lit ''</a> <small>('',
              Text (pv_Slug p),
              Lit '')</small></li>'']) ps) @
           [Lit ''</ul>'']) @
     [Lit ''</article>''])"

definition ProjectsList :: "string \<Rightarrow> Project list \<Rightarrow> Message \<Rightarrow> component" where
  "ProjectsList userEmail ps message =
     Layout ''Projects'' userEmail
       (\<lparr>sb_Projects = ps, sb_ProjectID = [], sb_ActiveNav = []\<rparr>) (
     PageHeader ''Projects'' @
     [Lit '' ''] @
     Callout message @
     [Lit '' <article><header>Create a project</header><form method=\"post\" action=\"/projects\"><label>Name <input type=\"text\" name=\"name\" required></label> <label>Slug <input type=\"text\" name=\"slug\" required></label> <button type=\"submit\">Create project</button></form></article>''] @
     (if ps = []
      then [Lit (''<p class=\"empty-state\">No projects yet '' @ [CHR 0xE2, CHR 0x80, CHR 0x94] @ '' create one above.</p>'')]
      else [Lit ''<ul class=\"item-list\">''] @
           concat (map (\<lambda>p.
             [Lit ''<li><a href=\"'',
              Link (''/projects/'' @ pv_ID p),
              Lit ''\">'',
              Text (pv_Name p),
              Lit ''</a> <small>('',
              Text (pv_Slug p),
              Lit '', '',
              Text (pv_Status p),
              Lit '')</small></li>'']) ps) @
           [Lit ''</ul>'']))"

definition recentNotifications :: "(instant \<Rightarrow> string) \<Rightarrow> Notification list \<Rightarrow> component" where
  "recentNotifications fmt ns =
     (if ns = []
      then [Lit ''<p class=\"empty-state\">No notifications sent yet.</p>'']
      else [Lit ''<table><thead><tr><th>Status</th><th>Recipients</th><th>Created</th><th></th></tr></thead> <tbody>''] @
           concat (map (\<lambda>n.
             [Lit ''<tr><td>''] @
             StatusBadge (nv_Status n) @
             [Lit ''</td><td>'',
              Text (Itoa (sint (nv_TotalRecipients n))),
              Lit ''</td><td>'',
              Text (fmt (nv_CreatedAt n)),
              Lit ''</td><td><a href=\"'',
              Link (''/notifications/'' @ nv_ID n),
              Lit ''\">Detail</a></td></tr>'']) (ns)) @
           [Lit ''</tbody></table>''])"

definition ProjectOverview :: "(instant \<Rightarrow> string) \<Rightarrow> string \<Rightarrow> Project \<Rightarrow> Project list \<Rightarrow> ProjectStats \<Rightarrow> component" where
  "ProjectOverview fmt userEmail project allProjects stats =
     Layout (pv_Name project) userEmail
       (\<lparr>sb_Projects = allProjects, sb_ProjectID = pv_ID project, sb_ActiveNav = ''overview''\<rparr>) (
     PageHeader (pv_Name project) @
     [Lit '' <div class=\"stat-cards\"><article class=\"stat-card\"><span class=\"stat-label\">Devices</span> <span class=\"stat-value\">'',
      Text (Itoa (st_DeviceCount stats)),
      Lit ''</span></article><article class=\"stat-card\"><span class=\"stat-label\">Providers configured</span> <span class=\"stat-value\">'',
      Text (Itoa (int (st_ActiveProviderCount stats))),
      Lit ''<small>/'',
      Text (Itoa (int (st_ProviderCount stats))),
      Lit '' active</small></span></article><article class=\"stat-card\"><span class=\"stat-label\">API keys</span> <span class=\"stat-value\">'',
      Text (Itoa (int (st_ActiveAPIKeyCount stats))),
      Lit ''<small>/'',
      Text (Itoa (int (st_APIKeyCount stats))),
      Lit '' active</small></span></article><article class=\"stat-card\"><span class=\"stat-label\">Status</span>''] @
     StatusBadge (pv_Status project) @
     [Lit ''</article></div><article><header><span>Recent notifications</span> <a href=\"'',
      Link (''/projects/'' @ pv_ID project @ ''/notifications''),
      Lit ''\" role=\"button\" class=\"outline\">View all &rarr;</a></header>''] @
     recentNotifications fmt (st_RecentNotifications stats) @
     [Lit ''</article><article><header>Project</header><p>Slug: <code>'',
      Text (pv_Slug project),
      Lit ''</code></p></article>''])"

definition credentialRow :: "(instant \<Rightarrow> string) \<Rightarrow> Project \<Rightarrow> ProviderCredential \<Rightarrow> component" where
  "credentialRow fmt project c =
       [Lit ''<tr><td>'',
        Text (cv_ProviderType c),
        Lit ''</td><td>'',
        Text (cv_Environment c),
        Lit ''</td>''] @
       (if cv_IsActive c
        then [Lit ''<td>''] @
             StatusBadge ''yes'' @
             [Lit ''</td>'']
        else [Lit ''<td>''] @
             StatusBadge ''no'' @
             [Lit ''</td>'']) @
       [Lit ''<td>'',
        Text (fmt (cv_UpdatedAt c)),
        Lit ''</td><td><form method=\"post\" action=\"'',
        Link (''/projects/'' @ pv_ID project @ ''/providers/test''),
        Lit ''\" class=\"inline-form\"><input type=\"hidden\" name=\"provider\" value=\"'',
        Attr (cv_ProviderType c),
        Lit ''\"> <button type=\"submit\" class=\"outline secondary\">Test</button></form></td></tr>'']"

definition ProvidersTab :: "(instant \<Rightarrow> string) \<Rightarrow> string \<Rightarrow> Project \<Rightarrow> Project list \<Rightarrow> ProviderCredential list \<Rightarrow> Message \<Rightarrow> component" where
  "ProvidersTab fmt userEmail project allProjects cs message =
     Layout (pv_Name project @ '' '' @ [CHR 0xC2, CHR 0xB7] @ '' Providers'') userEmail
       (\<lparr>sb_Projects = allProjects, sb_ProjectID = pv_ID project, sb_ActiveNav = ''providers''\<rparr>) (
     PageHeader ''Providers'' @
     [Lit '' ''] @
     Callout message @
     [Lit '' <table><thead><tr><th>Provider</th><th>Environment</th><th>Active</th><th>Updated</th><th></th></tr></thead> <tbody>''] @
     (if cs = []
      then EmptyState 5 ''No provider credentials configured yet.''
      else []) @
     concat (map (credentialRow fmt project) cs) @
     [Lit ''</tbody></table><article><header>Add / update credential</header><form method=\"post\" action=\"'',
      Link (''/projects/'' @ pv_ID project @ ''/providers''),
      Lit ''\"><label>Provider <select name=\"provider\"><option value=\"expo\">expo</option> <option value=\"fcm\">fcm</option> <option value=\"apns\">apns</option> <option value=\"hms\">hms</option></select></label> <label>Credential JSON <textarea name=\"credential\" rows=\"6\" required></textarea></label> <button type=\"submit\">Save credential</button></form></article>''])"

definition keyRow :: "(instant \<Rightarrow> string) \<Rightarrow> Project \<Rightarrow> APIKey \<Rightarrow> component" where
  "keyRow fmt project k =
       [Lit ''<tr><td>'',
        Text (kv_Name k),
        Lit ''</td><td><code>'',
        Text (kv_KeyPrefix k),
        Lit ''</code></td><td>'',
        Text (kv_Scope k),
        Lit ''</td><td>'',
        Text (fmt (kv_CreatedAt k)),
        Lit ''</td>''] @
       (if kv_Revoked k
        then [Lit ''<td>''] @
             StatusBadge ''revoked'' @
             [Lit ''</td>'']
        else [Lit ''<td>''] @
             StatusBadge ''active'' @
             [Lit ''</td>'']) @
       [Lit ''<td>''] @
       (if \<not> kv_Revoked k
        then [Lit ''<form method=\"post\" action=\"'',
              Link (''/projects/'' @ pv_ID project @ ''/api-keys/'' @ kv_ID k @ ''/revoke''),
              Lit ''\" class=\"inline-form\"><button type=\"submit\" class=\"outline danger\">Revoke</button></form>'']
        else []) @
       [Lit ''</td></tr>'']"

definition APIKeysTab :: "(instant \<Rightarrow> string) \<Rightarrow> string \<Rightarrow> Project \<Rightarrow> Project list \<Rightarrow> APIKey list \<Rightarrow> string \<Rightarrow> Message \<Rightarrow> component" where
  "APIKeysTab fmt userEmail project allProjects keys revealedKey message =
     Layout (pv_Name project @ '' '' @ [CHR 0xC2, CHR 0xB7] @ '' API Keys'') userEmail
       (\<lparr>sb_Projects = allProjects, sb_ProjectID = pv_ID project, sb_ActiveNav = ''api-keys''\<rparr>) (
     PageHeader ''API Keys'' @
     [Lit '' ''] @
     (if revealedKey \<noteq> []
      then [Lit (''<article class=\"callout-card-warning\"><p><strong>Save this key now '' @ [CHR 0xE2, CHR 0x80, CHR 0x94] @ '' it cannot be shown again:</strong></p><pre><code>''),
            Text revealedKey,
            Lit ''</code></pre></article>'']
      else []) @
     [Lit '' ''] @
     Callout message @
     [Lit '' <table><thead><tr><th>Name</th><th>Prefix</th><th>Scope</th><th>Created</th><th>Status</th><th></th></tr></thead> <tbody>''] @
     (if keys = []
      then EmptyState 6 ''No API keys created yet.''
      else []) @
     concat (map (keyRow fmt project) keys) @
     [Lit ''</tbody></table><article><header>Create API key</header><form method=\"post\" action=\"'',
      Link (''/projects/'' @ pv_ID project @ ''/api-keys''),
      Lit ''\"><label>Name <input type=\"text\" name=\"name\" required></label> <label>Scope <select name=\"scope\"><option value=\"send\">send</option> <option value=\"read\">read</option></select></label> <button type=\"submit\">Create</button></form></article>''])"

definition deviceRow :: "(instant \<Rightarrow> string) \<Rightarrow> Device \<Rightarrow> component" where
  "deviceRow fmt d =
       [Lit ''<tr><td>''] @
       IDValue (dv_ExternalID d) @
       [Lit ''</td><td>'',
        Text (dv_Platform d),
        Lit ''</td><td>'',
        Text (dv_ProviderType d),
        Lit ''</td><td>''] @
       StatusBadge (dv_Status d) @
       [Lit ''</td><td>'',
        Text (fmt (dv_CreatedAt d)),
        Lit ''</td></tr>'']"

definition DevicesTab :: "(instant \<Rightarrow> string) \<Rightarrow> string \<Rightarrow> Project \<Rightarrow> Project list \<Rightarrow> Device list \<Rightarrow> string \<Rightarrow> string \<Rightarrow> component" where
  "DevicesTab fmt userEmail project allProjects ds externalID status =
     Layout (pv_Name project @ '' '' @ [CHR 0xC2, CHR 0xB7] @ '' Devices'') userEmail
       (\<lparr>sb_Projects = allProjects, sb_ProjectID = pv_ID project, sb_ActiveNav = ''devices''\<rparr>) (
     PageHeader ''Devices'' @
     [Lit '' <form method=\"get\" action=\"'',
      Link (''/projects/'' @ pv_ID project @ ''/devices''),
      Lit ''\" role=\"search\"><fieldset role=\"group\"><input type=\"text\" name=\"external_id\" placeholder=\"external_user_id\" value=\"'',
      Attr externalID,
      Lit ''\"> <select name=\"status\"><option value=\"\"''] @
     (if status = []
      then [Lit '' selected'']
      else []) @
     [Lit ''>any status</option> <option value=\"active\"''] @
     (if status = ''active''
      then [Lit '' selected'']
      else []) @
     [Lit ''>active</option> <option value=\"stale\"''] @
     (if status = ''stale''
      then [Lit '' selected'']
      else []) @
     [Lit ''>stale</option> <option value=\"invalid\"''] @
     (if status = ''invalid''
      then [Lit '' selected'']
      else []) @
     [Lit ''>invalid</option></select> <button type=\"submit\">Filter</button></fieldset></form><table><thead><tr><th>External ID</th><th>Platform</th><th>Provider</th><th>Status</th><th>Created</th></tr></thead> <tbody>''] @
     (if ds = []
      then EmptyState 5 ''No devices match these filters.''
      else []) @
     concat (map (deviceRow fmt) ds) @
     [Lit ''</tbody></table>''])"

definition NotificationsTab :: "(instant \<Rightarrow> string) \<Rightarrow> string \<Rightarrow> Project \<Rightarrow> Project list \<Rightarrow> Notification list \<Rightarrow> component" where
  "NotificationsTab fmt userEmail project allProjects ns =
     Layout (pv_Name project @ '' '' @ [CHR 0xC2, CHR 0xB7] @ '' Notifications'') userEmail
       (\<lparr>sb_Projects = allProjects, sb_ProjectID = pv_ID project, sb_ActiveNav = ''notifications''\<rparr>) (
     PageHeader ''Send History'' @
     [Lit '' <table><thead><tr><th>Status</th><th>Recipients</th><th>Created</th><th></th></tr></thead> <tbody>''] @
     (if ns = []
      then EmptyState 4 ''No notifications sent yet.''
      else []) @
     concat (map (\<lambda>n.
       [Lit ''<tr><td>''] @
       StatusBadge (nv_Status n) @
       [Lit ''</td><td>'',
        Text (Itoa (sint (nv_TotalRecipients n))),
        Lit ''</td><td>'',
        Text (fmt (nv_CreatedAt n)),
        Lit ''</td><td><a href=\"'',
        Link (''/notifications/'' @ nv_ID n),
        Lit ''\">Detail</a></td></tr>'']) ns) @
     [Lit ''</tbody></table>''])"

definition recipientRows :: "Recipient list \<Rightarrow> component" where
  "recipientRows rs =
     [Lit ''<thead><tr><th>Device</th><th>Provider</th><th>Status</th><th>Message ID</th><th>Error</th><th>Attempts</th></tr></thead> <tbody>''] @
     (if rs = []
      then EmptyState 6 ''No recipients resolved yet.''
      else []) @
     concat (map (\<lambda>r.
       [Lit ''<tr><td>''] @
       IDValue (rv_DeviceID r) @
       [Lit ''</td><td>'',
        Text (rv_ProviderType r),
        Lit ''</td><td>''] @
       StatusBadge (rv_Status r) @
       [Lit ''</td><td>''] @
       IDValue (rv_ProviderMessageID r) @
       [Lit ''</td>''] @
       (if rv_ErrorMessage r = []
        then [Lit ''<td><span class=\"muted\">&mdash;</span></td>'']
        else [Lit ''<td>'',
              Text (rv_ErrorMessage r),
              Lit ''</td>'']) @
       [Lit ''<td>'',
        Text (Itoa (sint (rv_AttemptCount r))),
        Lit ''</td></tr>'']) rs) @
     [Lit ''</tbody>'']"

definition RecipientsFragmentTempl :: "string \<Rightarrow> Recipient list \<Rightarrow> bool \<Rightarrow> component" where
  "RecipientsFragmentTempl notificationID rs terminal =
     (if terminal
      then [Lit ''<table id=\"recipients\">''] @
           recipientRows rs @
           [Lit ''</table>'']
      else [Lit ''<table id=\"recipients\" hx-get=\"'',
            Attr (''/notifications/'' @ notificationID @ ''/recipients-fragment''),
            Lit ''\" hx-trigger=\"every 2s\" hx-swap=\"outerHTML\">''] @
           recipientRows rs @
           [Lit ''</table>''])"

definition NotificationDetail :: "string \<Rightarrow> Project \<Rightarrow> Project list \<Rightarrow> string \<Rightarrow> string \<Rightarrow> 32 word \<Rightarrow> RecipientCounts \<Rightarrow> Recipient list \<Rightarrow> bool \<Rightarrow> component" where
  "NotificationDetail userEmail project allProjects notificationID status tot counts rs terminal =
     Layout (''Notification '' @ notificationID) userEmail
       (\<lparr>sb_Projects = allProjects, sb_ProjectID = pv_ID project, sb_ActiveNav = ''notifications''\<rparr>) (
     [Lit ''<div class=\"page-header\"><h1>Notification <code>'',
      Text notificationID,
      Lit ''</code></h1></div><div class=\"stat-row\"><div class=\"stat\"><span class=\"stat-label\">Status</span>''] @
     StatusBadge status @
     [Lit ''</div><div class=\"stat\"><span class=\"stat-label\">Total</span> <span class=\"stat-value\">'',
      Text (Itoa (sint tot)),
      Lit ''</span></div><div class=\"stat\"><span class=\"stat-label\">Queued</span> <span class=\"stat-value\">'',
      Text (Itoa (rc_Queued counts)),
      Lit ''</span></div><div class=\"stat\"><span class=\"stat-label\">Sending</span> <span class=\"stat-value\">'',
      Text (Itoa (rc_Sending counts)),
      Lit ''</span></div><div class=\"stat\"><span class=\"stat-label\">Sent</span> <span class=\"stat-value\">'',
      Text (Itoa (rc_Sent counts)),
      Lit ''</span></div><div class=\"stat\"><span class=\"stat-label\">Delivered</span> <span class=\"stat-value\">'',
      Text (Itoa (rc_Delivered counts)),
      Lit ''</span></div><div class=\"stat\"><span class=\"stat-label\">Failed</span> <span class=\"stat-value\">'',
      Text (Itoa (rc_Failed counts)),
      Lit ''</span></div></div>''] @
     RecipientsFragmentTempl notificationID rs terminal)"

text \<open>\<open>renderPage\<close> renders the template of the page.\<close>

fun page_component :: "(instant \<Rightarrow> string) \<Rightarrow> page \<Rightarrow> component" where
  "page_component fmt (SetupPage e) = Setup e"
| "page_component fmt (LoginPage e) = Login e"
| "page_component fmt (HomePage u ps) = Home u ps"
| "page_component fmt (ProjectsListPage u ps msg) = ProjectsList u ps msg"
| "page_component fmt (ProjectOverviewPage u p ps st) = ProjectOverview fmt u p ps st"
| "page_component fmt (ProvidersTabPage u p ps cs msg) = ProvidersTab fmt u p ps cs msg"
| "page_component fmt (APIKeysTabPage u p ps ks key msg) = APIKeysTab fmt u p ps ks key msg"
| "page_component fmt (DevicesTabPage u p ps ds x s) = DevicesTab fmt u p ps ds x s"
| "page_component fmt (NotificationsTabPage u p ps ns) = NotificationsTab fmt u p ps ns"
| "page_component fmt (NotificationDetailPage u p ps i s n c rs t) = NotificationDetail u p ps i s n c rs t"
| "page_component fmt (RecipientsFragment i rs t) = RecipientsFragmentTempl i rs t"

end
