(* ===== verification/MarkupFacts.thy ===== *)
theory MarkupFacts imports Templates DashboardFacts begin

text \<open>
  What is proved of the pages: values cannot become markup, and the recipients table polls
  exactly while recipients are not terminal.
\<close>

section \<open>Every value stands where its escaping is meant for\<close>

named_theorems well_placed "components that start and end in text, with their values in place"

lemmas read_simps = after_append after_concat scan_def Let_def

lemma small_components [well_placed]:
  "after (StatusBadge s) InText = Some InText"
  "after (IDValue s) InText = Some InText"
  "after (Callout m) InText = Some InText"
  "after (PageHeader s) InText = Some InText"
  "after (EmptyState n s) InText = Some InText"
  "after (head s) InText = Some InText"
  "after brand InText = Some InText"
  "after (sidebarNavLink p sec href label act) InText = Some InText"
  by (simp_all add: read_simps StatusBadge_def IDValue_def Callout_def PageHeader_def EmptyState_def head_def
      brand_def sidebarNavLink_def)

lemma sidebar_placed [well_placed]: "after (sidebar u sb) InText = Some InText"
  by (simp add: sidebar_def read_simps well_placed)

lemma layouts_placed [well_placed]:
  assumes "after children InText = Some InText"
  shows "after (AuthLayout s children) InText = Some InText" "after (Layout s u sb children) InText = Some InText"
  using assms by (simp_all add: AuthLayout_def Layout_def read_simps well_placed)

lemma recipients_placed [well_placed]:
  "after (recipientRows rs) InText = Some InText"
  "after (RecipientsFragmentTempl i rs t) InText = Some InText"
  by (simp_all add: recipientRows_def RecipientsFragmentTempl_def read_simps well_placed)

lemma pages_placed:
  "after (Setup s) InText = Some InText"
  "after (Login s) InText = Some InText"
  "after (Home u ps) InText = Some InText"
  "after (ProjectsList u ps msg) InText = Some InText"
  "after (ProjectOverview fmt u p ps st) InText = Some InText"
  by (simp_all add: Setup_def Login_def Home_def ProjectsList_def ProjectOverview_def recentNotifications_def read_simps well_placed)

lemma tabs_placed:
  "after (ProvidersTab fmt u p ps cs msg) InText = Some InText"
  "after (APIKeysTab fmt u p ps ks key msg) InText = Some InText"
  "after (DevicesTab fmt u p ps ds x s) InText = Some InText"
  "after (NotificationsTab fmt u p ps ns) InText = Some InText"
  "after (NotificationDetail u p ps i s n c rs t) InText = Some InText"
  by (simp_all add: ProvidersTab_def credentialRow_def APIKeysTab_def keyRow_def DevicesTab_def deviceRow_def NotificationsTab_def NotificationDetail_def
      read_simps well_placed)

lemma page_placed: "after (page_component fmt p) InText = Some InText"
  by (cases p) (simp_all add: pages_placed tabs_placed recipients_placed)

section \<open>Only the shape of a page decides its tags\<close>

text \<open>
  \<open>erase_page\<close> replaces every name, slug, status, message, key and other text of a page by \<open>x\<close>, leaving
  empty what was empty; identifiers, which decide what is marked as current, and the filter of the
  device list, which decides what is selected, stay.
\<close>

definition erase :: "string \<Rightarrow> string" where
  "erase s = (if s = [] then [] else ''x'')"

definition erase_project :: "Project \<Rightarrow> Project" where
  "erase_project p = p\<lparr>pv_Name := erase (pv_Name p), pv_Slug := erase (pv_Slug p), pv_Status := erase (pv_Status p)\<rparr>"

definition erase_message :: "Message \<Rightarrow> Message" where
  "erase_message m = m\<lparr>m_Text := erase (m_Text m), m_Kind := erase (m_Kind m)\<rparr>"

definition erase_credential :: "ProviderCredential \<Rightarrow> ProviderCredential" where
  "erase_credential c = c\<lparr>cv_ProviderType := erase (cv_ProviderType c), cv_Environment := erase (cv_Environment c)\<rparr>"

definition erase_key :: "APIKey \<Rightarrow> APIKey" where
  "erase_key k = k\<lparr>kv_Name := erase (kv_Name k), kv_KeyPrefix := erase (kv_KeyPrefix k), kv_Scope := erase (kv_Scope k)\<rparr>"

definition erase_device :: "Device \<Rightarrow> Device" where
  "erase_device d = d\<lparr>dv_ExternalID := erase (dv_ExternalID d), dv_Platform := erase (dv_Platform d),
     dv_ProviderType := erase (dv_ProviderType d), dv_Status := erase (dv_Status d)\<rparr>"

definition erase_notification :: "Notification \<Rightarrow> Notification" where
  "erase_notification n = n\<lparr>nv_Status := erase (nv_Status n)\<rparr>"

definition erase_recipient :: "Recipient \<Rightarrow> Recipient" where
  "erase_recipient r = r\<lparr>rv_DeviceID := erase (rv_DeviceID r), rv_ProviderType := erase (rv_ProviderType r),
     rv_Status := erase (rv_Status r), rv_ProviderMessageID := erase (rv_ProviderMessageID r),
     rv_ErrorMessage := erase (rv_ErrorMessage r)\<rparr>"

definition erase_stats :: "ProjectStats \<Rightarrow> ProjectStats" where
  "erase_stats st = st\<lparr>st_RecentNotifications := map erase_notification (st_RecentNotifications st)\<rparr>"

fun erase_page :: "page \<Rightarrow> page" where
  "erase_page (SetupPage e) = SetupPage (erase e)"
| "erase_page (LoginPage e) = LoginPage (erase e)"
| "erase_page (HomePage u ps) = HomePage (erase u) (map erase_project ps)"
| "erase_page (ProjectsListPage u ps msg) = ProjectsListPage (erase u) (map erase_project ps) (erase_message msg)"
| "erase_page (ProjectOverviewPage u p ps st) =
     ProjectOverviewPage (erase u) (erase_project p) (map erase_project ps) (erase_stats st)"
| "erase_page (ProvidersTabPage u p ps cs msg) =
     ProvidersTabPage (erase u) (erase_project p) (map erase_project ps) (map erase_credential cs) (erase_message msg)"
| "erase_page (APIKeysTabPage u p ps ks key msg) =
     APIKeysTabPage (erase u) (erase_project p) (map erase_project ps) (map erase_key ks) (erase key) (erase_message msg)"
| "erase_page (DevicesTabPage u p ps ds x s) =
     DevicesTabPage (erase u) (erase_project p) (map erase_project ps) (map erase_device ds) (erase x) s"
| "erase_page (NotificationsTabPage u p ps ns) =
     NotificationsTabPage (erase u) (erase_project p) (map erase_project ps) (map erase_notification ns)"
| "erase_page (NotificationDetailPage u p ps i s n c rs t) =
     NotificationDetailPage (erase u) (erase_project p) (map erase_project ps) i (erase s) n c (map erase_recipient rs) t"
| "erase_page (RecipientsFragment i rs t) = RecipientsFragment i (map erase_recipient rs) t"

definition literals :: "component \<Rightarrow> string" where
  "literals c = concat (map literal_of c)"

lemma literals_simps [simp]:
  "literals [] = []" "literals (ch # c) = literal_of ch @ literals c" "literals (c @ d) = literals c @ literals d"
  by (simp_all add: literals_def)

lemma literal_of_simps [simp]:
  "literal_of (Lit s) = s" "literal_of (Text s) = []" "literal_of (Attr s) = []" "literal_of (Link s) = []"
  "literal_of (Class cs) = []" "literal_of (CSSItems cs) = []"
  by (simp_all add: literal_of_def)

lemma literals_loop: "literals (concat (map f xs)) = concat (map (\<lambda>x. literals (f x)) xs)"
  by (induction xs) simp_all

lemma literals_if: "literals (if b then c else d) = (if b then literals c else literals d)"
  by simp

lemma erase_empty [simp]: "erase s = [] \<longleftrightarrow> s = []"
  by (simp add: erase_def)

lemmas eraser_defs = erase_project_def erase_message_def erase_credential_def erase_key_def erase_device_def
  erase_notification_def erase_recipient_def erase_stats_def

lemmas literal_simps = literals_loop literals_if eraser_defs comp_def

lemma small_shapes:
  "literals (StatusBadge s) = ''<span class=\"\"></span>''"
  "literals (PageHeader s) = ''<div class=\"page-header\"><h1></h1></div>''"
  "literals (Callout m) = (if m_Text m = [] then [] else ''<p class=\"\"></p>'')"
  "literals (IDValue s) =
     (if s = [] then ''<span class=\"muted\">&mdash;</span>'' else ''<code class=\"id-value\" title=\"\"></code>'')"
  by (simp_all add: StatusBadge_def PageHeader_def Callout_def IDValue_def)

lemma sidebar_shape:
  "literals (sidebar (erase u) \<lparr>sb_Projects = map erase_project ps, sb_ProjectID = i, sb_ActiveNav = act\<rparr>) =
   literals (sidebar u \<lparr>sb_Projects = ps, sb_ProjectID = i, sb_ActiveNav = act\<rparr>)"
  by (simp add: sidebar_def literal_simps cong: if_cong)

lemma auth_layout_shape: "literals c = literals d \<Longrightarrow> literals (AuthLayout s c) = literals (AuthLayout t d)"
  by (simp add: AuthLayout_def head_def)

lemma layout_shape:
  assumes "j = i" "literals c = literals d"
  shows "literals (Layout s (erase u) \<lparr>sb_Projects = map erase_project ps, sb_ProjectID = j, sb_ActiveNav = act\<rparr> c) =
     literals (Layout t u \<lparr>sb_Projects = ps, sb_ProjectID = i, sb_ActiveNav = act\<rparr> d)"
  using assms by (simp add: Layout_def sidebar_shape head_def)

lemma erase_id: "pv_ID (erase_project p) = pv_ID p"
  by (simp add: erase_project_def)

lemma rows_shape:
  "literals (recipientRows (map erase_recipient rs)) = literals (recipientRows rs)"
  "literals (RecipientsFragmentTempl i (map erase_recipient rs) t) = literals (RecipientsFragmentTempl i rs t)"
  by (simp_all add: RecipientsFragmentTempl_def recipientRows_def literal_simps small_shapes cong: if_cong)

lemma open_pages_shape:
  "literals (Setup (erase e)) = literals (Setup e)" "literals (Login (erase e)) = literals (Login e)"
  unfolding Setup_def Login_def by (rule auth_layout_shape, simp)+

lemma pages_shape:
  "literals (Home (erase u) (map erase_project ps)) = literals (Home u ps)"
  "literals (ProjectsList (erase u) (map erase_project ps) (erase_message msg)) = literals (ProjectsList u ps msg)"
  "literals (ProjectOverview fmt (erase u) (erase_project p) (map erase_project ps) (erase_stats st)) =
     literals (ProjectOverview fmt u p ps st)"
  unfolding Home_def ProjectsList_def ProjectOverview_def recentNotifications_def
  by (rule layout_shape, simp add: erase_id, simp add: literal_simps small_shapes cong: if_cong)+

lemma tabs_shape:
  "literals (ProvidersTab fmt (erase u) (erase_project p) (map erase_project ps) (map erase_credential cs)
     (erase_message msg)) = literals (ProvidersTab fmt u p ps cs msg)"
  "literals (APIKeysTab fmt (erase u) (erase_project p) (map erase_project ps) (map erase_key ks) (erase key)
     (erase_message msg)) = literals (APIKeysTab fmt u p ps ks key msg)"
  "literals (DevicesTab fmt (erase u) (erase_project p) (map erase_project ps) (map erase_device ds) (erase x) s) =
     literals (DevicesTab fmt u p ps ds x s)"
  "literals (NotificationsTab fmt (erase u) (erase_project p) (map erase_project ps) (map erase_notification ns)) =
     literals (NotificationsTab fmt u p ps ns)"
  "literals (NotificationDetail (erase u) (erase_project p) (map erase_project ps) i (erase s) n c (map erase_recipient rs) t) =
     literals (NotificationDetail u p ps i s n c rs t)"
  unfolding ProvidersTab_def credentialRow_def APIKeysTab_def keyRow_def DevicesTab_def deviceRow_def NotificationsTab_def NotificationDetail_def
  by (rule layout_shape, simp add: erase_id,
      simp add: literal_simps small_shapes rows_shape cong: if_cong)+

lemma page_shape: "literals (page_component fmt (erase_page p)) = literals (page_component fmt p)"
  by (cases p) (simp_all add: open_pages_shape pages_shape tabs_shape rows_shape)

section \<open>Polling\<close>

text \<open>The component asks htmx to fetch the recipients again every two seconds.\<close>

definition polls :: "component \<Rightarrow> bool" where
  "polls c \<longleftrightarrow> list_ex (\<lambda>ch. ch = Lit ''\" hx-trigger=\"every 2s\" hx-swap=\"outerHTML\">'') c"

lemma polls_simps [simp]:
  "polls (c @ d) \<longleftrightarrow> polls c \<or> polls d" "polls [] = False"
  "polls (ch # c) \<longleftrightarrow> ch = Lit ''\" hx-trigger=\"every 2s\" hx-swap=\"outerHTML\">'' \<or> polls c"
  by (auto simp: polls_def)

lemma polls_loop: "polls (concat (map f xs)) \<longleftrightarrow> (\<exists>x \<in> set xs. polls (f x))"
  by (induction xs) simp_all

lemma rows_quiet: "\<not> polls (recipientRows rs)"
  by (simp add: recipientRows_def polls_loop EmptyState_def IDValue_def StatusBadge_def)

lemma fragment_polls: "polls (RecipientsFragmentTempl i rs t) \<longleftrightarrow> \<not> t"
  by (simp add: RecipientsFragmentTempl_def rows_quiet)

lemma sidebar_quiet: "\<not> polls (sidebar u sb)"
  by (simp add: sidebar_def sidebarNavLink_def brand_def polls_loop)

lemma detail_polls: "polls (NotificationDetail u p ps i s n c rs t) \<longleftrightarrow> \<not> t"
  by (simp add: NotificationDetail_def Layout_def head_def sidebar_quiet StatusBadge_def fragment_polls)

section \<open>Properties\<close>

text \<open>
  C33. No value can become markup: whatever strings a page shows (project names, device identifiers,
  error messages of push services, ...), a reader of the HTML ends where it began, in text, and the
  tags it meets are those of the page in which every such text is replaced by \<open>x\<close>. The hypothesis
  is what the templ library documents of its escaping functions.
\<close>

theorem page_no_injection:
  assumes "templ_laws T"
  shows "scan InText (Render T (page_component fmt p)) = InText \<and>
    tags InText (Render T (page_component fmt p)) = tags InText (Render T (page_component fmt (erase_page p)))"
  using Render_read [OF assms page_placed] page_shape [of fmt p] by (simp add: literals_def)

definition html_entity :: "char \<Rightarrow> string" where
  "html_entity c = (if c = CHR ''<'' then ''&lt;'' else if c = CHR ''>'' then ''&gt;'' else if c = CHR ''&'' then ''&amp;''
     else if c = CHR 0x22 then ''&#34;'' else [c])"

definition sample_templ :: templ where
  "sample_templ = \<lparr>tp_EscapeString = (\<lambda>s. concat (map html_entity s)),
     tp_ResolveAttributeValue = (\<lambda>s. concat (map html_entity s)), tp_URL = (\<lambda>s. s),
     tp_CSSClasses = (\<lambda>cs. concat (map (\<lambda>c. c @ '' '') cs)), tp_RenderCSSItems = (\<lambda>cs. [])\<rparr>"

lemma sample_templ_laws: "templ_laws sample_templ"
proof -
  have "escaped (html_entity c)" for c by (simp add: escaped_def html_entity_def)
  then have "escaped (concat (map html_entity s))" for s
    by (induction s) (simp_all add: escaped_def)
  then show ?thesis by (simp add: templ_laws_def sample_templ_def)
qed

theorem page_no_injection_witness:
  "tags InText (Render sample_templ (page_component (\<lambda>t. []) (LoginPage ''<script>''))) =
   tags InText (Render sample_templ (page_component (\<lambda>t. []) (LoginPage ''x'')))"
  using page_no_injection [OF sample_templ_laws, of "\<lambda>t. []" "LoginPage ''<script>''"] by (simp add: erase_def)

text \<open>
  C34. The recipients of a notification are polled exactly until they are done: the fragment (and so
  each of its successors) fetches itself again if and only if fewer of the notification's
  recipients than \<open>total_recipients\<close> are sent, delivered or failed in the store.
\<close>

theorem recipients_polled:
  assumes "ds_Body (value_of (handleRecipientsFragment E r) w) = Rendered p" "length (recipients (w_db w)) < 2 ^ 63"
  shows "\<exists>n. n \<in> set (notifications (w_db w)) \<and> uuid_Parse E (q_id r) = Some (n_ID n) \<and>
    (polls (page_component fmt p) \<longleftrightarrow>
      int (terminal_recipients (n_ID n) (w_db w)) < sint (n_TotalRecipients n))"
proof -
  obtain i where i: "uuid_Parse E (q_id r) = Some i"
    using assms(1) by (auto simp: handleRecipientsFragment_def split: option.splits)
  obtain n rs where nr: "value_of (notificationRecipients i) w = Inr (n, rs)"
    using assms(1) by (auto simp: handleRecipientsFragment_def i on_error_simps split: sum.splits)
  let ?u = "final (notificationRecipients i) w"
  obtain counts where counts: "value_of (RecipientStatusCounts i) ?u = Inr counts"
    using assms(1) nr by (auto simp: handleRecipientsFragment_def i on_error_simps split: sum.splits)
  have p: "p = RecipientsFragment (uuid_String E i) (map (toRecipientView E) rs)
      (Terminal (toRecipientCounts counts) (n_TotalRecipients n))"
    using assms(1) nr counts by (simp add: handleRecipientsFragment_def i on_error_simps)
  have db: "w_db ?u = w_db w" using movesD [OF page_reads(6), of w i] by (simp add: same_db_def)
  have n: "n \<in> set (notifications (w_db w))" "n_ID n = i"
    using nr by (auto simp: notificationRecipients_def GetNotificationByID_def sql_getNotificationByID_def
        elim!: attempt_InrE dest!: exec_Inr(1) find_SomeD)
  with Terminal_store [OF counts] assms(2) show ?thesis
    by (auto simp: i p db fragment_polls not_le intro!: exI [of _ n])
qed

definition polled_world :: world where
  "polled_world = store_world\<lparr>w_db := sample_db\<lparr>notifications := [listed\<lparr>n_TotalRecipients := 1\<rparr>],
     recipients := [new_recipient 9 7 ''fcm'' 0 3]\<rparr>\<rparr>"

lemma polled_world_rows:
  "notifications (w_db polled_world) = [listed\<lparr>n_TotalRecipients := 1\<rparr>]"
  "recipients (w_db polled_world) = [new_recipient 9 7 ''fcm'' 0 3]"
  "terminal_recipients 9 (w_db polled_world) = 0"
  by (simp_all add: polled_world_def terminal_recipients_def terminalRecipientStatuses_def new_recipient_def)

lemma fragment_served:
  "\<exists>p. ds_Body (value_of (handleRecipientsFragment sample_ext ((visit ''/'')\<lparr>q_id := ''9''\<rparr>)) polled_world) = Rendered p"
  by (simp add: handleRecipientsFragment_def parse_sample_uuid on_error_simps notificationRecipients_def attempt_simps
      GetNotificationByID_def sql_getNotificationByID_def ListNotificationRecipients_def sql_listNotificationRecipients_def
      RecipientStatusCounts_def CountRecipientStatuses_def sql_countRecipientStatuses_def exec_value exec_final
      next_env_def polled_world_def store_world_def sample_world_def listed_def Let_def)

theorem recipients_polled_witness:
  "\<exists>p. ds_Body (value_of (handleRecipientsFragment sample_ext ((visit ''/'')\<lparr>q_id := ''9''\<rparr>)) polled_world) = Rendered p \<and>
     polls (page_component (\<lambda>t. []) p)"
proof -
  obtain p where p: "ds_Body (value_of (handleRecipientsFragment sample_ext ((visit ''/'')\<lparr>q_id := ''9''\<rparr>)) polled_world) =
      Rendered p" using fragment_served by blast
  from recipients_polled [OF p, of "\<lambda>t. []"] p show ?thesis
    by (auto simp: polled_world_rows listed_def)
qed

end
