(* ===== verification/Wire.thy ===== *)
theory Wire imports Registered Notify begin

text \<open>
  From the text of a request to the text the push services receive: the strings and data of an
  accepted notification are UTF-8 and of bounded depth, so that each adapter's request body parses to the
  message it means.
\<close>

section \<open>Lemmas: fields of a parsed request\<close>




lemma utf8_valid_Nil [simp]: "utf8_valid []"
  by (simp add: utf8_valid_def)












section \<open>Lemmas: depth\<close>






section \<open>Lemmas: the text of a tree is UTF-8\<close>














section \<open>Lemmas: an accepted request\<close>





text \<open>
  The data of a request are what was posted, except that a number is now the text of the nearest
  \<open>float64\<close> (\<open>ParseFloat_nearest\<close>): two large integers can be delivered as one.
\<close>

lemma posted_data:
  assumes "decode_createNotificationRequest (JObj kvs) = Some req" "jfields ''data'' kvs = [JObj d]"
  shows "cr_Data req = Some (gomap_of (map (\<lambda>(k, v). (k, any_of v)) d))"
proof -
  have "map_field ''data'' kvs = Some (cr_Data req)"
    using assms(1) by (auto simp: decode_createNotificationRequest_def split: if_splits bind_splits)
  then have "cr_Data req = Some (fold (\<lambda>(k, v) m. map_put k (any_of v) m) d [])"
    using assms(2) by (simp add: map_field_def split: if_splits)
  moreover have "fold (\<lambda>(k, v) m. map_put k (any_of v) m) d m = fold (\<lambda>(k, v) m. map_put k v m) (map (\<lambda>(k, v). (k, any_of v)) d) m" for m
    by (induction d arbitrary: m) auto
  ultimately show ?thesis by (simp add: gomap_of_def)
qed

lemma delivered_as_one: "any_of (JNum ''9007199254740993'') = any_of (JNum ''9007199254740992'')"
  by (simp only: any_of.simps integers_collide option.case)

section \<open>Lemmas: the messages\<close>













section \<open>What a message says\<close>

text \<open>The member at the end of a path of keys; a string member that is left out when empty.\<close>

fun json_at :: "string list \<Rightarrow> json \<Rightarrow> json option" where
  "json_at [] j = Some j"
| "json_at (k # ks) (JObj kvs) = Option.bind (map_of kvs k) (json_at ks)"
| "json_at (k # ks) j = None"










lemma bind_at [simp]: "Option.bind x (json_at []) = x"
  by (cases x) simp_all


section \<open>Properties\<close>



end
