(* ===== verification/Delivery.thy ===== *)
theory Delivery imports Worker begin

text \<open>
  From the request to the push: what becomes of an accepted notification when the worker runs
  its tasks and the services do their part.
\<close>

section \<open>The services do not change\<close>

text \<open>How the services answer, as opposed to what they have been asked so far.\<close>

definition oracles where
  "oracles w = (w_server w, w_asynq w, w_redis w, w_net w, w_oauth w, w_apns w, w_clock w, w_entropy w)"

definition same_oracles :: "world \<Rightarrow> world \<Rightarrow> bool" where
  "same_oracles w w' \<longleftrightarrow> oracles w' = oracles w"

lemma same_oracles_order: "reflp same_oracles" "transp same_oracles"
  by (auto simp: reflp_def transp_def same_oracles_def)

lemma healthy_oracles: "oracles w = oracles w' \<Longrightarrow> healthy w = healthy w'"
  by (simp add: oracles_def healthy_def)

lemma kept_oracles: "moves same_oracles m \<Longrightarrow> oracles (final m w) = oracles w"
  by (simp add: moves_def same_oracles_def)

named_theorems oracle_rules "operations that leave the services as they are"

lemmas oracle_basic [oracle_rules] = moves_ret [OF same_oracles_order(1)]
  moves_bind [OF same_oracles_order(2)] moves_attempt [OF same_oracles_order]

lemma service_oracles [oracle_rules]:
  "moves same_oracles (exec s)" "moves same_oracles (asynq_Enqueue c)" "moves same_oracles (redis_Allow l)"
  "moves same_oracles (http_Do q)" "moves same_oracles (oauth_Token cfg)" "moves same_oracles (apns_Push p)"
  "moves same_oracles time_Now" "moves same_oracles (rand_Read n)"
  by (auto intro!: movesI simp: same_oracles_def oracles_def exec_final asynq_Enqueue_def redis_Allow_def
      http_Do_def oauth_Token_def apns_Push_def time_Now_def rand_Read_def Let_def)

lemma cache_oracles [oracle_rules]:
  "moves same_oracles (hms_cache key)" "moves same_oracles (hms_store key t)"
  "moves same_oracles (tokenSourceFor E cred)" "moves same_oracles (clientFor E cred)"
  by (auto intro!: movesI simp: same_oracles_def oracles_def hms_cache_def hms_store_def tokenSourceFor_def
      clientFor_def Let_def split: option.split sum.split)

lemma adapter_oracles:
  assumes "provider_Get E names prov = Some a"
  shows "moves same_oracles (a_Send a cred req)"
proof -
  have "moves same_oracles (expo_Send cred req)" "moves same_oracles (fcm_Send E cred req)"
    "moves same_oracles (hms_Send E cred req)" "moves same_oracles (apns_Send E cred req)"
    by (auto simp: expo_Send_def fcm_Send_def hms_Send_def hms_read_def hms_classify_def invalidateToken_def accessTokenFor_def fetchToken_def
        apns_Send_def Let_def intro!: oracle_rules split: option.split sum.split)
  with assms show ?thesis
    by (auto simp: provider_Get_table expo_adapter_def fcm_adapter_def hms_adapter_def apns_adapter_def
        split: if_splits)
qed

lemma limit_check_oracles [oracle_rules]: "moves same_oracles (limit_check E h p)"
  by (auto simp: limit_check_def OutboundRateLimiter_Allow_def Let_def intro!: oracle_rules
      split: option.split limit_result.split)

lemma send_oracles:
  "moves same_oracles (HandleSend E (production_handlers E names mk rps) ctx p)"
proof -
  have "moves same_oracles (record_outcome ctx p result sendErr)" for result sendErr
    by (auto simp: record_outcome_def failRecipient_def MarkRecipientSent_def MarkDeviceStatus_def
        MarkRecipientFailed_def Let_def intro!: oracle_rules split: Status.split)
  then show ?thesis
    by (auto simp: HandleSend_def send_with_credential_def GetNotificationRecipient_def failRecipient_def
        MarkRecipientFailed_def MarkRecipientSending_def GetActiveProviderCredential_def production_handlers_def
        intro!: oracle_rules adapter_oracles split: sum.split option.split)
qed

section \<open>Services that do their part\<close>

text \<open>Redis admits every push, and the queue takes every task.\<close>

definition never_limits :: "world \<Rightarrow> bool" where
  "never_limits w \<longleftrightarrow> (\<forall>sent c delay. w_redis w sent c \<noteq> LimitResult 0 delay)"

definition takes_tasks :: "world \<Rightarrow> bool" where
  "takes_tasks w \<longleftrightarrow> (\<forall>sent c. w_asynq w sent c = Enqueued)"

text \<open>
  The provider is set up and accepts: the project has an active credential for it that opens, and
  its adapter reports every push as sent, whatever was asked of the services before.
\<close>

definition provider_ready :: "ext \<Rightarrow> Handlers \<Rightarrow> uuid \<Rightarrow> world \<Rightarrow> string \<Rightarrow> bool" where
  "provider_ready E h pid w prov \<longleftrightarrow> (\<exists>c cred a.
     find (\<lambda>c. same_provider pid prov environment c \<and> c_IsActive c) (credentials (w_db w)) = Some c \<and>
     Open E (h_Crypto h) (c_WrappedDek c) (c_Credential c) = Inr cred \<and> h_Get h prov = Some a \<and>
     (\<forall>v req. oracles v = oracles w \<longrightarrow> sr_Status (fst (value_of (a_Send a cred req) v)) = StatusSent))"

lemma provider_ready_later:
  "oracles w' = oracles w \<Longrightarrow> credentials (w_db w') = credentials (w_db w) \<Longrightarrow>
     provider_ready E h pid w' prov = provider_ready E h pid w prov"
  by (simp add: provider_ready_def)

lemma oracles_cong:
  assumes "oracles w' = oracles w"
  shows "healthy w' = healthy w" "never_limits w' = never_limits w" "takes_tasks w' = takes_tasks w"
  using assms by (simp_all add: oracles_def healthy_def never_limits_def takes_tasks_def)

section \<open>One send task\<close>

definition delivered :: "instant \<Rightarrow> string option \<Rightarrow> recipient_row \<Rightarrow> recipient_row" where
  "delivered now msg r = (sending r)\<lparr>r_Status := ''sent'', r_ProviderMessageID := msg, r_SentAt := Some now\<rparr>"

lemma HandleSend_done:
  assumes "healthy w" and "find (\<lambda>r. r_ID r = sp_RecipientID p) (recipients (w_db w)) = Some r"
    and "r_Status r \<in> terminalRecipientStatuses"
  shows "value_of (HandleSend E h ctx p) w = Inr ()" and "w_db (final (HandleSend E h ctx p) w) = w_db w"
  using assms
  by (simp_all add: HandleSend_def attempt_simps GetNotificationRecipient_def sql_getNotificationRecipient_def
      healthy_exec run_stmt_def)

lemma at_sending_oracles: "oracles (at_sending E h p w) = oracles w"
proof -
  have "moves same_oracles (GetNotificationRecipient i)" "moves same_oracles (MarkRecipientSending i)"
    "moves same_oracles (GetActiveProviderCredential pid prov envi)" for i pid prov envi
    by (auto simp: GetNotificationRecipient_def MarkRecipientSending_def GetActiveProviderCredential_def
        intro: oracle_rules)
  then show ?thesis by (simp add: at_sending_def before_sending_def kept_oracles limit_check_oracles)
qed

lemma HandleSend_delivers:
  assumes h: "h = production_handlers E names mk rps" and w: "healthy w" "never_limits w"
    and ready: "provider_ready E h (sp_ProjectID p) w (sp_ProviderType p)"
    and r: "find (\<lambda>r. r_ID r = sp_RecipientID p) (recipients (w_db w)) = Some r"
      "r_Status r \<notin> terminalRecipientStatuses" "r_AttemptCount r \<noteq> max_int4"
  shows "value_of (HandleSend E h ctx p) w = Inr () \<and> (\<exists>now msg. w_db (final (HandleSend E h ctx p) w) =
    (w_db w)\<lparr>recipients := upd_where (\<lambda>r. r_ID r = sp_RecipientID p) (delivered now msg) (recipients (w_db w))\<rparr>)"
proof -
  let ?i = "sp_RecipientID p"
  let ?w4 = "at_sending E h p w"
  obtain c cred a where ok: "find (\<lambda>c. same_provider (sp_ProjectID p) (sp_ProviderType p) environment c \<and> c_IsActive c)
      (credentials (w_db w)) = Some c" "Open E (h_Crypto h) (c_WrappedDek c) (c_Credential c) = Inr cred"
    "h_Get h (sp_ProviderType p) = Some a"
    "\<forall>v req. oracles v = oracles w \<longrightarrow> sr_Status (fst (value_of (a_Send a cred req) v)) = StatusSent"
    using ready by (auto simp: provider_ready_def)
  have push: "push_adapter (a_Send a)" using ok(3) production_adapters_ok h by (auto simp: adapters_ok_def)
  have lim: "fst (value_of (limit_check E h p) (final (GetNotificationRecipient ?i) w))"
  proof (rule ccontr)
    assume denied: "\<not> fst (value_of (limit_check E h p) (final (GetNotificationRecipient ?i) w))"
    then obtain rps' where "h_OutboundLimiter h = Some rps'" by (auto simp: limit_check_def split: option.splits)
    with denied outbound.denial [of "(E, rps', sp_ProjectID p, sp_ProviderType p)"
        "final (GetNotificationRecipient ?i) w"] w(2)
    show False by (auto simp: limit_check_def never_limits_def GetNotificationRecipient_final)
  qed
  have "oracles ?w4 = oracles w" by (rule at_sending_oracles)
  then obtain result sendErr where res: "value_of (a_Send a cred (send_request p)) ?w4 = (result, sendErr)"
    "sr_Status result = StatusSent" using ok(4) by (metis prod.collapse)
  show ?thesis
  proof (rule HandleSend_reaches [OF w(1) r lim ok(1-3) push res(1), of ctx], goal_cases)
    case (1 w5)
    with res(2) show ?case
      by (auto simp: record_outcome_def MarkRecipientSent_def sql_markRecipientSent_def healthy_exec run_stmt_def
          exec_only_def upd_where_twice sending_def delivered_def [abs_def] comp_def)
  qed
qed

section \<open>The send queue\<close>

text \<open>
  The worker takes tasks in some order, each with the retry counts asynq keeps; a type without a
  handler yields \<open>None\<close>.
\<close>

definition run_task :: "ext \<Rightarrow> Handlers \<Rightarrow> task_ctx \<times> enq_call \<Rightarrow> (world, (goerr + unit) option) state" where
  "run_task E h t = (case map_of (worker_mux E h) (e_Type (snd t)) of
      None \<Rightarrow> ret None
    | Some handler \<Rightarrow> do { r \<leftarrow> handler (fst t) (e_Payload (snd t)); ret (Some r) })"

fun run_tasks :: "ext \<Rightarrow> Handlers \<Rightarrow> (task_ctx \<times> enq_call) list \<Rightarrow> (world, (goerr + unit) option list) state" where
  "run_tasks E h [] = ret []"
| "run_tasks E h (t # ts) = do { r \<leftarrow> run_task E h t; rs \<leftarrow> run_tasks E h ts; ret (r # rs) }"

text \<open>What the fanout leaves for one recipient: its row, as it was inserted, and its payload.\<close>

definition awaiting :: "ext \<Rightarrow> Handlers \<Rightarrow> world \<Rightarrow> SendPayload \<Rightarrow> bool" where
  "awaiting E h w p \<longleftrightarrow> (\<exists>r \<in> set (recipients (w_db w)). r_ID r = sp_RecipientID p \<and> r_Status r = ''queued'' \<and>
     r_AttemptCount r = 0) \<and> provider_ready E h (sp_ProjectID p) w (sp_ProviderType p) \<and>
     sp_ProviderType p \<in> set provider_types \<and> canonical (elems (sp_Data p))"

lemma send_task_runs:
  assumes "uuid_codec E" and "sp_ProviderType p \<in> set provider_types" and "canonical (elems (sp_Data p))"
  obtains p' where "sp_RecipientID p' = sp_RecipientID p" "sp_ProjectID p' = sp_ProjectID p"
    "sp_ProviderType p' = sp_ProviderType p"
    "run_task E h (ctx, send_call E p) = do { r \<leftarrow> HandleSend E h ctx p'; ret (Some r) }"
proof (rule that)
  let ?p' = "p\<lparr>sp_Data := (if sp_Data p = Some [] then None else sp_Data p)\<rparr>"
  have "canonical (case sp_Data p of None \<Rightarrow> [] | Some m \<Rightarrow> m)" using assms(3) by (simp add: elems_def)
  from SendPayload_decodes [OF assms(1) this]
  show "run_task E h (ctx, send_call E p) = do { r \<leftarrow> HandleSend E h ctx ?p'; ret (Some r) }"
    by (simp add: run_task_def send_call_def Let_def worker_lookup [OF assms(2)] AsynqSendHandler_def)
qed simp_all

text \<open>
  The rows while the tasks run: those of the tasks that ran are delivered, the others as before.
\<close>

definition progress :: "uuid set \<Rightarrow> recipient_row \<Rightarrow> recipient_row \<Rightarrow> bool" where
  "progress ids r0 r \<longleftrightarrow> (if r_ID r0 \<in> ids then \<exists>now msg. r = delivered now msg r0 else r = r0)"

definition in_delivery :: "world \<Rightarrow> uuid set \<Rightarrow> world \<Rightarrow> bool" where
  "in_delivery w0 ids w \<longleftrightarrow> oracles w = oracles w0 \<and> (\<exists>rs. w_db w = (w_db w0)\<lparr>recipients := rs\<rparr> \<and>
     list_all2 (progress ids) (recipients (w_db w0)) rs)"

lemma progress_simps: "progress ids r0 r \<Longrightarrow> r_ID r = r_ID r0 \<and> r_DeviceID r = r_DeviceID r0 \<and>
    r_NotificationID r = r_NotificationID r0"
  by (auto simp: progress_def delivered_def sending_def split: if_splits)

lemma in_delivery_start: "in_delivery w {} w"
  by (auto simp: in_delivery_def progress_def list_all2_same intro!: exI [of _ "recipients (w_db w)"])

lemma find_progress:
  assumes "list_all2 (progress ids) rs0 rs" and "distinct (map r_ID rs0)" and "r0 \<in> set rs0"
  shows "\<exists>r. find (\<lambda>r. r_ID r = r_ID r0) rs = Some r \<and> progress ids r0 r"
  using assms
proof (induction rule: list_all2_induct)
  case (Cons x xs y ys)
  show ?case
  proof (cases "x = r0")
    case True
    with Cons.hyps(1) progress_simps show ?thesis by auto
  next
    case False
    with Cons.prems Cons.hyps(1) have "r_ID y \<noteq> r_ID r0" by (auto dest: progress_simps)
    with False Cons show ?thesis by auto
  qed
qed simp

lemma progress_upd:
  assumes "list_all2 (progress ids) rs0 rs" and "i \<notin> ids"
  shows "list_all2 (progress (insert i ids)) rs0 (upd_where (\<lambda>r. r_ID r = i) (delivered now msg) rs)"
  using assms
proof (induction rule: list_all2_induct)
  case (Cons x xs y ys)
  then have "r_ID y = r_ID x" by (blast dest: progress_simps)
  with Cons show ?case by (auto simp: progress_def)
qed simp

lemma in_delivery_step:
  assumes h: "h = production_handlers E names mk rps" and "uuid_codec E" and w0: "healthy w0" "never_limits w0"
    and distinct: "distinct (map r_ID (recipients (w_db w0)))" and p: "awaiting E h w0 p" and "in_delivery w0 ids w"
  shows "value_of (run_task E h (ctx, send_call E p)) w = Some (Inr ()) \<and>
    in_delivery w0 (insert (sp_RecipientID p) ids) (final (run_task E h (ctx, send_call E p)) w)"
proof -
  let ?i = "sp_RecipientID p"
  obtain rs where same: "oracles w = oracles w0" and db: "w_db w = (w_db w0)\<lparr>recipients := rs\<rparr>"
    and rs: "list_all2 (progress ids) (recipients (w_db w0)) rs" using assms(7) by (auto simp: in_delivery_def)
  obtain r0 where r0: "r0 \<in> set (recipients (w_db w0))" "r_ID r0 = ?i" "r_Status r0 = ''queued''" "r_AttemptCount r0 = 0"
    using p by (auto simp: awaiting_def)
  obtain r where r: "find (\<lambda>r. r_ID r = ?i) rs = Some r" "progress ids r0 r"
    using find_progress [OF rs distinct r0(1)] r0(2) by auto
  note w = oracles_cong [OF same]
  obtain p' where p': "sp_RecipientID p' = ?i" "sp_ProjectID p' = sp_ProjectID p" "sp_ProviderType p' = sp_ProviderType p"
    and run: "run_task E h (ctx, send_call E p) = do { r \<leftarrow> HandleSend E h ctx p'; ret (Some r) }"
    using p send_task_runs [OF assms(2), of p h ctx] by (auto simp: awaiting_def)
  have same': "oracles (final (HandleSend E h ctx p') w) = oracles w0"
    using send_oracles same by (simp add: h kept_oracles)
  show ?thesis
  proof (cases "?i \<in> ids")
    case True
    then have "r_Status r \<in> terminalRecipientStatuses"
      using r(2) r0(2) by (auto simp: progress_def delivered_def terminalRecipientStatuses_def)
    from HandleSend_done [of w p' r, OF _ _ this] r(1) w(1) w0(1)
    have "value_of (HandleSend E h ctx p') w = Inr ()" "w_db (final (HandleSend E h ctx p') w) = w_db w"
      by (simp_all add: p' db)
    with True rs show ?thesis by (auto simp: run in_delivery_def same' db insert_absorb)
  next
    case False
    then have "r = r0" using r(2) r0(2) by (simp add: progress_def)
    then have queued: "r_Status r \<notin> terminalRecipientStatuses" "r_AttemptCount r \<noteq> max_int4"
      using r0 by (simp_all add: terminalRecipientStatuses_def max_int4_def)
    have "provider_ready E h (sp_ProjectID p') w (sp_ProviderType p')"
      using p provider_ready_later [of w w0] by (simp add: awaiting_def p' same db)
    from HandleSend_delivers [OF h _ _ this _ queued, of ctx] r(1) w w0
    obtain now msg where "value_of (HandleSend E h ctx p') w = Inr ()" "w_db (final (HandleSend E h ctx p') w) =
        (w_db w)\<lparr>recipients := upd_where (\<lambda>r. r_ID r = ?i) (delivered now msg) rs\<rparr>"
      by (auto simp: p' db)
    with progress_upd [OF rs False] show ?thesis by (auto simp: run in_delivery_def same' db)
  qed
qed

lemma in_delivery_run:
  assumes h: "h = production_handlers E names mk rps" and "uuid_codec E" and w0: "healthy w0" "never_limits w0"
    and distinct: "distinct (map r_ID (recipients (w_db w0)))"
    and tasks: "\<forall>t \<in> set ts. \<exists>p. snd t = send_call E p \<and> awaiting E h w0 p" and "in_delivery w0 ids w"
  shows "set (value_of (run_tasks E h ts) w) \<subseteq> {Some (Inr ())} \<and>
    in_delivery w0 (ids \<union> {i. \<exists>t \<in> set ts. e_TaskID (snd t) = Some (uuid_String E i)}) (final (run_tasks E h ts) w)"
  using tasks assms(7)
proof (induction ts arbitrary: ids w)
  case (Cons t ts)
  obtain ctx p where t: "t = (ctx, send_call E p)" and p: "awaiting E h w0 p"
    using Cons.prems(1) by (cases t) auto
  note step = in_delivery_step [OF assms(1-5) p Cons.prems(2), of ctx]
  have "{i. e_TaskID (send_call E p) = Some (uuid_String E i)} = {sp_RecipientID p}"
    using uuid_String_inj [OF assms(2)] by (auto simp: send_call_def Let_def)
  then have "insert (sp_RecipientID p) ids \<union> {i. \<exists>t \<in> set ts. e_TaskID (snd t) = Some (uuid_String E i)} =
      ids \<union> {i. \<exists>u \<in> set (t # ts). e_TaskID (snd u) = Some (uuid_String E i)}" by (auto simp: t)
  with step Cons.IH [of "insert (sp_RecipientID p) ids" "final (run_task E h t) w"] Cons.prems(1) show ?case
    by (simp add: t)
qed simp

section \<open>The fanout of a new notification\<close>

text \<open>The next \<open>k\<close> statements generate UUIDs that differ from each other and name no recipient.\<close>

definition mints :: "nat \<Rightarrow> world \<Rightarrow> bool" where
  "mints k w \<longleftrightarrow> inj_on (\<lambda>i. se_uuid (w_server w i)) {w_stmts w ..< w_stmts w + k} \<and>
     (\<forall>i \<in> {w_stmts w ..< w_stmts w + k}. se_uuid (w_server w i) \<notin> r_ID ` set (recipients (w_db w)))"

lemma insert_new:
  assumes "healthy w" and "mints (Suc k) w" and "notification_exists nid (w_db w)" and "device_exists did (w_db w)"
    and "\<forall>r \<in> set (recipients (w_db w)). \<not> same_target nid did r"
  obtains r w' where "r = new_recipient nid did prov (se_now (next_env w)) (se_uuid (next_env w))"
    and "value_of (getOrCreateRecipient nid did prov) w = Inr r"
    and "final (getOrCreateRecipient nid did prov) w = w'"
    and "w' = w\<lparr>w_stmts := Suc (w_stmts w), w_db := (w_db w)\<lparr>recipients := recipients (w_db w) @ [r]\<rparr>\<rparr>"
    and "mints k w'"
proof -
  let ?r = "new_recipient nid did prov (se_now (next_env w)) (se_uuid (next_env w))"
  let ?w' = "w\<lparr>w_stmts := Suc (w_stmts w), w_db := (w_db w)\<lparr>recipients := recipients (w_db w) @ [?r]\<rparr>\<rparr>"
  have new: "se_uuid (next_env w) \<notin> r_ID ` set (recipients (w_db w))"
    using assms(2) by (auto simp: mints_def next_env_def)
  have "\<not> list_ex (same_target nid did) (recipients (w_db w))" using assms(5) by (auto simp: list_ex_iff)
  with new assms(1,3,4) have "value_of (getOrCreateRecipient nid did prov) w = Inr ?r"
    "final (getOrCreateRecipient nid did prov) w = ?w'"
    by (simp_all add: getOrCreateRecipient_def InsertNotificationRecipient_def sql_insertNotificationRecipient_def
        healthy_exec run_stmt_def Let_def)
  moreover have "se_uuid (w_server w i) \<noteq> se_uuid (w_server w (w_stmts w))"
    if "Suc (w_stmts w) \<le> i" "i < Suc (w_stmts w + k)" for i
    using inj_onD [of "\<lambda>i. se_uuid (w_server w i)" "{w_stmts w ..< w_stmts w + Suc k}" i "w_stmts w"] assms(2) that
    by (auto simp: mints_def)
  then have "mints k ?w'"
    using assms(2) by (auto simp: mints_def next_env_def new_recipient_def inj_on_def)
  ultimately show ?thesis using that by blast
qed

text \<open>The row of a device after the fanout, and the task for it.\<close>

definition fanned_out :: "uuid \<Rightarrow> device_row \<Rightarrow> recipient_row \<Rightarrow> bool" where
  "fanned_out nid d r \<longleftrightarrow> same_target nid (d_ID d) r \<and> r_Status r = ''queued'' \<and> r_AttemptCount r = 0"

lemma fanout_loop_new:
  assumes "healthy w" and "takes_tasks w" and "mints (length ds) w" and "notification_exists nid (w_db w)"
    and "\<forall>d \<in> set ds. device_exists (d_ID d) (w_db w)" and "distinct (map d_ID ds)"
    and "\<forall>d \<in> set ds. \<forall>r \<in> set (recipients (w_db w)). \<not> same_target nid (d_ID d) r"
  shows "\<exists>rs. value_of (fanout_loop E p nid title body data k ds) w = Inr (k + length ds) \<and>
      list_all2 (fanned_out nid) ds rs \<and>
      w_db (final (fanout_loop E p nid title body data k ds) w) = (w_db w)\<lparr>recipients := recipients (w_db w) @ rs\<rparr> \<and>
      w_enqs (final (fanout_loop E p nid title body data k ds) w) = w_enqs w @
        map2 (\<lambda>d r. (send_call E (send_payload p title body data r d), Enqueued)) ds rs \<and>
      oracles (final (fanout_loop E p nid title body data k ds) w) = oracles w"
  using assms
proof (induction ds arbitrary: k w)
  case (Cons d ds)
  let ?get = "getOrCreateRecipient nid (d_ID d) (d_ProviderType d)"
  have "mints (Suc (length ds)) w" using Cons.prems(3) by simp
  from insert_new [OF Cons.prems(1) this Cons.prems(4), of "d_ID d" "d_ProviderType d"] Cons.prems(5,7)
  obtain r w' where r: "r = new_recipient nid (d_ID d) (d_ProviderType d) (se_now (next_env w)) (se_uuid (next_env w))"
    and get: "value_of ?get w = Inr r" "final ?get w = w'"
    and w': "w' = w\<lparr>w_stmts := Suc (w_stmts w), w_db := (w_db w)\<lparr>recipients := recipients (w_db w) @ [r]\<rparr>\<rparr>"
    and mints: "mints (length ds) w'" by auto
  let ?c = "send_call E (send_payload p title body data r d)"
  let ?u = "w'\<lparr>w_enqs := w_enqs w' @ [(?c, Enqueued)]\<rparr>"
  have enq: "value_of (EnqueueSend E (send_payload p title body data r d)) w' = None"
    "final (EnqueueSend E (send_payload p title body data r d)) w' = ?u"
    using Cons.prems(2) by (simp_all add: EnqueueSend_value EnqueueSend_final takes_tasks_def w')
  have step: "value_of (fanout_loop E p nid title body data k (d # ds)) w =
      value_of (fanout_loop E p nid title body data (k + 1) ds) ?u"
    "final (fanout_loop E p nid title body data k (d # ds)) w =
      final (fanout_loop E p nid title body data (k + 1) ds) ?u"
    using get enq by (simp_all add: attempt_simps)
  have same: "oracles ?u = oracles w" by (simp add: oracles_def w')
  have "mints (length ds) ?u" using mints by (simp add: mints_def)
  moreover have "\<forall>d' \<in> set ds. \<forall>q \<in> set (recipients (w_db ?u)). \<not> same_target nid (d_ID d') q"
    using Cons.prems(6,7) by (auto simp: w' r new_recipient_def same_target_def)
  moreover have "notification_exists nid (w_db ?u)" "\<forall>d' \<in> set ds. device_exists (d_ID d') (w_db ?u)"
    using Cons.prems(4,5) by (simp_all add: w' notification_exists_def device_exists_def)
  ultimately obtain rs where "value_of (fanout_loop E p nid title body data (k + 1) ds) ?u = Inr (k + 1 + length ds)"
      "list_all2 (fanned_out nid) ds rs"
      "w_db (final (fanout_loop E p nid title body data (k + 1) ds) ?u) = (w_db ?u)\<lparr>recipients := recipients (w_db ?u) @ rs\<rparr>"
      "w_enqs (final (fanout_loop E p nid title body data (k + 1) ds) ?u) = w_enqs ?u @
        map2 (\<lambda>d r. (send_call E (send_payload p title body data r d), Enqueued)) ds rs"
      "oracles (final (fanout_loop E p nid title body data (k + 1) ds) ?u) = oracles ?u"
    using Cons.IH [of ?u "k + 1"] Cons.prems(1,2,6) oracles_cong [OF same] by auto
  moreover have "fanned_out nid d r" by (simp add: fanned_out_def r new_recipient_def same_target_def)
  ultimately show ?case unfolding step same [symmetric] by (intro exI [of _ "r # rs"]) (simp add: w')
qed (auto intro!: exI [of _ "[]"])

lemma mints_later: "mints (Suc k) w \<Longrightarrow> mints k (w\<lparr>w_stmts := Suc (w_stmts w)\<rparr>)"
  by (auto simp: mints_def inj_on_def)

lemma mints_less: "mints k w \<Longrightarrow> j \<le> k \<Longrightarrow> mints j w"
  by (auto simp: mints_def inj_on_def)

lemma Resolve_healthy:
  assumes "healthy w" and "t_DeviceIDs spec \<noteq> [] \<or> t_ExternalUserIDs spec \<noteq> []"
  shows "\<exists>ids. value_of (Registry_Resolve targeting_registry pid spec) w = Inr ids"
    and "final (Registry_Resolve targeting_registry pid spec) w = w\<lparr>w_stmts := Suc (w_stmts w)\<rparr>"
  using assms
  by (auto simp: Registry_Resolve_def targeting_registry_def NewRegistry_def ByExplicitTargets_Resolve_def
      ByGroup_Resolve_def GetDevicesByIDs_def sql_getDevicesByIDs_def
      GetActiveDevicesBySubscriberExternalIDs_def sql_getActiveDevicesBySubscriberExternalIDs_def
      attempt_simps healthy_exec)

lemma finish_fanout:
  assumes "healthy w"
  shows "value_of (CompleteNotification i ''completed'') w = Inr ()"
    and "value_of (SetNotificationTotals i n) w = Inr ()"
    and "value_of (SetNotificationStatus i ''processing'') w = Inr ()"
  using assms
  by (simp_all add: CompleteNotification_def sql_CompleteNotification_def SetNotificationTotals_def
      sql_setNotificationTotals_def SetNotificationStatus_def sql_setNotificationStatus_def healthy_exec run_stmt_def
      exec_only_def notification_statuses_def)

text \<open>Writes to the notification leave recipients, credentials and the services alone.\<close>

definition beside :: "world \<Rightarrow> recipient_row list \<times> credential_row list \<times> (enq_call \<times> enq_result) list" where
  "beside w = (recipients (w_db w), credentials (w_db w), w_enqs w)"

lemma notification_writes:
  "beside (final (CompleteNotification i st) w) = beside w" "beside (final (SetNotificationTotals i n) w) = beside w"
  "beside (final (SetNotificationStatus i st) w) = beside w"
  "oracles (final (CompleteNotification i st) w) = oracles w" "oracles (final (SetNotificationTotals i n) w) = oracles w"
  "oracles (final (SetNotificationStatus i st) w) = oracles w"
  by (simp_all add: CompleteNotification_def SetNotificationTotals_def SetNotificationStatus_def exec_final beside_def
      oracles_def sql_CompleteNotification_def sql_setNotificationTotals_def sql_setNotificationStatus_def run_stmt_def
      exec_only_def split: fault.split)

lemma notification_found:
  "distinct (map n_ID rows) \<Longrightarrow> n \<in> set rows \<Longrightarrow> n_ID n = i \<Longrightarrow> n_ProjectID n = pid \<Longrightarrow>
     find (\<lambda>m. n_ID m = i \<and> n_ProjectID m = pid) rows = Some n"
  by (induction rows) (auto simp: rev_image_eqI)

lemma HandleFanout_new:
  assumes wf: "wf_db (w_db w)" and w: "healthy w" "takes_tasks w" "mints (length (devices (w_db w)) + 3) w"
    and h: "h_Targeting h = targeting_registry"
    and n: "n \<in> set (notifications (w_db w))" "n_ID n = fp_NotificationID p" "n_ProjectID n = fp_ProjectID p"
    and spec: "unmarshal_targetSpec E (n_TargetSpec n) = Inr spec" "t_DeviceIDs spec \<noteq> [] \<or> t_ExternalUserIDs spec \<noteq> []"
    and data: "unmarshal_data (n_Data n) = Inr data"
    and new: "\<forall>r \<in> set (recipients (w_db w)). r_NotificationID r \<noteq> n_ID n"
  shows "\<exists>devs rs. value_of (HandleFanout E h p) w = Inr () \<and>
    set devs = targeted (w_db w) (fp_ProjectID p) spec \<and> list_all2 (fanned_out (n_ID n)) devs rs \<and>
    beside (final (HandleFanout E h p) w) = (recipients (w_db w) @ rs, credentials (w_db w), w_enqs w @
      map2 (\<lambda>d r. (send_call E (send_payload p (text_of (n_Title n)) (text_of (n_Body n)) data r d), Enqueued)) devs rs) \<and>
    oracles (final (HandleFanout E h p) w) = oracles w"
proof -
  let ?get = "GetNotification (fp_NotificationID p) (fp_ProjectID p)"
  let ?res = "Registry_Resolve targeting_registry (fp_ProjectID p) spec"
  let ?w1 = "w\<lparr>w_stmts := Suc (w_stmts w)\<rparr>"
  let ?w2 = "w\<lparr>w_stmts := Suc (Suc (w_stmts w))\<rparr>"
  have "find (\<lambda>m. n_ID m = fp_NotificationID p \<and> n_ProjectID m = fp_ProjectID p) (notifications (w_db w)) = Some n"
    using wf n by (auto simp: wf_db_def notifications_ok_def intro: notification_found)
  then have get: "value_of ?get w = Inr n" "final ?get w = ?w1"
    using w(1) by (simp_all add: GetNotification_def sql_getNotification_def healthy_exec)
  obtain ids where ids: "value_of ?res ?w1 = Inr ids" "final ?res ?w1 = ?w2"
    using Resolve_healthy [of ?w1 spec "fp_ProjectID p"] w(1) spec(2) by auto
  note res = Resolve_targeted [of ?w1, simplified, OF wf ids(1)]
  note run = HandleFanout_def attempt_simps h get ids spec(1)
  show ?thesis
  proof (cases "ids = []")
    case True
    with w(1) res(2) show ?thesis
      by (intro exI [of _ "[]"])
        (simp add: run finish_fanout notification_writes, simp add: beside_def oracles_def)
  next
    case False
    let ?fetch = "GetDevicesByIDs (n_ProjectID n) ids"
    let ?w3 = "w\<lparr>w_stmts := Suc (Suc (Suc (w_stmts w)))\<rparr>"
    define devs where "devs = filter (\<lambda>d. d_ProjectID d = fp_ProjectID p \<and> d_ID d \<in> set ids) (devices (w_db w))"
    have fetch: "value_of ?fetch ?w2 = Inr devs" "final ?fetch ?w2 = ?w3"
      using w(1) n(3) by (simp_all add: GetDevicesByIDs_def sql_getDevicesByIDs_def healthy_exec devs_def)
    have "mints (length devs) ?w3"
      using mints_less [OF mints_later [OF mints_later [OF mints_later]], of "length (devices (w_db w))" w "length devs"] w(3)
      by (simp add: devs_def numeral_3_eq_3)
    moreover have "distinct (map d_ID devs)"
      using wf by (simp add: devs_def wf_db_def devices_ok_def distinct_map_filter)
    moreover have "notification_exists (n_ID n) (w_db w)" "\<forall>d \<in> set devs. device_exists (d_ID d) (w_db w)"
      using n(1) by (auto simp: notification_exists_def device_exists_def devs_def)
    ultimately obtain rs where loop: "value_of (fanout_loop E p (n_ID n) (text_of (n_Title n)) (text_of (n_Body n)) data 0 devs) ?w3 = Inr (length devs)"
        "list_all2 (fanned_out (n_ID n)) devs rs"
        "beside (final (fanout_loop E p (n_ID n) (text_of (n_Title n)) (text_of (n_Body n)) data 0 devs) ?w3) =
          (recipients (w_db w) @ rs, credentials (w_db w), w_enqs w @ map2 (\<lambda>d r.
            (send_call E (send_payload p (text_of (n_Title n)) (text_of (n_Body n)) data r d), Enqueued)) devs rs)"
        "oracles (final (fanout_loop E p (n_ID n) (text_of (n_Title n)) (text_of (n_Body n)) data 0 devs) ?w3) = oracles w"
      using fanout_loop_new [of ?w3 devs "n_ID n" E p "text_of (n_Title n)" "text_of (n_Body n)" data 0] w(1,2) new
      by (auto simp: takes_tasks_def same_target_def beside_def oracles_def)
    have "healthy (final (fanout_loop E p (n_ID n) (text_of (n_Title n)) (text_of (n_Body n)) data 0 devs) ?w3)"
      using oracles_cong(1) [OF loop(4)] w(1) by simp
    moreover from this have "healthy (final (SetNotificationTotals i m) (final (fanout_loop E p (n_ID n)
        (text_of (n_Title n)) (text_of (n_Body n)) data 0 devs) ?w3))" for i m
      using oracles_cong(1) [OF notification_writes(5)] by blast
    ultimately have "value_of (HandleFanout E h p) w = Inr ()"
      "beside (final (HandleFanout E h p) w) = (recipients (w_db w) @ rs, credentials (w_db w), w_enqs w @ map2 (\<lambda>d r.
            (send_call E (send_payload p (text_of (n_Title n)) (text_of (n_Body n)) data r d), Enqueued)) devs rs)"
      "oracles (final (HandleFanout E h p) w) = oracles w"
      using loop(1,3,4) False data
      by (simp_all add: run fetch text_of_def [symmetric] Let_def finish_fanout notification_writes)
    with loop(2) res(1) show ?thesis by (intro exI [of _ devs] exI [of _ rs]) (auto simp: devs_def)
  qed
qed

section \<open>The data of a notification\<close>

lemma stored_data_decodes:
  "canonical (elems data) \<Longrightarrow> \<exists>data'. unmarshal_data (marshal_data data) = Inr data' \<and> canonical (elems data')"
  using decode_canonical [of "elems data"]
  by (cases data) (simp_all add: unmarshal_data_def marshal_data_def elems_def)

section \<open>A new notification\<close>

lemma created_new:
  assumes "wf_db (w_db w)" and "value_of (CreateNotification E pid req) w = Inr n"
    and "\<not> list_ex (key_conflict pid (TextFrom (cn_IdempotencyKey req))) (notifications (w_db w))"
  shows "n_Data n = marshal_data (cn_Data req)"
    and "\<forall>r \<in> set (recipients (w_db w)). r_NotificationID r \<noteq> n_ID n"
    and "elems (cn_DeviceIDs req) \<noteq> [] \<or> elems (cn_ExternalUserIDs req) \<noteq> []"
    and "w_stmts (final (CreateNotification E pid req) w) = Suc (w_stmts w)"
    and "oracles (final (CreateNotification E pid req) w) = oracles w"
proof -
  let ?ins = "db_CreateNotification pid (TextFrom (cn_IdempotencyKey req)) (TextFrom (cn_Title req))
    (TextFrom (cn_Body req)) (marshal_data (cn_Data req)) (marshal_targetSpec E (cn_DeviceIDs req) (cn_ExternalUserIDs req))"
  show ne: "elems (cn_DeviceIDs req) \<noteq> [] \<or> elems (cn_ExternalUserIDs req) \<noteq> []"
    using assms(2) by (auto simp: CreateNotification_def split: if_splits)
  have ins: "value_of ?ins w = Inr n"
    using assms(2,3) ne
    by (auto simp: CreateNotification_def split: sum.splits if_splits option.splits dest: db_CreateNotification_ErrNoRows)
  from db_CreateNotification_Inr(8) [OF ins] show "n_Data n = marshal_data (cn_Data req)" .
  from db_CreateNotification_Inr(2) [OF ins] assms(1)
  show "\<forall>r \<in> set (recipients (w_db w)). r_NotificationID r \<noteq> n_ID n"
    unfolding wf_db_def recipients_ok_def notification_exists_def by (metis image_eqI)
  show "w_stmts (final (CreateNotification E pid req) w) = Suc (w_stmts w)"
    using ins ne
    by (simp add: CreateNotification_def EnqueueFanout_value db_CreateNotification_def exec_final split: enq_result.split)
  show "oracles (final (CreateNotification E pid req) w) = oracles w"
    using ins ne
    by (simp add: CreateNotification_def EnqueueFanout_value kept_oracles db_CreateNotification_def oracle_rules
        split: enq_result.split) (simp add: oracles_def exec_final)
qed

lemma mints_after:
  "mints (Suc k) w \<Longrightarrow> oracles w' = oracles w \<Longrightarrow> w_stmts w' = Suc (w_stmts w) \<Longrightarrow>
     recipients (w_db w') = recipients (w_db w) \<Longrightarrow> mints k w'"
  by (auto simp: mints_def inj_on_def oracles_def)

lemma zip_partner:
  "list_all2 P xs ys \<Longrightarrow> x \<in> set xs \<Longrightarrow> \<exists>y \<in> set ys. (x, y) \<in> set (zip xs ys) \<and> P x y"
  "list_all2 P xs ys \<Longrightarrow> y \<in> set ys \<Longrightarrow> \<exists>x \<in> set xs. (x, y) \<in> set (zip xs ys) \<and> P x y"
  by (induction rule: list_all2_induct) auto

lemma fanout_task_runs:
  assumes "uuid_codec E"
  shows "run_task E h (ctx, fanout_call E nid pid) =
    do { r \<leftarrow> HandleFanout E h \<lparr>fp_NotificationID = nid, fp_ProjectID = pid\<rparr>; ret (Some r) }"
  by (simp add: run_task_def fanout_call_def AsynqFanoutHandler_def FanoutPayload_roundtrip [OF assms]
      worker_fanout [unfolded TypeFanout_def])

text \<open>The audience of a request, and the tasks asynq accepted between two states.\<close>

definition audience :: "tables \<Rightarrow> uuid \<Rightarrow> CreateNotificationRequest \<Rightarrow> device_row set" where
  "audience t pid req = targeted t pid
     \<lparr>t_DeviceIDs = elems (cn_DeviceIDs req), t_ExternalUserIDs = elems (cn_ExternalUserIDs req)\<rparr>"

definition new_tasks :: "world \<Rightarrow> world \<Rightarrow> enq_call list" where
  "new_tasks w w' = drop (length (accepted w)) (accepted w')"

text \<open>The fanout of what \<open>CreateNotification\<close> enqueued.\<close>

lemma fanout_of_created:
  assumes "uuid_codec E" and wf: "wf_db (w_db w)"
    and w: "healthy w" "takes_tasks w" "mints (length (devices (w_db w)) + 4) w"
    and created: "value_of (CreateNotification E pid req) w = Inr n"
    and new: "\<not> list_ex (key_conflict pid (TextFrom (cn_IdempotencyKey req))) (notifications (w_db w))"
    and sent: "canonical (elems (cn_Data req))"
    and h: "h = production_handlers E names mk rps"
    and w1: "w1 = final (CreateNotification E pid req) w"
    and w2: "w2 = final (run_task E h (ctx, fanout_call E (n_ID n) pid)) w1"
  obtains devs rs p title body data where "value_of (run_task E h (ctx, fanout_call E (n_ID n) pid)) w1 = Some (Inr ())"
    and "set devs = audience (w_db w) pid req" and "list_all2 (fanned_out (n_ID n)) devs rs"
    and "recipients (w_db w2) = recipients (w_db w) @ rs" and "credentials (w_db w2) = credentials (w_db w)"
    and "new_tasks w1 w2 = map2 (\<lambda>d r. send_call E (send_payload p title body data r d)) devs rs"
    and "fp_ProjectID p = pid" and "canonical (elems data)" and "oracles w2 = oracles w" and "wf_db (w_db w2)"
proof -
  let ?p = "\<lparr>fp_NotificationID = n_ID n, fp_ProjectID = pid\<rparr>"
  note made = created_new [OF wf created new]
  from CreateNotification_sound [OF created] new have n: "n \<in> set (notifications (w_db w1))" "n_ProjectID n = pid"
    "w_db w1 = (w_db w)\<lparr>notifications := notifications (w_db w) @ [n]\<rparr>"
    "n_TargetSpec n = marshal_targetSpec E (cn_DeviceIDs req) (cn_ExternalUserIDs req)" by (auto simp: Let_def w1)
  obtain data where data: "unmarshal_data (n_Data n) = Inr data" "canonical (elems data)"
    using stored_data_decodes [OF sent] made(1) by auto
  have wf1: "wf_db (w_db w1)" unfolding w1 using CreateNotification_moves wf by (rule db_moves_wf)
  have same: "oracles w1 = oracles w" using made(5) by (simp add: w1)
  have mints: "mints (length (devices (w_db w1)) + 3) w1"
    using mints_after [OF _ same, of "length (devices (w_db w)) + 3"] w(3) made(4)
    by (simp add: n(3) w1 [symmetric] eval_nat_numeral)
  have run: "run_task E h (ctx, fanout_call E (n_ID n) pid) = do { r \<leftarrow> HandleFanout E h ?p; ret (Some r) }"
    by (rule fanout_task_runs [OF assms(1)])
  have "targeted (w_db w1) pid spec = targeted (w_db w) pid spec" for spec by (simp add: targeted_def n(3))
  with HandleFanout_new [OF wf1 _ _ mints production_targeting [of E names mk rps, folded h] n(1) _ _ _ _ data(1), of ?p E
      "\<lparr>t_DeviceIDs = elems (cn_DeviceIDs req), t_ExternalUserIDs = elems (cn_ExternalUserIDs req)\<rparr>"]
    w(1,2) oracles_cong [OF same] n made(2,3) targetSpec_roundtrip [OF assms(1)]
  obtain devs rs where fan: "value_of (HandleFanout E h ?p) w1 = Inr ()" "set devs = audience (w_db w) pid req"
    "list_all2 (fanned_out (n_ID n)) devs rs"
    "beside (final (HandleFanout E h ?p) w1) = (recipients (w_db w1) @ rs, credentials (w_db w1), w_enqs w1 @
      map2 (\<lambda>d r. (send_call E (send_payload ?p (text_of (n_Title n)) (text_of (n_Body n)) data r d), Enqueued)) devs rs)"
    "oracles (final (HandleFanout E h ?p) w1) = oracles w1" by (auto simp: audience_def)
  have "final (HandleFanout E h ?p) w1 = w2" by (simp add: w2 run)
  note fan = fan [unfolded this]
  have "new_tasks w1 w2 = map2 (\<lambda>d r. send_call E (send_payload ?p (text_of (n_Title n)) (text_of (n_Body n)) data r d)) devs rs"
    using fan(4) by (simp add: new_tasks_def accepted_def beside_def filter_map comp_def split_beta)
  moreover have "wf_db (w_db w2)"
    using HandleFanout_moves [OF production_targeting [of E names mk rps, folded h], of E ?p] wf1
    by (auto simp: w2 run intro: db_moves_wf)
  ultimately show ?thesis
    using fan n(3) same data(2) by (intro that [of devs rs ?p]) (auto simp: run beside_def)
qed

text \<open>Running the tasks of a fanout, in any order and any number of times each.\<close>

lemma tasks_deliver:
  fixes send :: "device_row \<Rightarrow> recipient_row \<Rightarrow> SendPayload"
  assumes h: "h = production_handlers E names mk rps" and codec: "uuid_codec E" and w: "healthy w" "never_limits w"
    and ids: "distinct (map r_ID (recipients (w_db w)))" and rs: "recipients (w_db w) = old @ rs"
    and old: "\<forall>r \<in> set old. r_NotificationID r \<noteq> nid" and fan: "list_all2 (fanned_out nid) devs rs"
    and pair: "\<And>d r. (d, r) \<in> set (zip devs rs) \<Longrightarrow> awaiting E h w (send d r) \<and> sp_RecipientID (send d r) = r_ID r"
    and ts: "snd ` set ts = set (map2 (\<lambda>d r. send_call E (send d r)) devs rs)"
  shows "set (value_of (run_tasks E h ts) w) \<subseteq> {Some (Inr ())}"
    and "d \<in> set devs \<Longrightarrow> \<exists>r \<in> set (recipients (w_db (final (run_tasks E h ts) w))). same_target nid (d_ID d) r"
    and "r \<in> set (recipients (w_db (final (run_tasks E h ts) w))) \<Longrightarrow> r_NotificationID r = nid \<Longrightarrow>
      r_Status r = ''sent'' \<and> r_AttemptCount r = 1"
proof -
  let ?ids = "{i. \<exists>t \<in> set ts. e_TaskID (snd t) = Some (uuid_String E i)}"
  have tasks: "\<forall>t \<in> set ts. \<exists>q. snd t = send_call E q \<and> awaiting E h w q"
  proof
    fix t assume "t \<in> set ts"
    then have "snd t \<in> set (map2 (\<lambda>d r. send_call E (send d r)) devs rs)" using ts by blast
    then show "\<exists>q. snd t = send_call E q \<and> awaiting E h w q" using pair by auto
  qed
  from in_delivery_run [OF h codec w ids tasks in_delivery_start]
  show "set (value_of (run_tasks E h ts) w) \<subseteq> {Some (Inr ())}" by simp
  from in_delivery_run [OF h codec w ids tasks in_delivery_start]
  have rows: "list_all2 (progress ?ids) (old @ rs) (recipients (w_db (final (run_tasks E h ts) w)))"
    by (auto simp: in_delivery_def rs)
  have named: "r_ID r \<in> ?ids" if r: "r \<in> set rs" for r
  proof -
    obtain d where d: "(d, r) \<in> set (zip devs rs)" using zip_partner(2) [OF fan r] by blast
    then have "send_call E (send d r) \<in> snd ` set ts" unfolding ts by force
    with pair [OF d] show ?thesis by (force simp: send_call_def Let_def)
  qed
  show "\<exists>r \<in> set (recipients (w_db (final (run_tasks E h ts) w))). same_target nid (d_ID d) r" if d: "d \<in> set devs"
  proof -
    obtain r0 where "r0 \<in> set rs" "fanned_out nid d r0" using zip_partner(1) [OF fan d] by blast
    with zip_partner(1) [OF rows, of r0] show ?thesis
      by (auto simp: fanned_out_def same_target_def dest!: progress_simps)
  qed
  show "r_Status r = ''sent'' \<and> r_AttemptCount r = 1"
    if r: "r \<in> set (recipients (w_db (final (run_tasks E h ts) w)))" "r_NotificationID r = nid"
  proof -
    obtain r0 where r0: "r0 \<in> set (old @ rs)" "progress ?ids r0 r" using zip_partner(2) [OF rows r(1)] by blast
    then have "r0 \<in> set rs" using r(2) progress_simps [OF r0(2)] old by auto
    then obtain d where "r_ID r0 \<in> ?ids" "fanned_out nid d r0" using zip_partner(2) [OF fan] named by blast
    then show ?thesis using r0(2) unfolding progress_def if_P [OF \<open>r_ID r0 \<in> ?ids\<close>]
      by (auto simp: delivered_def sending_def fanned_out_def)
  qed
qed

section \<open>Properties\<close>

text \<open>
  C3. An accepted notification is delivered. If the services do their part (Postgres serves every
  statement and mints fresh UUIDs, the data are such as a request decodes to, the queue takes every task, Redis admits every push, and each
  provider of the audience has an active credential and accepts what it is sent), then the worker
  runs the one task a newly created notification enqueued, its fanout, successfully, and whatever the order in
  which it takes the tasks this enqueued, and however often it takes each of them, every run
  succeeds and in the end each device the request named has its recipient, and every recipient of
  the notification is sent, once.
\<close>

theorem accepted_delivered:
  assumes codec: "uuid_codec E" and wf: "wf_db (w_db w)"
    and w: "healthy w" "takes_tasks w" "never_limits w" "mints (length (devices (w_db w)) + 4) w"
    and created: "value_of (CreateNotification E pid req) w = Inr n"
    and new: "\<not> list_ex (key_conflict pid (TextFrom (cn_IdempotencyKey req))) (notifications (w_db w))"
    and sent: "canonical (elems (cn_Data req))" and h: "h = production_handlers E names mk rps"
    and ready: "\<forall>d \<in> audience (w_db w) pid req. provider_ready E h pid w (d_ProviderType d)"
    and w1: "w1 = final (CreateNotification E pid req) w"
    and w2: "w2 = final (run_task E h (ctx, fanout_call E (n_ID n) pid)) w1"
    and ts: "snd ` set ts = set (new_tasks w1 w2)"
  shows "new_tasks w w1 = [fanout_call E (n_ID n) pid] \<and>
    value_of (run_task E h (ctx, fanout_call E (n_ID n) pid)) w1 = Some (Inr ()) \<and>
    set (value_of (run_tasks E h ts) w2) \<subseteq> {Some (Inr ())} \<and>
    (\<forall>d \<in> audience (w_db w) pid req. \<exists>r \<in> set (recipients (w_db (final (run_tasks E h ts) w2))).
       same_target (n_ID n) (d_ID d) r) \<and>
    (\<forall>r \<in> set (recipients (w_db (final (run_tasks E h ts) w2))). r_NotificationID r = n_ID n \<longrightarrow>
       r_Status r = ''sent'' \<and> r_AttemptCount r = 1)"
proof (rule fanout_of_created [OF codec wf w(1,2,4) created new sent h w1 w2], goal_cases)
  case (1 devs rs p title body data)
  let ?send = "\<lambda>d r. send_payload p title body data r d"
  have ids: "distinct (map r_ID (recipients (w_db w2)))" using 1(10) by (simp add: wf_db_def recipients_ok_def)
  have pair: "awaiting E h w2 (?send d r) \<and> sp_RecipientID (?send d r) = r_ID r" if "(d, r) \<in> set (zip devs rs)" for d r
  proof -
    have "fanned_out (n_ID n) d r" using 1(3) that by (auto simp: list_all2_iff)
    moreover have "r \<in> set (recipients (w_db w2))" using that 1(4) by (auto dest: set_zip_rightD)
    moreover have d: "d \<in> audience (w_db w) pid req" using that 1(2) by (auto dest: set_zip_leftD)
    then have "provider_ready E h pid w2 (d_ProviderType d)"
      using ready provider_ready_later [OF 1(9,5)] by blast
    moreover have "d_ProviderType d \<in> set provider_types"
      using d wf by (auto simp: audience_def targeted_def wf_db_def devices_ok_def split: if_splits)
    ultimately show ?thesis using 1(7,8) by (auto simp: awaiting_def send_payload_def fanned_out_def)
  qed
  have "healthy w2" "never_limits w2" using w(1,3) oracles_cong [OF 1(9)] by simp_all
  note run = tasks_deliver [OF h codec this ids 1(4) created_new(2) [OF wf created new] 1(3) pair ts [unfolded 1(6)]]
  have first: "new_tasks w w1 = [fanout_call E (n_ID n) pid]"
    using CreateNotification_sound [OF created] new by (simp add: new_tasks_def accepted_def w1 Let_def)
  from first 1(1,2) run show ?case by blast
qed

text \<open>A project with one Expo device, whose push server answers every request with an ok ticket.\<close>

definition delivery_world :: world where
  "delivery_world = expo_world\<lparr>w_db := sample_db\<lparr>devices := [sample_device\<lparr>d_ProviderType := ''expo''\<rparr>],
     credentials := [expo_credential]\<rparr>\<rparr>"

lemma codec_expo: "uuid_codec sample_ext"
  using uuid_codec_sample by (simp add: uuid_codec_def)

lemma delivery_world_wf: "wf_db (w_db delivery_world)"
  using wf_sample_db
  by (simp add: delivery_world_def wf_db_def notifications_ok_def recipients_ok_def devices_ok_def
      subscribers_ok_def sample_db_def empty_db_def sample_project_def project_exists_def subscriber_exists_def
      check_lists accounts_ok_def expo_credential_def sample_credential_def sample_device_def sample_subscriber_def)

lemma delivery_world_serves:
  "healthy delivery_world" "takes_tasks delivery_world" "never_limits delivery_world"
  "mints (length (devices (w_db delivery_world)) + 4) delivery_world"
proof -
  have unat: "unat (word_of_nat k :: uuid) = k" if "k < 200" for k using that by (simp add: unat_of_nat)
  have "x = y" if eq: "word_of_nat (100 + x) = (word_of_nat (100 + y) :: uuid)" and "x < 5" "y < 5" for x y
  proof -
    have "unat (word_of_nat (100 + x) :: uuid) = unat (word_of_nat (100 + y) :: uuid)" unfolding eq by (rule refl)
    then have "100 + x = 100 + y" using unat [of "100 + x"] unat [of "100 + y"] that(2,3) by linarith
    then show ?thesis by simp
  qed
  then show "mints (length (devices (w_db delivery_world)) + 4) delivery_world"
    by (auto simp: mints_def inj_on_def delivery_world_def expo_world_def sending_simps sample_db_def empty_db_def)
qed (simp_all add: healthy_def takes_tasks_def never_limits_def delivery_world_def expo_world_def sending_simps)

lemma expo_ready: "provider_ready sample_ext expo_handlers 1 delivery_world ''expo''"
proof -
  have "sr_Status (fst (value_of (expo_Send cred req) v)) = StatusSent"
    if "oracles v = oracles delivery_world" for v cred req
    using that expo_read_sample
    by (simp add: oracles_def delivery_world_def expo_world_def expo_Send_def http_Do_def no_result_def)
  moreover have "find (\<lambda>c. same_provider 1 ''expo'' environment c \<and> c_IsActive c) (credentials (w_db delivery_world)) =
      Some expo_credential"
    by (simp add: delivery_world_def expo_credential_def sample_credential_def same_provider_def environment_def)
  moreover have "h_Crypto expo_handlers = replicate 32 (CHR ''k'')" "h_Get expo_handlers ''expo'' = Some expo_adapter"
    by (simp_all add: expo_handlers_def production_handlers_def provider_Get_table)
  ultimately show ?thesis
    using expo_credential_opens unfolding provider_ready_def by (auto simp: expo_adapter_def)
qed

lemma delivery_created: "\<exists>n. value_of (CreateNotification sample_ext 1 sample_request) delivery_world = Inr n"
  by (simp add: CreateNotification_def sample_request_def db_CreateNotification_def
      sql_createNotification_def exec_value exec_final next_env_def run_stmt_def delivery_world_def expo_world_def
      sending_world_def sample_defs Let_def notification_exists_def project_exists_def EnqueueFanout_value)

theorem accepted_delivered_witness:
  "\<exists>n ts. let w1 = final (CreateNotification sample_ext 1 sample_request) delivery_world;
       w2 = final (run_task sample_ext expo_handlers (\<lparr>GetRetryCount = Some 0, GetMaxRetry = Some 3\<rparr>,
         fanout_call sample_ext (n_ID n) 1)) w1
     in value_of (CreateNotification sample_ext 1 sample_request) delivery_world = Inr n \<and>
       (\<exists>r \<in> set (recipients (w_db (final (run_tasks sample_ext expo_handlers ts) w2))).
         same_target (n_ID n) 7 r \<and> r_Status r = ''sent'')"
proof -
  obtain n where n: "value_of (CreateNotification sample_ext 1 sample_request) delivery_world = Inr n"
    using delivery_created by blast
  let ?ctx = "\<lparr>GetRetryCount = Some 0, GetMaxRetry = Some 3\<rparr> :: task_ctx"
  let ?w1 = "final (CreateNotification sample_ext 1 sample_request) delivery_world"
  let ?w2 = "final (run_task sample_ext expo_handlers (?ctx, fanout_call sample_ext (n_ID n) 1)) ?w1"
  let ?ts = "map (Pair ?ctx) (new_tasks ?w1 ?w2)"
  have fresh: "\<not> list_ex (key_conflict 1 (TextFrom (cn_IdempotencyKey sample_request))) (notifications (w_db delivery_world))"
    by (simp add: delivery_world_def sample_db_def empty_db_def)
  have aud: "audience (w_db delivery_world) 1 sample_request = {sample_device\<lparr>d_ProviderType := ''expo''\<rparr>}"
    by (auto simp: audience_def targeted_def sample_request_def delivery_world_def sample_db_def sample_device_def)
  then have ready: "\<forall>d \<in> audience (w_db delivery_world) 1 sample_request.
      provider_ready sample_ext expo_handlers 1 delivery_world (d_ProviderType d)" using expo_ready by simp
  have ts: "snd ` set ?ts = set (new_tasks ?w1 ?w2)" by (simp add: image_image)
  have sent: "canonical (elems (cn_Data sample_request))" by (simp add: sample_request_def)
  from accepted_delivered [OF codec_expo delivery_world_wf delivery_world_serves n fresh sent expo_handlers_def ready refl refl ts]
    n aud show ?thesis
    by (intro exI [of _ n] exI [of _ ?ts]) (auto simp: Let_def sample_device_def same_target_def)
qed

section \<open>No recipient is left behind\<close>

text \<open>
  When asynq is done with a task: it succeeded, asked not to be retried, or failed on its last
  attempt. An error that is no failure (throttling) is retried without counting.
\<close>

definition given_up :: "task_ctx \<Rightarrow> goerr + unit \<Rightarrow> bool" where
  "given_up ctx res \<longleftrightarrow> (case res of Inr () \<Rightarrow> True
     | Inl e \<Rightarrow> IsFailure e \<and> (errors_is e ErrSkipRetry \<or>
         (\<exists>retried allowed. GetRetryCount ctx = Some retried \<and> GetMaxRetry ctx = Some allowed \<and> allowed \<le> retried)))"

text \<open>The errors of the provider of a task are not asynq's own.\<close>

definition foreign_errors :: "Handlers \<Rightarrow> world \<Rightarrow> string \<Rightarrow> bool" where
  "foreign_errors h w prov \<longleftrightarrow> (\<forall>a cred req v result sendErr. h_Get h prov = Some a \<longrightarrow> oracles v = oracles w \<longrightarrow>
     value_of (a_Send a cred req) v = (result, sendErr) \<longrightarrow>
     (\<forall>e. firstNonNilErr [sendErr, sr_Err result] = Some e \<longrightarrow> \<not> errors_is e ErrSkipRetry))"

definition settled :: "uuid \<Rightarrow> world \<Rightarrow> bool" where
  "settled i w \<longleftrightarrow> (\<exists>r. find (\<lambda>r. r_ID r = i) (recipients (w_db w)) = Some r \<and> r_Status r \<in> terminalRecipientStatuses)"

text \<open>
  What an attempt leaves of the row: it is still there, counts at most one attempt more, and is
  terminal if asynq gives up.
\<close>

definition row_after :: "uuid \<Rightarrow> recipient_row \<Rightarrow> bool \<Rightarrow> world \<Rightarrow> bool" where
  "row_after i r over w' \<longleftrightarrow> (\<exists>r'. find (\<lambda>r. r_ID r = i) (recipients (w_db w')) = Some r' \<and>
     r_AttemptCount r' \<in> {r_AttemptCount r, r_AttemptCount r + 1} \<and>
     (over \<longrightarrow> r_Status r' \<in> terminalRecipientStatuses))"

lemma row_after_upd:
  assumes "find (\<lambda>r. r_ID r = i) (recipients (w_db w)) = Some r" and "\<And>q. r_ID (f q) = r_ID q"
    and "recipients (w_db w') = upd_where (\<lambda>r. r_ID r = i) f (recipients (w_db w))"
    and "r_AttemptCount (f r) = r_AttemptCount r + 1" and "over \<Longrightarrow> r_Status (f r) \<in> terminalRecipientStatuses"
  shows "row_after i r over w'"
proof -
  have "find (\<lambda>r. r_ID r = i) (recipients (w_db w')) = Some (f r)"
    using assms(1-3) find_SomeD [OF assms(1)] by (simp add: find_upd_where)
  with assms(4,5) show ?thesis by (auto simp: row_after_def)
qed

text \<open>An outcome asynq gives up on, and the row it leaves.\<close>

lemma given_up_recorded:
  assumes "given_up ctx (case task_error result sendErr of None \<Rightarrow> Inr () | Some e \<Rightarrow> Inl e)"
    and "\<forall>e. firstNonNilErr [sendErr, sr_Err result] = Some e \<longrightarrow> \<not> errors_is e ErrSkipRetry"
  shows "r_Status (recorded ctx result sendErr now q) \<in> terminalRecipientStatuses"
  using assms
  by (cases "sr_Status result")
    (auto simp: given_up_def task_error_def recorded_def failed_row_def terminalRecipientStatuses_def IsFailure_def isLastAttempt_def
      split: option.splits if_splits)

lemma recorded_frame: "r_ID (recorded ctx result sendErr now q) = r_ID q" "r_ID (failed_row code message now q) = r_ID q"
  by (simp_all add: recorded_def failed_row_def split: Status.split)

lemma sending_frame: "r_ID (sending q) = r_ID q"
  by (simp add: sending_def)

lemma denied_not_given_up: "\<not> given_up ctx (Inl (ErrThrottled d (limit_error E p)))"
  by (simp add: given_up_def IsFailure_def limit_error_def)

lemma recorded_attempts:
  "r_AttemptCount (recorded ctx result sendErr now q) = r_AttemptCount q" "r_AttemptCount (failed_row code message now q) = r_AttemptCount q"
  "r_AttemptCount (sending q) = r_AttemptCount q + 1"
  by (simp_all add: recorded_def failed_row_def sending_def split: Status.split)

lemma HandleSend_attempt:
  assumes h: "h = production_handlers E names mk rps" and w: "healthy w"
    and r: "find (\<lambda>r. r_ID r = sp_RecipientID p) (recipients (w_db w)) = Some r" "r_AttemptCount r \<noteq> max_int4"
    and foreign: "foreign_errors h w (sp_ProviderType p)"
  shows "row_after (sp_RecipientID p) r (given_up ctx (value_of (HandleSend E h ctx p) w)) (final (HandleSend E h ctx p) w)"
proof (cases "r_Status r \<in> terminalRecipientStatuses")
  case True
  from HandleSend_done(2) [OF w r(1) True] True r(1) show ?thesis by (simp add: row_after_def)
next
  case live: False
  let ?u = "final (GetNotificationRecipient (sp_RecipientID p)) w"
  show ?thesis
  proof (cases "fst (value_of (limit_check E h p) ?u)")
    case False
    then obtain d where "value_of (limit_check E h p) ?u = (False, d)" by (metis (full_types) prod.collapse)
    with w r(1) live have denied: "value_of (HandleSend E h ctx p) w = Inl (ErrThrottled d (limit_error E p))"
      "w_db (final (HandleSend E h ctx p) w) = w_db w"
      by (simp_all add: HandleSend_def attempt_simps GetNotificationRecipient_def sql_getNotificationRecipient_def
          healthy_exec run_stmt_def limit_check_db)
    with r(1) show ?thesis by (simp add: row_after_def denied_not_given_up)
  next
    case allowed: True
    note sent = w r(1) live r(2) allowed
    show ?thesis
    proof (cases "refusal E h p (w_db w)")
      case (Some code)
      from send_task_refused [OF sent this, of ctx] obtain message now where
        "w_db (final (HandleSend E h ctx p) w) = (w_db w)\<lparr>recipients :=
          upd_where (\<lambda>r. r_ID r = sp_RecipientID p) (failed_row code message now \<circ> sending) (recipients (w_db w))\<rparr>" by blast
      then show ?thesis
        by (intro row_after_upd [OF r(1), of "failed_row code message now \<circ> sending"])
          (simp_all add: recorded_frame sending_frame recorded_attempts, simp add: failed_row_def terminalRecipientStatuses_def)
    next
      case None
      then obtain c cred a where ok: "find (\<lambda>c. same_provider (sp_ProjectID p) (sp_ProviderType p) environment c \<and> c_IsActive c)
          (credentials (w_db w)) = Some c" "Open E (h_Crypto h) (c_WrappedDek c) (c_Credential c) = Inr cred"
        "h_Get h (sp_ProviderType p) = Some a"
        by (auto simp: refusal_def split: option.splits sum.splits if_splits)
      obtain result sendErr where res: "value_of (a_Send a cred (send_request p)) (at_sending E h p w) = (result, sendErr)"
        by fastforce
      have push: "push_adapter (a_Send a)" using ok(3) production_adapters_ok h by (auto simp: adapters_ok_def)
      have clean: "\<forall>e. firstNonNilErr [sendErr, sr_Err result] = Some e \<longrightarrow> \<not> errors_is e ErrSkipRetry"
        using foreign ok(3) res at_sending_oracles unfolding foreign_errors_def by blast
      show ?thesis
      proof (rule HandleSend_reaches [OF sent ok push res, of ctx], goal_cases)
        case (1 w5)
        from record_outcome_healthy(1) [OF 1(1), of ctx p result sendErr] obtain now where
          "recipients (w_db (final (HandleSend E h ctx p) w)) =
             upd_where (\<lambda>r. r_ID r = sp_RecipientID p) (recorded ctx result sendErr now \<circ> sending) (recipients (w_db w))"
          by (auto simp: 1(2,3) upd_where_twice sending_def)
        then show ?case
          using given_up_recorded [OF _ clean] unfolding 1(4) record_outcome_healthy(2) [OF 1(1)]
          by (intro row_after_upd [OF r(1), of "recorded ctx result sendErr now \<circ> sending"])
            (simp_all add: recorded_frame sending_frame recorded_attempts)
      qed
    qed
  qed
qed

end
