(* ===== verification/Retry.thy ===== *)
theory Retry imports Delivery begin

text \<open>
  The retries of a send task: asynq runs \<open>HandleSend\<close> again after each failure, with the counts
  \<open>isLastAttempt\<close> reads, and \<open>queue.IsFailure\<close> decides which errors count.
\<close>

section \<open>A send task from its first attempt to its last\<close>

text \<open>
  What asynq does with a send task: it runs it until it gives up, counting the failures; an error
  that is no failure (a throttled send) is not counted. Between two attempts the rest of the
  system may do anything that leaves the recipient's row in place.
\<close>

datatype job = Queued nat nat world | Over nat nat world

definition attempt_ctx :: "nat \<Rightarrow> nat \<Rightarrow> task_ctx" where
  "attempt_ctx failures allowed = \<lparr>GetRetryCount = Some failures, GetMaxRetry = Some allowed\<rparr>"

inductive job_step :: "ext \<Rightarrow> Handlers \<Rightarrow> nat \<Rightarrow> SendPayload \<Rightarrow> job \<Rightarrow> job \<Rightarrow> bool" for E h allowed p where
  given_up: "given_up (attempt_ctx failures allowed) (value_of (HandleSend E h (attempt_ctx failures allowed) p) w) \<Longrightarrow>
     job_step E h allowed p (Queued failures throttled w)
       (Over failures throttled (final (HandleSend E h (attempt_ctx failures allowed) p) w))"
| failure: "value_of (HandleSend E h (attempt_ctx failures allowed) p) w = Inl e \<Longrightarrow> IsFailure e \<Longrightarrow>
     \<not> given_up (attempt_ctx failures allowed) (Inl e) \<Longrightarrow>
     job_step E h allowed p (Queued failures throttled w)
       (Queued (Suc failures) throttled (final (HandleSend E h (attempt_ctx failures allowed) p) w))"
| throttle: "value_of (HandleSend E h (attempt_ctx failures allowed) p) w = Inl e \<Longrightarrow> \<not> IsFailure e \<Longrightarrow>
     job_step E h allowed p (Queued failures throttled w)
       (Queued failures (Suc throttled) (final (HandleSend E h (attempt_ctx failures allowed) p) w))"
| elsewhere: "oracles w' = oracles w \<Longrightarrow>
     find (\<lambda>r. r_ID r = sp_RecipientID p) (recipients (w_db w)) = Some r \<Longrightarrow>
     find (\<lambda>r. r_ID r = sp_RecipientID p) (recipients (w_db w')) = Some r' \<Longrightarrow>
     r_AttemptCount r' = r_AttemptCount r \<Longrightarrow>
     job_step E h allowed p (Queued failures throttled w) (Queued failures throttled w')"

fun job_failures :: "job \<Rightarrow> nat" where
  "job_failures (Queued failures throttled w) = failures"
| "job_failures (Over failures throttled w) = failures"

fun job_throttled :: "job \<Rightarrow> nat" where
  "job_throttled (Queued failures throttled w) = throttled"
| "job_throttled (Over failures throttled w) = throttled"

section \<open>Lemmas\<close>

inductive_cases job_step_queuedE: "job_step E h allowed p (Queued failures throttled w) s"
inductive_simps job_step_over [simp]: "job_step E h allowed p (Over failures throttled w) s"

text \<open>The queue is never stuck: an attempt ends in one of the three ways.\<close>

lemma job_step_exists: "\<exists>s. job_step E h allowed p (Queued failures throttled w) s \<and>
    (job_failures s + job_throttled s = Suc (failures + throttled) \<or> (\<exists>v. s = Over failures throttled v))"
proof (cases "value_of (HandleSend E h (attempt_ctx failures allowed) p) w")
  case (Inl e)
  then show ?thesis
    using given_up failure [OF Inl] throttle [OF Inl]
    by (cases "given_up (attempt_ctx failures allowed) (Inl e)"; cases "IsFailure e") (force simp: Inl)+
next
  case (Inr u)
  then have "given_up (attempt_ctx failures allowed) (value_of (HandleSend E h (attempt_ctx failures allowed) p) w)"
    by (simp add: given_up_def split: unit.split)
  from given_up [OF this] show ?thesis by fastforce
qed

text \<open>What holds of a task that started with \<open>c\<close> attempts on record.\<close>

definition job_inv :: "nat \<Rightarrow> nat \<Rightarrow> world \<Rightarrow> SendPayload \<Rightarrow> job \<Rightarrow> bool" where
  "job_inv allowed c w0 p s \<longleftrightarrow> job_failures s \<le> allowed \<and>
     (case s of
        Queued failures throttled w \<Rightarrow> oracles w = oracles w0 \<and>
          (\<exists>r. find (\<lambda>r. r_ID r = sp_RecipientID p) (recipients (w_db w)) = Some r \<and>
             unat (r_AttemptCount r) \<le> c + failures + throttled)
      | Over failures throttled w \<Rightarrow> settled (sp_RecipientID p) w)"

lemma attempt_row:
  assumes "h = production_handlers E names mk rps" "healthy w0" "foreign_errors h w0 (sp_ProviderType p)"
    and "oracles w = oracles w0" "find (\<lambda>r. r_ID r = sp_RecipientID p) (recipients (w_db w)) = Some r"
    and "unat (r_AttemptCount r) \<le> c" "c < 2 ^ 31 - 1"
  shows "\<exists>r'. find (\<lambda>r. r_ID r = sp_RecipientID p) (recipients (w_db (final (HandleSend E h ctx p) w))) = Some r' \<and>
      unat (r_AttemptCount r') \<le> Suc c \<and>
      (given_up ctx (value_of (HandleSend E h ctx p) w) \<longrightarrow> r_Status r' \<in> terminalRecipientStatuses)"
    and "oracles (final (HandleSend E h ctx p) w) = oracles w0"
proof -
  have same: "healthy w" "foreign_errors h w (sp_ProviderType p)"
    using assms(2-4) healthy_oracles [of w w0] by (simp_all add: foreign_errors_def)
  have "r_AttemptCount r \<noteq> max_int4" using assms(6,7) by (auto simp: max_int4_def)
  from HandleSend_attempt [OF assms(1) same(1) assms(5) this same(2), of ctx] obtain r' where
    r': "find (\<lambda>r. r_ID r = sp_RecipientID p) (recipients (w_db (final (HandleSend E h ctx p) w))) = Some r'"
      "r_AttemptCount r' \<in> {r_AttemptCount r, r_AttemptCount r + 1}"
      "given_up ctx (value_of (HandleSend E h ctx p) w) \<longrightarrow> r_Status r' \<in> terminalRecipientStatuses"
    unfolding row_after_def by blast
  moreover have "unat (r_AttemptCount r + 1) \<le> Suc (unat (r_AttemptCount r))"
    using unat_word_ariths(1) [of "r_AttemptCount r" 1] by simp
  ultimately show "\<exists>r'. find (\<lambda>r. r_ID r = sp_RecipientID p) (recipients (w_db (final (HandleSend E h ctx p) w))) = Some r' \<and>
      unat (r_AttemptCount r') \<le> Suc c \<and>
      (given_up ctx (value_of (HandleSend E h ctx p) w) \<longrightarrow> r_Status r' \<in> terminalRecipientStatuses)"
    using assms(6) by auto
  show "oracles (final (HandleSend E h ctx p) w) = oracles w0"
    using kept_oracles [OF send_oracles [of E names mk rps ctx p], of w] assms(1,4) by simp
qed


lemma job_inv_step:
  assumes "h = production_handlers E names mk rps" "healthy w0" "foreign_errors h w0 (sp_ProviderType p)"
    and "job_step E h allowed p s s'" "job_inv allowed c w0 p s" "c + allowed + job_throttled s < 2 ^ 31 - 1"
  shows "job_inv allowed c w0 p s'"
  using assms(4)
proof cases
  case (elsewhere w' w r r' failures throttled)
  with assms(5) show ?thesis by (auto simp: job_inv_def)
next
  case (given_up failures w throttled)
  with assms(5) obtain r where r: "oracles w = oracles w0" "find (\<lambda>r. r_ID r = sp_RecipientID p) (recipients (w_db w)) = Some r"
      "unat (r_AttemptCount r) \<le> c + failures + throttled" "failures \<le> allowed"
    by (auto simp: job_inv_def)
  from attempt_row(1) [OF assms(1-3) r(1-3), of "attempt_ctx failures allowed"] r(4) assms(6) given_up show ?thesis
    by (auto simp: job_inv_def settled_def)
next
  case (failure failures w e throttled)
  with assms(5) obtain r where r: "oracles w = oracles w0" "find (\<lambda>r. r_ID r = sp_RecipientID p) (recipients (w_db w)) = Some r"
      "unat (r_AttemptCount r) \<le> c + failures + throttled" "failures \<le> allowed"
    by (auto simp: job_inv_def)
  from failure(4,5) have "Suc failures \<le> allowed" by (auto simp: given_up_def attempt_ctx_def)
  with attempt_row [OF assms(1-3) r(1-3), of "attempt_ctx failures allowed"] r(4) assms(6) failure show ?thesis
    by (auto simp: job_inv_def)
next
  case (throttle failures w e throttled)
  with assms(5) obtain r where r: "oracles w = oracles w0" "find (\<lambda>r. r_ID r = sp_RecipientID p) (recipients (w_db w)) = Some r"
      "unat (r_AttemptCount r) \<le> c + failures + throttled" "failures \<le> allowed"
    by (auto simp: job_inv_def)
  from attempt_row [OF assms(1-3) r(1-3), of "attempt_ctx failures allowed"] r(4) assms(6) throttle show ?thesis
    by (auto simp: job_inv_def)
qed

lemma job_throttled_mono: "job_step E h allowed p s s' \<Longrightarrow> job_throttled s \<le> job_throttled s'"
  by (induction rule: job_step.induct) simp_all

lemma job_inv_steps:
  assumes "h = production_handlers E names mk rps" "healthy w0" "foreign_errors h w0 (sp_ProviderType p)"
    and "(job_step E h allowed p)\<^sup>*\<^sup>* s s'" "job_inv allowed c w0 p s" "c + allowed + job_throttled s' < 2 ^ 31 - 1"
  shows "job_inv allowed c w0 p s'"
  using assms(4,6)
proof (induction rule: rtranclp_induct)
  case base
  show ?case by (rule assms(5))
next
  case (step s1 s2)
  from step.prems job_throttled_mono [OF step.hyps(2)] have small: "c + allowed + job_throttled s1 < 2 ^ 31 - 1" by simp
  from job_inv_step [OF assms(1-3) step.hyps(2) step.IH [OF small] small] show ?case .
qed

section \<open>Properties\<close>

text \<open>
  C4. No recipient is left behind. Whatever the provider answers, whether or not the project has a
  credential for it, and whatever else the system does in between: when the database serves its
  statements, a send task never fails more often than asynq allows, it can always go on to its next
  attempt until it is over, so that one that is not over after \<open>k\<close> attempts has been throttled at
  least \<open>k - allowed\<close> times; and when it is over, its recipient is sent or failed.
\<close>

theorem send_task_ends:
  assumes "h = production_handlers E names mk rps" "healthy w" "foreign_errors h w (sp_ProviderType p)"
    and "find (\<lambda>r. r_ID r = sp_RecipientID p) (recipients (w_db w)) = Some r"
    and "(job_step E h allowed p)\<^sup>*\<^sup>* (Queued 0 0 w) s"
    and "unat (r_AttemptCount r) + allowed + job_throttled s < 2 ^ 31 - 1"
  shows "job_failures s \<le> allowed \<and>
    (case s of
       Over failures throttled v \<Rightarrow> settled (sp_RecipientID p) v
     | Queued failures throttled v \<Rightarrow>
         \<exists>s'. job_step E h allowed p s s' \<and>
           (job_failures s' + job_throttled s' = Suc (failures + throttled) \<or> (\<exists>u. s' = Over failures throttled u)))"
proof -
  have "job_inv allowed (unat (r_AttemptCount r)) w p (Queued 0 0 w)"
    using assms(4) by (simp add: job_inv_def)
  from job_inv_steps [OF assms(1-3,5) this assms(6)] job_step_exists [of E h allowed p] show ?thesis
    by (cases s) (simp_all add: job_inv_def)
qed

lemma expo_foreign: "foreign_errors expo_handlers expo_world ''expo''"
  using expo_read_sample
  by (auto simp: foreign_errors_def expo_handlers_def production_handlers_def provider_Get_table expo_adapter_def
      oracles_def expo_world_def expo_Send_def http_Do_def)

lemma no_credential_given_up:
  "given_up ctx (value_of (HandleSend sample_ext expo_handlers ctx expo_payload)
     (expo_world\<lparr>w_db := sample_db\<lparr>recipients := [sample_recipient]\<rparr>\<rparr>))"
  by (simp add: HandleSend_def attempt_simps GetNotificationRecipient_def sql_getNotificationRecipient_def
      exec_value exec_final next_env_def expo_world_def sending_simps expo_payload_def sample_db_def empty_db_def
      terminalRecipientStatuses_def limit_check_def expo_handlers_def production_handlers_def MarkRecipientSending_def
      sql_markRecipientSending_def run_stmt_def max_int4_def sending_def send_with_credential_def
      GetActiveProviderCredential_def sql_getActiveProviderCredential_def given_up_def IsFailure_def)

theorem send_task_ends_witness:
  "settled 3 (final (HandleSend sample_ext expo_handlers \<lparr>GetRetryCount = Some 0, GetMaxRetry = Some 5\<rparr> expo_payload)
     (expo_world\<lparr>w_db := sample_db\<lparr>recipients := [sample_recipient]\<rparr>\<rparr>))"
proof -
  let ?w = "expo_world\<lparr>w_db := sample_db\<lparr>recipients := [sample_recipient]\<rparr>\<rparr>"
  have "healthy ?w" "find (\<lambda>r. r_ID r = sp_RecipientID expo_payload) (recipients (w_db ?w)) = Some sample_recipient"
    "unat (r_AttemptCount sample_recipient) = 0" "sp_RecipientID expo_payload = 3"
    by (simp_all add: healthy_def expo_world_def expo_payload_def sending_simps)
  moreover have "foreign_errors expo_handlers ?w (sp_ProviderType expo_payload)"
    using expo_foreign by (simp add: foreign_errors_def oracles_def expo_payload_def)
  moreover have "job_step sample_ext expo_handlers 5 expo_payload (Queued 0 0 ?w)
      (Over 0 0 (final (HandleSend sample_ext expo_handlers (attempt_ctx 0 5) expo_payload) ?w))"
    by (rule given_up) (rule no_credential_given_up)
  ultimately show ?thesis
    using send_task_ends [OF expo_handlers_def, of ?w expo_payload sample_recipient 5
        "Over 0 0 (final (HandleSend sample_ext expo_handlers (attempt_ctx 0 5) expo_payload) ?w)"]
    by (simp add: attempt_ctx_def r_into_rtranclp)
qed

end
