(* ===== verification/Platform.thy ===== *)
theory Platform imports "HOL-Library.Multiset" Config CreateFacts Http begin

text \<open>
  \<open>internal/platform\<close>: the health endpoint (\<open>health.go\<close>), the logger's sinks (\<open>logging.go\<close>) and
  the shipping of log lines to Seq (\<open>seq_writer.go\<close>). The results of the two pings and
  zerolog's level parser are arguments.
\<close>

section \<open>Health\<close>

definition HealthHandler :: "goerr option \<Rightarrow> goerr option \<Rightarrow> response" where
  "HealthHandler db_Ping rdb_Ping =
     (let database = (case db_Ping of None \<Rightarrow> ''ok'' | Some err \<Rightarrow> error_text err);
          redis = (case rdb_Ping of None \<Rightarrow> ''ok'' | Some err \<Rightarrow> error_text err);
          healthy_now = (db_Ping = None \<and> rdb_Ping = None)
      in writeJSON (if healthy_now then 200 else 503)
           (JObj [(''status'', JStr (if healthy_now then ''ok'' else ''degraded'')),
                  (''database'', JStr database), (''redis'', JStr redis)]))"

section \<open>The logger\<close>

datatype sink = Stdout | SeqSink string

record 'level logger =
  lg_Level :: 'level
  lg_Sinks :: "sink list"

definition seq_endpoint :: "string \<Rightarrow> string" where
  "seq_endpoint seqURL = seqURL @ ''/api/events/raw?clef''"

definition NewLogger :: "(string \<Rightarrow> 'level option) \<Rightarrow> 'level \<Rightarrow> Config \<Rightarrow> 'level logger" where
  "NewLogger ParseLevel InfoLevel cfg =
     \<lparr>lg_Level = (case ParseLevel (LogLevel cfg) of None \<Rightarrow> InfoLevel | Some level \<Rightarrow> level),
      lg_Sinks = (if LogFormat cfg = ''seq'' \<and> SeqURL cfg \<noteq> []
        then [Stdout, SeqSink (seq_endpoint (SeqURL cfg))] else [Stdout])\<rparr>"

section \<open>Log lines for Seq\<close>

text \<open>
  A line is decoded into a map; its entries go, in the order \<open>ord\<close> in which Go happens to
  range over the map, into a new map under their CLEF names.
\<close>

definition clef_key :: "string \<Rightarrow> string" where
  "clef_key k = (if k = ''time'' then ''@t'' else if k = ''level'' then ''@l'' else if k = ''message'' then ''@m'' else k)"

definition clef_fields :: "(gomap \<Rightarrow> gomap) \<Rightarrow> gomap \<Rightarrow> gomap" where
  "clef_fields ord m = fold (\<lambda>(k, v) clef. map_put (clef_key k) v clef) (ord m) []"


section \<open>The writer\<close>













section \<open>Lemmas\<close>







text \<open>Entries sorted by key are determined by the map they hold.\<close>

lemma gomap_ext:
  assumes "is_gomap m" "is_gomap n" "map_of m = map_of n"
  shows "m = n"
proof -
  have distinct: "distinct (map fst m)" "distinct (map fst n)"
    and sorted: "sorted (map fst m)" "sorted (map fst n)"
    using assms(1,2) by (simp_all add: is_gomap_def strict_sorted_iff)
  moreover from distinct have "set m = set n" using assms(3) by (simp add: map_of_inject_set)
  moreover from this distinct have "inj_on fst (set m \<union> set n)" by (simp add: distinct_map)
  ultimately show ?thesis by (intro map_sorted_distinct_set_unique [of fst])
qed

lemma fold_updates:
  "distinct (map fst kvs) \<Longrightarrow> fold (\<lambda>(k, v) m. m(k \<mapsto> v)) kvs m = m ++ map_of kvs"
proof (induction kvs arbitrary: m)
  case (Cons a kvs)
  obtain k v where "a = (k, v)" by (cases a)
  with Cons show ?case by (auto simp: map_add_def fun_eq_iff dom_def image_iff split: option.split dest!: map_of_SomeD)
qed simp

lemma fold_put_any_order:
  assumes "distinct (map fst kvs)" "distinct (map fst kvs')" "set kvs' = set kvs"
  shows "fold (\<lambda>(k, v) m. map_put k v m) kvs' [] = fold (\<lambda>(k, v) m. map_put k v m) kvs []"
proof (rule gomap_ext)
  show "is_gomap (fold (\<lambda>(k, v) m. map_put k v m) kvs' [])" "is_gomap (fold (\<lambda>(k, v) m. map_put k v m) kvs [])"
    by (rule is_gomap_fold, simp add: is_gomap_def)+
  from assms have "map_of kvs' = map_of kvs" by (metis map_of_inject_set)
  with assms(1,2) show "map_of (fold (\<lambda>(k, v) m. map_put k v m) kvs' []) = map_of (fold (\<lambda>(k, v) m. map_put k v m) kvs [])"
    by (simp add: map_of_fold_put is_gomap_def fold_updates)
qed

text \<open>
  A line with no CLEF name of its own is converted to the same bytes in whatever order its map
  is ranged over.
\<close>

lemma clef_fields_any_order:
  assumes "distinct (map fst m)" "distinct (map fst (ord m))" "set (ord m) = set m" "{''@t'', ''@l'', ''@m''} \<inter> fst ` set m = {}"
  shows "clef_fields ord m = clef_fields (\<lambda>m. m) m"
proof -
  let ?clef = "map (\<lambda>(k, v). (clef_key k, v))"
  have fields: "clef_fields f m = fold (\<lambda>(k, v) m. map_put k v m) (?clef (f m)) []" for f
    by (simp add: clef_fields_def fold_map comp_def split_def)
  have "inj_on clef_key (fst ` set m)"
    using assms(4) by (auto simp: inj_on_def clef_key_def image_iff)
  then have distinct: "distinct (map fst (?clef n))" if "distinct (map fst n)" "set n = set m" for n
    using that distinct_map [of clef_key "map fst n"] by (simp add: comp_def split_def)
  have "set (?clef (ord m)) = set (?clef m)" using assms(3) by simp
  then show ?thesis unfolding fields by (intro fold_put_any_order distinct assms) auto
qed

section \<open>Properties\<close>






end
