(* ===== verification/AsynqLog.thy ===== *)
theory AsynqLog imports Prelude begin

text \<open>
  \<open>cmd/server/asynq_logger.go\<close>: asynq's own log messages go to the zerolog logger of the process,
  each at its level, with the operands joined as \<open>fmt.Sprint\<close> joins them. What a zerolog logger
  does with a message (\<open>logger.Debug().Msg\<close> and so on; a fatal one ends the process) is an argument.
\<close>

section \<open>fmt.Sprint\<close>

text \<open>
  An operand is given by its text under \<open>%v\<close>, and by whether its kind is \<open>string\<close>: a space goes
  between two neighbours when neither is a string.
\<close>

datatype operand = StringOperand string | OtherOperand string

definition operand_text :: "operand \<Rightarrow> string" where
  "operand_text a = (case a of StringOperand s \<Rightarrow> s | OtherOperand s \<Rightarrow> s)"

definition is_string :: "operand \<Rightarrow> bool" where
  "is_string a = (case a of StringOperand _ \<Rightarrow> True | OtherOperand _ \<Rightarrow> False)"

fun sprint_after :: "operand \<Rightarrow> operand list \<Rightarrow> string" where
  "sprint_after prev [] = []"
| "sprint_after prev (a # args) =
     (if \<not> is_string a \<and> \<not> is_string prev then '' '' else []) @ operand_text a @ sprint_after a args"

fun Sprint :: "operand list \<Rightarrow> string" where
  "Sprint [] = []"
| "Sprint (a # args) = operand_text a @ sprint_after a args"

section \<open>The adapter\<close>

record 'r zerolog =
  zl_Debug :: "string \<Rightarrow> 'r"
  zl_Info :: "string \<Rightarrow> 'r"
  zl_Warn :: "string \<Rightarrow> 'r"
  zl_Error :: "string \<Rightarrow> 'r"
  zl_Fatal :: "string \<Rightarrow> 'r"

record 'r asynqZerologAdapter =
  al_logger :: "'r zerolog"

definition adapter_Debug :: "'r asynqZerologAdapter \<Rightarrow> operand list \<Rightarrow> 'r" where
  "adapter_Debug a args = zl_Debug (al_logger a) (Sprint args)"

definition adapter_Info :: "'r asynqZerologAdapter \<Rightarrow> operand list \<Rightarrow> 'r" where
  "adapter_Info a args = zl_Info (al_logger a) (Sprint args)"

definition adapter_Warn :: "'r asynqZerologAdapter \<Rightarrow> operand list \<Rightarrow> 'r" where
  "adapter_Warn a args = zl_Warn (al_logger a) (Sprint args)"

definition adapter_Error :: "'r asynqZerologAdapter \<Rightarrow> operand list \<Rightarrow> 'r" where
  "adapter_Error a args = zl_Error (al_logger a) (Sprint args)"

definition adapter_Fatal :: "'r asynqZerologAdapter \<Rightarrow> operand list \<Rightarrow> 'r" where
  "adapter_Fatal a args = zl_Fatal (al_logger a) (Sprint args)"

section \<open>Lemmas\<close>

lemma sprint_after_string [simp]: "sprint_after (StringOperand s) args = Sprint args"
  by (cases args) (simp_all add: is_string_def)

lemma sprint_after_append:
  "sprint_after p (as @ StringOperand s # bs) = sprint_after p as @ s @ Sprint bs"
  by (induction as arbitrary: p) (simp_all add: operand_text_def is_string_def)

text \<open>A string separates what is printed before it from what is printed after it.\<close>

lemma Sprint_at_string: "Sprint (as @ StringOperand s # bs) = Sprint as @ s @ Sprint bs"
  by (cases as) (simp_all add: sprint_after_append operand_text_def)

text \<open>Strings are joined without a space, as \<open>a.Debug(''debug'', ''msg'')\<close> in the code's test.\<close>

lemma Sprint_strings: "Sprint (map StringOperand ss) = concat ss"
  by (induction ss) (simp_all add: operand_text_def)

lemma adapter_levels:
  fixes level :: "string \<Rightarrow> string \<Rightarrow> 'r"
  defines "a \<equiv> \<lparr>al_logger = \<lparr>zl_Debug = level ''debug'', zl_Info = level ''info'', zl_Warn = level ''warn'',
     zl_Error = level ''error'', zl_Fatal = level ''fatal''\<rparr>\<rparr>"
  shows "map (\<lambda>f. f a (map StringOperand ss))
      [adapter_Debug, adapter_Info, adapter_Warn, adapter_Error, adapter_Fatal] =
    map (\<lambda>l. level l (concat ss)) [''debug'', ''info'', ''warn'', ''error'', ''fatal'']"
  by (simp add: a_def adapter_Debug_def adapter_Info_def adapter_Warn_def adapter_Error_def adapter_Fatal_def
      Sprint_strings)

end
