(* ===== verification/Serve.thy ===== *)
theory Serve imports System Platform AsynqLog begin

text \<open>
  How \<open>cmd/server/main.go\<close> starts: the choice of the subcommand, the wiring of \<open>runServe\<close> and
  \<open>runWorker\<close>, the migrations, and which part of the program answers which path. The URL parsers
  of the Redis clients and the migrator are third-party code and arguments here.
\<close>

section \<open>Clients\<close>

record redis_uris =
  ru_ParseURL :: "string \<Rightarrow> goerr option"
  ru_ParseRedisURI :: "string \<Rightarrow> goerr option"

definition NewRedisClient :: "redis_uris \<Rightarrow> string \<Rightarrow> goerr + unit" where
  "NewRedisClient U redisURL = (case ru_ParseURL U redisURL of Some err \<Rightarrow> Inl err | None \<Rightarrow> Inr ())"

definition ParseRedisOpt :: "redis_uris \<Rightarrow> string \<Rightarrow> goerr + unit" where
  "ParseRedisOpt U redisURL = (case ru_ParseRedisURI U redisURL of Some err \<Rightarrow> Inl err | None \<Rightarrow> Inr ())"

definition NewClient :: "redis_uris \<Rightarrow> string \<Rightarrow> goerr + unit" where
  "NewClient U redisURL = (case ParseRedisOpt U redisURL of Inl err \<Rightarrow> Inl err | Inr opt \<Rightarrow> Inr opt)"

section \<open>The multiplexer\<close>

text \<open>
  \<open>http.ServeMux\<close> on a clean path: the pattern that equals it; for a path without its final slash
  a redirect to the subtree of that name; else the longest subtree (a pattern that ends in a
  slash) it lies in.
\<close>

datatype service = Health | PublicAPI | AdminDashboard

datatype mux_answer = To service | RedirectToSlash | NotFound

definition longest :: "(string \<times> service) list \<Rightarrow> (string \<times> service) option" where
  "longest ps = fold (\<lambda>p best. case best of
      None \<Rightarrow> Some p
    | Some q \<Rightarrow> if length (fst q) < length (fst p) then Some p else Some q) ps None"

definition is_subtree :: "string \<Rightarrow> bool" where
  "is_subtree pattern \<longleftrightarrow> pattern \<noteq> [] \<and> last pattern = CHR ''/''"

definition mux_lookup :: "(string \<times> service) list \<Rightarrow> string \<Rightarrow> mux_answer" where
  "mux_lookup mux path = (case map_of mux path of
      Some s \<Rightarrow> To s
    | None \<Rightarrow>
        if \<not> is_subtree path \<and> map_of mux (path @ ''/'') \<noteq> None then RedirectToSlash
        else (case longest (filter (\<lambda>(pattern, _). is_subtree pattern \<and> take (length pattern) path = pattern) mux) of
            Some (_, s) \<Rightarrow> To s
          | None \<Rightarrow> NotFound))"

section \<open>serve-all, serve-api, serve-dashboard\<close>

definition serve_mux :: "string \<Rightarrow> (string \<times> service) list" where
  "serve_mux mode = (''/healthz'', Health) #
     (if mode = ''serve-api'' \<or> mode = ''serve-all'' then [(''/api/'', PublicAPI)] else []) @
     (if mode = ''serve-dashboard'' \<or> mode = ''serve-all'' then [(''/'', AdminDashboard)] else [])"

text \<open>What listens when the start-up has succeeded: its address, multiplexer, and both routers.\<close>

record listener =
  li_Addr :: string
  li_Mux :: "(string \<times> service) list"
  li_API :: "route list"
  li_Dashboard :: "dash_route list"

definition runServe :: "ext \<Rightarrow> redis_uris \<Rightarrow> string list \<Rightarrow> Config \<Rightarrow> string \<Rightarrow> (world, goerr + listener) state" where
  "runServe E U names cfg mode = (case LoadMasterKey (cfg_MasterKey cfg) of
      Inl err \<Rightarrow> ret (Inl (errorf ''load master key: '' err))
    | Inr masterKey \<Rightarrow>
        attempt (errorf ''connect postgres: '') NewPostgresPool (\<lambda>_.
        attempt (errorf ''connect redis: '') (ret (NewRedisClient U (RedisURL cfg))) (\<lambda>_.
        attempt (errorf ''connect asynq client: '') (ret (NewClient U (RedisURL cfg))) (\<lambda>_.
        ret (Inr \<lparr>li_Addr = HTTPAddr cfg, li_Mux = serve_mux mode,
          li_API = NewRouter E (NewRateLimiter (DefaultRateLimitRPS cfg)),
          li_Dashboard = dashboard_NewRouter E (production_server E names masterKey (CookieSecure cfg))\<rparr>)))))"

section \<open>worker\<close>

record worker_server =
  wk_Queues :: "(string \<times> nat) list"
  wk_Mux :: "(string \<times> task_handler) list"

definition runWorker :: "ext \<Rightarrow> redis_uris \<Rightarrow> string list \<Rightarrow> Config \<Rightarrow> (world, goerr + worker_server) state" where
  "runWorker E U names cfg = (case LoadMasterKey (cfg_MasterKey cfg) of
      Inl err \<Rightarrow> ret (Inl (errorf ''load master key: '' err))
    | Inr masterKey \<Rightarrow>
        attempt (errorf ''connect postgres: '') NewPostgresPool (\<lambda>_.
        attempt (errorf ''connect asynq client: '') (ret (NewClient U (RedisURL cfg))) (\<lambda>_.
        attempt (errorf ''connect redis: '') (ret (NewRedisClient U (RedisURL cfg))) (\<lambda>_.
        attempt (errorf ''parse redis url: '') (ret (ParseRedisOpt U (RedisURL cfg))) (\<lambda>_.
        ret (Inr \<lparr>wk_Queues = worker_queues,
          wk_Mux = worker_mux E (production_handlers E names masterKey (Some (OutboundRateLimitRPS cfg)))\<rparr>))))))"

section \<open>migrate\<close>

definition runMigrate :: "(string \<Rightarrow> goerr option) \<Rightarrow> goerr \<Rightarrow> goerr option \<Rightarrow> Config \<Rightarrow> goerr option" where
  "runMigrate migrate_New ErrNoChange m_Up cfg = (case migrate_New (pgx5MigrateURL (DatabaseURL cfg)) of
      Some err \<Rightarrow> Some (errorf ''init migrator: '' err)
    | None \<Rightarrow> (case m_Up of
        None \<Rightarrow> None
      | Some err \<Rightarrow> if errors_is err ErrNoChange then None else Some (errorf ''apply migrations: '' err)))"

section \<open>main\<close>

datatype command =
    Serve string
  | Worker
  | Migrate
  | Healthcheck
  | SeedCredential "string list"
  | CreateProject "string list"
  | CreateAPIKey "string list"
  | Bootstrap
  | ResetPassword "string list"
  | LoadTest "string list"
  | RotateKey

definition command_of :: "string \<Rightarrow> string list \<Rightarrow> command option" where
  "command_of name rest =
     (if name \<in> {''serve-all'', ''serve-api'', ''serve-dashboard''} then Some (Serve name)
      else if name = ''worker'' then Some Worker
      else if name = ''migrate'' then Some Migrate
      else if name = ''healthcheck'' then Some Healthcheck
      else if name = ''seed-credential'' then Some (SeedCredential rest)
      else if name = ''create-project'' then Some (CreateProject rest)
      else if name = ''create-api-key'' then Some (CreateAPIKey rest)
      else if name = ''bootstrap'' then Some Bootstrap
      else if name = ''reset-password'' then Some (ResetPassword rest)
      else if name = ''loadtest'' then Some (LoadTest rest)
      else if name = ''rotate-key'' then Some RotateKey
      else None)"

text \<open>The process exits at once with a status, or runs a command and exits with 1 if that fails.\<close>

definition usage :: string where
  "usage = ''usage: server <serve-all|serve-api|serve-dashboard|worker|migrate|healthcheck|seed-credential|create-project|create-api-key|bootstrap|reset-password|loadtest|rotate-key>''"

text \<open>The exit status with what is written to the standard error, or the command to run.\<close>

definition main_dispatch :: "environ \<Rightarrow> string list \<Rightarrow> nat \<times> string + Config \<times> command" where
  "main_dispatch env os_Args =
     (if length os_Args < 2 then Inl (2, usage @ [CHR 0x0A])
      else let cfg = Load env in
        (case Validate cfg of
            Some err \<Rightarrow> Inl (1, ''invalid configuration: '' @ error_text err @ [CHR 0x0A])
          | None \<Rightarrow> (case command_of (os_Args ! 1) (drop 2 os_Args) of
                None \<Rightarrow> Inl (2, usage @ [CHR 0x0A])
              | Some cmd \<Rightarrow> Inr (cfg, cmd))))"

definition exit_status :: "goerr option \<Rightarrow> nat" where
  "exit_status err = (case err of None \<Rightarrow> 0 | Some _ \<Rightarrow> 1)"

definition runRotateKey :: "goerr option" where
  "runRotateKey = Some (ErrText ''rotate-key: not yet implemented'')"

section \<open>Lemmas\<close>

lemma runServe_ok:
  assumes "value_of (runServe E U names cfg mode) w = Inr l"
  obtains mk where "LoadMasterKey (cfg_MasterKey cfg) = Inr mk"
    "l = \<lparr>li_Addr = HTTPAddr cfg, li_Mux = serve_mux mode,
       li_API = NewRouter E (NewRateLimiter (DefaultRateLimitRPS cfg)),
       li_Dashboard = dashboard_NewRouter E (production_server E names mk (CookieSecure cfg))\<rparr>"
  using assms by (auto simp: runServe_def attempt_value split: sum.splits)

lemma runServe_frame: "w_db (final (runServe E U names cfg mode) w) = w_db w"
  by (simp add: runServe_def attempt_final NewPostgresPool_def exec_reads_final split: sum.split)

text \<open>
  Which part of the program answers a path, in every mode: the health probe always, the
  public API exactly below \<open>/api/\<close> where it is served, and the dashboard everything else where it
  is served; in particular neither half is reachable in the mode of the other.
\<close>

theorem serve_mux_routes:
  "mux_lookup (serve_mux mode) path =
     (let api = mode \<in> {''serve-api'', ''serve-all''}; dashboard = mode \<in> {''serve-dashboard'', ''serve-all''} in
      if path = ''/healthz'' then To Health
      else if api \<and> take 5 path = ''/api/'' then To PublicAPI
      else if api \<and> path = ''/api'' \<or> dashboard \<and> path = [] then RedirectToSlash
      else if dashboard \<and> take 1 path = ''/'' then To AdminDashboard
      else NotFound)"
  by (auto simp: mux_lookup_def serve_mux_def Let_def is_subtree_def longest_def eval_nat_numeral split: option.split)

end
