(* ===== verification/Loadtest.thy ===== *)
theory Loadtest imports Views Notify begin

text \<open>
  \<open>cmd/server/loadtest.go\<close>: the black-box client of the API that measures its throughput. It
  registers devices, creates notifications and polls some of them until every recipient is
  terminal. Its requests go through the HTTP oracle; \<open>time.Sleep\<close> only moves the clock, which is
  an oracle too.
\<close>

section \<open>Durations\<close>

text \<open>\<open>Time.Sub\<close> saturates; \<open>Duration.String\<close> writes the largest units that fit.\<close>

definition time_Sub :: "instant \<Rightarrow> instant \<Rightarrow> int" where
  "time_Sub t u = max (- (2 ^ 63)) (min (2 ^ 63 - 1) (t - u))"

definition second :: int where "second = 1000000000"

definition fraction_text :: "nat \<Rightarrow> nat \<Rightarrow> string" where
  "fraction_text prec v =
     (let digits = nat_digits (10 ^ prec + v mod 10 ^ prec);
          shown = rev (dropWhile (\<lambda>c. c = CHR ''0'') (rev (tl digits)))
      in if shown = [] then [] else CHR ''.'' # shown)"

definition Duration_String :: "int \<Rightarrow> string" where
  "Duration_String d =
     (let u = nat \<bar>d\<bar>; s = u div 1000000000; m = s div 60; h = m div 60;
          small = (\<lambda>prec unit. nat_digits (u div 10 ^ prec) @ fraction_text prec u @ unit);
          text = (if u = 0 then ''0s'' else if u < 1000 then small 0 ''ns''
             else if u < 1000000 then small 3 [CHR 0xC2, CHR 0xB5, CHR ''s'']
             else if u < 1000000000 then small 6 ''ms''
             else (if 0 < h then nat_digits h @ ''h'' else []) @
                  (if 0 < m then nat_digits (m mod 60) @ ''m'' else []) @
                  nat_digits (s mod 60) @ fraction_text 9 u @ ''s'')
      in if d < 0 then CHR ''-'' # text else text)"

section \<open>Results of a phase\<close>

record latencyResult =
  lr_latencies :: "int list"
  lr_errors :: nat
  lr_sampleErrs :: "string list"

definition newLatencyResult :: latencyResult where
  "newLatencyResult = \<lparr>lr_latencies = [], lr_errors = 0, lr_sampleErrs = []\<rparr>"

definition record_latency :: "int \<Rightarrow> goerr option \<Rightarrow> latencyResult \<Rightarrow> latencyResult" where
  "record_latency d err r = (case err of
      Some e \<Rightarrow> r\<lparr>lr_errors := Suc (lr_errors r),
        lr_sampleErrs := (if length (lr_sampleErrs r) < 5 then lr_sampleErrs r @ [error_text e] else lr_sampleErrs r)\<rparr>
    | None \<Rightarrow> r\<lparr>lr_latencies := lr_latencies r @ [d]\<rparr>)"

text \<open>Go's integer division truncates; an index out of range panics (\<open>None\<close>).\<close>

definition go_div :: "int \<Rightarrow> int \<Rightarrow> int" where
  "go_div a b = (if a < 0 then - (- a div b) else a div b)"

definition percentile :: "int list \<Rightarrow> int \<Rightarrow> int option" where
  "percentile ordered p =
     (if ordered = [] then Some 0
      else let idx = go_div (int64 (int (length ordered) * p)) 100;
               idx = (if idx \<ge> int (length ordered) then int (length ordered) - 1 else idx)
           in if idx < 0 then None else Some (ordered ! nat idx))"

text \<open>
  What \<open>print\<close> reports, before formatting: how many went well, failed and were made, and the
  percentiles of the latencies if there are any.
\<close>

definition print_report :: "latencyResult \<Rightarrow> nat \<times> nat \<times> nat \<times> (int option \<times> int option \<times> int option \<times> int) option" where
  "print_report r =
     (let all = length (lr_latencies r) + lr_errors r; ordered = sort (lr_latencies r)
      in (length (lr_latencies r), lr_errors r, all,
          if 0 < length (lr_latencies r)
          then Some (percentile ordered 50, percentile ordered 95, percentile ordered 99, last ordered)
          else None))"

section \<open>The client\<close>

record loadTestClient =
  lc_baseURL :: string
  lc_apiKey :: string

record notificationRef =
  nr_id :: string
  nr_createdAt :: instant
  nr_createErr :: "goerr option"

definition status_error :: "http_resp \<Rightarrow> goerr" where
  "status_error resp = ErrText (''status '' @ Itoa (hs_StatusCode resp) @ '': '' @ hs_Body resp)"

definition lt_request :: "ext \<Rightarrow> http_req \<Rightarrow> (world, goerr + http_resp) state" where
  "lt_request E q = (case url_Parse E (hr_URL q) of
      Some err \<Rightarrow> ret (Inl err)
    | None \<Rightarrow> do {
        r \<leftarrow> http_Do q;
        case r of
          Inl err \<Rightarrow> ret (Inl err)
        | Inr resp \<Rightarrow> ret (if hs_StatusCode resp \<ge> 300 then Inl (status_error resp) else Inr resp) })"

definition post_request :: "loadTestClient \<Rightarrow> string \<Rightarrow> string \<Rightarrow> http_req" where
  "post_request c path body = \<lparr>hr_Method = ''POST'', hr_URL = lc_baseURL c @ path,
     hr_Headers = [(''Content-Type'', ''application/json''), (''Authorization'', ''Bearer '' @ lc_apiKey c)],
     hr_Body = body\<rparr>"

definition postAndDecodeID :: "ext \<Rightarrow> loadTestClient \<Rightarrow> string \<Rightarrow> string \<Rightarrow> (world, goerr + string) state" where
  "postAndDecodeID E c path body = do {
     r \<leftarrow> lt_request E (post_request c path body);
     case r of
       Inl err \<Rightarrow> ret (Inl err)
     | Inr resp \<Rightarrow> ret (case decode_json (string_field ''id'') (hs_Body resp) of
           Inl err \<Rightarrow> Inl (errorf ''decode response: '' err)
         | Inr i \<Rightarrow> Inr i) }"

text \<open>The \<open>int32\<close> and \<open>map[string]int64\<close> fields of the status response.\<close>

definition int32_literal :: "json \<Rightarrow> bool" where
  "int32_literal j = (case j of
      JNum lit \<Rightarrow> (case Atoi lit of None \<Rightarrow> False | Some i \<Rightarrow> - (2 ^ 31) \<le> i \<and> i < 2 ^ 31)
    | _ \<Rightarrow> True)"

definition int32_field :: "string \<Rightarrow> (string \<times> json) list \<Rightarrow> int option" where
  "int32_field name kvs = (if list_all int32_literal (jfields name kvs) then int_field name kvs else None)"

fun count_entries :: "(string \<times> json) list \<Rightarrow> (string \<times> int) list \<Rightarrow> (string \<times> int) list option" where
  "count_entries [] m = Some m"
| "count_entries ((k, JNull) # kvs) m = count_entries kvs (map_put k 0 m)"
| "count_entries ((k, JNum lit) # kvs) m =
     (case Atoi lit of None \<Rightarrow> None | Some i \<Rightarrow> count_entries kvs (map_put k i m))"
| "count_entries ((k, _) # kvs) m = None"

fun scan_counts :: "(string \<times> int) list \<Rightarrow> json list \<Rightarrow> (string \<times> int) list option" where
  "scan_counts m [] = Some m"
| "scan_counts m (JNull # js) = scan_counts [] js"
| "scan_counts m (JObj kvs # js) =
     (case count_entries kvs m of None \<Rightarrow> None | Some m' \<Rightarrow> scan_counts m' js)"
| "scan_counts m (j # js) = None"

definition decode_status :: "(string \<times> json) list \<Rightarrow> (int \<times> (string \<times> int) list) option" where
  "decode_status kvs = (case (int32_field ''total_recipients'' kvs, scan_counts [] (jfields ''counts'' kvs)) of
      (Some n, Some counts) \<Rightarrow> Some (n, counts)
    | _ \<Rightarrow> None)"

definition all_terminal :: "int \<Rightarrow> (string \<times> int) list \<Rightarrow> bool" where
  "all_terminal TotalRecipients counts =
     (if TotalRecipients = 0 then False
      else let terminal = fold (\<lambda>status n. int64 (n + count_of counts status)) [''sent'', ''delivered'', ''failed''] 0
           in terminal \<ge> TotalRecipients)"

definition status_request :: "loadTestClient \<Rightarrow> string \<Rightarrow> http_req" where
  "status_request c nid = \<lparr>hr_Method = ''GET'', hr_URL = lc_baseURL c @ ''/api/v1/notifications/'' @ nid,
     hr_Headers = [(''Authorization'', ''Bearer '' @ lc_apiKey c)], hr_Body = []\<rparr>"

definition notificationDone :: "ext \<Rightarrow> loadTestClient \<Rightarrow> string \<Rightarrow> (world, goerr + bool) state" where
  "notificationDone E c nid = do {
     r \<leftarrow> lt_request E (status_request c nid);
     case r of
       Inl err \<Rightarrow> ret (Inl err)
     | Inr resp \<Rightarrow> ret (case decode_json decode_status (hs_Body resp) of
           Inl err \<Rightarrow> Inl (errorf ''decode response: '' err)
         | Inr (n, counts) \<Rightarrow> Inr (all_terminal n counts)) }"

section \<open>Registering and creating\<close>

text \<open>The closures that \<open>runConcurrent\<close> runs, with the variables they share as arguments and results.\<close>

definition register_body :: "nat \<Rightarrow> instant \<Rightarrow> string" where
  "register_body i now = json_Marshal (JObj [(''platform'', JStr ''android''), (''provider'', JStr ''expo''),
     (''token'', JStr (''loadtest-token-'' @ Itoa (int i) @ ''-'' @ Itoa (int64 now)))])"

definition registerDevices_fn ::
  "ext \<Rightarrow> loadTestClient \<Rightarrow> nat \<Rightarrow> latencyResult \<times> string list \<Rightarrow> (world, latencyResult \<times> string list) state" where
  "registerDevices_fn E c i shared = do {
     now \<leftarrow> time_Now;
     start \<leftarrow> time_Now;
     r \<leftarrow> postAndDecodeID E c ''/api/v1/devices'' (register_body i now);
     stop \<leftarrow> time_Now;
     ret (case r of
         Inl err \<Rightarrow> (record_latency (time_Sub stop start) (Some err) (fst shared), snd shared)
       | Inr i \<Rightarrow> (record_latency (time_Sub stop start) None (fst shared), snd shared @ [i])) }"

text \<open>\<open>IntN\<close> is what \<open>rand.IntN(len(deviceIDs))\<close> returns to this call.\<close>

definition create_body :: "string \<Rightarrow> nat \<Rightarrow> string" where
  "create_body target i = json_Marshal (JObj [(''body'', JStr (''notification '' @ Itoa (int i))),
     (''include_player_ids'', JArr [JStr target]), (''title'', JStr ''load test'')])"

definition createNotifications_fn ::
  "ext \<Rightarrow> loadTestClient \<Rightarrow> string list \<Rightarrow> nat \<Rightarrow> nat \<Rightarrow> latencyResult \<times> notificationRef list \<Rightarrow>
     (world, latencyResult \<times> notificationRef list) state" where
  "createNotifications_fn E c deviceIDs IntN i shared = do {
     start \<leftarrow> time_Now;
     r \<leftarrow> postAndDecodeID E c ''/api/v1/notifications'' (create_body (deviceIDs ! IntN) i);
     stop \<leftarrow> time_Now;
     ret (record_latency (time_Sub stop start) (case r of Inl err \<Rightarrow> Some err | Inr _ \<Rightarrow> None) (fst shared),
          (snd shared)[i := (case r of
              Inl err \<Rightarrow> \<lparr>nr_id = [], nr_createdAt = start, nr_createErr = Some err\<rparr>
            | Inr nid \<Rightarrow> \<lparr>nr_id = nid, nr_createdAt = start, nr_createErr = None\<rparr>)]) }"

section \<open>Polling\<close>

text \<open>
  One round of the loop of \<open>pollCompletion\<close>: \<open>Some\<close> of what is recorded when it returns,
  \<open>None\<close> when it sleeps and goes round again.
\<close>

definition not_terminal :: "string \<Rightarrow> int \<Rightarrow> goerr" where
  "not_terminal nid timeout =
     ErrText (''notification '' @ nid @ '' did not reach a terminal state within '' @ Duration_String timeout)"

definition poll_round ::
  "ext \<Rightarrow> loadTestClient \<Rightarrow> int \<Rightarrow> notificationRef \<Rightarrow> (world, (int \<times> goerr option) option) state" where
  "poll_round E c timeout ref = do {
     r \<leftarrow> notificationDone E c (nr_id ref);
     now \<leftarrow> time_Now;
     ret (if r = Inr True then Some (time_Sub now (nr_createdAt ref), None)
          else if now > nr_createdAt ref + timeout then Some (0, Some (not_terminal (nr_id ref) timeout))
          else None) }"

partial_function (option) poll_loop ::
  "ext \<Rightarrow> loadTestClient \<Rightarrow> int \<Rightarrow> notificationRef \<Rightarrow> world \<Rightarrow> ((int \<times> goerr option) \<times> world) option" where
  "poll_loop E c timeout ref w =
     (case value_of (poll_round E c timeout ref) w of
        Some out \<Rightarrow> Some (out, final (poll_round E c timeout ref) w)
      | None \<Rightarrow> poll_loop E c timeout ref (final (poll_round E c timeout ref) w))"

text \<open>
  All polls at once: the rounds of the goroutines interleave in any order. A state is the
  references still polled, the shared result and the world.
\<close>

inductive poll_step ::
  "ext \<Rightarrow> loadTestClient \<Rightarrow> int \<Rightarrow> notificationRef list \<times> latencyResult \<times> world \<Rightarrow>
     notificationRef list \<times> latencyResult \<times> world \<Rightarrow> bool" for E c timeout where
  again: "ref \<in> set refs \<Longrightarrow> value_of (poll_round E c timeout ref) w = None \<Longrightarrow>
     poll_step E c timeout (refs, r, w) (refs, r, final (poll_round E c timeout ref) w)"
| finished: "ref \<in> set refs \<Longrightarrow> value_of (poll_round E c timeout ref) w = Some (d, err) \<Longrightarrow>
     poll_step E c timeout (refs, r, w) (remove1 ref refs, record_latency d err r, final (poll_round E c timeout ref) w)"

definition pollCompletion_start :: "notificationRef list \<Rightarrow> world \<Rightarrow> notificationRef list \<times> latencyResult \<times> world" where
  "pollCompletion_start refs w = (filter (\<lambda>ref. nr_createErr ref = None) refs, newLatencyResult, w)"

section \<open>Running concurrently\<close>

text \<open>
  \<open>runConcurrent\<close>: the loop sends to \<open>sem\<close>, whose buffer holds \<open>concurrency\<close> tokens, before it
  starts a goroutine; the goroutine runs \<open>fn(i)\<close>, takes a token out, and signals the wait group.
  The effect of \<open>fn(i)\<close> on the state the goroutines share happens when it returns.
\<close>

record 's pool =
  po_next :: nat
  po_sem :: nat
  po_running :: "nat list"
  po_releasing :: nat
  po_exiting :: nat
  po_order :: "nat list"
  po_shared :: 's

definition runConcurrent_start :: "'s \<Rightarrow> 's pool" where
  "runConcurrent_start s = \<lparr>po_next = 0, po_sem = 0, po_running = [], po_releasing = 0, po_exiting = 0,
     po_order = [], po_shared = s\<rparr>"

inductive pool_step :: "nat \<Rightarrow> nat \<Rightarrow> (nat \<Rightarrow> 's \<Rightarrow> 's) \<Rightarrow> 's pool \<Rightarrow> 's pool \<Rightarrow> bool" for n concurrency fn where
  spawn: "po_next p < n \<Longrightarrow> po_sem p < concurrency \<Longrightarrow>
     pool_step n concurrency fn p (p\<lparr>po_next := Suc (po_next p), po_sem := Suc (po_sem p),
       po_running := po_running p @ [po_next p]\<rparr>)"
| returns: "i \<in> set (po_running p) \<Longrightarrow>
     pool_step n concurrency fn p (p\<lparr>po_running := remove1 i (po_running p), po_releasing := Suc (po_releasing p),
       po_order := po_order p @ [i], po_shared := fn i (po_shared p)\<rparr>)"
| release: "0 < po_releasing p \<Longrightarrow> 0 < po_sem p \<Longrightarrow>
     pool_step n concurrency fn p (p\<lparr>po_releasing := po_releasing p - 1, po_sem := po_sem p - 1,
       po_exiting := Suc (po_exiting p)\<rparr>)"
| signal: "0 < po_exiting p \<Longrightarrow> pool_step n concurrency fn p (p\<lparr>po_exiting := po_exiting p - 1\<rparr>)"

text \<open>\<open>wg.Wait\<close> returns.\<close>

definition pool_returned :: "nat \<Rightarrow> 's pool \<Rightarrow> bool" where
  "pool_returned n p \<longleftrightarrow> po_next p = n \<and> po_running p = [] \<and> po_releasing p = 0 \<and> po_exiting p = 0"

inductive_cases pool_stepE: "pool_step n concurrency fn p p'"
inductive_cases poll_stepE: "poll_step E c timeout s s'"

section \<open>Lemmas: percentiles\<close>

lemma percentile_index:
  assumes "xs \<noteq> []" "0 \<le> p" "int (length xs) * p < 2 ^ 63"
  shows "percentile xs p = Some (xs ! min (length xs * nat p div 100) (length xs - 1))"
proof -
  have "int64 (int (length xs) * p) = int (length xs) * p"
    using assms by (intro int64_id) (auto intro: order_trans [of _ 0])
  moreover have "int (length xs) * p div 100 = int (length xs * nat p div 100)"
    using assms(2) by (simp add: zdiv_int)
  moreover have "0 \<le> int (length xs) * p" using assms(2) by simp
  ultimately show ?thesis using assms(1)
    by (auto simp: percentile_def go_div_def Let_def min_def nat_diff_distrib Suc_le_eq split: if_splits)
qed

lemma sorted_nth_le_count:
  assumes "sorted xs" "i < length xs"
  shows "Suc i \<le> length (filter (\<lambda>y. y \<le> xs ! i) xs)"
proof -
  have "filter (\<lambda>y. y \<le> xs ! i) (take (Suc i) xs) = take (Suc i) xs"
    using assms by (auto simp: filter_id_conv in_set_conv_nth less_Suc_eq_le sorted_nth_mono)
  then have "length (filter (\<lambda>y. y \<le> xs ! i) (take (Suc i) xs)) = Suc i" using assms(2) by simp
  moreover have "length (filter P xs) = length (filter P (take (Suc i) xs)) + length (filter P (drop (Suc i) xs))" for P
    by (metis append_take_drop_id filter_append length_append)
  ultimately show ?thesis by simp
qed

lemma sorted_nth_less_count:
  assumes "sorted xs" "i < length xs"
  shows "length (filter (\<lambda>y. y < xs ! i) xs) \<le> i"
proof -
  have "filter (\<lambda>y. y < xs ! i) (drop i xs) = []"
    using assms by (auto simp: filter_empty_conv in_set_conv_nth not_less sorted_nth_mono)
  moreover have "filter P xs = filter P (take i xs) @ filter P (drop i xs)" for P
    by (metis append_take_drop_id filter_append)
  ultimately have "filter (\<lambda>y. y < xs ! i) xs = filter (\<lambda>y. y < xs ! i) (take i xs)" by simp
  then show ?thesis using length_filter_le [of "\<lambda>y. y < xs ! i" "take i xs"] by simp
qed

text \<open>\<open>x\<close> is a \<open>p\<close>-th percentile of the list: \<open>p\<close> percent of it are at most \<open>x\<close>, and no more than that less.\<close>

definition percentile_of :: "nat \<Rightarrow> 'a :: linorder list \<Rightarrow> 'a \<Rightarrow> bool" where
  "percentile_of p xs x \<longleftrightarrow> x \<in> set xs \<and>
     p * length xs \<le> 100 * length (filter (\<lambda>y. y \<le> x) xs) \<and>
     100 * length (filter (\<lambda>y. y < x) xs) \<le> p * length xs"

lemma percentile_rank:
  assumes "sorted xs" "xs \<noteq> []" "p \<le> 100"
  shows "percentile_of p xs (xs ! min (length xs * p div 100) (length xs - 1))"
proof -
  define i where "i = min (length xs * p div 100) (length xs - 1)"
  have i: "i < length xs" using assms(2) by (simp add: i_def min_less_iff_disj)
  have "i \<le> length xs * p div 100" by (simp add: i_def)
  then have low: "100 * i \<le> p * length xs"
    using times_div_less_eq_dividend [of 100 "length xs * p"] by (simp add: mult.commute [of p])
  have high: "p * length xs \<le> 100 * Suc i"
  proof (cases "length xs * p div 100 \<le> length xs - 1")
    case True
    then show ?thesis
      using div_mult_mod_eq [of "length xs * p" 100] by (simp add: i_def mult.commute [of p])
  next
    case False
    with assms(2) have "Suc i = length xs" by (simp add: i_def)
    with assms(3) show ?thesis by simp
  qed
  with sorted_nth_le_count [OF assms(1) i] sorted_nth_less_count [OF assms(1) i] i low show ?thesis
    unfolding percentile_of_def i_def [symmetric] by (auto intro: order_trans)
qed

lemma percentile_of_sort: "percentile_of p (sort xs) x \<longleftrightarrow> percentile_of p xs x"
proof -
  have "length (filter P (sort xs)) = length (filter P xs)" for P
    by (metis filter_sort length_sort)
  then show ?thesis by (simp add: percentile_of_def)
qed

text \<open>
  C40. What the load test reports is right: every request is counted once, and the latencies
  printed as p50, p95 and p99 are percentiles of those measured (50, 95 and 99 percent of them
  are no longer, and no more than that are shorter), in order, with the longest last.
\<close>

theorem print_report_sound:
  assumes "lr_latencies r \<noteq> []" "length (lr_latencies r) < 2 ^ 56"
  shows "\<exists>a b c. print_report r = (length (lr_latencies r), lr_errors r, length (lr_latencies r) + lr_errors r,
       Some (Some a, Some b, Some c, Max (set (lr_latencies r)))) \<and>
     percentile_of 50 (lr_latencies r) a \<and> percentile_of 95 (lr_latencies r) b \<and>
     percentile_of 99 (lr_latencies r) c \<and> a \<le> b \<and> b \<le> c \<and> c \<le> Max (set (lr_latencies r))"
proof -
  let ?xs = "sort (lr_latencies r)" and ?i = "\<lambda>p. min (length (lr_latencies r) * p div 100) (length (lr_latencies r) - 1)"
  have nonempty: "?xs \<noteq> []" using assms(1) by (metis length_0_conv length_sort)
  have at: "percentile ?xs (int p) = Some (?xs ! ?i p)" if "p \<le> 100" for p
  proof -
    have "int (length ?xs) * int p \<le> 2 ^ 56 * 100" using assms(2) that by (intro mult_mono) auto
    then have "int (length ?xs) * int p < 2 ^ 63" by (rule le_less_trans) simp
    then show ?thesis using percentile_index [OF nonempty, of "int p"] by simp
  qed
  have rank: "percentile_of p (lr_latencies r) (?xs ! ?i p)" if "p \<le> 100" for p
    using percentile_rank [OF _ nonempty that] by (simp add: percentile_of_sort)
  have mono: "?xs ! ?i p \<le> ?xs ! ?i q" if "p \<le> q" for p q
    using nonempty that assms(1) by (intro sorted_nth_mono min.mono div_le_mono mult_le_mono2) (simp_all add: min_less_iff_disj)
  have "y \<le> last ?xs" if "y \<in> set ?xs" for y
    using that nonempty by (auto simp: in_set_conv_nth last_conv_nth simp del: set_sort intro!: sorted_nth_mono)
  then have last: "last ?xs = Max (set (lr_latencies r))"
    using nonempty by (metis Max_eqI finite_set last_in_set set_sort)
  have top: "?xs ! ?i p \<le> last ?xs" for p
    using nonempty assms(1) by (subst last_conv_nth) (auto intro: sorted_nth_mono)
  show ?thesis
    using at [of 50] at [of 95] at [of 99] rank [of 50] rank [of 95] rank [of 99] mono [of 50 95] mono [of 95 99] top [of 99]
      assms(1) by (simp add: print_report_def last Let_def)
qed

definition sample_result :: latencyResult where
  "sample_result = \<lparr>lr_latencies = [30, 10, 20], lr_errors = 2, lr_sampleErrs = []\<rparr>"

theorem print_report_sound_witness:
  "print_report sample_result = (3, 2, 5, Some (Some 20, Some 30, Some 30, 30)) \<and>
   (\<exists>a b c. print_report sample_result = (3, 2, 5, Some (Some a, Some b, Some c, Max {10, 20, 30})) \<and>
      percentile_of 50 [30, 10, 20] a)"
proof
  show "\<exists>a b c. print_report sample_result = (3, 2, 5, Some (Some a, Some b, Some c, Max {10, 20, 30})) \<and>
      percentile_of 50 [30, 10, 20] a"
    using print_report_sound [of sample_result] by (auto simp: sample_result_def insert_commute)
qed (simp add: print_report_def sample_result_def percentile_def go_div_def int64_id)

section \<open>Lemmas: running concurrently\<close>

text \<open>
  The tokens in the channel are those of the goroutines that run or have not given theirs back;
  what has been started is running or done; the shared state is that of the calls made so far.
\<close>

definition pool_ok :: "nat \<Rightarrow> nat \<Rightarrow> (nat \<Rightarrow> 's \<Rightarrow> 's) \<Rightarrow> 's \<Rightarrow> 's pool \<Rightarrow> bool" where
  "pool_ok n concurrency fn s p \<longleftrightarrow>
     po_next p \<le> n \<and> po_sem p \<le> concurrency \<and> po_sem p = length (po_running p) + po_releasing p \<and>
     distinct (po_order p @ po_running p) \<and> set (po_order p @ po_running p) = {..<po_next p} \<and>
     po_shared p = fold fn (po_order p) s"

definition pool_work :: "nat \<Rightarrow> 's pool \<Rightarrow> nat" where
  "pool_work n p = 4 * (n - po_next p) + 3 * length (po_running p) + 2 * po_releasing p + po_exiting p"

lemma length_remove1_Suc: "x \<in> set xs \<Longrightarrow> length xs = Suc (length (remove1 x xs))"
  using length_pos_if_in_set [of x xs] by (simp add: length_remove1)

lemma pool_ok_start: "pool_ok n concurrency fn s (runConcurrent_start s)"
  by (simp add: pool_ok_def runConcurrent_start_def)

lemma pool_ok_step:
  assumes "pool_step n concurrency fn p p'" "pool_ok n concurrency fn s p"
  shows "pool_ok n concurrency fn s p' \<and> pool_work n p = Suc (pool_work n p')"
  using assms
proof cases
  case spawn
  with assms(2) show ?thesis by (auto simp: pool_ok_def pool_work_def lessThan_Suc)
next
  case (returns i)
  with assms(2) length_remove1_Suc [of i "po_running p"] show ?thesis by (auto simp: pool_ok_def pool_work_def)
next
  case release
  with assms(2) show ?thesis by (auto simp: pool_ok_def pool_work_def)
next
  case signal
  with assms(2) show ?thesis by (auto simp: pool_ok_def pool_work_def)
qed

lemma pool_ok_steps:
  assumes "(pool_step n concurrency fn ^^ k) (runConcurrent_start s) p"
  shows "pool_ok n concurrency fn s p \<and> k + pool_work n p = 4 * n"
  using assms
proof (induction k arbitrary: p)
  case 0
  then show ?case using pool_ok_start by (auto simp: pool_work_def runConcurrent_start_def)
next
  case (Suc k)
  then obtain q where "(pool_step n concurrency fn ^^ k) (runConcurrent_start s) q" "pool_step n concurrency fn q p"
    by auto
  with Suc.IH [of q] pool_ok_step [of n concurrency fn q p s] show ?case by auto
qed

lemma pool_progress:
  assumes "pool_ok n concurrency fn s p" "0 < pool_work n p" "0 < concurrency"
  shows "\<exists>p'. pool_step n concurrency fn p p'"
proof -
  consider "po_running p \<noteq> []" | "0 < po_releasing p" | "0 < po_exiting p"
    | "po_running p = []" "po_releasing p = 0" "po_next p < n"
    using assms(2) by (auto simp: pool_work_def)
  then show ?thesis
  proof cases
    case 1
    then show ?thesis by (meson last_in_set pool_step.returns)
  next
    case 2
    moreover from this assms(1) have "0 < po_sem p" by (simp add: pool_ok_def)
    ultimately show ?thesis by (meson pool_step.release)
  next
    case 3
    then show ?thesis by (meson pool_step.signal)
  next
    case 4
    moreover from this assms(1,3) have "po_sem p < concurrency" by (simp add: pool_ok_def)
    ultimately show ?thesis by (meson pool_step.spawn)
  qed
qed

lemma pool_work_0: "pool_ok n concurrency fn s p \<Longrightarrow> pool_work n p = 0 \<longleftrightarrow> pool_returned n p"
  by (auto simp: pool_work_def pool_ok_def pool_returned_def)

text \<open>
  C37. \<open>runConcurrent\<close> with at least one slot, however its goroutines interleave: no more than
  \<open>concurrency\<close> calls are ever in flight; it never gets stuck and every run ends after exactly
  four steps per call; and when it returns every index below \<open>n\<close> has been called exactly once, the
  shared state being the one the calls leave in some order.
\<close>

theorem runConcurrent_complete:
  assumes "(pool_step n concurrency fn ^^ k) (runConcurrent_start s) p" "0 < concurrency"
  shows "length (po_running p) \<le> concurrency \<and> k \<le> 4 * n \<and> (k < 4 * n \<longleftrightarrow> (\<exists>p'. pool_step n concurrency fn p p')) \<and>
     (k = 4 * n \<longleftrightarrow> pool_returned n p) \<and>
     (k = 4 * n \<longrightarrow> distinct (po_order p) \<and> set (po_order p) = {..<n} \<and> po_shared p = fold fn (po_order p) s)"
proof -
  from pool_ok_steps [OF assms(1)] have ok: "pool_ok n concurrency fn s p" "k + pool_work n p = 4 * n" by auto
  moreover have "(\<exists>p'. pool_step n concurrency fn p p') \<longleftrightarrow> 0 < pool_work n p"
    using pool_progress [OF ok(1) _ assms(2)] pool_ok_step [OF _ ok(1)] by fastforce
  moreover have "length (po_running p) \<le> concurrency" using ok(1) by (simp add: pool_ok_def)
  moreover have "distinct (po_order p) \<and> set (po_order p) = {..<n} \<and> po_shared p = fold fn (po_order p) s"
    if "pool_returned n p"
    using ok(1) that by (simp add: pool_ok_def pool_returned_def)
  moreover have "k < 4 * n \<longleftrightarrow> 0 < pool_work n p" "k = 4 * n \<longleftrightarrow> pool_returned n p" "k \<le> 4 * n"
    using ok(2) pool_work_0 [OF ok(1)] by auto
  ultimately show ?thesis by simp
qed

lemma one_call: "(pool_step 1 1 fn ^^ 4) (runConcurrent_start s) ((runConcurrent_start s)\<lparr>po_next := 1, po_order := [0], po_shared := fn 0 s\<rparr>)"
proof -
  let ?p = "runConcurrent_start s"
  have "pool_step 1 1 fn ?p (?p\<lparr>po_next := 1, po_sem := 1, po_running := [0]\<rparr>)"
    using pool_step.spawn [of ?p 1 1 fn] by (simp add: runConcurrent_start_def)
  moreover have "pool_step 1 1 fn (?p\<lparr>po_next := 1, po_sem := 1, po_running := [0]\<rparr>)
      (?p\<lparr>po_next := 1, po_sem := 1, po_releasing := 1, po_order := [0], po_shared := fn 0 s\<rparr>)"
    using pool_step.returns [of 0 "?p\<lparr>po_next := 1, po_sem := 1, po_running := [0]\<rparr>" 1 1 fn]
    by (simp add: runConcurrent_start_def)
  moreover have "pool_step 1 1 fn (?p\<lparr>po_next := 1, po_sem := 1, po_releasing := 1, po_order := [0], po_shared := fn 0 s\<rparr>)
      (?p\<lparr>po_next := 1, po_exiting := 1, po_order := [0], po_shared := fn 0 s\<rparr>)"
    using pool_step.release [of "?p\<lparr>po_next := 1, po_sem := 1, po_releasing := 1, po_order := [0], po_shared := fn 0 s\<rparr>" 1 1 fn]
    by (simp add: runConcurrent_start_def)
  moreover have "pool_step 1 1 fn (?p\<lparr>po_next := 1, po_exiting := 1, po_order := [0], po_shared := fn 0 s\<rparr>)
      (?p\<lparr>po_next := 1, po_order := [0], po_shared := fn 0 s\<rparr>)"
    using pool_step.signal [of "?p\<lparr>po_next := 1, po_exiting := 1, po_order := [0], po_shared := fn 0 s\<rparr>" 1 1 fn]
    by (simp add: runConcurrent_start_def)
  ultimately show ?thesis
    by (simp add: numeral_eq_Suc) (blast intro: relcomppI)
qed

theorem runConcurrent_complete_witness:
  "pool_returned 1 ((runConcurrent_start [])\<lparr>po_next := 1, po_order := [0], po_shared := [0 :: nat]\<rparr>) \<and>
   \<not> (\<exists>p'. pool_step 1 1 (#) ((runConcurrent_start [])\<lparr>po_next := 1, po_order := [0], po_shared := [0]\<rparr>) p')"
  using runConcurrent_complete [OF one_call [of "(#)" "[]"]] by simp

text \<open>
  With \<open>--concurrency 0\<close> the channel is unbuffered and only the goroutines it should start
  would receive from it: nothing can happen, so the phase hangs forever.
\<close>

theorem runConcurrent_stuck:
  "((pool_step (Suc n) 0 fn)\<^sup>*\<^sup>* (runConcurrent_start s) p \<longleftrightarrow> p = runConcurrent_start s) \<and>
   \<not> pool_returned (Suc n) (runConcurrent_start s)"
proof -
  have "\<not> pool_step (Suc n) 0 fn (runConcurrent_start s) q" for q
    by (auto simp: runConcurrent_start_def elim: pool_stepE)
  then show ?thesis by (auto simp: pool_returned_def runConcurrent_start_def elim: converse_rtranclpE)
qed

section \<open>Lemmas: reading the status\<close>

lemma count_entries_written:
  assumes "\<forall>c \<in> snd ` set counts. - (2 ^ 63) \<le> c \<and> c < 2 ^ 63"
  shows "count_entries (map (\<lambda>(s, c). (s, JNum (Itoa c))) counts) m = Some (fold (\<lambda>(s, c) m. map_put s c m) counts m)"
  using assms by (induction counts arbitrary: m) (auto simp: Atoi_Itoa)

lemma int32_field_written: "Atoi (Itoa (sint (t :: 32 word))) = Some (sint t)" "int32_literal (JNum (Itoa (sint t)))"
proof -
  have range: "- (2 ^ 31) \<le> sint t" "sint t < 2 ^ 31"
    using sint_range_size [of t] by (simp_all add: word_size)
  then show "Atoi (Itoa (sint t)) = Some (sint t)" by (intro Atoi_Itoa) auto
  with range show "int32_literal (JNum (Itoa (sint t)))" by (simp add: int32_literal_def)
qed

lemma decode_status_written:
  assumes "is_gomap counts" "\<forall>c \<in> snd ` set counts. - (2 ^ 63) \<le> c \<and> c < 2 ^ 63"
  shows "Option.bind (members (notificationStatusResponse E n counts)) decode_status =
    Some (sint (n_TotalRecipients n), counts)"
  using assms count_entries_written [of counts "[]"] fold_map_put_sorted [of "[]" counts]
    int32_field_written [of "n_TotalRecipients n"]
  by (simp add: notificationStatusResponse_def decode_status_def int32_field_def int_field_def jfields_def key_match_def
      lower_char_def)

section \<open>Lemmas: polling\<close>

lemma lt_request_frame [frame_simps]:
  "w_clock (final (lt_request E q) w) = w_clock w" "w_reads (final (lt_request E q) w) = w_reads w"
  by (simp_all add: lt_request_def http_Do_def split: option.split sum.split)

lemma lt_request_https: "length (w_https (final (lt_request E q) w)) \<le> Suc (length (w_https w))"
  by (simp add: lt_request_def http_Do_def split: option.split sum.split)

lemma notificationDone_frame [frame_simps]:
  "w_clock (final (notificationDone E c nid) w) = w_clock w"
  "w_reads (final (notificationDone E c nid) w) = w_reads w"
  by (simp_all add: notificationDone_def frame_simps split: sum.split)

lemma notificationDone_https: "length (w_https (final (notificationDone E c nid) w)) \<le> Suc (length (w_https w))"
  using lt_request_https by (simp add: notificationDone_def split: sum.split)

lemma poll_round_frame:
  "w_clock (final (poll_round E c timeout ref) w) = w_clock w"
  "w_reads (final (poll_round E c timeout ref) w) = Suc (w_reads w)"
  "length (w_https (final (poll_round E c timeout ref) w)) \<le> Suc (length (w_https w))"
  using notificationDone_https by (simp_all add: poll_round_def time_Now_def frame_simps)

lemma poll_round_None:
  "value_of (poll_round E c timeout ref) w = None \<Longrightarrow> w_clock w (w_reads w) \<le> nr_createdAt ref + timeout"
  by (simp add: poll_round_def time_Now_def frame_simps split: if_splits)

lemma poll_round_Some:
  "value_of (poll_round E c timeout ref) w = Some (d, err) \<Longrightarrow>
     err = Some (not_terminal (nr_id ref) timeout) \<or>
     err = None \<and> (\<exists>u. value_of (notificationDone E c (nr_id ref)) u = Inr True)"
  by (auto simp: poll_round_def split: if_splits)

lemma poll_loop_unfold:
  "poll_loop E c timeout ref w = (case value_of (poll_round E c timeout ref) w of
      Some out \<Rightarrow> Some (out, final (poll_round E c timeout ref) w)
    | None \<Rightarrow> poll_loop E c timeout ref (final (poll_round E c timeout ref) w))"
  by (rule poll_loop.simps)

section \<open>Properties: polling\<close>

text \<open>
  The load test and the dashboard agree on when a notification is done: the total is reached
  by its sent, delivered and failed recipients (both sums wrap at 64 bits), except that to the
  load test a notification with no recipients is never done.
\<close>

theorem all_terminal_Terminal:
  "all_terminal (sint tot) counts \<longleftrightarrow> tot \<noteq> 0 \<and> Terminal (toRecipientCounts counts) tot"
  by (simp add: all_terminal_def Terminal_def toRecipientCounts_def int64_add signed_eq_0_iff ac_simps)

text \<open>
  C36. When the load test is told about a notification by the status endpoint, it decides exactly
  whether the notification has recipients and as many of the recipients in the store as
  \<open>total_recipients\<close> are in a terminal status. The hypotheses: the endpoint has answered 200, and
  the client got that answer and its JSON parses to what was written.
\<close>

theorem notificationDone_exact:
  assumes "rs_Status (value_of (handleGetNotification E r) v) = 200"
    and "url_Parse E (hr_URL (status_request c nid)) = None"
    and "w_net w (w_https w) (status_request c nid) = Inr resp" "hs_StatusCode resp = 200"
    and "json_Parse (hs_Body resp) = Some (rs_Body (value_of (handleGetNotification E r) v))"
    and "length (recipients (w_db v)) < 2 ^ 63"
  shows "\<exists>n. n \<in> set (notifications (w_db v)) \<and> uuid_Parse E (rq_id r) = Some (n_ID n) \<and>
    value_of (notificationDone E c nid) w = Inr (n_TotalRecipients n \<noteq> 0 \<and>
      sint (n_TotalRecipients n) \<le> int (terminal_recipients (n_ID n) (w_db v)))"
proof -
  obtain n counts u where n: "n \<in> set (notifications (w_db v))" "uuid_Parse E (rq_id r) = Some (n_ID n)"
    and answer: "value_of (handleGetNotification E r) v = writeJSON 200 (notificationStatusResponse E n counts)"
    and counts: "w_db u = w_db v" "value_of (RecipientStatusCounts (n_ID n)) u = Inr counts"
    using handleGetNotification_200 [OF assms(1)] by metis
  have sorted: "is_gomap counts" by (rule RecipientStatusCounts_sum(1) [OF counts(2)])
  have "- (2 ^ 63) \<le> x \<and> x < 2 ^ 63" if "(st, x) \<in> set counts" for st x
  proof -
    have "distinct (map fst counts)" using sorted by (simp add: is_gomap_def strict_sorted_iff)
    with that have "x = count_of counts st" by (simp add: count_of_def)
    also have "\<dots> < 2 ^ 63"
      unfolding count_of_store [OF counts(2)]
      using le_less_trans [OF length_filter_le assms(6)] by (simp add: counts(1) of_nat_less_iff flip: of_nat_power)
    finally show ?thesis using count_of_store [OF counts(2), of st] \<open>x = count_of counts st\<close> by simp
  qed
  then have "decode_json decode_status (hs_Body resp) = Inr (sint (n_TotalRecipients n), counts)"
    using decode_status_written [OF sorted, of E n] assms(5) answer
    by (force simp: decode_json_def parse_json_def writeJSON_def)
  then have "value_of (notificationDone E c nid) w = Inr (all_terminal (sint (n_TotalRecipients n)) counts)"
    using assms(2-4) by (simp add: notificationDone_def lt_request_def http_Do_def)
  then show ?thesis
    using n Terminal_store [OF counts(2)] counts(1) assms(6) by (auto simp: all_terminal_Terminal)
qed

definition status_json :: json where
  "status_json = JObj [(''id'', JStr ''9''), (''status'', JStr ''pending''), (''total_recipients'', JNum ''1''),
     (''counts'', JObj [(''sent'', JNum ''1'')])]"

lemma status_parses: "json_Parse (json_Marshal status_json) = Some status_json"
  by (rule json_Parse_Marshal) (simp add: status_json_def json_clean_simps utf8_ascii maxNestingDepth_def json_number_def
      num_start_def is_digit_def)

definition status_world :: world where
  "status_world = listing_world\<lparr>
     w_db := sample_db\<lparr>notifications := [listed\<lparr>n_TotalRecipients := 1\<rparr>],
       recipients := [(new_recipient 9 7 ''fcm'' 0 3)\<lparr>r_Status := ''sent''\<rparr>]\<rparr>,
     w_net := (\<lambda>log q. Inr \<lparr>hs_StatusCode = 200, hs_Headers = [], hs_Body = json_Marshal status_json\<rparr>)\<rparr>"

definition sample_client :: loadTestClient where
  "sample_client = \<lparr>lc_baseURL = ''http://localhost:8080'', lc_apiKey = ''sp_live_x''\<rparr>"

lemma digit_chars: "char_of (49 :: nat) = CHR ''1''" "char_of (57 :: nat) = CHR ''9''"
  by code_simp+

lemma status_world_fields:
  "uuid_String sample_ext 9 = ''9''" "url_Parse sample_ext u = None" "json_Parse (json_Marshal status_json) = Some status_json"
  "w_net status_world h q = Inr \<lparr>hs_StatusCode = 200, hs_Headers = [], hs_Body = json_Marshal status_json\<rparr>"
  "notifications (w_db status_world) = [listed\<lparr>n_TotalRecipients := 1\<rparr>]"
  "recipients (w_db status_world) = [(new_recipient 9 7 ''fcm'' 0 3)\<lparr>r_Status := ''sent''\<rparr>]"
  by (simp_all add: status_parses sample_ext_def status_world_def nat_digits.simps digit_chars del: json_Marshal.simps)

lemma status_served: "value_of (handleGetNotification sample_ext (sample_http ''9'')) status_world = writeJSON 200 status_json"
proof -
  have "value_of (handleGetNotification sample_ext (sample_http ''9'')) status_world =
      writeJSON 200 (notificationStatusResponse sample_ext (listed\<lparr>n_TotalRecipients := 1\<rparr>) [(''sent'', 1)])"
    by (simp add: handleGetNotification_def parse_sample_uuid projectIDFromContext_def
        status_world_def GetNotification_def sql_getNotification_def exec_value exec_final next_env_def
        listing_world_def listed_def store_world_def sample_world_def RecipientStatusCounts_def attempt_simps
        CountRecipientStatuses_def sql_countRecipientStatuses_def Let_def new_recipient_def gomap_of_def)
  then show ?thesis
    by (simp add: notificationStatusResponse_def status_json_def status_world_fields listed_def Itoa_def nat_digits.simps
        digit_chars)
qed

theorem notificationDone_exact_witness:
  "value_of (notificationDone sample_ext sample_client ''9'') status_world = Inr True"
  using notificationDone_exact [of sample_ext "sample_http ''9''" status_world sample_client "''9''" status_world]
  by (simp add: status_served status_world_fields listing_rows new_recipient_def terminal_recipients_def terminalRecipientStatuses_def)

text \<open>
  Polling ends: if the \<open>k\<close>-th of the next readings of the clock is past the deadline, the loop
  returns after at most \<open>k + 1\<close> requests, with exactly one result: a latency, and then the last
  answer said that the notification is done, or the timeout error. (A round sleeps 250 ms, so
  \<open>k\<close> is at most 240 for the 60 s of \<open>runLoadTest\<close>.)
\<close>

theorem poll_loop_returns:
  assumes "nr_createdAt ref + timeout < w_clock w (w_reads w + k)"
  shows "\<exists>d err w'. poll_loop E c timeout ref w = Some ((d, err), w') \<and>
    length (w_https w') \<le> length (w_https w) + k + 1 \<and>
    (err = Some (not_terminal (nr_id ref) timeout) \<or>
     err = None \<and> (\<exists>u. value_of (notificationDone E c (nr_id ref)) u = Inr True))"
  using assms
proof (induction k arbitrary: w)
  case 0
  then obtain d err where out: "value_of (poll_round E c timeout ref) w = Some (d, err)"
    using poll_round_None [of E c timeout ref w] by fastforce
  with poll_round_Some [OF out] poll_round_frame(3) [of E c timeout ref w] show ?case
    by (subst poll_loop_unfold) simp
next
  case (Suc k)
  let ?w = "final (poll_round E c timeout ref) w"
  show ?case
  proof (cases "value_of (poll_round E c timeout ref) w")
    case None
    have "nr_createdAt ref + timeout < w_clock ?w (w_reads ?w + k)"
      using Suc.prems by (simp add: poll_round_frame)
    from Suc.IH [OF this] None poll_round_frame(3) [of E c timeout ref w] show ?thesis
      by (subst poll_loop_unfold) fastforce
  next
    case (Some out)
    obtain d err where "out = (d, err)" by (cases out)
    with Some poll_round_Some [of E c timeout ref w d err] poll_round_frame(3) [of E c timeout ref w] show ?thesis
      by (subst poll_loop_unfold) simp
  qed
qed

theorem poll_loop_returns_witness:
  "\<exists>d err w'. poll_loop sample_ext sample_client 5 \<lparr>nr_id = ''9'', nr_createdAt = 0, nr_createErr = None\<rparr> status_world =
       Some ((d, err), w') \<and> length (w_https w') \<le> 7"
  using poll_loop_returns [of "\<lparr>nr_id = ''9'', nr_createdAt = 0, nr_createErr = None\<rparr>" 5 status_world 6 sample_ext sample_client]
  by (auto simp: status_world_def listing_world_def store_world_def sample_world_def)

text \<open>
  However the polls interleave, each notification that was created is polled once and recorded
  once: the pending polls and the results add up, and the sampled errors are the first five.
\<close>

lemma pollCompletion_accounts:
  assumes "(poll_step E c timeout)\<^sup>*\<^sup>* (pollCompletion_start refs w) s"
  shows "length (fst s) + length (lr_latencies (fst (snd s))) + lr_errors (fst (snd s)) =
      length (filter (\<lambda>ref. nr_createErr ref = None) refs) \<and>
    length (lr_sampleErrs (fst (snd s))) = min 5 (lr_errors (fst (snd s)))"
  using assms
proof (induction rule: rtranclp_induct)
  case base
  show ?case by (simp add: pollCompletion_start_def newLatencyResult_def)
next
  case (step s s')
  from step.hyps(2) step.IH show ?case
    by (cases rule: poll_step.cases)
      (auto simp: record_latency_def dest!: length_remove1_Suc split: option.split)
qed

end
