(* ===== verification/Flags.thy ===== *)
theory Flags imports Golang begin

text \<open>
  The command-line flags of the subcommands of \<open>cmd/server\<close>: \<open>flag.FlagSet.Parse\<close> with
  \<open>ExitOnError\<close> on flags that take a value, and \<open>strconv.ParseInt\<close> with base 0, which reads the
  integer flags of \<open>loadtest\<close>.
\<close>

section \<open>Integer literals\<close>

text \<open>
  \<open>ParseInt(s, 0, 64)\<close>: a sign, a base prefix, digits of the base, and underscores between
  digits or after the prefix. Its two kinds of error are both \<open>None\<close>.
\<close>

definition digit_value :: "char \<Rightarrow> nat option" where
  "digit_value c =
     (let n = of_char (lower_char c) :: nat in
      if 48 \<le> n \<and> n \<le> 57 then Some (n - 48)
      else if 97 \<le> n \<and> n \<le> 122 then Some (n - 87)
      else None)"

fun digits_in :: "nat \<Rightarrow> nat \<Rightarrow> string \<Rightarrow> nat option" where
  "digits_in base acc [] = Some acc"
| "digits_in base acc (c # cs) =
     (if c = CHR ''_'' then digits_in base acc cs
      else (case digit_value c of
          None \<Rightarrow> None
        | Some d \<Rightarrow> if d \<ge> base then None else digits_in base (base * acc + d) cs))"

definition base_prefix :: "string \<Rightarrow> nat \<times> string" where
  "base_prefix s =
     (if s \<noteq> [] \<and> hd s = CHR ''0''
      then let p = (if length s \<ge> 3 then lower_char (s ! 1) else CHR ''0'') in
        if p = CHR ''b'' then (2, drop 2 s)
        else if p = CHR ''o'' then (8, drop 2 s)
        else if p = CHR ''x'' then (16, drop 2 s)
        else (8, drop 1 s)
      else (10, s))"

text \<open>\<open>underscoreOK\<close>: the class of the byte last seen is a digit, an underscore or neither.\<close>

datatype seen = SeenDigit | SeenUnderscore | SeenNone

fun underscores_ok :: "bool \<Rightarrow> seen \<Rightarrow> string \<Rightarrow> bool" where
  "underscores_ok hex saw [] \<longleftrightarrow> saw \<noteq> SeenUnderscore"
| "underscores_ok hex saw (c # cs) \<longleftrightarrow>
     (if is_digit c \<or> hex \<and> lower_char c \<in> set ''abcdef'' then underscores_ok hex SeenDigit cs
      else if c = CHR ''_'' then saw = SeenDigit \<and> underscores_ok hex SeenUnderscore cs
      else saw \<noteq> SeenUnderscore \<and> underscores_ok hex SeenNone cs)"

definition underscoreOK :: "string \<Rightarrow> bool" where
  "underscoreOK s =
     (if length s \<ge> 2 \<and> hd s = CHR ''0'' \<and> lower_char (s ! 1) \<in> set ''box''
      then underscores_ok (lower_char (s ! 1) = CHR ''x'') SeenDigit (drop 2 s)
      else underscores_ok False SeenNone s)"

definition ParseUint0 :: "string \<Rightarrow> nat option" where
  "ParseUint0 s =
     (if s = [] then None
      else (case base_prefix s of (base, ds) \<Rightarrow>
        if CHR ''_'' \<in> set ds \<and> \<not> underscoreOK s then None else digits_in base 0 ds))"

definition ParseInt0 :: "string \<Rightarrow> int option" where
  "ParseInt0 s =
     (let (neg, ds) = (case s of
         [] \<Rightarrow> (False, [])
       | c # cs \<Rightarrow> if c = CHR ''-'' then (True, cs) else if c = CHR ''+'' then (False, cs) else (False, s))
      in case ParseUint0 ds of
           None \<Rightarrow> None
         | Some n \<Rightarrow> (let v = (if neg then - int n else int n)
                    in if - (2 ^ 63) \<le> v \<and> v < 2 ^ 63 then Some v else None))"

section \<open>Flags\<close>

text \<open>
  The values by name, starting from the defaults, or the status the process exits with (0 after
  \<open>-help\<close>, 2 after an error). One or two dashes introduce a flag, \<open>--\<close> or the first other argument
  ends them; \<open>accepts\<close> says which texts the flag's value can be set to.
\<close>

fun split_flag :: "string \<Rightarrow> string \<times> string option" where
  "split_flag [] = ([], None)"
| "split_flag (c # cs) = (if c = CHR ''='' then ([], Some cs)
     else (case split_flag cs of (name, v) \<Rightarrow> (c # name, v)))"

definition set_flag :: "string \<Rightarrow> string \<Rightarrow> (string \<times> string) list \<Rightarrow> (string \<times> string) list" where
  "set_flag name v flags = map (\<lambda>(n, d). (n, if n = name then v else d)) flags"

fun parse_flags ::
  "(string \<Rightarrow> string \<Rightarrow> bool) \<Rightarrow> (string \<times> string) list \<Rightarrow> string list \<Rightarrow> nat + (string \<times> string) list"
where
  "parse_flags accepts flags [] = Inr flags"
| "parse_flags accepts flags (s # args) =
     (if length s < 2 \<or> hd s \<noteq> CHR ''-'' \<or> s = ''--'' then Inr flags
      else let name = (if s ! 1 = CHR ''-'' then drop 2 s else drop 1 s) in
        if name = [] \<or> hd name = CHR ''-'' \<or> hd name = CHR ''='' then Inl 2
        else (case split_flag name of (n, given_value) \<Rightarrow>
          if n \<notin> fst ` set flags then Inl (if n = ''help'' \<or> n = ''h'' then 0 else 2)
          else (case given_value of
              Some v \<Rightarrow> if accepts n v then parse_flags accepts (set_flag n v flags) args else Inl 2
            | None \<Rightarrow> (case args of
                [] \<Rightarrow> Inl 2
              | v # rest \<Rightarrow> if accepts n v then parse_flags accepts (set_flag n v flags) rest else Inl 2))))"

section \<open>Lemmas\<close>

lemma parse_flags_status: "parse_flags accepts flags args = Inl code \<Longrightarrow> code \<in> {0, 2}"
  by (induction accepts flags args rule: parse_flags.induct)
    (auto simp: Let_def split: if_splits prod.splits option.splits list.splits)

lemma set_flag_names: "map fst (set_flag n v flags) = map fst flags"
  by (simp add: set_flag_def comp_def split_def)

lemma parse_flags_names: "parse_flags accepts flags args = Inr vals \<Longrightarrow> map fst vals = map fst flags"
proof (induction accepts flags args rule: parse_flags.induct)
  case (2 accepts flags s args)
  then show ?case
    by (simp add: Let_def set_flag_names split: if_splits prod.splits option.splits list.splits)
qed simp

text \<open>What the flags hold in the end was accepted, as long as the defaults were.\<close>

lemma parse_flags_accepted:
  "parse_flags accepts flags args = Inr vals \<Longrightarrow> \<forall>d \<in> set flags. accepts (fst d) (snd d) \<Longrightarrow>
     \<forall>d \<in> set vals. accepts (fst d) (snd d)"
proof (induction accepts flags args rule: parse_flags.induct)
  case (2 accepts flags s args)
  have "\<forall>d \<in> set (set_flag n v flags). accepts (fst d) (snd d)" if "accepts n v" for n v
    using that "2.prems"(2) by (auto simp: set_flag_def)
  with 2 show ?case
    by (simp add: Let_def split: if_splits prod.splits option.splits list.splits)
qed simp

text \<open>The decimal text of a number is read back, because it has no leading zero but that of 0.\<close>

lemma digit_value_digit: "is_digit c \<Longrightarrow> digit_value c = Some (digit_val c)"
  by (simp add: digit_value_def is_digit_def lower_char_def digit_val_def Let_def)

lemma digit_val_less: "is_digit c \<Longrightarrow> digit_val c < 10"
  by (auto simp: is_digit_def digit_val_def)

lemma digits_in_decimal: "list_all is_digit ds \<Longrightarrow> digits_in 10 acc ds = Some (digits_val acc ds)"
proof (induction ds arbitrary: acc)
  case (Cons c cs)
  then have "c \<noteq> CHR ''_''" "digit_val c < 10" by (auto simp: is_digit_def digit_val_def)
  with Cons show ?case by (simp add: digit_value_digit)
qed simp

lemma ParseUint0_digits: "ParseUint0 (nat_digits n) = Some n"
proof (cases "n = 0")
  case True
  have "nat_digits 0 = ''0''" by (subst nat_digits.simps) (simp, code_simp)
  with True show ?thesis by (simp add: ParseUint0_def base_prefix_def)
next
  case False
  have digits: "list_all is_digit (nat_digits n)" "nat_digits n \<noteq> []" "digits_val 0 (nat_digits n) = n"
    using nat_digits_props [of n] by auto
  then have "CHR ''_'' \<notin> set (nat_digits n)" by (auto simp: list_all_iff is_digit_def)
  with False digits nat_digits_hd_nonzero [of n] digits_in_decimal [OF digits(1), of 0] show ?thesis
    by (simp add: ParseUint0_def base_prefix_def)
qed

lemma ParseInt0_Itoa:
  assumes "- (2 ^ 63) \<le> i" "i < 2 ^ 63"
  shows "ParseInt0 (Itoa i) = Some i"
proof (cases "i < 0")
  case True
  then show ?thesis using assms by (simp add: Itoa_def ParseInt0_def ParseUint0_digits)
next
  case False
  obtain c cs where eq: "nat_digits (nat i) = c # cs"
    using nat_digits_props [of "nat i"] by (cases "nat_digits (nat i)") auto
  with nat_digits_hd [of "nat i"] have "is_digit c" by simp
  then have "c \<noteq> CHR ''-''" "c \<noteq> CHR ''+''" by (auto simp: is_digit_def)
  with False eq ParseUint0_digits [of "nat i"] assms show ?thesis
    by (simp add: Itoa_def ParseInt0_def)
qed

end
