(* ===== verification/Loadrun.thy ===== *)
theory Loadrun imports Loadtest Flags "HOL-Library.Multiset" begin

text \<open>
  \<open>runLoadTest\<close> of \<open>cmd/server/loadtest.go\<close>: the flags of the load test, its three phases one after
  the other, and what it prints. A run is a sequence of steps; inside a phase they are those of
  \<open>pool_step\<close> and \<open>poll_step\<close>, so that every interleaving of the goroutines is a run.
\<close>

section \<open>Flags\<close>

record load_flags =
  lf_baseURL :: string
  lf_apiKey :: string
  lf_devices :: int
  lf_notifications :: int
  lf_concurrency :: int

definition load_defaults :: "(string \<times> string) list" where
  "load_defaults = [(''base-url'', ''http://localhost:8080''), (''api-key'', []),
     (''devices'', ''100''), (''notifications'', ''200''), (''concurrency'', ''20'')]"

definition load_accepts :: "string \<Rightarrow> string \<Rightarrow> bool" where
  "load_accepts name v \<longleftrightarrow>
     (name \<in> {''devices'', ''notifications'', ''concurrency''} \<longrightarrow> ParseInt0 v \<noteq> None)"

definition loadtest_flags :: "string list \<Rightarrow> nat + load_flags" where
  "loadtest_flags args = (case parse_flags load_accepts load_defaults args of
      Inl code \<Rightarrow> Inl code
    | Inr vals \<Rightarrow>
        (let str = (\<lambda>name. the (map_of vals name)); num = (\<lambda>name. the (ParseInt0 (str name)))
         in Inr \<lparr>lf_baseURL = str ''base-url'', lf_apiKey = str ''api-key'', lf_devices = num ''devices'',
              lf_notifications = num ''notifications'', lf_concurrency = num ''concurrency''\<rparr>))"

definition load_client :: "load_flags \<Rightarrow> loadTestClient" where
  "load_client F = \<lparr>lc_baseURL = lf_baseURL F, lc_apiKey = lf_apiKey F\<rparr>"

section \<open>What is printed\<close>

text \<open>
  The two functions of the standard library a run depends on: what the \<open>i\<close>-th call of
  \<open>rand.IntN(n)\<close> returns, and the text of a count per second with one decimal.
\<close>

record load_lib =
  ll_IntN :: "nat \<Rightarrow> nat \<Rightarrow> nat"
  ll_rate :: "nat \<Rightarrow> int \<Rightarrow> string"

datatype shown = Announce string | Report string latencyResult int

definition print_lines :: "load_lib \<Rightarrow> string \<Rightarrow> int \<Rightarrow> latencyResult \<Rightarrow> string" where
  "print_lines R label wallClock r = (case print_report r of (okays, errs, all, lat) \<Rightarrow>
     ''  '' @ label @ '': '' @ nat_digits okays @ '' ok, '' @ nat_digits errs @ '' errors (of '' @ nat_digits all @ ''), '' @
     ll_rate R all wallClock @ '' req/s, wall clock '' @ Duration_String wallClock @ [CHR 0x0A] @
     (case lat of
         Some (Some a, Some b, Some c, longest) \<Rightarrow>
           ''  latency: p50='' @ Duration_String a @ '' p95='' @ Duration_String b @ '' p99='' @ Duration_String c @
           '' max='' @ Duration_String longest @ [CHR 0x0A]
       | _ \<Rightarrow> []) @
     concat (map (\<lambda>e. ''  sample error: '' @ e @ [CHR 0x0A]) (lr_sampleErrs r)))"

fun shown_text :: "load_lib \<Rightarrow> shown \<Rightarrow> string" where
  "shown_text R (Announce s) = s"
| "shown_text R (Report label r wallClock) = print_lines R label wallClock r"

section \<open>The phases\<close>

datatype load_phase =
    Registering instant "(world \<times> latencyResult \<times> string list) pool"
  | Creating instant "string list" "(world \<times> latencyResult \<times> notificationRef list) pool"
  | Polling instant "notificationRef list \<times> latencyResult \<times> world"
  | Ended "goerr option" world
  | Panicked

type_synonym load_state = "shown list \<times> load_phase"

definition pollTimeout :: int where "pollTimeout = 60 * second"

definition register_call :: "ext \<Rightarrow> loadTestClient \<Rightarrow> nat \<Rightarrow> world \<times> latencyResult \<times> string list \<Rightarrow> world \<times> latencyResult \<times> string list" where
  "register_call E c i = (\<lambda>(w, shared). (final (registerDevices_fn E c i shared) w, value_of (registerDevices_fn E c i shared) w))"

definition create_call ::
  "ext \<Rightarrow> load_lib \<Rightarrow> loadTestClient \<Rightarrow> string list \<Rightarrow> nat \<Rightarrow> world \<times> latencyResult \<times> notificationRef list \<Rightarrow>
     world \<times> latencyResult \<times> notificationRef list" where
  "create_call E R c ids i = (\<lambda>(w, shared).
     (let m = createNotifications_fn E c ids (ll_IntN R i (length ids)) i shared in (final m w, value_of m w)))"

text \<open>A negative capacity makes \<open>make(chan struct{}, concurrency)\<close> panic, a negative length \<open>make\<close> of the slice.\<close>

definition announce1 :: "load_flags \<Rightarrow> shown" where
  "announce1 F = Announce (''Phase 1: registering '' @ Itoa (lf_devices F) @ '' devices (concurrency '' @
     Itoa (lf_concurrency F) @ '')...'' @ [CHR 0x0A])"

definition announce2 :: "load_flags \<Rightarrow> shown" where
  "announce2 F = Announce ([CHR 0x0A] @ ''Phase 2: creating '' @ Itoa (lf_notifications F) @
     '' notifications (concurrency '' @ Itoa (lf_concurrency F) @ '')...'' @ [CHR 0x0A])"

definition announce3 :: "nat \<Rightarrow> shown" where
  "announce3 sampleSize = Announce ([CHR 0x0A] @ ''Phase 3: polling '' @ nat_digits sampleSize @
     '' notifications to completion ('' @ Duration_String pollTimeout @ '' timeout each)...'' @ [CHR 0x0A])"

definition load_start :: "load_flags \<Rightarrow> world \<Rightarrow> load_state" where
  "load_start F w =
     (if lf_apiKey F = [] then ([], Ended (Some (ErrText ''loadtest: --api-key is required'')) w)
      else ([announce1 F],
        if lf_concurrency F < 0 then Panicked
        else Registering (value_of time_Now w) (runConcurrent_start (final time_Now w, newLatencyResult, []))))"

definition after_registering ::
  "load_flags \<Rightarrow> shown list \<Rightarrow> instant \<Rightarrow> world \<times> latencyResult \<times> string list \<Rightarrow> load_state" where
  "after_registering F out phase1Start = (\<lambda>(w, regResult, deviceIDs).
     (let out = out @ [Report ''device registration'' regResult (time_Sub (value_of time_Now w) phase1Start)];
          w = final time_Now w
      in if deviceIDs = [] then (out, Ended (Some (ErrText ''loadtest: no devices registered successfully, aborting'')) w)
         else (out @ [announce2 F],
           if lf_notifications F < 0 then Panicked
           else Creating (value_of time_Now w) deviceIDs (runConcurrent_start (final time_Now w, newLatencyResult,
             replicate (nat (lf_notifications F)) \<lparr>nr_id = [], nr_createdAt = 0, nr_createErr = None\<rparr>)))))"

text \<open>\<open>sample\<close> is \<open>refs\<close> after \<open>rand.Shuffle\<close>.\<close>

definition after_creating ::
  "notificationRef list \<Rightarrow> shown list \<Rightarrow> instant \<Rightarrow> world \<times> latencyResult \<times> notificationRef list \<Rightarrow> load_state" where
  "after_creating sample out phase2Start = (\<lambda>(w, createResult, refs).
     (let out = out @ [Report ''notification creation'' createResult (time_Sub (value_of time_Now w) phase2Start)];
          w = final time_Now w;
          sampleSize = (if length sample > 20 then 20 else length sample)
      in (out @ [announce3 sampleSize],
          Polling (value_of time_Now w) (pollCompletion_start (take sampleSize sample) (final time_Now w)))))"

definition after_polling :: "shown list \<Rightarrow> instant \<Rightarrow> latencyResult \<Rightarrow> world \<Rightarrow> load_state" where
  "after_polling out phase3Start completionResult w =
     (out @ [Report ''end-to-end completion'' completionResult (time_Sub (value_of time_Now w) phase3Start)],
      Ended None (final time_Now w))"

inductive load_step :: "ext \<Rightarrow> load_lib \<Rightarrow> load_flags \<Rightarrow> load_state \<Rightarrow> load_state \<Rightarrow> bool" for E R F where
  registering: "pool_step (nat (lf_devices F)) (nat (lf_concurrency F)) (register_call E (load_client F)) p p' \<Longrightarrow>
     load_step E R F (out, Registering t p) (out, Registering t p')"
| registered: "pool_returned (nat (lf_devices F)) p \<Longrightarrow>
     load_step E R F (out, Registering t p) (after_registering F out t (po_shared p))"
| creating: "pool_step (nat (lf_notifications F)) (nat (lf_concurrency F)) (create_call E R (load_client F) ids) p p' \<Longrightarrow>
     load_step E R F (out, Creating t ids p) (out, Creating t ids p')"
| created: "pool_returned (nat (lf_notifications F)) p \<Longrightarrow> mset sample = mset (snd (snd (po_shared p))) \<Longrightarrow>
     load_step E R F (out, Creating t ids p) (after_creating sample out t (po_shared p))"
| polling: "poll_step E (load_client F) pollTimeout s s' \<Longrightarrow>
     load_step E R F (out, Polling t s) (out, Polling t s')"
| polled: "load_step E R F (out, Polling t ([], r, w)) (after_polling out t r w)"

inductive_cases load_stepE: "load_step E R F s s'"
inductive_simps load_step_ended [simp]: "load_step E R F (out, Ended err w) s'"
inductive_simps load_step_panicked [simp]: "load_step E R F (out, Panicked) s'"


section \<open>Lemmas: one call\<close>

text \<open>The clock is the world's; a request, or a reading of the clock, only moves its position.\<close>

lemma time_Now_clock: "w_clock (final time_Now w) = w_clock w" "w_reads (final time_Now w) = Suc (w_reads w)"
  by (simp_all add: time_Now_def)

lemma postAndDecodeID_clock: "w_clock (final (postAndDecodeID E c path body) w) = w_clock w"
  by (simp add: postAndDecodeID_def frame_simps split: sum.split)

lemma call_clock:
  "w_clock (fst (register_call E c i s)) = w_clock (fst s)"
  "w_clock (fst (create_call E R c ids i s')) = w_clock (fst s')"
  by (simp_all add: register_call_def create_call_def registerDevices_fn_def createNotifications_fn_def
      postAndDecodeID_clock time_Now_clock Let_def split: prod.split)

definition counted :: "latencyResult \<Rightarrow> nat" where
  "counted r = length (lr_latencies r) + lr_errors r"

lemma counted_start [simp]: "counted newLatencyResult = 0" "lr_latencies newLatencyResult = []"
  by (simp_all add: counted_def newLatencyResult_def)

lemma record_latency_facts [simp]:
  "counted (record_latency d err r) = Suc (counted r)"
  "length (lr_latencies (record_latency d err r)) = length (lr_latencies r) + (if err = None then 1 else 0)"
  by (simp_all add: counted_def record_latency_def split: option.split)

text \<open>Registering: an id for each call that is counted as a success.\<close>

definition registered_ok :: "nat \<Rightarrow> (nat \<Rightarrow> instant) \<Rightarrow> world \<times> latencyResult \<times> string list \<Rightarrow> bool" where
  "registered_ok k clk = (\<lambda>(w, r, ids). w_clock w = clk \<and> counted r = k \<and> length ids = length (lr_latencies r))"

lemma register_call_ok: "registered_ok k clk s \<Longrightarrow> registered_ok (Suc k) clk (register_call E c i s)"
  using call_clock(1) [of E c i s]
  by (auto simp: registered_ok_def register_call_def registerDevices_fn_def Let_def split: prod.splits sum.split)

lemma register_calls_ok:
  "registered_ok k clk s \<Longrightarrow> registered_ok (k + length xs) clk (fold (register_call E c) xs s)"
proof (induction xs arbitrary: k s)
  case (Cons x xs)
  from Cons.IH [OF register_call_ok [OF Cons.prems]] show ?case by simp
qed simp

text \<open>Creating: the calls made so far have filled their entries, those of the successes without an error.\<close>

definition created_ok ::
  "nat \<Rightarrow> nat list \<Rightarrow> (nat \<Rightarrow> instant) \<Rightarrow> world \<times> latencyResult \<times> notificationRef list \<Rightarrow> bool" where
  "created_ok n xs clk = (\<lambda>(w, r, refs). w_clock w = clk \<and> counted r = length xs \<and> length refs = n \<and>
     length (filter (\<lambda>i. nr_createErr (refs ! i) = None) xs) = length (lr_latencies r))"

lemma create_call_ok:
  assumes "created_ok n xs clk s" "i < n" "i \<notin> set xs"
  shows "created_ok n (xs @ [i]) clk (create_call E R c ids i s)"
proof -
  obtain w r refs where s: "s = (w, r, refs)" by (cases s)
  have kept: "filter (\<lambda>j. nr_createErr (refs[i := ref] ! j) = None) xs = filter (\<lambda>j. nr_createErr (refs ! j) = None) xs" for ref
    using assms(3) by (intro filter_cong refl) (metis nth_list_update_neq)
  from assms call_clock(2) [of E R c ids i s] show ?thesis
    by (auto simp: created_ok_def create_call_def createNotifications_fn_def Let_def s kept split: sum.split)
qed

lemma create_calls_ok:
  "created_ok n xs clk s \<Longrightarrow> distinct (xs @ ys) \<Longrightarrow> set ys \<subseteq> {..<n} \<Longrightarrow>
     created_ok n (xs @ ys) clk (fold (create_call E R c ids) ys s)"
proof (induction ys arbitrary: xs s)
  case (Cons y ys)
  then have "created_ok n (xs @ [y]) clk (create_call E R c ids y s)" by (intro create_call_ok) auto
  from Cons.IH [OF this] Cons.prems show ?case by simp
qed simp

lemma created_all:
  assumes "created_ok n xs clk (w, r, refs)" "distinct xs" "set xs = {..<n}"
  shows "counted r = n" "length (filter (\<lambda>ref. nr_createErr ref = None) refs) = length (lr_latencies r)"
proof -
  have len: "length refs = n" and counts: "counted r = length xs"
    "length (filter (\<lambda>i. nr_createErr (refs ! i) = None) xs) = length (lr_latencies r)"
    using assms(1) by (simp_all add: created_ok_def)
  have xs: "mset xs = mset [0..<n]"
    using assms(2,3) set_eq_iff_mset_eq_distinct [of xs "[0..<n]"] by (simp add: lessThan_atLeast0)
  then have "size (mset xs) = n" by simp
  with counts(1) show "counted r = n" by simp
  have "mset (filter P xs) = mset (filter P [0..<n])" for P
    using xs by (simp only: mset_filter)
  then have "length (filter P xs) = length (filter P [0..<n])" for P
    by (metis size_mset)
  with counts(2) have "length (filter (\<lambda>i. nr_createErr (refs ! i) = None) [0..<n]) = length (lr_latencies r)" by metis
  moreover have "refs = map ((!) refs) [0..<n]" using len by (metis map_nth)
  then have "length (filter (\<lambda>ref. nr_createErr ref = None) refs) =
      length (filter (\<lambda>i. nr_createErr (refs ! i) = None) [0..<n])"
    by (metis (no_types, lifting) comp_def filter_cong filter_map length_map)
  ultimately show "length (filter (\<lambda>ref. nr_createErr ref = None) refs) = length (lr_latencies r)" by simp
qed


section \<open>Lemmas: a run ends\<close>

text \<open>Every run from the state is finite.\<close>

definition run_ends :: "ext \<Rightarrow> load_lib \<Rightarrow> load_flags \<Rightarrow> load_state \<Rightarrow> bool" where
  "run_ends E R F s \<longleftrightarrow> Wellfounded.accp (load_step E R F)\<inverse>\<inverse> s"

lemma run_endsI: "(\<And>s'. load_step E R F s s' \<Longrightarrow> run_ends E R F s') \<Longrightarrow> run_ends E R F s"
  unfolding run_ends_def by (rule accp.accI) simp

lemma run_ends_ended [simp]: "run_ends E R F (out, Ended err w)" "run_ends E R F (out, Panicked)"
  by (rule run_endsI, simp)+

lemma run_ends_finite:
  assumes "run_ends E R F s"
  shows "\<not> (\<exists>f. f 0 = s \<and> (\<forall>i. load_step E R F (f i) (f (Suc i))))"
  using assms unfolding run_ends_def
proof (induction rule: accp.induct)
  case (accI s)
  show ?case
  proof
    assume "\<exists>f. f 0 = s \<and> (\<forall>i. load_step E R F (f i) (f (Suc i)))"
    then obtain f where f: "f 0 = s" "\<And>i. load_step E R F (f i) (f (Suc i))" by blast
    then have "(load_step E R F)\<inverse>\<inverse> (f 1) s" by (metis One_nat_def conversep_iff)
    moreover have "\<exists>g. g 0 = f 1 \<and> (\<forall>i. load_step E R F (g i) (g (Suc i)))"
      by (rule exI [of _ "\<lambda>i. f (Suc i)"]) (simp add: f(2))
    ultimately show False by (rule notE [OF accI.IH])
  qed
qed

text \<open>The readings of the clock pass every instant in the end.\<close>

definition clock_advances :: "(nat \<Rightarrow> instant) \<Rightarrow> bool" where
  "clock_advances clk \<longleftrightarrow> (\<forall>t. \<exists>K. \<forall>k \<ge> K. t < clk k)"

lemma clock_passes:
  assumes "clock_advances clk"
  shows "\<exists>K. \<forall>ref \<in> set refs. \<forall>k \<ge> K. nr_createdAt ref + timeout < clk k"
proof (induction refs)
  case (Cons ref refs)
  then obtain K K' where "\<forall>ref \<in> set refs. \<forall>k \<ge> K. nr_createdAt ref + timeout < clk k"
      "\<forall>k \<ge> K'. nr_createdAt ref + timeout < clk k"
    using assms unfolding clock_advances_def by metis
  then have "\<forall>ref \<in> set (ref # refs). \<forall>k \<ge> max K K'. nr_createdAt ref + timeout < clk k" by auto
  then show ?case by blast
qed simp

lemma polling_ends:
  assumes "\<forall>ref \<in> set refs. \<forall>k \<ge> K. nr_createdAt ref + pollTimeout < w_clock w k"
  shows "run_ends E R F (out, Polling t (refs, r, w))"
  using assms
proof (induction "K - w_reads w + length refs" arbitrary: refs r w rule: less_induct)
  case less
  show ?case
  proof (rule run_endsI)
    fix s' assume "load_step E R F (out, Polling t (refs, r, w)) s'"
    then show "run_ends E R F s'"
    proof cases
      case (polling s)
      from polling(2) show ?thesis
      proof cases
        case (again ref)
        then have "w_reads w < K"
          using less.prems poll_round_None [OF again(3)] by (metis not_le)
        with less.prems show ?thesis
          unfolding polling(1) again(1) by (intro less.hyps) (simp_all add: poll_round_frame)
      next
        case (finished ref d err)
        then have "length refs = Suc (length (remove1 ref refs))" by (intro length_remove1_Suc)
        with less.prems show ?thesis
          unfolding polling(1) finished(1)
          by (intro less.hyps) (auto simp: poll_round_frame dest: notin_set_remove1)
      qed
    next
      case polled
      then show ?thesis by (simp add: after_polling_def)
    qed
  qed
qed

text \<open>A phase that runs a pool ends if what follows it does.\<close>

lemma pool_phase_ends:
  assumes next_state: "\<And>p s'. pool_ok n concurrency fn s p \<Longrightarrow> load_step E R F (wrap p) s' \<Longrightarrow>
      (\<exists>q. s' = wrap q \<and> pool_step n concurrency fn p q) \<or> run_ends E R F s'"
    and "pool_ok n concurrency fn s p"
  shows "run_ends E R F (wrap p)"
  using assms(2)
proof (induction "pool_work n p" arbitrary: p rule: less_induct)
  case less
  show ?case
  proof (rule run_endsI)
    fix s' assume step: "load_step E R F (wrap p) s'"
    from next_state [OF less.prems step] show "run_ends E R F s'"
    proof
      assume "\<exists>q. s' = wrap q \<and> pool_step n concurrency fn p q"
      then obtain q where q: "s' = wrap q" "pool_step n concurrency fn p q" by blast
      from pool_ok_step [OF q(2) less.prems] less.hyps [of q] show ?thesis by (simp add: q(1))
    qed
  qed
qed


section \<open>Lemmas: what holds on the way\<close>

fun reports :: "shown list \<Rightarrow> latencyResult list" where
  "reports [] = []"
| "reports (Announce s # out) = reports out"
| "reports (Report label r wallClock # out) = r # reports out"

lemma reports_append [simp]: "reports (out @ out') = reports out @ reports out'"
  by (induction out rule: reports.induct) auto

lemma reports_announce [simp]:
  "reports (announce1 F # out) = reports out" "reports (announce2 F # out) = reports out"
  "reports (announce3 k # out) = reports out"
  by (simp_all add: announce1_def announce2_def announce3_def)

definition pool1 :: "ext \<Rightarrow> load_flags \<Rightarrow> (nat \<Rightarrow> instant) \<Rightarrow> (world \<times> latencyResult \<times> string list) pool \<Rightarrow> bool" where
  "pool1 E F clk p \<longleftrightarrow> (\<exists>s. registered_ok 0 clk s \<and>
     pool_ok (nat (lf_devices F)) (nat (lf_concurrency F)) (register_call E (load_client F)) s p)"

definition pool2 ::
  "ext \<Rightarrow> load_lib \<Rightarrow> load_flags \<Rightarrow> (nat \<Rightarrow> instant) \<Rightarrow> string list \<Rightarrow> (world \<times> latencyResult \<times> notificationRef list) pool \<Rightarrow> bool" where
  "pool2 E R F clk ids p \<longleftrightarrow> (\<exists>s. created_ok (nat (lf_notifications F)) [] clk s \<and>
     pool_ok (nat (lf_notifications F)) (nat (lf_concurrency F)) (create_call E R (load_client F) ids) s p)"

lemma pool1_returned:
  assumes "pool1 E F clk p" "pool_returned (nat (lf_devices F)) p"
  shows "registered_ok (nat (lf_devices F)) clk (po_shared p)"
proof -
  obtain s where s: "registered_ok 0 clk s"
      "pool_ok (nat (lf_devices F)) (nat (lf_concurrency F)) (register_call E (load_client F)) s p"
    using assms(1) by (auto simp: pool1_def)
  then have order: "distinct (po_order p)" "set (po_order p) = {..<nat (lf_devices F)}"
      "po_shared p = fold (register_call E (load_client F)) (po_order p) s"
    using assms(2) by (auto simp: pool_ok_def pool_returned_def)
  moreover from order(1,2) have "length (po_order p) = nat (lf_devices F)"
    by (metis card_lessThan distinct_card)
  ultimately show ?thesis using register_calls_ok [OF s(1), where xs = "po_order p" and E = E and c = "load_client F"] by simp
qed

lemma pool2_returned:
  assumes "pool2 E R F clk ids p" "pool_returned (nat (lf_notifications F)) p" "po_shared p = (w, r, refs)"
  shows "w_clock w = clk" "counted r = nat (lf_notifications F)" "length refs = nat (lf_notifications F)"
    "length (filter (\<lambda>ref. nr_createErr ref = None) refs) = length (lr_latencies r)"
proof -
  obtain s where s: "created_ok (nat (lf_notifications F)) [] clk s"
      "pool_ok (nat (lf_notifications F)) (nat (lf_concurrency F)) (create_call E R (load_client F) ids) s p"
    using assms(1) by (auto simp: pool2_def)
  then have order: "distinct (po_order p)" "set (po_order p) = {..<nat (lf_notifications F)}"
      "po_shared p = fold (create_call E R (load_client F) ids) (po_order p) s"
    using assms(2) by (auto simp: pool_ok_def pool_returned_def)
  then have ok: "created_ok (nat (lf_notifications F)) (po_order p) clk (w, r, refs)"
    using create_calls_ok [OF s(1), where ys = "po_order p" and E = E and R = R and c = "load_client F" and ids = ids] assms(3) by simp
  from created_all [OF ok order(1,2)] ok show "w_clock w = clk" "counted r = nat (lf_notifications F)"
      "length refs = nat (lf_notifications F)"
      "length (filter (\<lambda>ref. nr_createErr ref = None) refs) = length (lr_latencies r)"
    by (simp_all add: created_ok_def)
qed

lemma pool1_start: "pool1 E F (w_clock w) (runConcurrent_start (w, newLatencyResult, []))"
  unfolding pool1_def
  by (intro exI [of _ "(w, newLatencyResult, [])"] conjI pool_ok_start) (simp add: registered_ok_def)

lemma pool2_start:
  "length refs = nat (lf_notifications F) \<Longrightarrow>
     pool2 E R F (w_clock w) ids (runConcurrent_start (w, newLatencyResult, refs))"
  unfolding pool2_def
  by (intro exI [of _ "(w, newLatencyResult, refs)"] conjI pool_ok_start) (simp add: created_ok_def)

text \<open>A run from a clock that advances ends, phase by phase from the last.\<close>

lemma creating_ends:
  assumes "clock_advances clk" "pool2 E R F clk ids p"
  shows "run_ends E R F (out, Creating t ids p)"
proof -
  obtain s where s: "created_ok (nat (lf_notifications F)) [] clk s"
      "pool_ok (nat (lf_notifications F)) (nat (lf_concurrency F)) (create_call E R (load_client F) ids) s p"
    using assms(2) by (auto simp: pool2_def)
  show ?thesis
  proof (rule pool_phase_ends [OF _ s(2)])
    fix p s' assume ok: "pool_ok (nat (lf_notifications F)) (nat (lf_concurrency F)) (create_call E R (load_client F) ids) s p"
      and step: "load_step E R F (out, Creating t ids p) s'"
    from step show "(\<exists>q. s' = (out, Creating t ids q) \<and> pool_step (nat (lf_notifications F)) (nat (lf_concurrency F))
        (create_call E R (load_client F) ids) p q) \<or> run_ends E R F s'"
    proof cases
      case (created sample)
      obtain w r refs where shared: "po_shared p = (w, r, refs)" by (cases "po_shared p")
      from s(1) ok have "pool2 E R F clk ids p" unfolding pool2_def by blast
      from pool2_returned(1) [OF this created(2) shared] assms(1) have "clock_advances (w_clock w)" by simp
      then have "run_ends E R F (out', Polling t' (refs', r', final time_Now (final time_Now w)))" for out' t' refs' r'
        using clock_passes [of "w_clock w" refs' pollTimeout] polling_ends [of refs' _ "final time_Now (final time_Now w)"]
        by (auto simp: time_Now_clock)
      then show ?thesis
        unfolding created(1) shared after_creating_def pollCompletion_start_def Let_def by simp
    qed blast
  qed
qed

lemma registering_ends:
  assumes "clock_advances clk" "pool1 E F clk p"
  shows "run_ends E R F (out, Registering t p)"
proof -
  obtain s where s: "registered_ok 0 clk s"
      "pool_ok (nat (lf_devices F)) (nat (lf_concurrency F)) (register_call E (load_client F)) s p"
    using assms(2) by (auto simp: pool1_def)
  show ?thesis
  proof (rule pool_phase_ends [OF _ s(2)])
    fix p s' assume ok: "pool_ok (nat (lf_devices F)) (nat (lf_concurrency F)) (register_call E (load_client F)) s p"
      and step: "load_step E R F (out, Registering t p) s'"
    from step show "(\<exists>q. s' = (out, Registering t q) \<and> pool_step (nat (lf_devices F)) (nat (lf_concurrency F))
        (register_call E (load_client F)) p q) \<or> run_ends E R F s'"
    proof cases
      case registered
      obtain w r ids where shared: "po_shared p = (w, r, ids)" by (cases "po_shared p")
      from s(1) ok have "pool1 E F clk p" unfolding pool1_def by blast
      from pool1_returned [OF this registered(2)] have clk: "w_clock w = clk" by (simp add: shared registered_ok_def)
      show ?thesis
        unfolding registered(1) shared after_registering_def Let_def
        using creating_ends [OF _ pool2_start] assms(1) by (simp add: time_Now_clock clk)
    qed blast
  qed
qed


lemma load_start_ends:
  assumes "clock_advances (w_clock w)"
  shows "run_ends E R F (load_start F w)"
proof -
  show ?thesis
    using registering_ends [OF _ pool1_start] assms by (simp add: load_start_def time_Now_clock)
qed

section \<open>Lemmas: how a run ends\<close>

text \<open>What the printed results say of the phases that are over.\<close>

definition phase1_ok :: "load_flags \<Rightarrow> latencyResult \<Rightarrow> bool" where
  "phase1_ok F r \<longleftrightarrow> counted r = nat (lf_devices F) \<and> lr_latencies r \<noteq> []"

definition phase2_ok :: "load_flags \<Rightarrow> latencyResult \<Rightarrow> bool" where
  "phase2_ok F r \<longleftrightarrow> counted r = nat (lf_notifications F)"

definition phase3_ok :: "load_flags \<Rightarrow> latencyResult \<Rightarrow> nat \<Rightarrow> bool" where
  "phase3_ok F r polls \<longleftrightarrow> polls \<le> min 20 (length (lr_latencies r)) \<and>
     (lr_errors r = 0 \<longrightarrow> polls = min 20 (nat (lf_notifications F)))"

definition load_done :: "load_flags \<Rightarrow> shown list \<Rightarrow> goerr option \<Rightarrow> bool" where
  "load_done F out err \<longleftrightarrow>
     (case err of
        None \<Rightarrow> \<exists>r1 r2 r3. reports out = [r1, r2, r3] \<and> phase1_ok F r1 \<and> phase2_ok F r2 \<and> phase3_ok F r2 (counted r3)
      | Some e \<Rightarrow>
          lf_apiKey F = [] \<and> out = [] \<and> e = ErrText ''loadtest: --api-key is required'' \<or>
          (\<exists>r1. reports out = [r1] \<and> counted r1 = nat (lf_devices F) \<and> lr_latencies r1 = [] \<and>
             e = ErrText ''loadtest: no devices registered successfully, aborting''))"

fun load_inv :: "ext \<Rightarrow> load_lib \<Rightarrow> load_flags \<Rightarrow> load_state \<Rightarrow> bool" where
  "load_inv E R F (out, Registering t p) \<longleftrightarrow> reports out = [] \<and> (\<exists>clk. pool1 E F clk p)"
| "load_inv E R F (out, Creating t ids p) \<longleftrightarrow>
     (\<exists>r1. reports out = [r1] \<and> phase1_ok F r1) \<and> (\<exists>clk. pool2 E R F clk ids p)"
| "load_inv E R F (out, Polling t (refs, r, w)) \<longleftrightarrow>
     (\<exists>r1 r2. reports out = [r1, r2] \<and> phase1_ok F r1 \<and> phase2_ok F r2 \<and> phase3_ok F r2 (counted r + length refs))"
| "load_inv E R F (out, Ended err w) \<longleftrightarrow> load_done F out err"
| "load_inv E R F (out, Panicked) \<longleftrightarrow> lf_concurrency F < 0 \<or> lf_notifications F < 0"

lemma load_inv_start: "load_inv E R F (load_start F w)"
  using pool1_start by (fastforce simp: load_start_def load_done_def)

lemma pool_step_kept:
  "pool1 E F clk p \<Longrightarrow> pool_step (nat (lf_devices F)) (nat (lf_concurrency F)) (register_call E (load_client F)) p p' \<Longrightarrow>
     pool1 E F clk p'"
  "pool2 E R F clk ids q \<Longrightarrow>
     pool_step (nat (lf_notifications F)) (nat (lf_concurrency F)) (create_call E R (load_client F) ids) q q' \<Longrightarrow>
     pool2 E R F clk ids q'"
  unfolding pool1_def pool2_def using pool_ok_step by metis+

lemma filter_created: "length (filter P (take k xs)) \<le> length (filter P xs)"
  by (metis append_take_drop_id filter_append le_add1 length_append)

lemma sample_polls:
  assumes "mset sample = mset refs" "length (filter P refs) = ok" "length refs = n"
  shows "length (filter P (take (if length sample > 20 then 20 else length sample) sample)) \<le> min 20 ok \<and>
    (ok = n \<longrightarrow> length (filter P (take (if length sample > 20 then 20 else length sample) sample)) = min 20 n)"
proof -
  have len: "length sample = n" "length (filter P sample) = ok"
    using assms by (metis size_mset, metis mset_filter size_mset)
  let ?t = "take (if length sample > 20 then 20 else length sample) sample"
  have t: "length ?t = min 20 n" using len(1) by auto
  have "length (filter P ?t) \<le> ok"
    using filter_created [of P _ sample] unfolding len(2) .
  moreover have "length (filter P ?t) \<le> 20"
    using length_filter_le [of P ?t] t by linarith
  ultimately have "length (filter P ?t) \<le> min 20 ok" by simp
  moreover have "length (filter P ?t) = min 20 n" if "ok = n"
  proof -
    from that len have "filter P sample = sample" by (metis length_filter_less linorder_neq_iff filter_True)
    then have "filter P ?t = ?t" by (metis (no_types, lifting) filter_id_conv in_set_takeD)
    with t show ?thesis by (simp only:)
  qed
  ultimately show ?thesis by blast
qed


lemma after_creating_inv:
  assumes "pool2 E R F clk ids p" "pool_returned (nat (lf_notifications F)) p"
    and "mset sample = mset (snd (snd (po_shared p)))" "reports out = [r1]" "phase1_ok F r1"
  shows "load_inv E R F (after_creating sample out t (po_shared p))"
proof -
  obtain w r refs where shared: "po_shared p = (w, r, refs)" by (cases "po_shared p")
  note facts = pool2_returned [OF assms(1,2) shared]
  have "lr_errors r = 0 \<Longrightarrow> length (lr_latencies r) = nat (lf_notifications F)"
    using facts(2) by (simp add: counted_def)
  then have "phase3_ok F r (length (filter (\<lambda>ref. nr_createErr ref = None)
      (take (if length sample > 20 then 20 else length sample) sample)))"
    using sample_polls [OF _ facts(4) facts(3), of sample] assms(3) by (simp only: shared snd_conv phase3_ok_def) blast
  then show ?thesis
    using assms(4,5) facts(2)
    by (simp only: shared after_creating_def pollCompletion_start_def Let_def split load_inv.simps) (simp add: phase2_ok_def)
qed

lemma after_registering_inv:
  assumes "pool1 E F clk p" "pool_returned (nat (lf_devices F)) p" "reports out = []"
  shows "load_inv E R F (after_registering F out t (po_shared p))"
proof -
  obtain w r ids where shared: "po_shared p = (w, r, ids)" by (cases "po_shared p")
  from pool1_returned [OF assms(1,2)] have ok: "counted r = nat (lf_devices F)" "length ids = length (lr_latencies r)"
    by (simp_all add: shared registered_ok_def)
  then show ?thesis
    using assms(3)
    by (auto simp: shared after_registering_def load_done_def phase1_ok_def Let_def intro!: exI pool2_start)
qed

lemma load_inv_step: "load_step E R F s s' \<Longrightarrow> load_inv E R F s \<Longrightarrow> load_inv E R F s'"
proof (induction rule: load_step.induct)
  case (registering p p' out t)
  then show ?case by (auto intro: pool_step_kept(1))
next
  case (registered p out t)
  then show ?case using after_registering_inv by auto
next
  case (creating ids p p' out t)
  then show ?case by (auto intro: pool_step_kept(2))
next
  case (created p sample out t ids)
  then show ?case using after_creating_inv by auto
next
  case (polling s s' out t)
  from polling(1) show ?case
  proof cases
    case (again ref refs w r)
    with polling(2) show ?thesis by simp
  next
    case (finished ref refs w d err r)
    from length_remove1_Suc [OF finished(3)] polling(2) show ?thesis by (simp add: finished(1,2))
  qed
next
  case (polled out t r w)
  then show ?case by (auto simp: after_polling_def load_done_def)
qed

lemma load_inv_steps: "(load_step E R F)\<^sup>*\<^sup>* s s' \<Longrightarrow> load_inv E R F s \<Longrightarrow> load_inv E R F s'"
  by (induction rule: rtranclp_induct) (blast dest: load_inv_step)+

text \<open>With a slot to run in, a run that has not ended can go on.\<close>

lemma pool_can_go_on:
  "pool_ok n concurrency fn s p \<Longrightarrow> 0 < concurrency \<Longrightarrow> pool_returned n p \<or> (\<exists>p'. pool_step n concurrency fn p p')"
  using pool_work_0 [of n concurrency fn s p] pool_progress [of n concurrency fn s p] by auto

lemma load_progress:
  assumes "load_inv E R F (out, ph)" "0 < lf_concurrency F"
  shows "(\<exists>s'. load_step E R F (out, ph) s') \<or> (\<exists>err w. ph = Ended err w) \<or> ph = Panicked"
proof (cases ph)
  case (Registering t p)
  with assms(1) obtain s where ok: "pool_ok (nat (lf_devices F)) (nat (lf_concurrency F)) (register_call E (load_client F)) s p"
    by (auto simp: pool1_def)
  from pool_can_go_on [OF ok] assms(2) show ?thesis
    unfolding Registering by (metis load_step.registering load_step.registered zero_less_nat_eq)
next
  case (Creating t ids p)
  with assms(1) obtain s where ok: "pool_ok (nat (lf_notifications F)) (nat (lf_concurrency F)) (create_call E R (load_client F) ids) s p"
    by (auto simp: pool2_def)
  from pool_can_go_on [OF ok] assms(2) show ?thesis
    unfolding Creating by (metis load_step.creating load_step.created zero_less_nat_eq)
next
  case (Polling t s)
  obtain refs r w where s: "s = (refs, r, w)" by (cases s)
  show ?thesis
  proof (cases refs)
    case Nil
    show ?thesis unfolding Polling s Nil by (rule disjI1, rule exI, rule load_step.polled)
  next
    case (Cons ref rest)
    have "\<exists>s'. poll_step E (load_client F) pollTimeout (ref # rest, r, w) s'"
    proof (cases "value_of (poll_round E (load_client F) pollTimeout ref) w")
      case None
      show ?thesis by (rule exI, rule poll_step.again [OF _ None]) simp
    next
      case (Some recorded)
      obtain d err where "recorded = (d, err)" by (cases recorded)
      with Some have finished: "value_of (poll_round E (load_client F) pollTimeout ref) w = Some (d, err)" by simp
      show ?thesis by (rule exI, rule poll_step.finished [OF _ finished]) simp
    qed
    then show ?thesis unfolding Polling s Cons by (blast intro: load_step.polling)
  qed
qed simp_all

lemma load_no_key:
  assumes "lf_apiKey F = []" and "(load_step E R F)\<^sup>*\<^sup>* (load_start F w) s"
  shows "s = load_start F w"
  using assms(2) by (cases rule: converse_rtranclpE) (auto simp: load_start_def assms(1))

section \<open>Properties\<close>

text \<open>
  C38. The load test ends, and says what happened. With a slot to run in and a clock that passes
  every instant, whatever the server answers, however the goroutines interleave and whichever
  notifications are sampled: no run goes on forever; one that cannot go on has ended, or panicked
  on a negative number of notifications. One that ended without an error printed three results,
  which count every device and every notification once, at least one device having been
  registered, and one poll per notification of a sample of at most 20 that was created (of
  exactly 20, or of all, if every creation succeeded). One that ended with an error had no key
  and printed nothing and left the world as it was, or registered no device and printed so.
\<close>

theorem loadtest_ends:
  assumes "0 < lf_concurrency F" "clock_advances (w_clock w)"
  shows "\<not> (\<exists>run. run 0 = load_start F w \<and> (\<forall>i. load_step E R F (run i) (run (Suc i)))) \<and>
    (\<forall>out ph. (load_step E R F)\<^sup>*\<^sup>* (load_start F w) (out, ph) \<longrightarrow>
       (\<exists>s'. load_step E R F (out, ph) s') \<or> ph = Panicked \<and> lf_notifications F < 0 \<or>
       (\<exists>err w'. ph = Ended err w' \<and> load_done F out err \<and> (lf_apiKey F = [] \<longrightarrow> out = [] \<and> w' = w)))"
proof (intro conjI allI impI)
  show "\<not> (\<exists>run. run 0 = load_start F w \<and> (\<forall>i. load_step E R F (run i) (run (Suc i))))"
    by (rule run_ends_finite [OF load_start_ends [OF assms(2)]])
  fix out ph assume steps: "(load_step E R F)\<^sup>*\<^sup>* (load_start F w) (out, ph)"
  from load_inv_steps [OF steps load_inv_start] load_progress [of E R F out ph] assms(1) show
    "(\<exists>s'. load_step E R F (out, ph) s') \<or> ph = Panicked \<and> lf_notifications F < 0 \<or>
       (\<exists>err w'. ph = Ended err w' \<and> load_done F out err \<and> (lf_apiKey F = [] \<longrightarrow> out = [] \<and> w' = w))"
    using load_no_key [OF _ steps] by (auto simp: load_start_def split: if_splits)
qed

definition sample_load :: load_flags where
  "sample_load = \<lparr>lf_baseURL = ''http://localhost:8080'', lf_apiKey = ''sp_live_x'', lf_devices = 1,
     lf_notifications = 1, lf_concurrency = 1\<rparr>"

definition sample_lib :: load_lib where
  "sample_lib = \<lparr>ll_IntN = (\<lambda>i n. 0), ll_rate = (\<lambda>n d. ''1.0'')\<rparr>"

theorem loadtest_ends_witness:
  "\<not> (\<exists>run. run 0 = load_start sample_load sample_world \<and>
      (\<forall>i. load_step sample_ext sample_lib sample_load (run i) (run (Suc i))))"
proof -
  have "clock_advances (w_clock sample_world)"
    unfolding clock_advances_def
  proof
    fix t :: instant
    show "\<exists>K. \<forall>k \<ge> K. t < w_clock sample_world k"
      by (rule exI [of _ "nat (t + 1)"]) (auto simp: sample_world_def)
  qed
  with loadtest_ends [of sample_load sample_world sample_ext sample_lib] show ?thesis
    by (simp add: sample_load_def)
qed

text \<open>The decimal flags are the numbers they spell, and a malformed one exits with status 2.\<close>

lemma default_numbers: "ParseInt0 ''200'' = Some 200" "ParseInt0 ''20'' = Some 20"
  by code_simp+

lemma loadtest_flags_given:
  assumes "- (2 ^ 63) \<le> i" "i < 2 ^ 63"
  shows "loadtest_flags [''--devices='' @ Itoa i] =
    Inr \<lparr>lf_baseURL = ''http://localhost:8080'', lf_apiKey = [], lf_devices = i, lf_notifications = 200, lf_concurrency = 20\<rparr>"
  using ParseInt0_Itoa [OF assms]
  by (simp add: loadtest_flags_def load_defaults_def load_accepts_def set_flag_def default_numbers)

end
