(* ===== verification/Process.thy ===== *)
theory Process imports Serve CommandFacts Loadrun begin

text \<open>
  A run of the binary of \<open>cmd/server\<close>: the arguments and flags of its subcommands, what the
  process becomes or exits with. Files, standard input and the migrator are arguments.
\<close>

section \<open>The process\<close>

record surroundings =
  su_ReadFile :: "string \<Rightarrow> goerr + string"
  su_Stdin :: "goerr + string"
  su_migrate_New :: "string \<Rightarrow> goerr option"
  su_migrate_Up :: "goerr option"
  su_ErrNoChange :: goerr

text \<open>A process exits with a status and what it printed, serves, or starts a load test (\<open>load_step\<close>).\<close>

datatype outcome =
    Exit nat string
  | Listening listener
  | Working worker_server
  | LoadTesting load_state

definition finish :: "('a \<Rightarrow> string) \<Rightarrow> (world, goerr + 'a) state \<Rightarrow> (world, outcome) state" where
  "finish printed m = do {
     r \<leftarrow> m;
     ret (case r of Inl err \<Rightarrow> Exit (exit_status (Some err)) [] | Inr x \<Rightarrow> Exit (exit_status None) (printed x)) }"

definition with_flags ::
  "(string \<times> string) list \<Rightarrow> string list \<Rightarrow> ((string \<Rightarrow> string) \<Rightarrow> (world, outcome) state) \<Rightarrow> (world, outcome) state"
where
  "with_flags flags args run = (case parse_flags (\<lambda>_ _. True) flags args of
      Inl code \<Rightarrow> ret (Exit code [])
    | Inr vals \<Rightarrow> run (\<lambda>name. the (map_of vals name)))"

definition getenv :: "environ \<Rightarrow> string \<Rightarrow> string" where
  "getenv env key = (case env key of Some v \<Rightarrow> v | None \<Rightarrow> [])"

fun run_command ::
  "ext \<Rightarrow> redis_uris \<Rightarrow> string list \<Rightarrow> surroundings \<Rightarrow> environ \<Rightarrow> Config \<Rightarrow> command \<Rightarrow> (world, outcome) state"
where
  "run_command E U names S env cfg (Serve mode) = do {
     r \<leftarrow> runServe E U names cfg mode;
     ret (case r of Inl err \<Rightarrow> Exit (exit_status (Some err)) [] | Inr l \<Rightarrow> Listening l) }"
| "run_command E U names S env cfg Worker = do {
     r \<leftarrow> runWorker E U names cfg;
     ret (case r of Inl err \<Rightarrow> Exit (exit_status (Some err)) [] | Inr ws \<Rightarrow> Working ws) }"
| "run_command E U names S env cfg Migrate =
     ret (Exit (exit_status (runMigrate (su_migrate_New S) (su_ErrNoChange S) (su_migrate_Up S) cfg)) [])"
| "run_command E U names S env cfg Healthcheck = do {
     code \<leftarrow> runHealthcheckProbe E (HTTPAddr cfg); ret (Exit code []) }"
| "run_command E U names S env cfg (SeedCredential args) =
     with_flags [(''provider'', ''fcm''), (''file'', []), (''project'', ''default'')] args (\<lambda>f.
       finish (\<lambda>_. []) (runSeedCredential E (cfg_MasterKey cfg) (f ''provider'') (f ''file'') (f ''project'')
         (su_ReadFile S (f ''file''))))"
| "run_command E U names S env cfg (CreateProject args) =
     with_flags [(''name'', []), (''slug'', [])] args (\<lambda>f.
       finish (\<lambda>_. []) (runCreateProject (f ''name'') (f ''slug'')))"
| "run_command E U names S env cfg (CreateAPIKey args) =
     with_flags [(''project'', []), (''name'', []), (''scope'', ''send'')] args (\<lambda>f.
       finish id (runCreateAPIKey E (f ''project'') (f ''name'') (f ''scope'')))"
| "run_command E U names S env cfg Bootstrap =
     finish (\<lambda>_. []) (runBootstrap E (getenv env ''BOOTSTRAP_ADMIN_EMAIL'') (getenv env ''BOOTSTRAP_ADMIN_PASSWORD''))"
| "run_command E U names S env cfg (ResetPassword args) =
     with_flags [(''email'', [])] args (\<lambda>f. finish (\<lambda>_. []) (runResetPassword E (f ''email'') (su_Stdin S)))"
| "run_command E U names S env cfg (LoadTest args) = (case loadtest_flags args of
      Inl code \<Rightarrow> ret (Exit code [])
    | Inr F \<Rightarrow> State (\<lambda>w. (LoadTesting (load_start F w), w)))"
| "run_command E U names S env cfg RotateKey = ret (Exit (exit_status runRotateKey) [])"

definition server_main ::
  "ext \<Rightarrow> redis_uris \<Rightarrow> string list \<Rightarrow> surroundings \<Rightarrow> environ \<Rightarrow> string list \<Rightarrow> (world, outcome) state"
where
  "server_main E U names S env os_Args = (case main_dispatch env os_Args of
      Inl (code, message) \<Rightarrow> ret (Exit code message)
    | Inr (cfg, cmd) \<Rightarrow> run_command E U names S env cfg cmd)"

section \<open>Lemmas\<close>

text \<open>What a run can be, by what it ends as.\<close>

lemma finish_run:
  "value_of (finish printed m) w \<in> {Exit 1 []} \<union> range (Exit 0)"
  "final (finish printed m) w = final m w"
  by (auto simp: finish_def exit_status_def split: sum.split)

lemma with_flags_cases:
  assumes "\<And>f. value_of (run f) w \<in> {Exit 1 []} \<union> range (Exit 0)"
  shows "value_of (with_flags flags args run) w \<in> range (Exit 0) \<union> {Exit 1 []} \<or>
    value_of (with_flags flags args run) w = Exit 2 [] \<and> final (with_flags flags args run) w = w"
proof (cases "parse_flags (\<lambda>_ _. True) flags args")
  case (Inl code)
  with parse_flags_status [OF Inl] show ?thesis by (auto simp: with_flags_def)
next
  case (Inr vals)
  with assms [of "\<lambda>name. the (map_of vals name)"] show ?thesis by (auto simp: with_flags_def)
qed

lemma healthcheck_status: "value_of (runHealthcheckProbe E a) w \<in> {0, 1}"
  by (auto simp: runHealthcheckProbe_def Let_def split: option.split sum.split)

text \<open>The servers a command starts, and what they were given.\<close>

lemma runWorker_ok:
  assumes "value_of (runWorker E U names cfg) w = Inr ws"
  obtains mk where "LoadMasterKey (cfg_MasterKey cfg) = Inr mk" "wk_Queues ws = worker_queues"
    "wk_Mux ws = worker_mux E (production_handlers E names mk (Some (OutboundRateLimitRPS cfg)))"
  using assms by (auto simp: runWorker_def attempt_value split: sum.splits)

lemma runWorker_frame: "w_db (final (runWorker E U names cfg) w) = w_db w"
  by (simp add: runWorker_def attempt_final NewPostgresPool_def exec_reads_final split: sum.split)

definition well_started :: "ext \<Rightarrow> string list \<Rightarrow> Config \<Rightarrow> command \<Rightarrow> outcome \<Rightarrow> bool" where
  "well_started E names cfg cmd out = (case out of
      Listening l \<Rightarrow> (\<exists>mode mk. cmd = Serve mode \<and> LoadMasterKey (cfg_MasterKey cfg) = Inr mk \<and>
        l = \<lparr>li_Addr = HTTPAddr cfg, li_Mux = serve_mux mode, li_API = NewRouter E (NewRateLimiter (DefaultRateLimitRPS cfg)),
          li_Dashboard = dashboard_NewRouter E (production_server E names mk (CookieSecure cfg))\<rparr>)
    | Working ws \<Rightarrow> (\<exists>mk. cmd = Worker \<and> LoadMasterKey (cfg_MasterKey cfg) = Inr mk \<and> 0 < OutboundRateLimitRPS cfg \<and>
        wk_Queues ws = worker_queues \<and>
        wk_Mux ws = worker_mux E (production_handlers E names mk (Some (OutboundRateLimitRPS cfg))))
    | _ \<Rightarrow> True)"

definition clean_run :: "ext \<Rightarrow> string list \<Rightarrow> Config \<Rightarrow> command \<Rightarrow> world \<Rightarrow> (world, outcome) state \<Rightarrow> bool" where
  "clean_run E names cfg cmd w m \<longleftrightarrow> well_started E names cfg cmd (value_of m w) \<and>
     (\<forall>printed. value_of m w = Exit 2 printed \<longrightarrow> final m w = w)"

lemma clean_exits:
  "clean_run E names cfg cmd w (finish printed m)"
  "clean_run E names cfg cmd w (with_flags flags args (\<lambda>f. finish printed (k f)))"
  using finish_run(1) [of printed m w] with_flags_cases [of "\<lambda>f. finish printed (k f)" w flags args, OF finish_run(1)]
  by (auto simp: clean_run_def well_started_def)

lemma run_command_clean:
  assumes "Validate cfg = None"
  shows "clean_run E names cfg cmd w (run_command E U names S env cfg cmd)"
proof -
  have rate: "0 < OutboundRateLimitRPS cfg" using assms by (auto simp: Validate_def split: if_splits)
  show ?thesis
  proof (cases cmd)
    case (Serve mode)
    then show ?thesis
      by (auto simp: clean_run_def well_started_def exit_status_def elim!: runServe_ok split: sum.split)
  next
    case Worker
    with rate show ?thesis
      by (auto simp: clean_run_def well_started_def exit_status_def elim!: runWorker_ok split: sum.split)
  next
    case Healthcheck
    with healthcheck_status [of E "HTTPAddr cfg" w] show ?thesis by (auto simp: clean_run_def well_started_def)
  next
    case (LoadTest args)
    then show ?thesis by (auto simp: clean_run_def well_started_def split: sum.split)
  qed (simp_all add: clean_exits, simp_all add: clean_run_def well_started_def exit_status_def)
qed

lemma command_of_serve: "command_of name rest = Some (Serve mode) \<Longrightarrow> name = mode \<and> mode \<in> {''serve-all'', ''serve-api'', ''serve-dashboard''}"
  by (auto simp: command_of_def split: if_splits)

lemma command_of_worker: "command_of name rest = Some Worker \<Longrightarrow> name = ''worker''"
  by (auto simp: command_of_def split: if_splits)

lemma LoadMasterKey_text:
  assumes "LoadMasterKey (cfg_MasterKey (Load env)) = Inr mk"
  shows "\<exists>text. env ''APP_MASTER_KEY'' = Some text \<and> b64_decode StdAlphabet True text = Some mk \<and> length mk = 32"
  using assms by (auto simp: LoadMasterKey_def Load_def keySize_def split: if_splits option.splits)

section \<open>Properties\<close>

text \<open>
  C21. Nothing runs on a bad configuration. Whatever the arguments and the environment: a process
  that ends up serving was asked to by its first argument, has an environment that validates and
  the 32 bytes its \<open>APP_MASTER_KEY\<close> is the base64 text of; its listener serves exactly the routers of that
  configuration and that key, the public API below \<open>/api/\<close> and the dashboard elsewhere, each only
  in the modes that name it. A worker has such a key too, consumes the fanout queue and one queue
  per provider, and its outbound ceiling is positive. And a process that exits with status 2 (no command, an
  unknown one, or flags it does not understand) has not touched the database or any service.
\<close>

theorem main_starts_well:
  "(\<forall>l. value_of (server_main E U names S env args) w = Listening l \<longrightarrow>
      args ! 1 \<in> {''serve-all'', ''serve-api'', ''serve-dashboard''} \<and> Validate (Load env) = None \<and>
      (\<exists>text mk. env ''APP_MASTER_KEY'' = Some text \<and> b64_decode StdAlphabet True text = Some mk \<and> length mk = 32 \<and>
        li_Addr l = HTTPAddr (Load env) \<and>
        li_API l = NewRouter E (NewRateLimiter (DefaultRateLimitRPS (Load env))) \<and>
        li_Dashboard l = dashboard_NewRouter E (production_server E names mk (CookieSecure (Load env)))) \<and>
      (\<forall>path. mux_lookup (li_Mux l) path =
        (let api = args ! 1 \<noteq> ''serve-dashboard''; dashboard = args ! 1 \<noteq> ''serve-api'' in
         if path = ''/healthz'' then To Health
         else if api \<and> take 5 path = ''/api/'' then To PublicAPI
         else if api \<and> path = ''/api'' \<or> dashboard \<and> path = [] then RedirectToSlash
         else if dashboard \<and> take 1 path = ''/'' then To AdminDashboard
         else NotFound))) \<and>
   (\<forall>ws. value_of (server_main E U names S env args) w = Working ws \<longrightarrow>
      args ! 1 = ''worker'' \<and> Validate (Load env) = None \<and> 0 < OutboundRateLimitRPS (Load env) \<and>
      wk_Queues ws = (QueueFanout, 5) # map (\<lambda>p. (SendTypeFor p, 10)) [''expo'', ''fcm'', ''apns'', ''hms''] \<and>
      (\<exists>text mk. env ''APP_MASTER_KEY'' = Some text \<and> b64_decode StdAlphabet True text = Some mk \<and> length mk = 32 \<and>
        wk_Mux ws = worker_mux E (production_handlers E names mk (Some (OutboundRateLimitRPS (Load env)))))) \<and>
   (\<forall>printed. value_of (server_main E U names S env args) w = Exit 2 printed \<longrightarrow>
      final (server_main E U names S env args) w = w)"
proof (cases "main_dispatch env args")
  case (Inl stopped)
  then show ?thesis by (cases stopped) (simp add: server_main_def)
next
  case (Inr started)
  then obtain cmd where cmd: "main_dispatch env args = Inr (Load env, cmd)" and ok: "Validate (Load env) = None"
    and named: "command_of (args ! 1) (drop 2 args) = Some cmd"
    by (auto simp: main_dispatch_def Let_def split: if_splits option.splits)
  let ?run = "server_main E U names S env args"
  have run: "?run = run_command E U names S env (Load env) cmd" by (simp add: server_main_def cmd)
  note clean = run_command_clean [OF ok, of E names cmd w U S env, folded run, unfolded clean_run_def]
  show ?thesis
  proof (intro conjI allI impI, goal_cases)
    case (1 l)
    with clean named show ?case by (auto simp: well_started_def dest: command_of_serve)
  next
    case (2 l) show ?case by (rule ok)
  next
    case (3 l)
    with clean show ?case by (auto simp: well_started_def dest!: LoadMasterKey_text)
  next
    case (4 l path)
    with clean obtain mode where "cmd = Serve mode" "li_Mux l = serve_mux mode" by (auto simp: well_started_def)
    with command_of_serve [of "args ! 1" "drop 2 args" mode] named show ?case
      by (auto simp: serve_mux_routes Let_def)
  next
    case (5 ws)
    with clean named show ?case by (auto simp: well_started_def dest: command_of_worker)
  next
    case (6 ws) show ?case by (rule ok)
  next
    case (7 ws)
    with clean show ?case by (auto simp: well_started_def)
  next
    case (8 ws)
    with clean show ?case by (auto simp: well_started_def worker_queues_def supportedProviders_def)
  next
    case (9 ws)
    with clean show ?case by (auto simp: well_started_def dest!: LoadMasterKey_text)
  next
    case (10 printed)
    with clean show ?case by blast
  qed
qed

definition sample_uris :: redis_uris where
  "sample_uris = \<lparr>ru_ParseURL = (\<lambda>s. None), ru_ParseRedisURI = (\<lambda>s. None)\<rparr>"

definition sample_surroundings :: surroundings where
  "sample_surroundings = \<lparr>su_ReadFile = (\<lambda>f. Inr ''{}''), su_Stdin = Inr [], su_migrate_New = (\<lambda>s. None),
     su_migrate_Up = None, su_ErrNoChange = ErrText ''no change''\<rparr>"

text \<open>A server for the API alone, whose key is the text of 32 times the same byte.\<close>

definition serving_env :: environ where
  "serving_env = [''APP_MASTER_KEY'' \<mapsto> b64_encode StdAlphabet True (replicate 32 (CHR ''k''))]"

definition serving :: "(world, outcome) state" where
  "serving = server_main sample_ext sample_uris [] sample_surroundings serving_env [''server'', ''serve-api'']"

theorem main_starts_well_witness:
  "(\<exists>l. value_of serving sample_world = Listening l \<and>
     li_Dashboard l = dashboard_NewRouter sample_ext (production_server sample_ext [] (replicate 32 (CHR ''k'')) True) \<and>
     mux_lookup (li_Mux l) ''/api/v1/devices'' = To PublicAPI \<and> mux_lookup (li_Mux l) ''/login'' = NotFound) \<and>
   final (server_main sample_ext sample_uris [] sample_surroundings Map.empty [''server'', ''create-project'', ''--nope'']) sample_world = sample_world"
proof -
  have key: "b64_decode StdAlphabet True (b64_encode StdAlphabet True (replicate 32 (CHR ''k''))) = Some (replicate 32 (CHR ''k''))"
    "LoadMasterKey (b64_encode StdAlphabet True (replicate 32 (CHR ''k''))) = Inr (replicate 32 (CHR ''k''))"
    by (rule b64_decode_encode, rule LoadMasterKey_encode) (simp add: keySize_def)
  have valid: "Validate (Load Map.empty) = None" "Validate (Load serving_env) = None"
    by (simp_all add: Validate_Load given_def serving_env_def)
  have cfg: "cfg_MasterKey (Load serving_env) = b64_encode StdAlphabet True (replicate 32 (CHR ''k''))"
    "CookieSecure (Load serving_env) = True"
    by (simp_all add: Load_def serving_env_def getEnvBool_def)
  have "\<exists>l. value_of serving sample_world = Listening l"
    by (simp add: serving_def server_main_def main_dispatch_def valid command_of_def runServe_def cfg key attempt_value
        NewPostgresPool_def exec_value next_env_def run_stmt_def reads_def NewRedisClient_def NewClient_def
        ParseRedisOpt_def sample_uris_def sample_world_def Let_def)
  then obtain l where l: "value_of serving sample_world = Listening l" by blast
  note served = main_starts_well [of sample_ext sample_uris "[]" sample_surroundings serving_env "[''server'', ''serve-api'']" sample_world,
      folded serving_def, THEN conjunct1, rule_format, OF l]
  have "li_Dashboard l = dashboard_NewRouter sample_ext (production_server sample_ext [] (replicate 32 (CHR ''k'')) True)"
    using served key(1) cfg(2) by (auto simp: serving_env_def)
  moreover have "mux_lookup (li_Mux l) ''/api/v1/devices'' = To PublicAPI" "mux_lookup (li_Mux l) ''/login'' = NotFound"
    using served by (simp_all add: Let_def)
  moreover have "value_of (server_main sample_ext sample_uris [] sample_surroundings Map.empty [''server'', ''create-project'', ''--nope'']) sample_world = Exit 2 []"
    by (simp add: server_main_def main_dispatch_def valid command_of_def with_flags_def)
  then have "final (server_main sample_ext sample_uris [] sample_surroundings Map.empty [''server'', ''create-project'', ''--nope'']) sample_world = sample_world"
    using main_starts_well [of sample_ext sample_uris "[]" sample_surroundings Map.empty "[''server'', ''create-project'', ''--nope'']" sample_world]
    by blast
  ultimately show ?thesis using l by blast
qed

end
