(* ===== verification/Spec2Isabelle.thy ===== *)
theory Spec2Isabelle imports CommandFacts LoginFacts ConsoleFacts MarkupFacts Wire Retry Process begin

text \<open>
  A verification development for slay-push, a self-hosted push notification service written
  in Go: clients register devices and create notifications over HTTP, a worker resolves each
  notification to devices and sends it through Expo, FCM, APNs or HMS. State lives in
  Postgres, tasks and rate limits in Redis.

  \<^bold>\<open>The parts and their theories.\<close> Definitions keep the names of the Go functions.

  \<^item> \<open>Prelude\<close>: scalar types, the state monad of all effectful code (\<open>final\<close> and \<open>value_of\<close> a
    run), the combinator \<open>attempt\<close> for \<open>if err != nil\<close>, and rows of tables.
  \<^item> \<open>Utf8\<close>, \<open>Golang\<close>, \<open>Json\<close>, \<open>Floats\<close>, \<open>Structs\<close>, \<open>Encoding\<close>, \<open>Flags\<close>: what the source uses of Go: runes,
    error chains, \<open>encoding/json\<close> (marshalling, the scanner with its syntax errors, struct
    decoding), \<open>ParseFloat\<close> and the shortest decimal of a \<open>float64\<close>, \<open>Itoa\<close>/\<open>Atoi\<close>, \<open>%q\<close>, base64, hex, \<open>Sscanf\<close>, the package \<open>flag\<close>.
  \<^item> \<open>Schema\<close>: the rows of \<open>models.go\<close>, the tables, the constraints of the migration; the locale
    \<open>table\<close>, interpreted on every table.
  \<^item> \<open>World\<close>: the state of everything (database, open transaction, queue, Redis, network, clock,
    entropy, the adapters' caches) and how one statement or call acts on it; \<open>Queries\<close> and \<open>WithTx\<close>
    of \<open>db.go\<close>: a statement runs on the pool, or on a transaction, whose changes nobody else sees
    until it commits.
  \<^item> \<open>NotificationStore\<close>, \<open>DeviceStore\<close>, \<open>AccountStore\<close>: every query of
    \<open>internal/store/postgres\<close>: \<open>sql_X\<close> is the meaning of its SQL, \<open>X\<close> the method.
  \<^item> \<open>Integrity\<close>: the step relation \<open>wstep\<close> of all writing statements and the invariant \<open>wf_db\<close>.
  \<^item> \<open>Queue\<close>, \<open>Crypto\<close>, \<open>ApiKey\<close>, \<open>Auth\<close>, \<open>Targeting\<close>: \<open>internal/queue\<close>, \<open>internal/crypto\<close>,
    \<open>internal/apikey\<close>, \<open>internal/auth\<close>, \<open>internal/targeting\<close>.
  \<^item> \<open>Provider\<close>, \<open>Expo\<close>, \<open>Fcm\<close>, \<open>Hms\<close>, \<open>Apns\<close>, \<open>Registered\<close>: \<open>internal/provider\<close>, its four adapters,
    and the registry after start-up; \<open>Wire\<close>: what a push service reads in the request it gets.
  \<^item> \<open>Dispatch\<close> with \<open>CreateFacts\<close>, \<open>SendFacts\<close>, \<open>FanoutFacts\<close>: \<open>internal/dispatch\<close>: creating, fanning
    out and sending.
  \<^item> \<open>Http\<close>, \<open>Notify\<close>, \<open>Registration\<close> with \<open>RegistrationFacts\<close>, \<open>Router\<close>: \<open>internal/transport/http\<close>.
  \<^item> \<open>Views\<close>, \<open>Dashboard\<close>, \<open>DashboardPages\<close>: \<open>internal/dashboard\<close>: the view types, the gates, setup,
    login and logout, every page handler and the routes; \<open>DashboardFacts\<close>, \<open>SessionFacts\<close>,
    \<open>LoginFacts\<close>, \<open>ConsoleFacts\<close> hold what is proved of them.
  \<^item> \<open>Markup\<close>, \<open>Templates\<close> with \<open>MarkupFacts\<close>: \<open>internal/dashboard/templates\<close>: a component is the
    list of what the generated \<open>*_templ.go\<close> functions write, in their order; a reader of tags.
  \<^item> \<open>Worker\<close>, \<open>Commands\<close> with \<open>CommandFacts\<close>, \<open>Serve\<close>, \<open>Process\<close>: \<open>cmd/server/main.go\<close>: the worker's
    queues and handlers, the subcommands and their flags, the choice among them, the wiring of the
    servers, and a run of the binary from its arguments to its exit status. \<open>AsynqLog\<close>:
    \<open>cmd/server/asynq_logger.go\<close>.
  \<^item> \<open>Delivery\<close>: from the accepted request to the push: what the worker makes of the tasks;
    \<open>Retry\<close>: one send task through the attempts asynq makes of it.
  \<^item> \<open>System\<close>: API, dashboard, worker and commands on one database as a step relation.
  \<^item> \<open>Config\<close>, \<open>Platform\<close>: \<open>internal/config\<close>, \<open>internal/platform\<close>: environment variables, health,
    log sinks and the log shipper.
  \<^item> \<open>Loadtest\<close>, \<open>Loadrun\<close>: \<open>cmd/server/loadtest.go\<close>: the client, its bounded concurrency and its
    polling as step relations, its report; its flags and the whole run as a step relation.
  \<^item> \<open>Samples\<close>: concrete inputs for the witnesses.

  \<^bold>\<open>Interfaces.\<close> \<open>push_adapter\<close> (what \<open>HandleSend\<close> relies on, met by each adapter), \<open>gate\<close> (a rate
  limiter denies only on Redis' word, met by both limiters), \<open>device_lookup\<close>, \<open>group_lookup\<close> and
  \<open>lookup\<close> (what targeting needs of the store), \<open>table\<close>, and \<open>credential_tester\<close> (what
  the dashboard's credential test relies on, met by the adapters that offer one).

  \<^bold>\<open>How the outside is modelled.\<close> Pure third-party functions (UUID text, AES-GCM, SHA-256,
  argon2id, URL parsing, key parsing) are the fields of the record
  \<open>ext\<close>, an argument of the definitions that use them. Postgres executes the statements of the
  source, except that the environment may refuse any statement or execute it and lose the
  answer. Whatever a statement compares with \<open>now()\<close> (the expiry of a session or a key) is
  compared with the instant the server gives that statement. chi matches paths, an argument of
  \<open>api_ServeHTTP\<close>, which chooses the route or one of chi's default answers. asynq, Redis, the push services, OAuth, the clock and the random source are oracles
  in the world: functions of what they have been asked, with nothing assumed of them. So a
  property without a hypothesis on the world holds under every fault. \<open>healthy\<close> is the
  hypothesis that no statement fails.

  \<^bold>\<open>What is proved.\<close> Every reachable database is well-formed, for any interleaving of
  statements (\<open>Integrity\<close>) and any run of the system (\<open>System\<close>). The public API changes nothing
  outside the project of the key it was called with (\<open>Router\<close>), answers with data of that
  project only, and a 4xx answer has no effect (\<open>Notify\<close>, \<open>RegistrationFacts\<close>). Creation is
  idempotent per key across interleavings, and accepted notifications are durable. A fanout
  reaches exactly the devices its target names (all it lists by id, or the active ones of the
  users it names), once each. A recipient becomes sent only when its provider accepted, in that
  very run, its push under its project's credential; it fails for good where no adapter can serve
  it, is never sent again once terminal, and is neither lost nor counted as failed when throttled;
  every send task comes to an end, however often asynq runs it, and then its recipient is sent
  or failed (\<open>Retry\<close>); the push service reads in the request what the notification says
  (\<open>Wire\<close>); and while the services do their part an accepted notification reaches its whole audience, in whatever order and however
  often the tasks run (\<open>Delivery\<close>). In served runs \<open>HandleSend\<close> implements a small state machine
  on the recipient's row. Rotated tokens leave one active device, and registration is atomic,
  its statements invisible until the commit.
  Secrets open to what was sealed, hashes accept their password, payloads and targets survive
  their encoding.

  Nothing behind the dashboard's gate runs without an active session, one that is neither revoked
  nor expired when it is looked up, and a GET writes nothing;
  a session that is logged out and a key that is revoked never work again, whatever happens
  after; setup closes for good with the first user, and from an empty installation setup, login
  and the home page work. A credential saved on a page opens in the worker, a credential test
  reports what the adapter said, and a key shown once is admitted while only its hash and its
  first characters are stored. No value a page shows can become markup, and a page polls the recipients of a
  notification exactly until they are done. No process serves on a configuration that does not
  validate or without the master key of its environment. The log shipper posts every line it
  accepted once, and in order unless flushes overtake each other; the load test calls every
  index once with bounded concurrency, ends, decides completion as the store does, and reports
  true percentiles. Where the code does not do what it says, the
  theorem states what it does (\<open>CreateNotification_lost_fanout\<close>, \<open>HandleFanout_malformed\<close>,
  \<open>apns_payload_entries\<close>, \<open>setup_race\<close>, \<open>runConcurrent_stuck\<close>, \<open>all_terminal_Terminal\<close>).

  \<^bold>\<open>Bounds.\<close> No definition uses fuel: loops run over lists and recursion is structural or has a
  measure, except the polling loop, a \<open>partial_function\<close> that is proved to return once the clock
  passes its deadline. Durations, counters and page bounds are words of their Go or Postgres
  width; latencies are integers that saturate as \<open>Time.Sub\<close> does.

  \<^bold>\<open>What is not modelled.\<close> The listener, signals and shutdown, write errors of the page renderer (which \<open>renderPage\<close> ignores); the escaping
  functions of templ and the format of times are arguments. Of what is modelled: white space and printability beyond ASCII, the texts of decoding
  errors, the rounding of stored instants to microseconds, mutexes (their sections are atomic steps), and
  time limits of calls (a call that times out is one that fails). The payload of a task is the
  JSON tree the queue's client marshalled and the worker's handler reads, since only these
  write and read it; one that is not JSON fails as one of another shape does. A handler runs as one step of the system between
  statements of other processes only where the step \<open>elsewhere\<close> puts them; \<open>setup_race\<close> shows
  what can happen in between.
\<close>

end
